(* ===== verification/Js_Prelude.thy ===== *)
theory Js_Prelude
  imports Main
begin

section \<open>The JavaScript runtime the web client relies on\<close>

text \<open>
  The parts of the language and of its standard library that the client's code uses:
  strings with \<open>split\<close>, \<open>join\<close>, \<open>trim\<close> and \<open>startsWith\<close>; numbers with their printed
  form; the dynamic values that reach the code untyped (\<open>unknown\<close>), their truthiness,
  \<open>typeof\<close> and \<open>String(v)\<close>; exceptions as the left part of a sum.

  A string is the list of the bytes of its UTF-8 form, one \<^typ>\<open>char\<close> per byte. Every
  separator the code splits at is ASCII, so splitting, joining and comparing bytes is
  splitting, joining and comparing the JavaScript string.
\<close>

named_theorems js_simps \<open>unfolding rules for the dynamic values\<close>
named_theorems event_defs \<open>definitions of event handlers\<close>

subsection \<open>Errors\<close>

text \<open>What the code can throw: reading a property of \<open>null\<close> or \<open>undefined\<close>, calling a
  method a value does not have, or the parser's own exception.\<close>

datatype js_error = TypeError string | ErrorMessage string

type_synonym 'a result = "js_error + 'a"

definition bind_result :: "'a result \<Rightarrow> ('a \<Rightarrow> 'b result) \<Rightarrow> 'b result" where
  "bind_result r f = (case r of Inl e \<Rightarrow> Inl e | Inr x \<Rightarrow> f x)"

lemma bind_result_simps [simp]:
  "bind_result (Inl e) f = Inl e"
  "bind_result (Inr x) f = f x"
  by (simp_all add: bind_result_def)

lemma bind_result_eq_Inr:
  "bind_result r f = Inr y \<longleftrightarrow> (\<exists>x. r = Inr x \<and> f x = Inr y)"
  by (cases r) auto

text \<open>\<open>Array.prototype.map\<close> with a callback that may throw.\<close>

fun map_result :: "('a \<Rightarrow> 'b result) \<Rightarrow> 'a list \<Rightarrow> 'b list result" where
  "map_result f [] = Inr []"
| "map_result f (x # xs) =
     bind_result (f x) (\<lambda>y. bind_result (map_result f xs) (\<lambda>ys. Inr (y # ys)))"

lemma map_result_Inr:
  "(\<And>x. x \<in> set xs \<Longrightarrow> f x = Inr (g x)) \<Longrightarrow> map_result f xs = Inr (map g xs)"
  by (induction xs) auto

lemma map_result_Inl:
  "x \<in> set xs \<Longrightarrow> f x = Inl e \<Longrightarrow> \<exists>e'. map_result f xs = Inl e'"
proof (induction xs)
  case (Cons y ys)
  then show ?case by (cases "f y") auto
qed simp

lemma map_result_eq_Inr_length: "map_result f xs = Inr ys \<Longrightarrow> length ys = length xs"
  by (induction xs arbitrary: ys) (auto simp: bind_result_eq_Inr)

subsection \<open>Strings\<close>

text \<open>\<open>s.split(c)\<close> for a one-character separator.\<close>

fun js_split :: "char \<Rightarrow> string \<Rightarrow> string list" where
  "js_split c [] = [[]]"
| "js_split c (x # xs) =
     (if x = c then [] # js_split c xs
      else (case js_split c xs of [] \<Rightarrow> [[x]] | y # ys \<Rightarrow> (x # y) # ys))"

text \<open>\<open>xs.join(sep)\<close>.\<close>

fun js_join :: "string \<Rightarrow> string list \<Rightarrow> string" where
  "js_join sep [] = []"
| "js_join sep [x] = x"
| "js_join sep (x # y # ys) = x @ sep @ js_join sep (y # ys)"

lemma js_split_nonempty [simp]: "js_split c s \<noteq> []"
  by (induction s) (auto split: list.splits)

lemma js_join_Cons: "xs \<noteq> [] \<Longrightarrow> js_join sep (x # xs) = x @ sep @ js_join sep xs"
  by (cases xs) simp_all

lemma js_join_split [simp]: "js_join [c] (js_split c s) = s"
proof (induction s)
  case (Cons x xs)
  obtain y ys where "js_split c xs = y # ys"
    by (cases "js_split c xs") auto
  with Cons show ?case by (cases ys) (auto simp: js_join_Cons)
qed simp

lemma js_split_no_sep [simp]: "c \<notin> set s \<Longrightarrow> js_split c s = [s]"
  by (induction s) auto

lemma js_split_append [simp]:
  "c \<notin> set s \<Longrightarrow> js_split c (s @ c # t) = s # js_split c t"
  by (induction s) auto

lemma js_split_pieces: "p \<in> set (js_split c s) \<Longrightarrow> c \<notin> set p"
proof (induction s arbitrary: p)
  case (Cons x xs)
  obtain y ys where "js_split c xs = y # ys"
    by (cases "js_split c xs") auto
  with Cons show ?case by (fastforce split: if_splits)
qed simp

lemma js_split_join:
  "xs \<noteq> [] \<Longrightarrow> (\<And>x. x \<in> set xs \<Longrightarrow> c \<notin> set x) \<Longrightarrow> js_split c (js_join [c] xs) = xs"
proof (induction xs)
  case (Cons x xs)
  then show ?case by (cases xs) (auto simp: js_join_Cons)
qed simp

definition js_starts_with :: "string \<Rightarrow> string \<Rightarrow> bool" where
  "js_starts_with s p = (take (length p) s = p)"

definition js_ends_with :: "string \<Rightarrow> string \<Rightarrow> bool" where
  "js_ends_with s p = (length p \<le> length s \<and> drop (length s - length p) s = p)"

text \<open>\<open>s.includes(c)\<close> and \<open>s.indexOf(c)\<close> for one character: \<open>None\<close> is \<open>-1\<close>.\<close>

definition js_includes :: "string \<Rightarrow> char \<Rightarrow> bool" where
  "js_includes s c = (c \<in> set s)"

fun js_index_of :: "string \<Rightarrow> char \<Rightarrow> nat option" where
  "js_index_of [] c = None"
| "js_index_of (x # xs) c = (if x = c then Some 0 else map_option Suc (js_index_of xs c))"

lemma js_index_of_None: "js_index_of s c = None \<longleftrightarrow> c \<notin> set s"
  by (induction s) auto

lemma js_index_of_Some:
  "js_index_of s c = Some i \<Longrightarrow> i < length s \<and> s ! i = c \<and> c \<notin> set (take i s)"
  by (induction s arbitrary: i) (auto split: if_splits)

lemma js_index_of_split:
  "js_index_of s c = Some i \<Longrightarrow> s = take i s @ c # drop (Suc i) s"
  using js_index_of_Some id_take_nth_drop by metis

text \<open>
  White space as \<open>trim\<close> sees it: the ASCII blanks and line ends, and the UTF-8 forms of the
  other Unicode spaces, of the two line separators and of the byte order mark. The encodings
  are prefix free and each starts with a lead byte, so stripping them from either end of the
  byte list is stripping the characters.
\<close>

definition js_spaces :: "string list" where
  "js_spaces =
     map (\<lambda>n. [char_of (n::nat)]) [9, 10, 11, 12, 13, 32] @
     map (map char_of)
       ([[194, 160], [225, 154, 128]] @
        map (\<lambda>n. [226, 128, n]) ([128..<139] @ [168, 169, 175]) @
        [[226, 129, 159], [227, 128, 128], [239, 187, 191::nat]])"

fun strip_prefix :: "'a list \<Rightarrow> 'a list \<Rightarrow> 'a list option" where
  "strip_prefix [] s = Some s"
| "strip_prefix (p # ps) [] = None"
| "strip_prefix (p # ps) (x # xs) = (if p = x then strip_prefix ps xs else None)"

fun strip_any :: "'a list list \<Rightarrow> 'a list \<Rightarrow> 'a list option" where
  "strip_any [] s = None"
| "strip_any (t # ts) s = (case strip_prefix t s of Some r \<Rightarrow> Some r | None \<Rightarrow> strip_any ts s)"

lemma strip_prefix_Some: "strip_prefix p s = Some r \<Longrightarrow> s = p @ r"
  by (induction p s rule: strip_prefix.induct) (auto split: if_splits)

lemma strip_any_Some: "strip_any ts s = Some r \<Longrightarrow> \<exists>t \<in> set ts. s = t @ r"
  by (induction ts) (auto split: option.splits dest: strip_prefix_Some)

text \<open>Stripping repeats while a token is found; an empty token is never listed, so the rest
  gets shorter.\<close>

function strip_tokens :: "'a list list \<Rightarrow> 'a list \<Rightarrow> 'a list" where
  "strip_tokens ts s =
     (case strip_any ts s of
        None \<Rightarrow> s
      | Some r \<Rightarrow> if length r < length s then strip_tokens ts r else s)"
  by pat_completeness auto
termination
  by (relation "measure (\<lambda>(ts, s). length s)") auto

declare strip_tokens.simps [simp del]

lemma strip_tokens_suffix: "\<exists>p. s = p @ strip_tokens ts s"
proof (induction ts s rule: strip_tokens.induct)
  case (1 ts s)
  show ?case
  proof (cases "strip_any ts s")
    case None
    then show ?thesis by (simp add: strip_tokens.simps [of ts s])
  next
    case (Some r)
    then obtain t where t: "s = t @ r" by (auto dest: strip_any_Some)
    show ?thesis
    proof (cases "length r < length s")
      case True
      with 1 Some obtain p where p: "r = p @ strip_tokens ts r" by blast
      have "s = (t @ p) @ strip_tokens ts r"
        using t p by simp
      moreover have "strip_tokens ts s = strip_tokens ts r"
        using Some True by (simp add: strip_tokens.simps [of ts s])
      ultimately have "s = (t @ p) @ strip_tokens ts s" by simp
      then show ?thesis by blast
    next
      case False
      with Some show ?thesis by (simp add: strip_tokens.simps [of ts s])
    qed
  qed
qed

lemma strip_tokens_idem [simp]: "strip_tokens ts (strip_tokens ts s) = strip_tokens ts s"
proof (induction ts s rule: strip_tokens.induct)
  case (1 ts s)
  show ?case
  proof (cases "strip_any ts s")
    case None
    then show ?thesis by (simp add: strip_tokens.simps [of ts s])
  next
    case (Some r)
    show ?thesis
    proof (cases "length r < length s")
      case True
      with 1 Some show ?thesis by (simp add: strip_tokens.simps [of ts s])
    next
      case False
      with Some show ?thesis by (simp add: strip_tokens.simps [of ts s])
    qed
  qed
qed

definition js_trim_start :: "string \<Rightarrow> string" where
  "js_trim_start s = strip_tokens js_spaces s"

definition js_trim_end :: "string \<Rightarrow> string" where
  "js_trim_end s = rev (strip_tokens (map rev js_spaces) (rev s))"

definition js_trim :: "string \<Rightarrow> string" where
  "js_trim s = js_trim_end (js_trim_start s)"

lemma strip_tokens_Nil [simp]: "strip_tokens ts [] = []"
  by (simp add: strip_tokens.simps [of ts "[]"] split: option.split)

lemma js_trim_Nil [simp]: "js_trim [] = []"
  by (simp add: js_trim_def js_trim_start_def js_trim_end_def)

lemma js_trim_part: "\<exists>p q. s = p @ js_trim s @ q"
proof -
  obtain p where p: "s = p @ js_trim_start s"
    using strip_tokens_suffix unfolding js_trim_start_def by blast
  obtain q where "rev (js_trim_start s) = q @ strip_tokens (map rev js_spaces) (rev (js_trim_start s))"
    using strip_tokens_suffix by blast
  then have "js_trim_start s = js_trim s @ rev q"
    unfolding js_trim_def js_trim_end_def by (metis rev_append rev_rev_ident)
  with p show ?thesis by metis
qed

lemma set_js_trim: "set (js_trim s) \<subseteq> set s"
  using js_trim_part [of s] by (metis le_sup_iff set_append sup_ge2)

text \<open>A string all of whose characters are visible ASCII is its own trim.\<close>

definition visible :: "char \<Rightarrow> bool" where
  "visible c = (33 \<le> (of_char c :: nat) \<and> (of_char c :: nat) < 128)"

lemma js_spaces_invisible: "t \<in> set js_spaces \<Longrightarrow> t \<noteq> [] \<and> \<not> visible (hd t) \<and> \<not> visible (last t)"
proof -
  have "list_all (\<lambda>t. t \<noteq> [] \<and> \<not> visible (hd t) \<and> \<not> visible (last t)) js_spaces"
    by (simp add: js_spaces_def visible_def upt_conv_Cons)
  then show "t \<in> set js_spaces \<Longrightarrow> t \<noteq> [] \<and> \<not> visible (hd t) \<and> \<not> visible (last t)"
    by (simp add: list_all_iff)
qed

lemma strip_tokens_none: "(\<And>t. t \<in> set ts \<Longrightarrow> strip_prefix t s = None) \<Longrightarrow> strip_tokens ts s = s"
proof -
  assume none: "\<And>t. t \<in> set ts \<Longrightarrow> strip_prefix t s = None"
  have "strip_any ts s = None"
    using none by (induction ts) auto
  then show ?thesis by (simp add: strip_tokens.simps [of ts s])
qed

lemma strip_prefix_hd: "t \<noteq> [] \<Longrightarrow> s \<noteq> [] \<Longrightarrow> hd t \<noteq> hd s \<Longrightarrow> strip_prefix t s = None"
  by (cases t; cases s) auto

lemma js_trim_visible: "s \<noteq> [] \<Longrightarrow> visible (hd s) \<Longrightarrow> visible (last s) \<Longrightarrow> js_trim s = s"
proof -
  assume s: "s \<noteq> []" "visible (hd s)" "visible (last s)"
  have "js_trim_start s = s"
    unfolding js_trim_start_def
    by (rule strip_tokens_none, rule strip_prefix_hd) (use s in \<open>auto dest!: js_spaces_invisible\<close>)
  moreover have "strip_tokens (map rev js_spaces) (rev s) = rev s"
    by (rule strip_tokens_none, rule strip_prefix_hd)
       (use s in \<open>auto simp: hd_rev dest!: js_spaces_invisible\<close>)
  ultimately show ?thesis by (simp add: js_trim_def js_trim_end_def)
qed

text \<open>Trimming at the start, character by character.\<close>

lemma js_trim_start_visible: "s \<noteq> [] \<Longrightarrow> visible (hd s) \<Longrightarrow> js_trim_start s = s"
  unfolding js_trim_start_def
  by (rule strip_tokens_none, rule strip_prefix_hd) (auto dest!: js_spaces_invisible)

lemma strip_any_blank: "strip_any js_spaces (CHR '' '' # s) = Some s"
  by (simp add: js_spaces_def upt_conv_Cons char_of_eq_iff)

lemma js_trim_start_blank: "js_trim_start (CHR '' '' # s) = js_trim_start s"
  by (simp add: js_trim_start_def strip_tokens.simps [of _ "CHR '' '' # s"] strip_any_blank)

text \<open>\<open>v ?? []\<close>.\<close>

definition list_of_opt :: "'a list option \<Rightarrow> 'a list" where
  "list_of_opt v = (case v of None \<Rightarrow> [] | Some xs \<Rightarrow> xs)"

end
