(* ===== verification/Keyed_Store.thy ===== *)
theory Keyed_Store
  imports Js_Prelude
begin

section \<open>The interfaces the components share\<close>

text \<open>
  Three contracts appear again and again in the client and are stated once as locales:
  a dictionary with lookup, store and removal (\<open>keyed_store\<close>), a writer and a reader of the
  same text (\<open>codec\<close>), and a component that reacts to events and keeps an invariant
  (\<open>reactive\<close>). Each is interpreted on the model's own operations where they are defined.
\<close>

subsection \<open>Dictionaries\<close>

locale keyed_store =
  fixes get :: "'s \<Rightarrow> 'k \<Rightarrow> 'v option"
    and put :: "'k \<Rightarrow> 'v \<Rightarrow> 's \<Rightarrow> 's"
    and del :: "'k \<Rightarrow> 's \<Rightarrow> 's"
    and valid :: "'s \<Rightarrow> bool"
  assumes get_put: "valid s \<Longrightarrow> get (put k v s) = (get s)(k \<mapsto> v)"
    and get_del: "valid s \<Longrightarrow> get (del k s) = (get s)(k := None)"
    and valid_put: "valid s \<Longrightarrow> valid (put k v s)"
    and valid_del: "valid s \<Longrightarrow> valid (del k s)"
begin

lemma valid_fold_put: "valid s \<Longrightarrow> valid (fold (\<lambda>(k, v). put k v) ps s)"
  by (induction ps arbitrary: s) (auto simp: valid_put)

lemma get_fold_put:
  "valid s \<Longrightarrow> get (fold (\<lambda>(k, v). put k v) ps s) = get s ++ map_of (rev ps)"
proof (induction ps arbitrary: s)
  case (Cons p ps)
  obtain k v where p: "p = (k, v)" by force
  have "get (fold (\<lambda>(k, v). put k v) ps (put k v s)) = (get s)(k \<mapsto> v) ++ map_of (rev ps)"
    using Cons.IH [of "put k v s"] Cons.prems by (simp only: valid_put get_put)
  moreover have "get s ++ map_of (rev (p # ps)) = (get s)(k \<mapsto> v) ++ map_of (rev ps)"
    by (auto simp: p fun_eq_iff map_add_def split: option.split)
  ultimately show ?case unfolding p fold_simps o_apply case_prod_conv by simp
qed simp

lemma get_fold_put_other:
  "valid s \<Longrightarrow> k \<notin> fst ` set ps \<Longrightarrow> get (fold (\<lambda>(k, v). put k v) ps s) k = get s k"
  by (simp add: get_fold_put map_add_dom_app_simps(3) dom_map_of_conv_image_fst)

text \<open>Storing a default for every key of a list that has none.\<close>

lemma valid_fold_default:
  "valid s \<Longrightarrow> valid (fold (\<lambda>k s. if present k s then s else put k (d k) s) ks s)"
  by (induction ks arbitrary: s) (auto simp: valid_put)

lemma get_fold_default:
  assumes present: "\<And>k s. valid s \<Longrightarrow> present k s \<longleftrightarrow> get s k \<noteq> None \<or> k \<in> inherited"
  shows "valid s \<Longrightarrow>
    get (fold (\<lambda>k s. if present k s then s else put k (d k) s) ks s) k =
      (case get s k of Some v \<Rightarrow> Some v
       | None \<Rightarrow> if k \<in> set ks \<and> k \<notin> inherited then Some (d k) else None)"
proof (induction ks arbitrary: s)
  case (Cons j ks)
  let ?s = "if present j s then s else put j (d j) s"
  have "valid ?s" using Cons.prems by (simp add: valid_put)
  then have "get (fold (\<lambda>k s. if present k s then s else put k (d k) s) ks ?s) k =
      (case get ?s k of Some v \<Rightarrow> Some v
       | None \<Rightarrow> if k \<in> set ks \<and> k \<notin> inherited then Some (d k) else None)"
    by (rule Cons.IH)
  with Cons.prems show ?case
    by (auto simp: get_put present split: option.splits)
qed (simp split: option.split)

text \<open>Removing every key of a list that meets a condition on its value.\<close>

lemma valid_fold_del:
  "valid s \<Longrightarrow> valid (fold (\<lambda>(k, v) s. if drop_it k v then del k s else s) ps s)"
  by (induction ps arbitrary: s) (auto simp: valid_del)

lemma get_fold_del:
  "valid s \<Longrightarrow>
    get (fold (\<lambda>(k, v) s. if drop_it k v then del k s else s) ps s) k =
      (if \<exists>v. (k, v) \<in> set ps \<and> drop_it k v then None else get s k)"
proof (induction ps arbitrary: s)
  case (Cons p ps)
  obtain j w where p: "p = (j, w)" by force
  let ?s = "if drop_it j w then del j s else s"
  have "valid ?s" using Cons.prems by (simp add: valid_del)
  then have "get (fold (\<lambda>(k, v) s. if drop_it k v then del k s else s) ps ?s) k =
      (if \<exists>v. (k, v) \<in> set ps \<and> drop_it k v then None else get ?s k)"
    by (rule Cons.IH)
  with Cons.prems show ?case by (auto simp: p get_del)
qed simp

end

subsection \<open>Writers and readers\<close>

locale codec =
  fixes enc :: "'a \<Rightarrow> 'b" and dec :: "'b \<Rightarrow> 'a" and faithful :: "'a \<Rightarrow> bool"
  assumes dec_enc: "faithful x \<Longrightarrow> dec (enc x) = x"
begin

lemma map_dec_enc: "(\<And>x. x \<in> set xs \<Longrightarrow> faithful x) \<Longrightarrow> map dec (map enc xs) = xs"
  by (induction xs) (auto simp: dec_enc)

lemma enc_inj: "faithful x \<Longrightarrow> faithful y \<Longrightarrow> enc x = enc y \<Longrightarrow> x = y"
  by (metis dec_enc)

end

subsection \<open>Components that react to events\<close>

locale reactive =
  fixes step :: "'e \<Rightarrow> 's \<Rightarrow> 's" and inv :: "'s \<Rightarrow> bool"
  assumes step_inv: "inv s \<Longrightarrow> inv (step e s)"
begin

lemma run_inv: "inv s \<Longrightarrow> inv (fold step es s)"
  by (induction es arbitrary: s) (auto intro: step_inv)

lemma every_prefix_inv: "inv s \<Longrightarrow> es = as @ bs \<Longrightarrow> inv (fold step as s)"
  by (rule run_inv)

end

end
