(* ===== verification/Js_Object.thy ===== *)
theory Js_Object
  imports Keyed_Store
begin

section \<open>Objects used as dictionaries\<close>

text \<open>
  A \<open>Record<string, T>\<close> of the client is a JavaScript object: its own properties in the order
  \<open>Object.keys\<close> lists them. That order is not plain insertion order: keys that are array
  indices (canonical decimals below \<open>2^32 - 1\<close>) come first, ascending, and the other keys
  follow in the order of their creation. Assigning to an existing key keeps its place.

  Two corners of the language are kept because the code runs into them: every object inherits
  the properties of \<open>Object.prototype\<close>, which a truthiness test \<open>o[k]\<close> or \<open>k in o\<close> sees;
  and an assignment \<open>o["__proto__"] = v\<close> sets the prototype instead of an own property. (That
  the prototype has changed afterwards is not modelled.)
\<close>

type_synonym 'v obj = "(string \<times> 'v) list"

abbreviation obj_keys :: "'v obj \<Rightarrow> string list" where
  "obj_keys o1 \<equiv> map fst o1"

abbreviation obj_get :: "'v obj \<Rightarrow> string \<Rightarrow> 'v option" where
  "obj_get \<equiv> map_of"

subsection \<open>Array indices among the keys\<close>

definition is_digit :: "char \<Rightarrow> bool" where
  "is_digit c = (48 \<le> (of_char c :: int) \<and> (of_char c :: int) \<le> 57)"

definition digit_val :: "char \<Rightarrow> int" where
  "digit_val c = of_char c - 48"

fun digits_val :: "int \<Rightarrow> string \<Rightarrow> int" where
  "digits_val n [] = n"
| "digits_val n (c # cs) = digits_val (10 * n + digit_val c) cs"

definition index_key :: "string \<Rightarrow> int option" where
  "index_key k =
     (if k \<noteq> [] \<and> list_all is_digit k \<and> (k = ''0'' \<or> hd k \<noteq> CHR ''0'')
         \<and> digits_val 0 k < 4294967295
      then Some (digits_val 0 k) else None)"

text \<open>\<open>key_before j k\<close>: a fresh key \<open>k\<close> is listed after the present key \<open>j\<close>.\<close>

definition key_before :: "string \<Rightarrow> string \<Rightarrow> bool" where
  "key_before j k =
     (case index_key k of
        None \<Rightarrow> True
      | Some n \<Rightarrow> (case index_key j of None \<Rightarrow> False | Some m \<Rightarrow> m < n))"

lemma index_key_not_digit: "c \<in> set k \<Longrightarrow> \<not> is_digit c \<Longrightarrow> index_key k = None"
  by (auto simp: index_key_def list_all_iff)

lemma key_before_plain [simp]: "index_key k = None \<Longrightarrow> key_before j k"
  by (simp add: key_before_def)

subsection \<open>Defining, assigning and deleting a property\<close>

fun obj_replace :: "string \<Rightarrow> 'v \<Rightarrow> 'v obj \<Rightarrow> 'v obj" where
  "obj_replace k v [] = []"
| "obj_replace k v ((j, w) # xs) =
     (if j = k then (j, v) # xs else (j, w) # obj_replace k v xs)"

text \<open>An own property: what a literal \<open>{...o, [k]: v}\<close> does.\<close>

definition obj_set :: "string \<Rightarrow> 'v \<Rightarrow> 'v obj \<Rightarrow> 'v obj" where
  "obj_set k v xs =
     (if k \<in> set (obj_keys xs) then obj_replace k v xs
      else takeWhile (\<lambda>(j, w). key_before j k) xs @ (k, v) #
           dropWhile (\<lambda>(j, w). key_before j k) xs)"

text \<open>The assignment \<open>o[k] = v\<close>.\<close>

definition obj_assign :: "string \<Rightarrow> 'v \<Rightarrow> 'v obj \<Rightarrow> 'v obj" where
  "obj_assign k v xs = (if k = ''__proto__'' then xs else obj_set k v xs)"

definition obj_delete :: "string \<Rightarrow> 'v obj \<Rightarrow> 'v obj" where
  "obj_delete k xs = filter (\<lambda>(j, w). j \<noteq> k) xs"

text \<open>The names every object inherits; all of them read as truthy values.\<close>

definition proto_keys :: "string list" where
  "proto_keys =
     [''constructor'', ''__defineGetter__'', ''__defineSetter__'', ''hasOwnProperty'',
      ''__lookupGetter__'', ''__lookupSetter__'', ''isPrototypeOf'', ''propertyIsEnumerable'',
      ''toString'', ''valueOf'', ''__proto__'', ''toLocaleString'']"

text \<open>\<open>k in o\<close>, and \<open>o[k]\<close> as a condition, for a truthiness test of own values.\<close>

definition obj_in :: "string \<Rightarrow> 'v obj \<Rightarrow> bool" where
  "obj_in k xs = (k \<in> set (obj_keys xs) \<or> k \<in> set proto_keys)"

definition obj_lookup_truthy :: "('v \<Rightarrow> bool) \<Rightarrow> string \<Rightarrow> 'v obj \<Rightarrow> bool" where
  "obj_lookup_truthy truthy k xs =
     (case obj_get xs k of Some v \<Rightarrow> truthy v | None \<Rightarrow> k \<in> set proto_keys)"

text \<open>\<open>Object.fromEntries(ps)\<close> creates own properties in turn.\<close>

definition obj_from_entries :: "(string \<times> 'v) list \<Rightarrow> 'v obj" where
  "obj_from_entries ps = fold (\<lambda>(k, v). obj_set k v) ps []"

text \<open>A loop \<open>for (const [k, v] of ...) next[k'] = v'\<close> assigns in turn.\<close>

definition obj_assign_all :: "(string \<times> 'v) list \<Rightarrow> 'v obj \<Rightarrow> 'v obj" where
  "obj_assign_all ps xs = fold (\<lambda>(k, v). obj_assign k v) ps xs"

subsection \<open>The order of the keys as an invariant\<close>

definition wf_obj :: "'v obj \<Rightarrow> bool" where
  "wf_obj xs = (distinct (obj_keys xs) \<and> sorted_wrt key_before (obj_keys xs))"

lemma wf_obj_Nil [simp]: "wf_obj []"
  by (simp add: wf_obj_def)

lemma obj_replace_keys [simp]: "obj_keys (obj_replace k v xs) = obj_keys xs"
  by (induction k v xs rule: obj_replace.induct) auto

lemma obj_replace_get:
  "k \<in> set (obj_keys xs) \<Longrightarrow> obj_get (obj_replace k v xs) = (obj_get xs)(k \<mapsto> v)"
  by (induction k v xs rule: obj_replace.induct) (fastforce simp: fun_eq_iff)+

lemma set_obj_keys_set [simp]: "set (obj_keys (obj_set k v xs)) = insert k (set (obj_keys xs))"
proof (cases "k \<in> set (obj_keys xs)")
  case True
  then have "set (obj_keys (obj_set k v xs)) = set (obj_keys xs)"
    unfolding obj_set_def if_P [OF True] by (simp only: obj_replace_keys)
  with True show ?thesis by (simp add: insert_absorb)
next
  case False
  have "set xs = set (takeWhile (\<lambda>(j, w). key_before j k) xs) \<union> set (dropWhile (\<lambda>(j, w). key_before j k) xs)"
    by (metis set_append takeWhile_dropWhile_id)
  then have "fst ` set xs = fst ` set (takeWhile (\<lambda>(j, w). key_before j k) xs) \<union>
      fst ` set (dropWhile (\<lambda>(j, w). key_before j k) xs)"
    by (metis image_Un)
  with False show ?thesis by (simp add: obj_set_def)
qed

lemma obj_get_set: "obj_get (obj_set k v xs) = (obj_get xs)(k \<mapsto> v)"
proof (cases "k \<in> set (obj_keys xs)")
  case True
  then show ?thesis by (simp add: obj_set_def obj_replace_get)
next
  case False
  let ?t = "takeWhile (\<lambda>(j, w). key_before j k) xs"
  let ?d = "dropWhile (\<lambda>(j, w). key_before j k) xs"
  have split: "map_of xs = map_of ?d ++ map_of ?t"
    by (metis map_of_append takeWhile_dropWhile_id)
  have "k \<notin> dom (map_of ?t)"
    using False by (auto simp: dom_map_of_conv_image_fst dest!: set_takeWhileD)
  with False split show ?thesis
    by (simp add: obj_set_def map_add_upd_left)
qed

lemma obj_get_delete: "obj_get (obj_delete k xs) = (obj_get xs)(k := None)"
  unfolding obj_delete_def by (induction xs) (auto simp: fun_eq_iff)

lemma obj_keys_delete: "obj_keys (obj_delete k xs) = filter (\<lambda>j. j \<noteq> k) (obj_keys xs)"
  unfolding obj_delete_def by (induction xs) auto

lemma obj_get_assign:
  "obj_get (obj_assign k v xs) = (if k = ''__proto__'' then obj_get xs else (obj_get xs)(k \<mapsto> v))"
  by (simp add: obj_assign_def obj_get_set)

lemma key_before_trans:
  "key_before a b \<Longrightarrow> key_before b c \<Longrightarrow> key_before a c"
  by (auto simp: key_before_def split: option.splits)

subsection \<open>Decimal numerals\<close>

text \<open>The digits of a number that is not negative; \<open>String(n)\<close> for a natural number.\<close>

definition digit_char :: "int \<Rightarrow> char" where
  "digit_char d = char_of (48 + d)"

function dec_str :: "int \<Rightarrow> string" where
  "dec_str n = (if n < 10 then [digit_char n] else dec_str (n div 10) @ [digit_char (n mod 10)])"
  by pat_completeness auto
termination
  by (relation "measure nat") auto

declare dec_str.simps [simp del]

definition nat_str :: "nat \<Rightarrow> string" where
  "nat_str n = dec_str (int n)"

lemma of_char_digit_char: "0 \<le> d \<Longrightarrow> d < 10 \<Longrightarrow> of_char (digit_char d) = 48 + d"
  by (simp add: digit_char_def)

lemma digit_val_char [simp]: "0 \<le> d \<Longrightarrow> d < 10 \<Longrightarrow> digit_val (digit_char d) = d"
  by (simp add: digit_val_def of_char_digit_char)

lemma is_digit_char [simp]: "0 \<le> d \<Longrightarrow> d < 10 \<Longrightarrow> is_digit (digit_char d)"
  by (simp add: is_digit_def of_char_digit_char)

lemma digit_char_val: "is_digit c \<Longrightarrow> digit_char (digit_val c) = c"
  by (simp add: is_digit_def digit_char_def digit_val_def)

lemma digit_val_less: "is_digit c \<Longrightarrow> digit_val c < 10" and digit_val_nonneg: "is_digit c \<Longrightarrow> 0 \<le> digit_val c"
  unfolding is_digit_def digit_val_def by linarith+

lemma digit_char_0 [simp]: "digit_char 0 = CHR ''0''"
  using char_of_char [where c = "CHR ''0''", where ?'a = int] by (simp add: digit_char_def)

lemma digit_val_zero: "is_digit c \<Longrightarrow> digit_val c = 0 \<longleftrightarrow> c = CHR ''0''"
  by (metis digit_char_0 digit_char_val digit_val_char order_refl zero_less_numeral)

lemma digits_val_snoc: "digits_val n (cs @ [c]) = 10 * digits_val n cs + digit_val c"
  by (induction cs arbitrary: n) auto

lemma digits_val_append: "digits_val n (xs @ ys) = digits_val (digits_val n xs) ys"
  by (induction xs arbitrary: n) auto

lemma dec_str_nonempty [simp]: "dec_str n \<noteq> []"
  by (subst dec_str.simps) simp

lemma dec_str_digits: "0 \<le> n \<Longrightarrow> list_all is_digit (dec_str n)"
proof (induction n rule: dec_str.induct)
  case (1 n)
  then show ?case by (subst dec_str.simps) simp
qed

lemma digits_val_dec_str [simp]: "0 \<le> n \<Longrightarrow> digits_val 0 (dec_str n) = n"
proof (induction n rule: dec_str.induct)
  case (1 n)
  then show ?case by (subst dec_str.simps) (simp add: digits_val_snoc)
qed

lemma nat_str_nonempty [simp]: "nat_str n \<noteq> []"
  by (simp add: nat_str_def)

lemma nat_str_digits: "list_all is_digit (nat_str n)"
  by (simp add: nat_str_def dec_str_digits)

lemma nat_str_inj [simp]: "nat_str m = nat_str n \<longleftrightarrow> m = n"
proof
  assume "nat_str m = nat_str n"
  then have "digits_val 0 (dec_str (int m)) = digits_val 0 (dec_str (int n))"
    by (simp add: nat_str_def)
  then show "m = n" by simp
qed simp

lemma digits_val_nonneg: "list_all is_digit k \<Longrightarrow> 0 \<le> n \<Longrightarrow> 0 \<le> digits_val n k"
  by (induction k arbitrary: n) (auto simp: digit_val_nonneg)

lemma digits_val_positive:
  "list_all is_digit k \<Longrightarrow> k \<noteq> [] \<Longrightarrow> hd k \<noteq> CHR ''0'' \<Longrightarrow> 0 < digits_val 0 k"
proof (induction k rule: rev_induct)
  case (snoc c cs)
  have c: "is_digit c" using snoc.prems by simp
  show ?case
  proof (cases "cs = []")
    case True
    with snoc.prems digit_val_zero [OF c] digit_val_nonneg [OF c] show ?thesis by simp
  next
    case False
    with snoc digit_val_nonneg [OF c] show ?thesis by (simp add: digits_val_snoc)
  qed
qed simp

lemma dec_str_val:
  "list_all is_digit k \<Longrightarrow> k \<noteq> [] \<Longrightarrow> k = ''0'' \<or> hd k \<noteq> CHR ''0'' \<Longrightarrow> dec_str (digits_val 0 k) = k"
proof (induction k rule: rev_induct)
  case (snoc c cs)
  show ?case
  proof (cases "cs = []")
    case True
    with snoc.prems show ?thesis
      by (simp add: dec_str.simps [of "digit_val c"] digit_val_less digit_char_val)
  next
    case False
    then have hd: "hd cs \<noteq> CHR ''0''" using snoc.prems by auto
    have c: "is_digit c" and cs: "list_all is_digit cs" using snoc.prems by auto
    have pos: "0 < digits_val 0 cs" using cs False hd by (rule digits_val_positive)
    have "dec_str (10 * digits_val 0 cs + digit_val c) = dec_str (digits_val 0 cs) @ [c]"
      using pos digit_val_less [OF c] digit_val_nonneg [OF c]
      by (subst dec_str.simps) (simp add: digit_char_val [OF c])
    with snoc.IH [OF cs False] hd show ?thesis by (simp add: digits_val_snoc)
  qed
qed simp

lemma index_key_inj: "index_key j = Some n \<Longrightarrow> index_key k = Some n \<Longrightarrow> j = k"
proof -
  have "dec_str n = k" if "index_key k = Some n" for k
    using that dec_str_val [of k] by (auto simp: index_key_def split: if_splits)
  then show "index_key j = Some n \<Longrightarrow> index_key k = Some n \<Longrightarrow> j = k" by blast
qed

subsection \<open>The operations keep the order\<close>

lemma key_before_total:
  assumes "\<not> key_before j k" and "j \<noteq> k"
  shows "key_before k j"
proof (cases "index_key j")
  case (Some m)
  with assms(1) obtain n where n: "index_key k = Some n" "n \<le> m"
    by (auto simp: key_before_def split: option.splits)
  with Some assms(2) have "n \<noteq> m" using index_key_inj by blast
  with Some n show ?thesis by (simp add: key_before_def)
qed simp

lemma wf_obj_replace: "wf_obj xs \<Longrightarrow> wf_obj (obj_replace k v xs)"
  by (simp add: wf_obj_def)

lemma wf_obj_insert:
  assumes wf: "wf_obj xs" and new: "k \<notin> set (obj_keys xs)"
  shows "wf_obj (takeWhile (\<lambda>(j, w). key_before j k) xs @ (k, v) #
                 dropWhile (\<lambda>(j, w). key_before j k) xs)"
proof -
  let ?t = "takeWhile (\<lambda>(j, w). key_before j k) xs"
  let ?d = "dropWhile (\<lambda>(j, w). key_before j k) xs"
  have keys: "obj_keys xs = obj_keys ?t @ obj_keys ?d"
    by (metis map_append takeWhile_dropWhile_id)
  have before: "key_before j k" if "j \<in> set (obj_keys ?t)" for j
    using that by (auto dest!: set_takeWhileD)
  have after: "key_before k j" if j: "j \<in> set (obj_keys ?d)" for j
  proof (cases ?d)
    case Nil
    with j show ?thesis by simp
  next
    case (Cons p ps)
    obtain j0 w0 where p: "p = (j0, w0)" by force
    have "\<not> key_before j0 k" using Cons p by (auto simp: dropWhile_eq_Cons_conv)
    moreover have "j0 \<noteq> k" using new keys Cons p by auto
    ultimately have k0: "key_before k j0" by (rule key_before_total)
    show ?thesis
    proof (cases "j = j0")
      case True
      with k0 show ?thesis by simp
    next
      case False
      then have "key_before j0 j"
        using wf keys j Cons p by (auto simp: wf_obj_def sorted_wrt_append)
      with k0 show ?thesis by (rule key_before_trans)
    qed
  qed
  obtain T D where T: "obj_keys ?t = T" and D: "obj_keys ?d = D" by blast
  have TD: "distinct (T @ D)" "sorted_wrt key_before (T @ D)" "k \<notin> set (T @ D)"
    using wf new keys unfolding wf_obj_def T D by auto
  have "obj_keys (?t @ (k, v) # ?d) = T @ k # D" using T D by simp
  moreover have "distinct (T @ k # D)" using TD by auto
  moreover have "sorted_wrt key_before (T @ k # D)"
    using TD before after unfolding T D by (simp add: sorted_wrt_append)
  ultimately show ?thesis unfolding wf_obj_def by metis
qed

lemma wf_obj_set [simp, intro]: "wf_obj xs \<Longrightarrow> wf_obj (obj_set k v xs)"
  by (simp add: obj_set_def wf_obj_replace wf_obj_insert)

lemma wf_obj_assign [simp, intro]: "wf_obj xs \<Longrightarrow> wf_obj (obj_assign k v xs)"
  by (simp add: obj_assign_def wf_obj_set)

lemma wf_obj_delete [simp, intro]: "wf_obj xs \<Longrightarrow> wf_obj (obj_delete k xs)"
  by (simp add: wf_obj_def obj_keys_delete sorted_wrt_filter)

lemma wf_obj_assign_all [simp, intro]: "wf_obj xs \<Longrightarrow> wf_obj (obj_assign_all ps xs)"
  unfolding obj_assign_all_def by (induction ps arbitrary: xs) auto

lemma wf_obj_from_entries [simp, intro]: "wf_obj (obj_from_entries ps)"
proof -
  have "wf_obj xs \<Longrightarrow> wf_obj (fold (\<lambda>(k, v). obj_set k v) ps xs)" for xs
    by (induction ps arbitrary: xs) auto
  then show ?thesis by (simp add: obj_from_entries_def)
qed

text \<open>The laws of a dictionary, for own properties and their order.\<close>

interpretation objs: keyed_store obj_get obj_set obj_delete wf_obj
  by unfold_locales (auto simp: obj_get_set obj_get_delete)

lemma obj_set_fresh:
  "k \<notin> set (obj_keys xs) \<Longrightarrow> (\<And>j. j \<in> set (obj_keys xs) \<Longrightarrow> key_before j k) \<Longrightarrow>
    obj_set k v xs = xs @ [(k, v)]"
proof -
  assume new: "k \<notin> set (obj_keys xs)" and before: "\<And>j. j \<in> set (obj_keys xs) \<Longrightarrow> key_before j k"
  have "\<forall>p \<in> set xs. (case p of (j, w) \<Rightarrow> key_before j k)"
    using before by force
  then have "takeWhile (\<lambda>(j, w). key_before j k) xs = xs" "dropWhile (\<lambda>(j, w). key_before j k) xs = []"
    by (simp_all add: takeWhile_eq_all_conv dropWhile_eq_Nil_conv)
  with new show ?thesis by (simp add: obj_set_def)
qed

lemma obj_set_append:
  "k \<notin> set (obj_keys xs) \<Longrightarrow> index_key k = None \<Longrightarrow> obj_set k v xs = xs @ [(k, v)]"
  by (rule obj_set_fresh) simp_all

text \<open>Copying a well-formed object property by property gives the object back.\<close>

lemma fold_obj_set_append: "wf_obj (xs @ ps) \<Longrightarrow> fold (\<lambda>(k, v). obj_set k v) ps xs = xs @ ps"
proof (induction ps arbitrary: xs)
  case (Cons p ps)
  obtain k v where p: "p = (k, v)" by force
  have "obj_set k v xs = xs @ [(k, v)]"
  proof (rule obj_set_fresh)
    show "k \<notin> set (obj_keys xs)"
      using Cons.prems p by (auto simp: wf_obj_def)
    show "\<And>j. j \<in> set (obj_keys xs) \<Longrightarrow> key_before j k"
      using Cons.prems p by (auto simp: wf_obj_def sorted_wrt_append)
  qed
  with Cons.IH [of "xs @ [(k, v)]"] Cons.prems show ?case by (simp add: p)
qed simp

lemma obj_from_entries_wf: "wf_obj xs \<Longrightarrow> obj_from_entries xs = xs"
  using fold_obj_set_append [of "[]" xs] by (simp add: obj_from_entries_def)

lemma obj_assign_all_wf:
  assumes "wf_obj xs" and "''__proto__'' \<notin> set (obj_keys xs)"
  shows "obj_assign_all xs [] = xs"
proof -
  have "fold (\<lambda>(k, v). obj_assign k v) ps ys = fold (\<lambda>(k, v). obj_set k v) ps ys"
    if "''__proto__'' \<notin> set (obj_keys ps)" for ps ys :: "'a obj"
    using that by (induction ps arbitrary: ys) (auto simp: obj_assign_def)
  with assms fold_obj_set_append [of "[]" xs] show ?thesis by (simp add: obj_assign_all_def)
qed

subsection \<open>A free name\<close>

text \<open>The loop \<open>let n = base; let i = 1; while (o[n]) n = `${base}${++i}`\<close>. It ends because only
  finitely many names are taken.\<close>

function fresh_suffix :: "('v \<Rightarrow> bool) \<Rightarrow> string \<Rightarrow> 'v obj \<Rightarrow> nat \<Rightarrow> string" where
  "fresh_suffix truthy base xs i =
     (if obj_lookup_truthy truthy (base @ nat_str i) xs then fresh_suffix truthy base xs (Suc i)
      else base @ nat_str i)"
  by pat_completeness auto

definition taken_suffixes :: "string \<Rightarrow> 'v obj \<Rightarrow> nat set" where
  "taken_suffixes base xs = {j. base @ nat_str j \<in> set (obj_keys xs @ proto_keys)}"

lemma finite_taken_suffixes: "finite (taken_suffixes base xs)"
proof -
  have "inj (\<lambda>j. base @ nat_str j)" by (simp add: inj_def)
  moreover have "taken_suffixes base xs = (\<lambda>j. base @ nat_str j) -` set (obj_keys xs @ proto_keys)"
    by (auto simp: taken_suffixes_def)
  ultimately show ?thesis by (simp add: finite_vimageI)
qed

lemma lookup_truthy_taken:
  "obj_lookup_truthy truthy k xs \<Longrightarrow> k \<in> set (obj_keys xs @ proto_keys)"
  by (auto simp: obj_lookup_truthy_def split: option.splits dest: map_of_SomeD)
     (metis fst_conv image_eqI map_of_SomeD)

termination fresh_suffix
proof (relation "measure (\<lambda>(truthy, base, xs, i). card {j \<in> taken_suffixes base xs. i \<le> j})")
  fix truthy :: "'v \<Rightarrow> bool" and base xs i
  assume "obj_lookup_truthy truthy (base @ nat_str i) xs"
  then have "i \<in> taken_suffixes base xs"
    by (metis lookup_truthy_taken mem_Collect_eq taken_suffixes_def)
  then have "i \<in> {j \<in> taken_suffixes base xs. i \<le> j} - {j \<in> taken_suffixes base xs. Suc i \<le> j}"
    by simp
  moreover have "{j \<in> taken_suffixes base xs. Suc i \<le> j} \<subseteq> {j \<in> taken_suffixes base xs. i \<le> j}"
    by auto
  ultimately have "{j \<in> taken_suffixes base xs. Suc i \<le> j} \<subset> {j \<in> taken_suffixes base xs. i \<le> j}"
    by blast
  then show "((truthy, base, xs, Suc i), truthy, base, xs, i)
      \<in> measure (\<lambda>(truthy, base, xs, i). card {j \<in> taken_suffixes base xs. i \<le> j})"
    by (simp add: psubset_card_mono finite_taken_suffixes)
qed simp

declare fresh_suffix.simps [simp del]

definition fresh_key :: "('v \<Rightarrow> bool) \<Rightarrow> string \<Rightarrow> 'v obj \<Rightarrow> string" where
  "fresh_key truthy base xs =
     (if obj_lookup_truthy truthy base xs then fresh_suffix truthy base xs 2 else base)"

lemma fresh_suffix_free: "\<not> obj_lookup_truthy truthy (fresh_suffix truthy base xs i) xs"
proof (induction truthy base xs i rule: fresh_suffix.induct)
  case (1 truthy base xs i)
  then show ?case by (simp add: fresh_suffix.simps [of truthy base xs i])
qed

lemma fresh_key_free: "\<not> obj_lookup_truthy truthy (fresh_key truthy base xs) xs"
  by (simp add: fresh_key_def fresh_suffix_free)

lemma fresh_key_new:
  assumes "\<And>v. v \<in> snd ` set xs \<Longrightarrow> truthy v"
  shows "fresh_key truthy base xs \<notin> set (obj_keys xs)"
proof
  let ?k = "fresh_key truthy base xs"
  assume "?k \<in> set (obj_keys xs)"
  then obtain v where "obj_get xs ?k = Some v" by (metis map_of_eq_None_iff list.set_map not_Some_eq)
  with assms have "obj_lookup_truthy truthy ?k xs"
    by (force simp: obj_lookup_truthy_def dest: map_of_SomeD)
  with fresh_key_free [of truthy base xs] show False by blast
qed

lemma fresh_suffix_prefix: "\<exists>j. fresh_suffix truthy base xs i = base @ nat_str j"
proof (induction truthy base xs i rule: fresh_suffix.induct)
  case (1 truthy base xs i)
  then show ?case by (cases "obj_lookup_truthy truthy (base @ nat_str i) xs")
      (auto simp: fresh_suffix.simps [of truthy base xs i])
qed

lemma fresh_key_shape: "fresh_key truthy base xs = base \<or> (\<exists>j. fresh_key truthy base xs = base @ nat_str j)"
  using fresh_suffix_prefix by (auto simp: fresh_key_def)

end
