(* ===== verification/Js_Values.thy ===== *)
theory Js_Values
  imports Js_Object
begin

section \<open>Numbers and untyped values\<close>

text \<open>
  A finite number is the decimal \<open>m * 10 ^ e\<close> that prints back to it: JavaScript prints a
  double with the shortest decimal that reads as the same double, so that decimal (with no
  trailing zero in \<open>m\<close>) stands for the double. \<open>-0\<close> is \<open>0\<close>, as \<open>String\<close> and \<open>===\<close> see it.
\<close>

datatype jsnum = Dec int int | Infinite bool | NaN

text \<open>Trailing zeros of the digits move to the exponent.\<close>

function strip_zeros :: "int \<Rightarrow> int \<Rightarrow> int \<times> int" where
  "strip_zeros m e =
     (if m \<le> 0 then (0, 0) else if m mod 10 = 0 then strip_zeros (m div 10) (e + 1) else (m, e))"
  by pat_completeness auto
termination
  by (relation "measure (\<lambda>(m, e). nat m)") auto

declare strip_zeros.simps [simp del]

definition js_dec :: "int \<Rightarrow> int \<Rightarrow> jsnum" where
  "js_dec m e = (case strip_zeros \<bar>m\<bar> e of (d, f) \<Rightarrow> Dec (sgn m * d) f)"

definition js_int :: "int \<Rightarrow> jsnum" where
  "js_int n = js_dec n 0"

text \<open>\<open>Number::toString\<close> on the digits \<open>s\<close> (as many as \<open>k\<close>) and the position \<open>n\<close> of the
  point: plain digits, a decimal fraction, or the exponent form.\<close>

definition digits_str :: "string \<Rightarrow> int \<Rightarrow> string" where
  "digits_str s n =
     (let k = int (length s) in
      if k \<le> n \<and> n \<le> 21 then s @ replicate (nat (n - k)) CHR ''0''
      else if 0 < n \<and> n \<le> 21 then take (nat n) s @ ''.'' @ drop (nat n) s
      else if -6 < n \<and> n \<le> 0 then ''0.'' @ replicate (nat (- n)) CHR ''0'' @ s
      else (if length s = 1 then s else take 1 s @ ''.'' @ drop 1 s) @ ''e'' @
           (if n - 1 < 0 then ''-'' else ''+'') @ dec_str \<bar>n - 1\<bar>)"

fun js_num_str :: "jsnum \<Rightarrow> string" where
  "js_num_str NaN = ''NaN''"
| "js_num_str (Infinite neg) = (if neg then ''-Infinity'' else ''Infinity'')"
| "js_num_str (Dec m e) =
     (let s = dec_str \<bar>m\<bar> in
      (if m < 0 then ''-'' else []) @ (if m = 0 then ''0'' else digits_str s (int (length s) + e)))"

text \<open>\<open>a === b\<close> on numbers.\<close>

definition js_num_eq :: "jsnum \<Rightarrow> jsnum \<Rightarrow> bool" where
  "js_num_eq a b = (a \<noteq> NaN \<and> a = b)"

text \<open>
  \<open>Number(s)\<close> on what an \<^verbatim>\<open><input type="number">\<close> holds: HTML keeps its value either empty or
  a decimal number with an optional sign, fraction and exponent. (Of a number of more than 15
  digits the double keeps the nearest value; that rounding is not modelled.)
\<close>

definition parse_digits :: "string \<Rightarrow> int option" where
  "parse_digits s = (if s \<noteq> [] \<and> list_all is_digit s then Some (digits_val 0 s) else None)"

definition split_sign :: "string \<Rightarrow> int \<times> string" where
  "split_sign s =
     (case s of [] \<Rightarrow> (1, []) | c # cs \<Rightarrow>
        if c = CHR ''-'' then (-1, cs) else if c = CHR ''+'' then (1, cs) else (1, s))"

definition parse_exponent :: "string \<Rightarrow> int option" where
  "parse_exponent s =
     (case split_sign s of (sg, r) \<Rightarrow> map_option (\<lambda>n. sg * n) (parse_digits r))"

definition js_number :: "string \<Rightarrow> jsnum" where
  "js_number s =
     (case split_sign s of (sg, r) \<Rightarrow>
       (let lower = map (\<lambda>c. if c = CHR ''E'' then CHR ''e'' else c) r;
            parts = js_split (CHR ''e'') lower;
            mant = js_split (CHR ''.'') (hd parts);
            frac = (case mant of [i] \<Rightarrow> [] | i # f # _ \<Rightarrow> f);
            ex = (case parts of [_] \<Rightarrow> Some 0 | [_, e] \<Rightarrow> parse_exponent e | _ \<Rightarrow> None)
        in if length mant \<le> 2 then
             (case (parse_digits (hd mant @ frac), ex) of
                (Some m, Some e) \<Rightarrow> js_dec (sg * m) (e - int (length frac))
              | _ \<Rightarrow> NaN)
           else NaN))"

subsection \<open>Untyped values\<close>

text \<open>What a value of type \<open>unknown\<close> can be. A \<open>Date\<close> is kept as its printed form: the code
  only asks whether it is an object, and for \<open>String(d)\<close>.\<close>

datatype js =
    JUndef
  | JNull
  | JBool bool
  | JNum jsnum
  | JStr string
  | JArr "js list"
  | JObj "(string \<times> js) list"
  | JDate string

text \<open>\<open>v == null\<close>, \<open>!!v\<close>, and \<open>v && typeof v === "object"\<close>.\<close>

fun nullish :: "js \<Rightarrow> bool" where
  "nullish JUndef = True"
| "nullish JNull = True"
| "nullish _ = False"

fun js_truthy :: "js \<Rightarrow> bool" where
  "js_truthy JUndef = False"
| "js_truthy JNull = False"
| "js_truthy (JBool b) = b"
| "js_truthy (JNum n) = (n \<noteq> NaN \<and> n \<noteq> Dec 0 0)"
| "js_truthy (JStr s) = (s \<noteq> [])"
| "js_truthy (JArr _) = True"
| "js_truthy (JObj _) = True"
| "js_truthy (JDate _) = True"

fun is_object :: "js \<Rightarrow> bool" where
  "is_object (JArr _) = True"
| "is_object (JObj _) = True"
| "is_object (JDate _) = True"
| "is_object _ = False"

lemma is_object_truthy: "is_object v \<Longrightarrow> js_truthy v"
  by (cases v) auto

text \<open>\<open>String(v)\<close>. An array joins its elements with commas, leaving out \<open>null\<close> and
  \<open>undefined\<close>. (An object whose own \<open>toString\<close> is data, on which \<open>String\<close> throws, is not
  modelled.)\<close>

fun js_string :: "js \<Rightarrow> string" where
  "js_string JUndef = ''undefined''"
| "js_string JNull = ''null''"
| "js_string (JBool b) = (if b then ''true'' else ''false'')"
| "js_string (JNum n) = js_num_str n"
| "js_string (JStr s) = s"
| "js_string (JArr xs) = js_join '','' (map (\<lambda>x. if nullish x then [] else js_string x) xs)"
| "js_string (JObj _) = ''[object Object]''"
| "js_string (JDate s) = s"

text \<open>\<open>a.join(sep)\<close> on an untyped array.\<close>

definition js_arr_join :: "string \<Rightarrow> js list \<Rightarrow> string" where
  "js_arr_join sep xs = js_join sep (map (\<lambda>x. if nullish x then [] else js_string x) xs)"

text \<open>The own enumerable properties: \<open>Object.entries(v)\<close> and the spread \<open>{...v}\<close>.\<close>

definition arr_entries :: "'v list \<Rightarrow> 'v obj" where
  "arr_entries xs = zip (map nat_str [0..<length xs]) xs"

fun js_entries :: "js \<Rightarrow> (string \<times> js) list" where
  "js_entries (JObj ps) = ps"
| "js_entries (JArr xs) = arr_entries xs"
| "js_entries _ = []"

text \<open>A property the code names literally. None of those names is an inherited one, so the
  own properties decide; reading one off \<open>null\<close> or \<open>undefined\<close> throws.\<close>

definition js_prop :: "js \<Rightarrow> string \<Rightarrow> js" where
  "js_prop v k = (case v of JObj ps \<Rightarrow> (case obj_get ps k of Some w \<Rightarrow> w | None \<Rightarrow> JUndef) | _ \<Rightarrow> JUndef)"

definition js_read :: "js \<Rightarrow> string \<Rightarrow> js result" where
  "js_read v k =
     (if nullish v then Inl (TypeError (''Cannot read properties of '' @ js_string v))
      else Inr (js_prop v k))"

lemma js_prop_JObj [simp]:
  "js_prop (JObj ps) k = (case obj_get ps k of Some w \<Rightarrow> w | None \<Rightarrow> JUndef)"
  by (simp add: js_prop_def)

text \<open>The guards \<open>typeof v === "string" ? v : undefined\<close> and their like.\<close>

fun as_str :: "js \<Rightarrow> string option" where
  "as_str (JStr s) = Some s"
| "as_str _ = None"

fun as_num :: "js \<Rightarrow> jsnum option" where
  "as_num (JNum n) = Some n"
| "as_num _ = None"

fun as_arr :: "js \<Rightarrow> js list option" where
  "as_arr (JArr xs) = Some xs"
| "as_arr _ = None"

text \<open>The guard \<open>v === true\<close>, as the optional field it fills.\<close>

definition as_true :: "js \<Rightarrow> bool option" where
  "as_true v = (if v = JBool True then Some True else None)"

text \<open>A value of an optional typed field, put back into an object.\<close>

definition opt_js :: "('a \<Rightarrow> js) \<Rightarrow> 'a option \<Rightarrow> js" where
  "opt_js f x = (case x of None \<Rightarrow> JUndef | Some y \<Rightarrow> f y)"

text \<open>A truthiness test of an optional string: \<open>if (s)\<close>.\<close>

fun nonempty :: "string option \<Rightarrow> string option" where
  "nonempty (Some s) = (if s = [] then None else Some s)"
| "nonempty None = None"

lemma nonempty_eq_Some: "nonempty x = Some s \<longleftrightarrow> x = Some s \<and> s \<noteq> []"
  by (cases x) auto

lemma nonempty_idem [simp]: "nonempty (nonempty x) = nonempty x"
  by (cases x) auto

lemma as_str_eq_Some [simp]: "as_str v = Some s \<longleftrightarrow> v = JStr s"
  by (cases v) auto

lemma as_num_eq_Some [simp]: "as_num v = Some n \<longleftrightarrow> v = JNum n"
  by (cases v) auto

lemma as_arr_eq_Some [simp]: "as_arr v = Some xs \<longleftrightarrow> v = JArr xs"
  by (cases v) auto

text \<open>\<open>Array.isArray\<close> and \<open>typeof v === "object"\<close> for the values that are both or neither.\<close>

fun is_array :: "js \<Rightarrow> bool" where
  "is_array (JArr _) = True"
| "is_array _ = False"

text \<open>A value \<open>jsyaml.dump\<close> writes without loss: no \<open>undefined\<close> and no prototype key inside.\<close>

fun plain :: "js \<Rightarrow> bool" where
  "plain JUndef = False"
| "plain (JArr xs) = list_all plain xs"
| "plain (JObj ps) = list_all (\<lambda>p. plain (snd p)) ps"
| "plain _ = True"

end
