(* ===== verification/Compose_Types.thy ===== *)
theory Compose_Types
  imports Js_Values
begin

section \<open>The Compose file: \<open>components/compose/types.ts\<close>\<close>

text \<open>
  The interfaces of \<open>types.ts\<close> as records (an optional field is an \<^typ>\<open>'a option\<close>) and its four
  string helpers. Where the parser only casts a YAML value without looking inside
  (\<open>raw as Record<string, T>\<close>) the field keeps the untyped value.
\<close>

text \<open>\<open>container\<close> is declared \<open>string\<close>, but the editor stores \<open>undefined\<close> there when its input is
  cleared, so the field is optional here.\<close>

record port_spec =
  port_ip :: "string option"
  port_host :: "string option"
  port_container :: "string option"
  port_protocol :: "string option"

record volume_mount =
  vol_source :: string
  vol_target :: string
  vol_readOnly :: "bool option"

record build_config =
  build_context :: "string option"
  build_dockerfile :: "string option"
  build_args :: "js option"
  build_target :: "string option"

record health_check =
  hc_test :: "string option"
  hc_interval :: "string option"
  hc_timeout :: "string option"
  hc_retries :: "jsnum option"
  hc_startPeriod :: "string option"
  hc_disable :: "bool option"

record resource_limits =
  lim_cpus :: "string option"
  lim_memory :: "string option"

record logging_config =
  log_driver :: "string option"
  log_options :: "js option"

text \<open>The condition is whatever the file says under that key: \<^const>\<open>JUndef\<close> when nothing.\<close>

record depends_on_entry =
  dep_service :: string
  dep_condition :: js

record ulimit =
  ul_soft :: "jsnum option"
  ul_hard :: "jsnum option"

text \<open>An element of \<open>ports\<close> or \<open>volumes\<close>: read by the parser, or left as the file has it by
  the cast at the end of the parser's callback.\<close>

datatype port_entry = Port port_spec | PortRaw js

datatype volume_entry = Volume volume_mount | VolumeRaw js

record compose_service =
  svc_image :: "string option"
  svc_build :: "build_config option"
  svc_container_name :: "string option"
  svc_hostname :: "string option"
  svc_restart :: "string option"
  svc_ports :: "port_entry list option"
  svc_expose :: "string list option"
  svc_environment :: "string obj option"
  svc_volumes :: "volume_entry list option"
  svc_networks :: "js obj option"
  svc_depends_on :: "depends_on_entry list option"
  svc_healthcheck :: "health_check option"
  svc_deploy :: "resource_limits option"
  svc_logging :: "logging_config option"
  svc_labels :: "js obj option"
  svc_command :: "string option"
  svc_entrypoint :: "string option"
  svc_user :: "string option"
  svc_working_dir :: "string option"
  svc_env_file :: "string list option"
  svc_privileged :: "bool option"
  svc_read_only :: "bool option"
  svc_tty :: "bool option"
  svc_stdin_open :: "bool option"
  svc_init :: "bool option"
  svc_extra_hosts :: "string list option"
  svc_cap_add :: "string list option"
  svc_cap_drop :: "string list option"
  svc_pid :: "string option"
  svc_ipc :: "string option"
  svc_shm_size :: "string option"
  svc_stop_signal :: "string option"
  svc_stop_grace_period :: "string option"
  svc_scale :: "jsnum option"
  svc_profiles :: "string list option"
  svc_tmpfs :: "string list option"
  svc_dns :: "string list option"
  svc_dns_search :: "string list option"
  svc_security_opt :: "string list option"
  svc_sysctls :: "js obj option"
  svc_devices :: "string list option"
  svc_ulimits :: "ulimit obj option"

text \<open>The empty literal \<open>{}\<close>.\<close>

definition empty_service :: compose_service where
  "empty_service =
     \<lparr>svc_image = None, svc_build = None, svc_container_name = None, svc_hostname = None,
      svc_restart = None, svc_ports = None, svc_expose = None, svc_environment = None,
      svc_volumes = None, svc_networks = None, svc_depends_on = None, svc_healthcheck = None,
      svc_deploy = None, svc_logging = None, svc_labels = None, svc_command = None,
      svc_entrypoint = None, svc_user = None, svc_working_dir = None, svc_env_file = None,
      svc_privileged = None, svc_read_only = None, svc_tty = None, svc_stdin_open = None,
      svc_init = None, svc_extra_hosts = None, svc_cap_add = None, svc_cap_drop = None,
      svc_pid = None, svc_ipc = None, svc_shm_size = None, svc_stop_signal = None,
      svc_stop_grace_period = None, svc_scale = None, svc_profiles = None, svc_tmpfs = None,
      svc_dns = None, svc_dns_search = None, svc_security_opt = None, svc_sysctls = None,
      svc_devices = None, svc_ulimits = None\<rparr>"

text \<open>The top-level \<open>networks\<close> and \<open>volumes\<close> are cast as they are read.\<close>

record compose_file =
  cf_version :: "string option"
  cf_services :: "compose_service obj option"
  cf_networks :: "js option"
  cf_volumes :: "js option"

subsection \<open>Port specifications\<close>

text \<open>\<open>arr[i]\<close>: a place past the end reads \<open>undefined\<close>.\<close>

definition nth_opt :: "'a list \<Rightarrow> nat \<Rightarrow> 'a option" where
  "nth_opt xs i = (if i < length xs then Some (xs ! i) else None)"

definition parsePortSpec :: "string \<Rightarrow> port_spec" where
  "parsePortSpec str =
     (let protoSplit = js_split (CHR ''/'') str;
          protocol = nth_opt protoSplit 1;
          parts = js_split (CHR '':'') (hd protoSplit)
      in if length parts = 1 then
           \<lparr>port_ip = None, port_host = None, port_container = Some (parts ! 0), port_protocol = protocol\<rparr>
         else if length parts = 2 then
           \<lparr>port_ip = None, port_host = Some (parts ! 0), port_container = Some (parts ! 1),
            port_protocol = protocol\<rparr>
         else
           \<lparr>port_ip = Some (parts ! 0), port_host = Some (parts ! 1), port_container = Some (parts ! 2),
            port_protocol = protocol\<rparr>)"

definition port_proto_suffix :: "string option \<Rightarrow> string" where
  "port_proto_suffix p =
     (case nonempty p of None \<Rightarrow> [] | Some pr \<Rightarrow> if pr \<noteq> ''tcp'' then ''/'' @ pr else [])"

definition portSpecToString :: "port_spec \<Rightarrow> string" where
  "portSpecToString p =
     (let proto = port_proto_suffix (port_protocol p);
          container = (case port_container p of None \<Rightarrow> ''undefined'' | Some c \<Rightarrow> c) in
      case (nonempty (port_ip p), nonempty (port_host p)) of
        (Some ip, Some h) \<Rightarrow> ip @ '':'' @ h @ '':'' @ container @ proto
      | (Some ip, None) \<Rightarrow> ip @ ''::'' @ container @ proto
      | (None, Some h) \<Rightarrow> h @ '':'' @ container @ proto
      | (None, None) \<Rightarrow> container @ proto)"

subsection \<open>Volume mounts\<close>

definition parseVolumeMount :: "string \<Rightarrow> volume_mount" where
  "parseVolumeMount str =
     (let parts = js_split (CHR '':'') str in
      if length parts = 1 then \<lparr>vol_source = [], vol_target = parts ! 0, vol_readOnly = None\<rparr>
      else if length parts = 2 then
        \<lparr>vol_source = parts ! 0, vol_target = parts ! 1, vol_readOnly = None\<rparr>
      else
        \<lparr>vol_source = parts ! 0, vol_target = parts ! 1,
         vol_readOnly = Some (parts ! 2 = ''ro'')\<rparr>)"

definition volumeMountToString :: "volume_mount \<Rightarrow> string" where
  "volumeMountToString v =
     (if vol_source v = [] then vol_target v
      else (let suffix = (if vol_readOnly v = Some True then '':ro'' else []) in
            vol_source v @ '':'' @ vol_target v @ suffix))"

text \<open>The same two writers on an element the parser left untyped: properties are read off the
  value, and a template literal prints whatever it finds.\<close>

definition portRawToString :: "js \<Rightarrow> string result" where
  "portRawToString v =
     bind_result (js_read v ''protocol'') (\<lambda>pr.
       (let proto = (if js_truthy pr \<and> pr \<noteq> JStr ''tcp'' then ''/'' @ js_string pr else []);
            ip = js_prop v ''ip''; h = js_prop v ''host''; c = js_string (js_prop v ''container'')
        in Inr (if js_truthy ip \<and> js_truthy h then js_string ip @ '':'' @ js_string h @ '':'' @ c @ proto
                else if js_truthy ip then js_string ip @ ''::'' @ c @ proto
                else if js_truthy h then js_string h @ '':'' @ c @ proto
                else c @ proto)))"

fun portEntryToString :: "port_entry \<Rightarrow> string result" where
  "portEntryToString (Port p) = Inr (portSpecToString p)"
| "portEntryToString (PortRaw v) = portRawToString v"

text \<open>The source-less writer returns \<open>v.target\<close> itself, not its text, so an untyped element
  gives an untyped value.\<close>

definition volumeRawToJs :: "js \<Rightarrow> js result" where
  "volumeRawToJs v =
     bind_result (js_read v ''source'') (\<lambda>src.
       if \<not> js_truthy src then Inr (js_prop v ''target'')
       else (let suffix = (if js_truthy (js_prop v ''readOnly'') then '':ro'' else [])
             in Inr (JStr (js_string src @ '':'' @ js_string (js_prop v ''target'') @ suffix))))"

fun volumeEntryToJs :: "volume_entry \<Rightarrow> js result" where
  "volumeEntryToJs (Volume v) = Inr (JStr (volumeMountToString v))"
| "volumeEntryToJs (VolumeRaw v) = volumeRawToJs v"

subsection \<open>What a round trip keeps\<close>

text \<open>A text free of the separators.\<close>

definition free_of :: "char list \<Rightarrow> string \<Rightarrow> bool" where
  "free_of cs s = list_all (\<lambda>c. c \<notin> set cs) s"

lemma free_of_notin: "free_of cs s \<Longrightarrow> c \<in> set cs \<Longrightarrow> c \<notin> set s"
  by (auto simp: free_of_def list_all_iff)

text \<open>The specifications the writer can express: no separator inside a part, a host port
  whenever there is an address, and nothing that the writer would leave out.\<close>

definition port_printable :: "port_spec \<Rightarrow> bool" where
  "port_printable p =
     (port_container p \<noteq> None
      \<and> list_all (free_of '':/'') (case port_container p of None \<Rightarrow> [] | Some s \<Rightarrow> [s])
      \<and> list_all (free_of '':/'') (case port_ip p of None \<Rightarrow> [] | Some s \<Rightarrow> [s])
      \<and> list_all (free_of '':/'') (case port_host p of None \<Rightarrow> [] | Some s \<Rightarrow> [s])
      \<and> list_all (free_of ''/'') (case port_protocol p of None \<Rightarrow> [] | Some s \<Rightarrow> [s])
      \<and> port_ip p \<noteq> Some [] \<and> port_host p \<noteq> Some []
      \<and> port_protocol p \<noteq> Some [] \<and> port_protocol p \<noteq> Some ''tcp''
      \<and> (port_ip p \<noteq> None \<longrightarrow> port_host p \<noteq> None))"

lemma portSpecToString_parts:
  assumes "port_printable p"
  shows "portSpecToString p =
    js_join '':'' ((case port_ip p of None \<Rightarrow> [] | Some i \<Rightarrow> [i]) @
                 (case port_host p of None \<Rightarrow> [] | Some h \<Rightarrow> [h]) @
                 (case port_container p of None \<Rightarrow> [] | Some c \<Rightarrow> [c])) @
    (case port_protocol p of None \<Rightarrow> [] | Some pr \<Rightarrow> ''/'' @ pr)"
  using assms
  by (auto simp: port_printable_def portSpecToString_def port_proto_suffix_def nonempty_eq_Some
      split: option.splits)

lemma js_split_slash_suffix:
  "CHR ''/'' \<notin> set s \<Longrightarrow> list_all (free_of ''/'') (case pr of None \<Rightarrow> [] | Some q \<Rightarrow> [q]) \<Longrightarrow>
   js_split (CHR ''/'') (s @ (case pr of None \<Rightarrow> [] | Some q \<Rightarrow> ''/'' @ q)) =
     s # (case pr of None \<Rightarrow> [] | Some q \<Rightarrow> [q])"
  by (cases pr) (auto simp: free_of_notin)

lemma parse_print_port:
  assumes p: "port_printable p"
  shows "parsePortSpec (portSpecToString p) = p"
proof -
  let ?ps = "(case port_ip p of None \<Rightarrow> [] | Some i \<Rightarrow> [i]) @
             (case port_host p of None \<Rightarrow> [] | Some h \<Rightarrow> [h]) @
             (case port_container p of None \<Rightarrow> [] | Some c \<Rightarrow> [c])"
  let ?pr = "case port_protocol p of None \<Rightarrow> [] | Some q \<Rightarrow> [q]"
  have parts: "x \<in> set ?ps \<Longrightarrow> free_of '':/'' x" for x
    using p by (auto simp: port_printable_def split: option.splits)
  have colon: "js_split (CHR '':'') (js_join '':'' ?ps) = ?ps"
  proof (rule js_split_join)
    show "CHR '':'' \<notin> set x" if "x \<in> set ?ps" for x
      by (rule free_of_notin [OF parts [OF that]]) simp
  qed (use p in \<open>auto simp: port_printable_def\<close>)
  have no_slash: "CHR ''/'' \<notin> set x" if "x \<in> set ?ps" for x
    by (rule free_of_notin [OF parts [OF that]]) simp
  have "CHR ''/'' \<notin> set (js_join '':'' xs)" if "\<And>x. x \<in> set xs \<Longrightarrow> CHR ''/'' \<notin> set x" for xs
    using that by (induction xs rule: induct_list012) auto
  then have "CHR ''/'' \<notin> set (js_join '':'' ?ps)"
    using no_slash by blast
  then have slash: "js_split (CHR ''/'') (portSpecToString p) = js_join '':'' ?ps # ?pr"
    using p by (simp add: portSpecToString_parts js_split_slash_suffix port_printable_def)
  have tail: "nth_opt (js_join '':'' ?ps # ?pr) 1 = port_protocol p"
    by (simp add: nth_opt_def split: option.split)
  have "\<lparr>port_ip = port_ip p, port_host = port_host p, port_container = port_container p,
         port_protocol = port_protocol p\<rparr> = p" by simp
  then show ?thesis
    using p unfolding parsePortSpec_def slash Let_def tail list.sel(1) colon
    by (cases "port_ip p"; cases "port_host p") (auto simp: port_printable_def)
qed

definition volume_printable :: "volume_mount \<Rightarrow> bool" where
  "volume_printable v =
     (free_of '':'' (vol_source v) \<and> free_of '':'' (vol_target v)
      \<and> (vol_readOnly v = None \<or> vol_readOnly v = Some True)
      \<and> (vol_source v = [] \<longrightarrow> vol_readOnly v = None))"

lemma parse_print_volume:
  assumes v: "volume_printable v"
  shows "parseVolumeMount (volumeMountToString v) = v"
proof -
  have free: "CHR '':'' \<notin> set (vol_source v)" "CHR '':'' \<notin> set (vol_target v)"
    using v by (auto simp: volume_printable_def free_of_notin)
  show ?thesis
    using v free
    by (auto simp: volume_printable_def volumeMountToString_def parseVolumeMount_def Let_def)
qed

text \<open>Both pairs are codecs.\<close>

interpretation port_codec: codec portSpecToString parsePortSpec port_printable
  by unfold_locales (rule parse_print_port)

interpretation volume_codec: codec volumeMountToString parseVolumeMount volume_printable
  by unfold_locales (rule parse_print_volume)

end
