(* ===== verification/Compose_Parse.thy ===== *)
theory Compose_Parse
  imports Compose_Types
begin

section \<open>Reading a Compose file: \<open>parseCompose\<close> of \<open>components/compose/serializer.ts\<close>\<close>

text \<open>
  \<open>parseService\<close> turns the untyped value of one service into a \<^typ>\<open>compose_service\<close>, one
  definition per block of the source. \<open>parseCompose\<close> applies it to every service of the
  document. The YAML reader is js-yaml, which is not part of the repository: it is the parameter
  \<open>load\<close>, with \<^const>\<open>None\<close> for the exception it throws on a malformed text.
\<close>

subsection \<open>The blocks of \<open>parseService\<close>\<close>

definition strArr :: "js \<Rightarrow> string list option" where
  "strArr raw = map_option (map js_string) (as_arr raw)"

text \<open>\<open>const [k, ...rest] = e.split("=")\<close> and \<open>rest.join("=")\<close>.\<close>

definition split_kv :: "string \<Rightarrow> string \<times> string" where
  "split_kv e = (let parts = js_split (CHR ''='') e in (hd parts, js_join ''='' (tl parts)))"

text \<open>The loop over an array of \<open>KEY=value\<close> strings; other elements are skipped.\<close>

definition kv_entries :: "js list \<Rightarrow> (string \<times> string) list" where
  "kv_entries xs = map split_kv (List.map_filter as_str xs)"

definition parse_command :: "js \<Rightarrow> string option" where
  "parse_command v =
     (case v of JStr s \<Rightarrow> Some s | JArr xs \<Rightarrow> Some (js_arr_join '' '' xs) | _ \<Rightarrow> None)"

definition parse_port :: "js \<Rightarrow> port_entry" where
  "parse_port p =
     (case p of
        JStr s \<Rightarrow> Port (parsePortSpec s)
      | JNum n \<Rightarrow> Port \<lparr>port_ip = None, port_host = None, port_container = Some (js_num_str n),
                       port_protocol = None\<rparr>
      | _ \<Rightarrow>
        if is_object p then
          (let target = (case js_prop p ''target'' of
                           JNum n \<Rightarrow> js_num_str n
                         | t \<Rightarrow> if nullish t then [] else js_string t);
               published = (if nullish (js_prop p ''published'') then None
                            else Some (js_string (js_prop p ''published'')));
               proto = as_str (js_prop p ''protocol'')
           in Port \<lparr>port_ip = None, port_host = published, port_container = Some target,
                    port_protocol = proto\<rparr>)
        else PortRaw p)"

definition parse_ports :: "js \<Rightarrow> port_entry list option" where
  "parse_ports v = map_option (map parse_port) (as_arr v)"

definition parse_environment :: "js \<Rightarrow> string obj option" where
  "parse_environment v =
     (if js_truthy v then
        Some (case v of
                JArr xs \<Rightarrow> obj_assign_all (kv_entries xs) []
              | _ \<Rightarrow> if is_object v then
                       obj_assign_all
                         (map (\<lambda>(k, w). (k, if nullish w then [] else js_string w)) (js_entries v)) []
                     else [])
      else None)"

definition parse_volume :: "js \<Rightarrow> volume_entry" where
  "parse_volume v = (case v of JStr s \<Rightarrow> Volume (parseVolumeMount s) | _ \<Rightarrow> VolumeRaw v)"

definition parse_volumes :: "js \<Rightarrow> volume_entry list option" where
  "parse_volumes v = map_option (map parse_volume) (as_arr v)"

definition parse_svc_networks :: "js \<Rightarrow> js obj option" where
  "parse_svc_networks v =
     (if js_truthy v \<and> is_object v \<and> \<not> is_array v then Some (js_entries v)
      else (case v of
              JArr xs \<Rightarrow>
                Some (obj_assign_all (map (\<lambda>n. (n, JObj [])) (List.map_filter as_str xs)) [])
            | _ \<Rightarrow> None))"

definition parse_depends_on :: "js \<Rightarrow> depends_on_entry list option" where
  "parse_depends_on v =
     (if js_truthy v then
        (case v of
           JArr xs \<Rightarrow>
             Some (map (\<lambda>d. \<lparr>dep_service = js_string d, dep_condition = JStr ''service_started''\<rparr>) xs)
         | _ \<Rightarrow>
             if is_object v then
               Some (map (\<lambda>(k, w).
                       \<lparr>dep_service = k,
                        dep_condition =
                          (let c = js_prop w ''condition''
                           in if nullish c then JStr ''service_started'' else c)\<rparr>) (js_entries v))
             else None)
      else None)"

definition parse_healthcheck :: "js \<Rightarrow> health_check option" where
  "parse_healthcheck h =
     (if js_truthy h \<and> is_object h then
        Some \<lparr>hc_test = (case js_prop h ''test'' of
                           JArr xs \<Rightarrow> Some (js_arr_join '' '' (drop 1 xs))
                         | JStr s \<Rightarrow> Some s
                         | _ \<Rightarrow> None),
              hc_interval = as_str (js_prop h ''interval''),
              hc_timeout = as_str (js_prop h ''timeout''),
              hc_retries = as_num (js_prop h ''retries''),
              hc_startPeriod = as_str (js_prop h ''start_period''),
              hc_disable = Some (js_prop h ''disable'' = JBool True)\<rparr>
      else None)"

definition parse_deploy :: "js \<Rightarrow> resource_limits option" where
  "parse_deploy d =
     (if js_truthy d \<and> is_object d then
        (let res = js_prop d ''resources'' in
         if js_truthy res \<and> is_object res then
           (let lim = js_prop res ''limits'' in
            if js_truthy lim \<and> is_object lim then
              Some \<lparr>lim_cpus = (case js_prop lim ''cpus'' of
                                  JStr s \<Rightarrow> Some s
                                | JNum n \<Rightarrow> Some (js_num_str n)
                                | _ \<Rightarrow> None),
                    lim_memory = as_str (js_prop lim ''memory'')\<rparr>
            else None)
         else None)
      else None)"

definition parse_logging :: "js \<Rightarrow> logging_config option" where
  "parse_logging l =
     (if js_truthy l \<and> is_object l then
        Some \<lparr>log_driver = as_str (js_prop l ''driver''),
              log_options = (let o1 = js_prop l ''options''
                             in if js_truthy o1 \<and> is_object o1 then Some o1 else None)\<rparr>
      else None)"

definition parse_labels :: "js \<Rightarrow> js obj option" where
  "parse_labels v =
     (if js_truthy v then
        Some (case v of
                JArr xs \<Rightarrow> obj_assign_all (map (\<lambda>(k, w). (k, JStr w)) (kv_entries xs)) []
              | _ \<Rightarrow> if is_object v then js_entries v else [])
      else None)"

definition parse_build :: "js \<Rightarrow> build_config option" where
  "parse_build b =
     (if js_truthy b then
        (case b of
           JStr s \<Rightarrow> Some \<lparr>build_context = Some s, build_dockerfile = None, build_args = None,
                           build_target = None\<rparr>
         | _ \<Rightarrow>
           if is_object b then
             Some \<lparr>build_context = as_str (js_prop b ''context''),
                   build_dockerfile = as_str (js_prop b ''dockerfile''),
                   build_args = (let a = js_prop b ''args''
                                 in if js_truthy a \<and> is_object a then Some a else None),
                   build_target = as_str (js_prop b ''target'')\<rparr>
           else None)
      else None)"

definition parse_sysctls :: "js \<Rightarrow> js obj option" where
  "parse_sysctls v =
     (if js_truthy v \<and> is_object v \<and> \<not> is_array v then Some (js_entries v)
      else (case v of
              JArr xs \<Rightarrow> Some (obj_assign_all (map (\<lambda>(k, w). (k, JStr w)) (kv_entries xs)) [])
            | _ \<Rightarrow> None))"

definition parse_ulimit :: "js \<Rightarrow> ulimit option" where
  "parse_ulimit v =
     (case v of
        JNum n \<Rightarrow> Some \<lparr>ul_soft = Some n, ul_hard = Some n\<rparr>
      | _ \<Rightarrow>
        if is_object v then
          Some \<lparr>ul_soft = as_num (js_prop v ''soft''), ul_hard = as_num (js_prop v ''hard'')\<rparr>
        else None)"

definition parse_ulimits :: "js \<Rightarrow> ulimit obj option" where
  "parse_ulimits v =
     (if js_truthy v \<and> is_object v then
        Some (obj_assign_all
               (List.map_filter (\<lambda>(k, w). map_option (Pair k) (parse_ulimit w)) (js_entries v)) [])
      else None)"

subsection \<open>\<open>parseService\<close>\<close>

definition parseService :: "js \<Rightarrow> compose_service" where
  "parseService raw =
     \<lparr>svc_image = as_str (js_prop raw ''image''),
      svc_build = parse_build (js_prop raw ''build''),
      svc_container_name = as_str (js_prop raw ''container_name''),
      svc_hostname = as_str (js_prop raw ''hostname''),
      svc_restart = as_str (js_prop raw ''restart''),
      svc_ports = parse_ports (js_prop raw ''ports''),
      svc_expose = strArr (js_prop raw ''expose''),
      svc_environment = parse_environment (js_prop raw ''environment''),
      svc_volumes = parse_volumes (js_prop raw ''volumes''),
      svc_networks = parse_svc_networks (js_prop raw ''networks''),
      svc_depends_on = parse_depends_on (js_prop raw ''depends_on''),
      svc_healthcheck = parse_healthcheck (js_prop raw ''healthcheck''),
      svc_deploy = parse_deploy (js_prop raw ''deploy''),
      svc_logging = parse_logging (js_prop raw ''logging''),
      svc_labels = parse_labels (js_prop raw ''labels''),
      svc_command = parse_command (js_prop raw ''command''),
      svc_entrypoint = parse_command (js_prop raw ''entrypoint''),
      svc_user = as_str (js_prop raw ''user''),
      svc_working_dir = as_str (js_prop raw ''working_dir''),
      svc_env_file = strArr (js_prop raw ''env_file''),
      svc_privileged = as_true (js_prop raw ''privileged''),
      svc_read_only = as_true (js_prop raw ''read_only''),
      svc_tty = as_true (js_prop raw ''tty''),
      svc_stdin_open = as_true (js_prop raw ''stdin_open''),
      svc_init = as_true (js_prop raw ''init''),
      svc_extra_hosts = strArr (js_prop raw ''extra_hosts''),
      svc_cap_add = strArr (js_prop raw ''cap_add''),
      svc_cap_drop = strArr (js_prop raw ''cap_drop''),
      svc_pid = as_str (js_prop raw ''pid''),
      svc_ipc = as_str (js_prop raw ''ipc''),
      svc_shm_size = as_str (js_prop raw ''shm_size''),
      svc_stop_signal = as_str (js_prop raw ''stop_signal''),
      svc_stop_grace_period = as_str (js_prop raw ''stop_grace_period''),
      svc_scale = as_num (js_prop raw ''scale''),
      svc_profiles = strArr (js_prop raw ''profiles''),
      svc_tmpfs = strArr (js_prop raw ''tmpfs''),
      svc_dns = strArr (js_prop raw ''dns''),
      svc_dns_search = strArr (js_prop raw ''dns_search''),
      svc_security_opt = strArr (js_prop raw ''security_opt''),
      svc_sysctls = parse_sysctls (js_prop raw ''sysctls''),
      svc_devices = strArr (js_prop raw ''devices''),
      svc_ulimits = parse_ulimits (js_prop raw ''ulimits'')\<rparr>"

subsection \<open>\<open>parseCompose\<close>\<close>

definition parseTopLevelMap :: "js \<Rightarrow> js" where
  "parseTopLevelMap raw = (if js_truthy raw \<and> is_object raw then raw else JObj [])"

text \<open>The loop over the services; an entry that is not an object is skipped.\<close>

definition parse_services :: "js \<Rightarrow> compose_service obj" where
  "parse_services v =
     (if js_truthy v \<and> is_object v then
        obj_assign_all
          (map (\<lambda>(n, s). (n, parseService s))
            (filter (\<lambda>(n, s). js_truthy s \<and> is_object s) (js_entries v))) []
      else [])"

definition empty_compose :: compose_file where
  "empty_compose =
     \<lparr>cf_version = None, cf_services = Some [], cf_networks = Some (JObj []),
      cf_volumes = Some (JObj [])\<rparr>"

definition parse_document :: "js \<Rightarrow> compose_file" where
  "parse_document raw =
     (if \<not> js_truthy raw \<or> \<not> is_object raw then empty_compose
      else \<lparr>cf_version = as_str (js_prop raw ''version''),
            cf_services = Some (parse_services (js_prop raw ''services'')),
            cf_networks = Some (parseTopLevelMap (js_prop raw ''networks'')),
            cf_volumes = Some (parseTopLevelMap (js_prop raw ''volumes''))\<rparr>)"

definition parseCompose :: "(string \<Rightarrow> js option) \<Rightarrow> string \<Rightarrow> compose_file" where
  "parseCompose load yamlStr =
     (if js_trim yamlStr = [] then empty_compose
      else (case load yamlStr of None \<Rightarrow> empty_compose | Some raw \<Rightarrow> parse_document raw))"

subsection \<open>What the parser guarantees of its result\<close>

lemma parse_services_wf [simp]: "wf_obj (parse_services v)"
  by (simp add: parse_services_def)

lemma parseCompose_services: "\<exists>ss. cf_services (parseCompose load y) = Some ss \<and> wf_obj ss"
  by (auto simp: parseCompose_def parse_document_def empty_compose_def split: option.split)

lemma parse_environment_wf: "parse_environment v = Some e \<Longrightarrow> wf_obj e"
  by (auto simp: parse_environment_def split: js.splits if_splits)

lemma kv_entry_join: "split_kv e = (k, w) \<Longrightarrow> CHR ''='' \<in> set e \<Longrightarrow> e = k @ ''='' @ w"
proof -
  assume kv: "split_kv e = (k, w)" and eq: "CHR ''='' \<in> set e"
  obtain p ps where ps: "js_split (CHR ''='') e = p # ps"
    by (cases "js_split (CHR ''='') e") auto
  have "ps \<noteq> []"
  proof
    assume "ps = []"
    then have "e = p" using js_join_split [of "CHR ''=''" e] ps by simp
    moreover have "CHR ''='' \<notin> set p" using js_split_pieces [of p "CHR ''=''" e] ps by simp
    ultimately show False using eq by simp
  qed
  then show ?thesis
    using kv ps js_join_split [of "CHR ''=''" e] by (simp add: split_kv_def js_join_Cons)
qed

lemma split_kv_simp [simp]: "CHR ''='' \<notin> set k \<Longrightarrow> split_kv (k @ CHR ''='' # w) = (k, w)"
  by (simp add: split_kv_def)

end
