(* ===== verification/Compose_Serialize.thy ===== *)
theory Compose_Serialize
  imports Compose_Parse
begin

section \<open>Writing a Compose file: \<open>serializeCompose\<close> of \<open>components/compose/serializer.ts\<close>\<close>

text \<open>
  \<open>serializeService\<close> fills an object \<open>out\<close> key by key: \<open>service_fields\<close> lists the keys in the
  order of the source with the value each is given, \<^const>\<open>None\<close> where the source's condition
  fails and the key is not set, and \<open>fill_object\<close> sets them in turn. Writing the ports or the
  volumes throws when an element is \<open>null\<close>, so the result is a sum. The YAML writer of js-yaml is
  the parameter \<open>dump\<close>.
\<close>

subsection \<open>Filling an object\<close>

definition put_field :: "string \<Rightarrow> 'v option \<Rightarrow> 'v obj \<Rightarrow> 'v obj" where
  "put_field k v xs = (case v of None \<Rightarrow> xs | Some w \<Rightarrow> obj_set k w xs)"

definition fill_object :: "(string \<times> 'v option) list \<Rightarrow> 'v obj" where
  "fill_object fs = fold (\<lambda>(k, v). put_field k v) fs []"

definition present_fields :: "(string \<times> 'v option) list \<Rightarrow> 'v obj" where
  "present_fields fs = List.map_filter (\<lambda>(k, v). map_option (Pair k) v) fs"

lemma present_fields_simps [simp]:
  "present_fields [] = []"
  "present_fields ((k, None) # fs) = present_fields fs"
  "present_fields ((k, Some w) # fs) = (k, w) # present_fields fs"
  by (simp_all add: present_fields_def List.map_filter_def)

lemma present_fields_keys: "set (obj_keys (present_fields fs)) \<subseteq> fst ` set fs"
proof (induction fs)
  case (Cons f fs)
  obtain k v where "f = (k, v)" by force
  with Cons show ?case by (cases v) auto
qed simp

lemma fold_put_field:
  assumes "distinct (map fst fs)" and "\<And>k. k \<in> fst ` set fs \<Longrightarrow> index_key k = None"
    and "fst ` set fs \<inter> set (obj_keys xs) = {}"
  shows "fold (\<lambda>(k, v). put_field k v) fs xs = xs @ present_fields fs"
  using assms
proof (induction fs arbitrary: xs)
  case (Cons f fs)
  obtain k v where f: "f = (k, v)" by force
  show ?case
  proof (cases v)
    case None
    with Cons f show ?thesis by (simp add: put_field_def)
  next
    case (Some w)
    have "obj_set k w xs = xs @ [(k, w)]"
      using Cons.prems f by (intro obj_set_append) auto
    with Cons f Some show ?thesis by (simp add: put_field_def)
  qed
qed simp

lemma fill_object_present:
  "distinct (map fst fs) \<Longrightarrow> (\<And>k. k \<in> fst ` set fs \<Longrightarrow> index_key k = None) \<Longrightarrow>
    fill_object fs = present_fields fs"
  using fold_put_field [of fs "[]"] by (simp add: fill_object_def)

lemma map_of_present_fields:
  "distinct (map fst fs) \<Longrightarrow> map_of (present_fields fs) k = Option.bind (map_of fs k) id"
proof (induction fs)
  case (Cons f fs)
  obtain j v where f: "f = (j, v)" by force
  have "k \<notin> fst ` set fs \<Longrightarrow> map_of (present_fields fs) k = None"
    using present_fields_keys [of fs] by (auto simp: map_of_eq_None_iff)
  with Cons f show ?case by (cases v) auto
qed simp

subsection \<open>The conditional helpers \<open>str\<close>, \<open>bool\<close>, \<open>arr\<close>, \<open>num\<close>\<close>

definition str_field :: "string option \<Rightarrow> js option" where
  "str_field v = map_option JStr (nonempty v)"

definition bool_field :: "bool option \<Rightarrow> js option" where
  "bool_field v = (if v = Some True then Some (JBool True) else None)"

definition arr_field :: "string list option \<Rightarrow> js option" where
  "arr_field v = (case v of Some (x # xs) \<Rightarrow> Some (JArr (map JStr (x # xs))) | _ \<Rightarrow> None)"

definition num_field :: "jsnum option \<Rightarrow> js option" where
  "num_field v = map_option JNum v"

text \<open>\<open>if (o && Object.keys(o).length > 0) out[key] = o\<close>.\<close>

definition obj_field :: "('v \<Rightarrow> js) \<Rightarrow> 'v obj option \<Rightarrow> js option" where
  "obj_field f v =
     (case v of Some (x # xs) \<Rightarrow> Some (JObj (map (\<lambda>(k, w). (k, f w)) (x # xs))) | _ \<Rightarrow> None)"

definition nonempty_js :: "js option \<Rightarrow> js option" where
  "nonempty_js v =
     (case v of Some j \<Rightarrow> if js_truthy j \<and> js_entries j \<noteq> [] then Some j else None | None \<Rightarrow> None)"

subsection \<open>The blocks of \<open>serializeService\<close>\<close>

definition serialize_build :: "build_config option \<Rightarrow> js option" where
  "serialize_build b1 =
     (case b1 of None \<Rightarrow> None | Some b \<Rightarrow>
       (case nonempty (build_context b) of
          Some c \<Rightarrow>
            if nonempty (build_dockerfile b) = None
               \<and> (case build_args b of None \<Rightarrow> True | Some a \<Rightarrow> \<not> js_truthy a)
               \<and> nonempty (build_target b) = None
            then Some (JStr c)
            else Some (JObj (fill_object
                   [(''context'', Some (JStr c)),
                    (''dockerfile'', str_field (build_dockerfile b)),
                    (''target'', str_field (build_target b)),
                    (''args'', nonempty_js (build_args b))]))
        | None \<Rightarrow>
            Some (JObj (fill_object
                   [(''context'', None),
                    (''dockerfile'', str_field (build_dockerfile b)),
                    (''target'', str_field (build_target b)),
                    (''args'', nonempty_js (build_args b))]))))"

definition serialize_restart :: "string option \<Rightarrow> js option" where
  "serialize_restart r =
     (case nonempty r of None \<Rightarrow> None | Some s \<Rightarrow> if s \<noteq> ''no'' then Some (JStr s) else None)"

definition serialize_list :: "js list \<Rightarrow> js option" where
  "serialize_list xs = (if xs = [] then None else Some (JArr xs))"

definition all_started :: "depends_on_entry list \<Rightarrow> bool" where
  "all_started ds =
     list_all (\<lambda>d. \<not> js_truthy (dep_condition d) \<or> dep_condition d = JStr ''service_started'') ds"

definition serialize_depends_on :: "depends_on_entry list option \<Rightarrow> js option" where
  "serialize_depends_on d1 =
     (case d1 of
        Some (d # ds) \<Rightarrow>
          if all_started (d # ds) then Some (JArr (map (\<lambda>d. JStr (dep_service d)) (d # ds)))
          else Some (JObj (obj_assign_all
                 (map (\<lambda>d. (dep_service d,
                         JObj [(''condition'',
                                if nullish (dep_condition d) then JStr ''service_started''
                                else dep_condition d)])) (d # ds)) []))
      | _ \<Rightarrow> None)"

definition serialize_healthcheck :: "health_check option \<Rightarrow> js option" where
  "serialize_healthcheck h1 =
     (case h1 of None \<Rightarrow> None | Some h \<Rightarrow>
       (let hc = (if hc_disable h = Some True then [(''disable'', JBool True)]
                  else fill_object
                    [(''test'', map_option (\<lambda>t. JArr [JStr ''CMD-SHELL'', JStr t]) (nonempty (hc_test h))),
                     (''interval'', str_field (hc_interval h)),
                     (''timeout'', str_field (hc_timeout h)),
                     (''retries'', num_field (hc_retries h)),
                     (''start_period'', str_field (hc_startPeriod h))])
        in if hc = [] then None else Some (JObj hc)))"

definition serialize_deploy :: "resource_limits option \<Rightarrow> js option" where
  "serialize_deploy l1 =
     (case l1 of None \<Rightarrow> None | Some l \<Rightarrow>
       if nonempty (lim_cpus l) \<noteq> None \<or> nonempty (lim_memory l) \<noteq> None then
         Some (JObj [(''resources'', JObj [(''limits'', JObj (fill_object
           [(''cpus'', str_field (lim_cpus l)), (''memory'', str_field (lim_memory l))]))])])
       else None)"

definition serialize_logging :: "logging_config option \<Rightarrow> js option" where
  "serialize_logging l1 =
     (case l1 of None \<Rightarrow> None | Some l \<Rightarrow>
       (case nonempty (log_driver l) of None \<Rightarrow> None | Some d \<Rightarrow>
         Some (JObj (fill_object
           [(''driver'', Some (JStr d)), (''options'', nonempty_js (log_options l))]))))"

definition serialize_ulimit :: "ulimit \<Rightarrow> js" where
  "serialize_ulimit v =
     (case (ul_soft v, ul_hard v) of
        (Some s, Some h) \<Rightarrow>
          if js_num_eq s h then JNum s else JObj [(''soft'', JNum s), (''hard'', JNum h)]
      | _ \<Rightarrow> JObj [(''soft'', opt_js JNum (ul_soft v)), (''hard'', opt_js JNum (ul_hard v))])"

definition serialize_ulimits :: "ulimit obj option \<Rightarrow> js option" where
  "serialize_ulimits u1 =
     (case u1 of
        Some (u # us) \<Rightarrow>
          Some (JObj (obj_assign_all (map (\<lambda>(k, v). (k, serialize_ulimit v)) (u # us)) []))
      | _ \<Rightarrow> None)"

subsection \<open>\<open>serializeService\<close>\<close>

definition service_fields ::
  "compose_service \<Rightarrow> js list \<Rightarrow> js list \<Rightarrow> (string \<times> js option) list" where
  "service_fields svc ports volumes =
     [(''image'', str_field (svc_image svc)),
      (''build'', serialize_build (svc_build svc)),
      (''container_name'', str_field (svc_container_name svc)),
      (''hostname'', str_field (svc_hostname svc)),
      (''restart'', serialize_restart (svc_restart svc)),
      (''command'', str_field (svc_command svc)),
      (''entrypoint'', str_field (svc_entrypoint svc)),
      (''user'', str_field (svc_user svc)),
      (''working_dir'', str_field (svc_working_dir svc)),
      (''pid'', str_field (svc_pid svc)),
      (''ipc'', str_field (svc_ipc svc)),
      (''shm_size'', str_field (svc_shm_size svc)),
      (''stop_signal'', str_field (svc_stop_signal svc)),
      (''stop_grace_period'', str_field (svc_stop_grace_period svc)),
      (''scale'', num_field (svc_scale svc)),
      (''privileged'', bool_field (svc_privileged svc)),
      (''read_only'', bool_field (svc_read_only svc)),
      (''tty'', bool_field (svc_tty svc)),
      (''stdin_open'', bool_field (svc_stdin_open svc)),
      (''init'', bool_field (svc_init svc)),
      (''ports'', serialize_list ports),
      (''expose'', arr_field (svc_expose svc)),
      (''environment'', obj_field JStr (svc_environment svc)),
      (''volumes'', serialize_list volumes),
      (''networks'', obj_field id (svc_networks svc)),
      (''depends_on'', serialize_depends_on (svc_depends_on svc)),
      (''healthcheck'', serialize_healthcheck (svc_healthcheck svc)),
      (''deploy'', serialize_deploy (svc_deploy svc)),
      (''logging'', serialize_logging (svc_logging svc)),
      (''labels'', obj_field id (svc_labels svc)),
      (''env_file'', arr_field (svc_env_file svc)),
      (''extra_hosts'', arr_field (svc_extra_hosts svc)),
      (''cap_add'', arr_field (svc_cap_add svc)),
      (''cap_drop'', arr_field (svc_cap_drop svc)),
      (''profiles'', arr_field (svc_profiles svc)),
      (''tmpfs'', arr_field (svc_tmpfs svc)),
      (''dns'', arr_field (svc_dns svc)),
      (''dns_search'', arr_field (svc_dns_search svc)),
      (''security_opt'', arr_field (svc_security_opt svc)),
      (''devices'', arr_field (svc_devices svc)),
      (''sysctls'', obj_field id (svc_sysctls svc)),
      (''ulimits'', serialize_ulimits (svc_ulimits svc))]"

definition serializeService :: "compose_service \<Rightarrow> js result" where
  "serializeService svc =
     bind_result (map_result portEntryToString (list_of_opt (svc_ports svc))) (\<lambda>ports.
       bind_result (map_result volumeEntryToJs (list_of_opt (svc_volumes svc))) (\<lambda>volumes.
         Inr (JObj (fill_object (service_fields svc (map JStr ports) volumes)))))"

subsection \<open>\<open>serializeCompose\<close>\<close>

fun serialize_services :: "compose_service obj \<Rightarrow> js obj \<Rightarrow> js obj result" where
  "serialize_services [] out = Inr out"
| "serialize_services ((name, svc) # rest) out =
     bind_result (serializeService svc) (\<lambda>s. serialize_services rest (obj_assign name s out))"

definition serialize_document :: "compose_file \<Rightarrow> js result" where
  "serialize_document cf =
     bind_result
       (case cf_services cf of
          Some (s # ss) \<Rightarrow>
            bind_result (serialize_services (s # ss) []) (\<lambda>o1. Inr (Some (JObj o1)))
        | _ \<Rightarrow> Inr None)
       (\<lambda>services. Inr (JObj (fill_object
          [(''version'', str_field (cf_version cf)),
           (''services'', services),
           (''networks'', nonempty_js (cf_networks cf)),
           (''volumes'', nonempty_js (cf_volumes cf))])))"

definition serializeCompose :: "(js \<Rightarrow> string) \<Rightarrow> compose_file \<Rightarrow> string result" where
  "serializeCompose dump cf = bind_result (serialize_document cf) (\<lambda>out. Inr (dump out))"

subsection \<open>Reading a field back off the object\<close>

lemma service_fields_keys: "distinct (map fst (service_fields svc ports volumes))"
  by (simp add: service_fields_def)

lemma service_fields_plain:
  "k \<in> fst ` set (service_fields svc ports volumes) \<Longrightarrow> index_key k = None"
  by (auto simp: service_fields_def index_key_def is_digit_def)

lemma fill_service_get:
  "obj_get (fill_object (service_fields svc ports volumes)) k =
     Option.bind (map_of (service_fields svc ports volumes) k) id"
proof -
  have "fill_object (service_fields svc ports volumes) = present_fields (service_fields svc ports volumes)"
    by (rule fill_object_present [OF service_fields_keys]) (rule service_fields_plain)
  then show ?thesis by (simp only: map_of_present_fields [OF service_fields_keys])
qed

lemma prop_service_fields:
  "(k, v) \<in> set (service_fields svc ports volumes) \<Longrightarrow>
     js_prop (JObj (fill_object (service_fields svc ports volumes))) k = (case v of None \<Rightarrow> JUndef | Some w \<Rightarrow> w)"
  using map_of_is_SomeI [OF service_fields_keys]
  by (simp add: fill_service_get split: option.split)

end
