(* ===== verification/Compose_Roundtrip.thy ===== *)
theory Compose_Roundtrip
  imports Compose_Serialize
begin

section \<open>Writing a Compose file and reading it back\<close>

text \<open>
  What the reader makes of what the writer wrote. The writer leaves out what Compose takes as the
  default (an empty string, an empty list, \<open>restart: no\<close>, protocol \<open>tcp\<close>), so the round trip gives
  the normal form of a service rather than the service: \<open>norm_service\<close>, field by field. The
  conditions \<open>service_ok\<close> say what the text form can carry.
\<close>

definition from_opt :: "js option \<Rightarrow> js" where
  "from_opt v = (case v of None \<Rightarrow> JUndef | Some w \<Rightarrow> w)"

lemma from_opt_simps [simp]: "from_opt None = JUndef" "from_opt (Some w) = w"
  by (simp_all add: from_opt_def)

subsection \<open>Normal forms\<close>

definition empty_none :: "'a list option \<Rightarrow> 'a list option" where
  "empty_none v = (case v of Some [] \<Rightarrow> None | _ \<Rightarrow> v)"

lemma empty_none_simps [simp]:
  "empty_none None = None" "empty_none (Some []) = None" "empty_none (Some (x # xs)) = Some (x # xs)"
  by (simp_all add: empty_none_def)

definition true_only :: "bool option \<Rightarrow> bool option" where
  "true_only v = (if v = Some True then Some True else None)"

definition norm_port :: "port_spec \<Rightarrow> port_spec" where
  "norm_port p =
     p\<lparr>port_ip := nonempty (port_ip p), port_host := nonempty (port_host p),
       port_protocol := (if port_protocol p = Some ''tcp'' then None else nonempty (port_protocol p))\<rparr>"

fun norm_port_entry :: "port_entry \<Rightarrow> port_entry" where
  "norm_port_entry (Port p) = Port (norm_port p)"
| "norm_port_entry (PortRaw v) = PortRaw v"

definition norm_volume :: "volume_mount \<Rightarrow> volume_mount" where
  "norm_volume v = v\<lparr>vol_readOnly := (if vol_source v = [] then None else true_only (vol_readOnly v))\<rparr>"

fun norm_volume_entry :: "volume_entry \<Rightarrow> volume_entry" where
  "norm_volume_entry (Volume v) = Volume (norm_volume v)"
| "norm_volume_entry (VolumeRaw v) = VolumeRaw v"

definition norm_build :: "build_config \<Rightarrow> build_config" where
  "norm_build b =
     \<lparr>build_context = nonempty (build_context b), build_dockerfile = nonempty (build_dockerfile b),
      build_args = nonempty_js (build_args b), build_target = nonempty (build_target b)\<rparr>"

definition norm_condition :: "depends_on_entry list \<Rightarrow> js \<Rightarrow> js" where
  "norm_condition ds c = (if all_started ds \<or> nullish c then JStr ''service_started'' else c)"

definition norm_depends_on :: "depends_on_entry list option \<Rightarrow> depends_on_entry list option" where
  "norm_depends_on d1 =
     empty_none (map_option
       (\<lambda>ds. map (\<lambda>d. d\<lparr>dep_condition := norm_condition ds (dep_condition d)\<rparr>) ds) d1)"

definition norm_healthcheck :: "health_check option \<Rightarrow> health_check option" where
  "norm_healthcheck h1 =
     (case h1 of None \<Rightarrow> None | Some h \<Rightarrow>
       if hc_disable h = Some True then
         Some \<lparr>hc_test = None, hc_interval = None, hc_timeout = None, hc_retries = None,
               hc_startPeriod = None, hc_disable = Some True\<rparr>
       else
         (let n = \<lparr>hc_test = nonempty (hc_test h), hc_interval = nonempty (hc_interval h),
                   hc_timeout = nonempty (hc_timeout h), hc_retries = hc_retries h,
                   hc_startPeriod = nonempty (hc_startPeriod h), hc_disable = Some False\<rparr>
          in if hc_test n = None \<and> hc_interval n = None \<and> hc_timeout n = None \<and> hc_retries n = None
                \<and> hc_startPeriod n = None
             then None else Some n))"

definition norm_deploy :: "resource_limits option \<Rightarrow> resource_limits option" where
  "norm_deploy l1 =
     (case l1 of None \<Rightarrow> None | Some l \<Rightarrow>
       (let n = \<lparr>lim_cpus = nonempty (lim_cpus l), lim_memory = nonempty (lim_memory l)\<rparr>
        in if lim_cpus n = None \<and> lim_memory n = None then None else Some n))"

definition norm_logging :: "logging_config option \<Rightarrow> logging_config option" where
  "norm_logging l1 =
     (case l1 of None \<Rightarrow> None | Some l \<Rightarrow>
       if nonempty (log_driver l) = None then None
       else Some \<lparr>log_driver = log_driver l, log_options = nonempty_js (log_options l)\<rparr>)"

definition norm_service :: "compose_service \<Rightarrow> compose_service" where
  "norm_service svc =
     \<lparr>svc_image = nonempty (svc_image svc), svc_build = map_option norm_build (svc_build svc),
      svc_container_name = nonempty (svc_container_name svc), svc_hostname = nonempty (svc_hostname svc),
      svc_restart = (if svc_restart svc = Some ''no'' then None else nonempty (svc_restart svc)),
      svc_ports = empty_none (map_option (map norm_port_entry) (svc_ports svc)),
      svc_expose = empty_none (svc_expose svc), svc_environment = empty_none (svc_environment svc),
      svc_volumes = empty_none (map_option (map norm_volume_entry) (svc_volumes svc)),
      svc_networks = empty_none (svc_networks svc), svc_depends_on = norm_depends_on (svc_depends_on svc),
      svc_healthcheck = norm_healthcheck (svc_healthcheck svc), svc_deploy = norm_deploy (svc_deploy svc),
      svc_logging = norm_logging (svc_logging svc), svc_labels = empty_none (svc_labels svc),
      svc_command = nonempty (svc_command svc), svc_entrypoint = nonempty (svc_entrypoint svc),
      svc_user = nonempty (svc_user svc), svc_working_dir = nonempty (svc_working_dir svc),
      svc_env_file = empty_none (svc_env_file svc), svc_privileged = true_only (svc_privileged svc),
      svc_read_only = true_only (svc_read_only svc), svc_tty = true_only (svc_tty svc),
      svc_stdin_open = true_only (svc_stdin_open svc), svc_init = true_only (svc_init svc),
      svc_extra_hosts = empty_none (svc_extra_hosts svc), svc_cap_add = empty_none (svc_cap_add svc),
      svc_cap_drop = empty_none (svc_cap_drop svc), svc_pid = nonempty (svc_pid svc),
      svc_ipc = nonempty (svc_ipc svc), svc_shm_size = nonempty (svc_shm_size svc),
      svc_stop_signal = nonempty (svc_stop_signal svc),
      svc_stop_grace_period = nonempty (svc_stop_grace_period svc), svc_scale = svc_scale svc,
      svc_profiles = empty_none (svc_profiles svc), svc_tmpfs = empty_none (svc_tmpfs svc),
      svc_dns = empty_none (svc_dns svc), svc_dns_search = empty_none (svc_dns_search svc),
      svc_security_opt = empty_none (svc_security_opt svc), svc_sysctls = empty_none (svc_sysctls svc),
      svc_devices = empty_none (svc_devices svc), svc_ulimits = empty_none (svc_ulimits svc)\<rparr>"

subsection \<open>What the text can carry\<close>

text \<open>A dictionary whose keys can be assigned back one by one.\<close>

definition dict_ok :: "'v obj \<Rightarrow> bool" where
  "dict_ok xs = (wf_obj xs \<and> ''__proto__'' \<notin> set (obj_keys xs))"

fun port_entry_ok :: "port_entry \<Rightarrow> bool" where
  "port_entry_ok (Port p) = port_printable (norm_port p)"
| "port_entry_ok (PortRaw v) = False"

fun volume_entry_ok :: "volume_entry \<Rightarrow> bool" where
  "volume_entry_ok (Volume v) = volume_printable (norm_volume v)"
| "volume_entry_ok (VolumeRaw v) = False"

definition object_or_none :: "js option \<Rightarrow> bool" where
  "object_or_none v = (case v of None \<Rightarrow> True | Some j \<Rightarrow> is_object j)"

definition service_ok :: "compose_service \<Rightarrow> bool" where
  "service_ok svc =
     (list_all port_entry_ok (list_of_opt (svc_ports svc))
      \<and> list_all volume_entry_ok (list_of_opt (svc_volumes svc))
      \<and> dict_ok (list_of_opt (svc_environment svc))
      \<and> dict_ok (map (\<lambda>d. (dep_service d, ())) (list_of_opt (svc_depends_on svc)))
      \<and> dict_ok (list_of_opt (svc_ulimits svc))
      \<and> (case svc_build svc of None \<Rightarrow> True | Some b \<Rightarrow> object_or_none (build_args b))
      \<and> (case svc_logging svc of None \<Rightarrow> True | Some l \<Rightarrow> object_or_none (log_options l)))"

subsection \<open>One block at a time\<close>

named_theorems read_back \<open>what the reader makes of a written field\<close>

lemma as_str_field [read_back]: "as_str (from_opt (str_field v)) = nonempty v"
  by (cases v) (simp_all add: str_field_def)

lemma as_restart_field [read_back]:
  "as_str (from_opt (serialize_restart v)) = (if v = Some ''no'' then None else nonempty v)"
  by (cases v) (simp_all add: serialize_restart_def)

lemma parse_command_field [read_back]: "parse_command (from_opt (str_field v)) = nonempty v"
  by (cases v) (simp_all add: str_field_def parse_command_def)

lemma as_true_field [read_back]: "as_true (from_opt (bool_field v)) = true_only v"
  by (simp add: bool_field_def as_true_def true_only_def)

lemma as_num_field [read_back]: "as_num (from_opt (num_field v)) = v"
  by (cases v) (simp_all add: num_field_def)

lemma map_js_string_JStr [simp]: "map js_string (map JStr xs) = xs"
  by (induction xs) simp_all

lemma strArr_field [read_back]: "strArr (from_opt (arr_field v)) = empty_none v"
  using map_js_string_JStr
  by (cases v; cases "the v") (simp_all add: arr_field_def strArr_def)

lemma sysctls_field [read_back]: "parse_sysctls (from_opt (obj_field id v)) = empty_none v"
  by (cases v; cases "the v") (simp_all add: obj_field_def parse_sysctls_def)

lemma networks_field [read_back]: "parse_svc_networks (from_opt (obj_field id v)) = empty_none v"
  by (cases v; cases "the v") (simp_all add: obj_field_def parse_svc_networks_def)

lemma labels_field [read_back]: "parse_labels (from_opt (obj_field id v)) = empty_none v"
  by (cases v; cases "the v") (simp_all add: obj_field_def parse_labels_def)

lemma obj_assign_all_ok: "dict_ok xs \<Longrightarrow> obj_assign_all xs [] = xs"
  by (simp add: dict_ok_def obj_assign_all_wf)

lemma environment_field:
  assumes "dict_ok (list_of_opt v)"
  shows "parse_environment (from_opt (obj_field JStr v)) = empty_none v"
proof (cases "v = None \<or> v = Some []")
  case True
  then show ?thesis by (auto simp: obj_field_def parse_environment_def)
next
  case False
  then obtain x xs where v: "v = Some (x # xs)" by (metis list.exhaust not_Some_eq)
  have "map ((\<lambda>(k, w). (k, if nullish w then [] else js_string w)) \<circ> (\<lambda>(k, w). (k, JStr w))) ys = ys"
    for ys :: "string obj"
    by (induction ys) auto
  with v assms show ?thesis
    by (simp add: obj_field_def parse_environment_def list_of_opt_def obj_assign_all_ok
        del: list.map)
qed

lemma parse_port_string: "port_entry_ok e \<Longrightarrow>
    \<exists>s. portEntryToString e = Inr s \<and> parse_port (JStr s) = norm_port_entry e"
proof (cases e)
  case (Port p)
  assume "port_entry_ok e"
  then have "port_printable (norm_port p)" by (simp add: Port)
  moreover have "portSpecToString p = portSpecToString (norm_port p)"
    by (auto simp: portSpecToString_def port_proto_suffix_def norm_port_def Let_def
        split: option.split)
  ultimately show ?thesis by (simp add: Port parse_port_def port_codec.dec_enc)
qed simp

lemma parse_volume_string: "volume_entry_ok e \<Longrightarrow>
    \<exists>j. volumeEntryToJs e = Inr j \<and> parse_volume j = norm_volume_entry e"
proof (cases e)
  case (Volume v)
  assume "volume_entry_ok e"
  then have "volume_printable (norm_volume v)" by (simp add: Volume)
  moreover have "volumeMountToString v = volumeMountToString (norm_volume v)"
    by (simp add: volumeMountToString_def norm_volume_def true_only_def)
  ultimately show ?thesis by (simp add: Volume parse_volume_def volume_codec.dec_enc)
qed simp

text \<open>A list of writable elements is written whole and read back element by element.\<close>

lemma map_result_read_back:
  assumes "list_all ok xs" and "\<And>x. ok x \<Longrightarrow> \<exists>y. f x = Inr y \<and> g y = h x"
  shows "\<exists>ys. map_result f xs = Inr ys \<and> map g ys = map h xs"
  using assms(1)
proof (induction xs)
  case (Cons x xs)
  moreover from Cons.prems obtain y where "f x = Inr y" "g y = h x" using assms(2) by auto
  ultimately show ?case by auto
qed simp

lemma list_field:
  "map g ys = map h (list_of_opt v) \<Longrightarrow>
   map_option (map g) (as_arr (from_opt (serialize_list ys))) = empty_none (map_option (map h) v)"
  by (cases v; cases "the v"; cases ys) (auto simp: serialize_list_def list_of_opt_def)

lemma fill_object_get:
  "distinct (map fst fs) \<Longrightarrow> list_all (\<lambda>f. index_key (fst f) = None) fs \<Longrightarrow>
    obj_get (fill_object fs) k = Option.bind (map_of fs k) id"
  by (subst fill_object_present) (auto simp: map_of_present_fields list_all_iff)

lemma index_key_letter [simp]: "\<not> is_digit c \<Longrightarrow> index_key (c # cs) = None"
  by (simp add: index_key_def)

lemma deploy_field [read_back]: "parse_deploy (from_opt (serialize_deploy v)) = norm_deploy v"
  by (cases v; cases "nonempty (lim_cpus (the v))"; cases "nonempty (lim_memory (the v))")
     (auto simp: serialize_deploy_def norm_deploy_def parse_deploy_def fill_object_get is_digit_def
       str_field_def Let_def)

lemma nonempty_js_object: "object_or_none v \<Longrightarrow> nonempty_js v = Some j \<Longrightarrow> js_truthy j \<and> is_object j"
  by (auto simp: nonempty_js_def object_or_none_def split: option.splits if_splits)

lemma logging_field:
  assumes "case v of None \<Rightarrow> True | Some l \<Rightarrow> object_or_none (log_options l)"
  shows "parse_logging (from_opt (serialize_logging v)) = norm_logging v"
  using assms nonempty_js_object [of "log_options (the v)"]
  by (cases v; cases "nonempty (log_driver (the v))"; cases "nonempty_js (log_options (the v))")
     (auto simp: serialize_logging_def norm_logging_def parse_logging_def fill_object_get is_digit_def
       Let_def nonempty_eq_Some)

lemma build_field:
  assumes "case v of None \<Rightarrow> True | Some b \<Rightarrow> object_or_none (build_args b)"
  shows "parse_build (from_opt (serialize_build v)) = map_option norm_build v"
proof (cases v)
  case None
  then show ?thesis by (simp add: serialize_build_def parse_build_def)
next
  case (Some b)
  let ?fs = "\<lambda>c. [(''context'', c), (''dockerfile'', str_field (build_dockerfile b)),
       (''target'', str_field (build_target b)), (''args'', nonempty_js (build_args b))]"
  have args: "nonempty_js (build_args b) = Some j \<Longrightarrow> js_truthy j \<and> is_object j" for j
    using assms Some by (simp add: nonempty_js_object)
  have obj: "parse_build (JObj (fill_object (?fs c))) =
      Some \<lparr>build_context = as_str (from_opt c), build_dockerfile = nonempty (build_dockerfile b),
        build_args = nonempty_js (build_args b), build_target = nonempty (build_target b)\<rparr>" for c
    using args
    by (cases c; cases "nonempty (build_dockerfile b)"; cases "nonempty (build_target b)";
        cases "nonempty_js (build_args b)")
       (auto simp: parse_build_def fill_object_get is_digit_def str_field_def Let_def)
  show ?thesis
  proof (cases "nonempty (build_context b)")
    case None
    with obj [of None] Some show ?thesis by (simp add: serialize_build_def norm_build_def)
  next
    case (Some c)
    have no_args: "nonempty_js (build_args b) = None"
      if "case build_args b of None \<Rightarrow> True | Some a \<Rightarrow> \<not> js_truthy a"
      using that by (auto simp: nonempty_js_def split: option.splits)
    from Some \<open>v = Some b\<close> obj [of "Some (JStr c)"] no_args show ?thesis
      by (auto simp: serialize_build_def norm_build_def parse_build_def nonempty_eq_Some)
  qed
qed

lemma healthcheck_field [read_back]:
  "parse_healthcheck (from_opt (serialize_healthcheck v)) = norm_healthcheck v"
proof (cases v)
  case None
  then show ?thesis by (simp add: serialize_healthcheck_def norm_healthcheck_def parse_healthcheck_def)
next
  case (Some h)
  let ?fs = "[(''test'', map_option (\<lambda>t. JArr [JStr ''CMD-SHELL'', JStr t]) (nonempty (hc_test h))),
              (''interval'', str_field (hc_interval h)), (''timeout'', str_field (hc_timeout h)),
              (''retries'', num_field (hc_retries h)), (''start_period'', str_field (hc_startPeriod h))]"
  have get: "obj_get (fill_object ?fs) k = Option.bind (map_of ?fs k) id" for k
    by (rule fill_object_get) (simp_all add: is_digit_def)
  have fill: "fill_object ?fs = present_fields ?fs"
    by (rule fill_object_present) (auto simp: is_digit_def)
  have parse: "parse_healthcheck (JObj (fill_object ?fs)) =
      Some \<lparr>hc_test = nonempty (hc_test h), hc_interval = nonempty (hc_interval h),
            hc_timeout = nonempty (hc_timeout h), hc_retries = hc_retries h,
            hc_startPeriod = nonempty (hc_startPeriod h), hc_disable = Some False\<rparr>"
    unfolding parse_healthcheck_def js_prop_JObj get
    by (cases "nonempty (hc_test h)"; cases "nonempty (hc_interval h)"; cases "nonempty (hc_timeout h)";
        cases "hc_retries h"; cases "nonempty (hc_startPeriod h)")
       (simp_all add: str_field_def num_field_def js_arr_join_def)
  have empty: "fill_object ?fs = [] \<longleftrightarrow>
      nonempty (hc_test h) = None \<and> nonempty (hc_interval h) = None \<and> nonempty (hc_timeout h) = None
      \<and> hc_retries h = None \<and> nonempty (hc_startPeriod h) = None"
    unfolding fill
    by (cases "nonempty (hc_test h)"; cases "nonempty (hc_interval h)"; cases "nonempty (hc_timeout h)";
        cases "hc_retries h"; cases "nonempty (hc_startPeriod h)")
       (simp_all add: str_field_def num_field_def)
  show ?thesis
  proof (cases "hc_disable h = Some True")
    case True
    then show ?thesis
      by (simp add: Some serialize_healthcheck_def norm_healthcheck_def parse_healthcheck_def)
  next
    case False
    show ?thesis
    proof (cases "fill_object ?fs = []")
      case True
      then show ?thesis using False empty
        by (simp add: Some serialize_healthcheck_def norm_healthcheck_def parse_healthcheck_def)
    next
      case nonempty: False
      then have "serialize_healthcheck v = Some (JObj (fill_object ?fs))"
        using False by (simp add: Some serialize_healthcheck_def)
      with parse show ?thesis
        using False nonempty empty by (simp add: Some norm_healthcheck_def Let_def)
    qed
  qed
qed

lemma parse_ulimit_written: "parse_ulimit (serialize_ulimit u) = Some u"
  by (cases "ul_soft u"; cases "ul_hard u")
     (auto simp: serialize_ulimit_def parse_ulimit_def js_num_eq_def opt_js_def)

lemma map_filter_all: "(\<And>x. x \<in> set xs \<Longrightarrow> f x = Some (g x)) \<Longrightarrow> List.map_filter f xs = map g xs"
  by (induction xs) (auto simp: List.map_filter_def)

lemma ulimits_field:
  assumes "dict_ok (list_of_opt v)"
  shows "parse_ulimits (from_opt (serialize_ulimits v)) = empty_none v"
proof (cases "v = None \<or> v = Some []")
  case True
  then show ?thesis by (auto simp: serialize_ulimits_def parse_ulimits_def)
next
  case False
  then obtain u us where v: "v = Some (u # us)" by (metis list.exhaust not_Some_eq)
  have "dict_ok (map (\<lambda>(k, w). (k, serialize_ulimit w)) (u # us))"
    using assms v by (simp add: dict_ok_def wf_obj_def list_of_opt_def case_prod_beta o_def)
  then have ser: "from_opt (serialize_ulimits v) = JObj (map (\<lambda>(k, w). (k, serialize_ulimit w)) (u # us))"
    by (simp add: v serialize_ulimits_def obj_assign_all_ok del: list.map)
  have "List.map_filter (\<lambda>(k, w). map_option (Pair k) (parse_ulimit w))
      (map (\<lambda>(k, w). (k, serialize_ulimit w)) ys) = ys" for ys :: "ulimit obj"
    by (induction ys) (auto simp: List.map_filter_def parse_ulimit_written)
  then show ?thesis
    using assms unfolding ser parse_ulimits_def
    by (simp add: v list_of_opt_def obj_assign_all_ok del: list.map)
qed

lemma depends_on_field:
  assumes ok: "dict_ok (map (\<lambda>d. (dep_service d, ())) (list_of_opt v))"
  shows "parse_depends_on (from_opt (serialize_depends_on v)) = norm_depends_on v"
proof (cases "v = None \<or> v = Some []")
  case True
  then show ?thesis by (auto simp: serialize_depends_on_def parse_depends_on_def norm_depends_on_def)
next
  case False
  then obtain d ds where v: "v = Some (d # ds)" by (metis list.exhaust not_Some_eq)
  let ?ds = "d # ds"
  let ?o = "map (\<lambda>d. (dep_service d, JObj [(''condition'',
      if nullish (dep_condition d) then JStr ''service_started'' else dep_condition d)])) ?ds"
  show ?thesis
  proof (cases "all_started ?ds")
    case True
    have "map (\<lambda>x. \<lparr>dep_service = js_string x, dep_condition = JStr ''service_started''\<rparr>)
        (map (\<lambda>d. JStr (dep_service d)) ys) =
        map (\<lambda>d. d\<lparr>dep_condition := JStr ''service_started''\<rparr>) ys" for ys
      by (induction ys) auto
    then show ?thesis
      using True by (simp add: v serialize_depends_on_def parse_depends_on_def norm_depends_on_def
          norm_condition_def)
  next
    case False
    have "dict_ok ?o" using ok v by (simp add: dict_ok_def wf_obj_def list_of_opt_def o_def)
    then have "serialize_depends_on v = Some (JObj ?o)"
      using False by (simp add: v serialize_depends_on_def obj_assign_all_ok del: list.map)
    moreover have "\<lparr>dep_service = dep_service x, dep_condition =
          (let c = js_prop (JObj [(''condition'', if nullish (dep_condition x) then JStr ''service_started''
                                                else dep_condition x)]) ''condition''
           in if nullish c then JStr ''service_started'' else c)\<rparr> =
        x\<lparr>dep_condition := norm_condition ?ds (dep_condition x)\<rparr>" for x
      using False by (simp add: norm_condition_def Let_def)
    ultimately show ?thesis
      by (simp add: v parse_depends_on_def norm_depends_on_def del: js_prop_JObj)
  qed
qed

subsection \<open>A whole service\<close>

lemma prop_service:
  "js_prop (JObj (fill_object (service_fields svc ports volumes))) k =
     from_opt (Option.bind (map_of (service_fields svc ports volumes) k) id)"
  by (simp add: fill_service_get from_opt_def)

lemma parse_written_fields:
  assumes ok: "service_ok svc"
    and ports: "map (parse_port \<circ> JStr) ports = map norm_port_entry (list_of_opt (svc_ports svc))"
    and volumes: "map parse_volume volumes = map norm_volume_entry (list_of_opt (svc_volumes svc))"
  shows "parseService (JObj (fill_object (service_fields svc (map JStr ports) volumes))) = norm_service svc"
proof -
  have p: "parse_ports (from_opt (serialize_list (map JStr ports))) =
      empty_none (map_option (map norm_port_entry) (svc_ports svc))"
    unfolding parse_ports_def using ports by (intro list_field) simp
  have v: "parse_volumes (from_opt (serialize_list volumes)) =
      empty_none (map_option (map norm_volume_entry) (svc_volumes svc))"
    unfolding parse_volumes_def using volumes by (rule list_field)
  have blocks:
    "parse_environment (from_opt (obj_field JStr (svc_environment svc))) = empty_none (svc_environment svc)"
    "parse_depends_on (from_opt (serialize_depends_on (svc_depends_on svc))) = norm_depends_on (svc_depends_on svc)"
    "parse_ulimits (from_opt (serialize_ulimits (svc_ulimits svc))) = empty_none (svc_ulimits svc)"
    "parse_build (from_opt (serialize_build (svc_build svc))) = map_option norm_build (svc_build svc)"
    "parse_logging (from_opt (serialize_logging (svc_logging svc))) = norm_logging (svc_logging svc)"
    using ok by (simp_all add: service_ok_def environment_field depends_on_field ulimits_field
        build_field logging_field)
  show ?thesis
    unfolding parseService_def norm_service_def prop_service
    unfolding service_fields_def
    by (simp add: read_back blocks p v)
qed

lemma parse_serializeService:
  assumes ok: "service_ok svc"
  shows "\<exists>out. serializeService svc = Inr (JObj out) \<and> parseService (JObj out) = norm_service svc"
proof -
  obtain ports where ports: "map_result portEntryToString (list_of_opt (svc_ports svc)) = Inr ports"
      "map (parse_port \<circ> JStr) ports = map norm_port_entry (list_of_opt (svc_ports svc))"
    using map_result_read_back [of port_entry_ok "list_of_opt (svc_ports svc)" portEntryToString
        "parse_port \<circ> JStr" norm_port_entry] ok parse_port_string
    by (auto simp: service_ok_def)
  obtain volumes where volumes: "map_result volumeEntryToJs (list_of_opt (svc_volumes svc)) = Inr volumes"
      "map parse_volume volumes = map norm_volume_entry (list_of_opt (svc_volumes svc))"
    using map_result_read_back [of volume_entry_ok "list_of_opt (svc_volumes svc)" volumeEntryToJs
        parse_volume norm_volume_entry] ok parse_volume_string
    by (auto simp: service_ok_def)
  show ?thesis
    using parse_written_fields [OF ok ports(2) volumes(2)]
    by (simp add: serializeService_def ports(1) volumes(1))
qed

subsection \<open>A whole file\<close>

definition norm_compose :: "compose_file \<Rightarrow> compose_file" where
  "norm_compose cf =
     (let top = (\<lambda>v. Some (case nonempty_js v of Some j \<Rightarrow> j | None \<Rightarrow> JObj []))
      in \<lparr>cf_version = nonempty (cf_version cf),
          cf_services = Some (map (\<lambda>(n, s). (n, norm_service s)) (list_of_opt (cf_services cf))),
          cf_networks = top (cf_networks cf), cf_volumes = top (cf_volumes cf)\<rparr>)"

definition compose_ok :: "compose_file \<Rightarrow> bool" where
  "compose_ok cf =
     (dict_ok (list_of_opt (cf_services cf))
      \<and> list_all (\<lambda>(n, s). service_ok s) (list_of_opt (cf_services cf))
      \<and> object_or_none (cf_networks cf) \<and> object_or_none (cf_volumes cf))"

lemma serialize_services_read_back:
  "list_all (\<lambda>(n, s). service_ok s) ss \<Longrightarrow>
    \<exists>os. serialize_services ss out = Inr (obj_assign_all os out) \<and> obj_keys os = obj_keys ss \<and>
         list_all (\<lambda>(n, s). is_object s) os \<and>
         map (\<lambda>(n, s). (n, parseService s)) os = map (\<lambda>(n, s). (n, norm_service s)) ss"
proof (induction ss arbitrary: out)
  case Nil
  then show ?case by (simp add: obj_assign_all_def)
next
  case (Cons p ss)
  obtain n svc where p: "p = (n, svc)" by force
  obtain o1 where o1: "serializeService svc = Inr (JObj o1)" "parseService (JObj o1) = norm_service svc"
    using parse_serializeService Cons.prems p by auto
  obtain os where os: "serialize_services ss (obj_assign n (JObj o1) out) =
        Inr (obj_assign_all os (obj_assign n (JObj o1) out))" "obj_keys os = obj_keys ss"
      "list_all (\<lambda>(n, s). is_object s) os"
      "map (\<lambda>(n, s). (n, parseService s)) os = map (\<lambda>(n, s). (n, norm_service s)) ss"
    using Cons.IH [of "obj_assign n (JObj o1) out"] Cons.prems by auto
  show ?case
    by (rule exI [of _ "(n, JObj o1) # os"]) (simp add: p o1 os obj_assign_all_def)
qed

lemma serialize_document_read_back:
  assumes ok: "compose_ok cf"
  shows "\<exists>out. serialize_document cf = Inr (JObj out) \<and> parse_document (JObj out) = norm_compose cf"
proof -
  let ?ss = "list_of_opt (cf_services cf)"
  obtain os where os: "serialize_services ?ss [] = Inr (obj_assign_all os [])" "obj_keys os = obj_keys ?ss"
      "list_all (\<lambda>(n, s). is_object s) os"
      "map (\<lambda>(n, s). (n, parseService s)) os = map (\<lambda>(n, s). (n, norm_service s)) ?ss"
    using serialize_services_read_back [of ?ss "[]"] ok by (auto simp: compose_ok_def)
  have dict: "dict_ok os" "dict_ok (map (\<lambda>(n, s). (n, parseService s)) os)"
    using ok os(2) by (simp_all add: compose_ok_def dict_ok_def wf_obj_def o_def case_prod_beta)
  let ?services = "if os = [] then None else Some (JObj os)"
  let ?fs = "[(''version'', str_field (cf_version cf)), (''services'', ?services),
              (''networks'', nonempty_js (cf_networks cf)), (''volumes'', nonempty_js (cf_volumes cf))]"
  have empty: "os = [] \<longleftrightarrow> ?ss = []" using os(2) by (metis map_is_Nil_conv)
  have ser: "serialize_document cf = Inr (JObj (fill_object ?fs))"
  proof (cases "cf_services cf")
    case None
    with empty show ?thesis by (simp add: serialize_document_def list_of_opt_def)
  next
    case (Some ss)
    with empty os(1) dict(1) show ?thesis
      by (cases ss) (auto simp: serialize_document_def list_of_opt_def obj_assign_all_ok)
  qed
  have filt: "filter (\<lambda>(n, s). js_truthy s \<and> is_object s) os = os"
    using os(3) by (induction os) (auto simp: is_object_truthy)
  have services: "parse_services (from_opt ?services) = map (\<lambda>(n, s). (n, norm_service s)) ?ss"
    using os(4) dict(2) by (auto simp: parse_services_def filt obj_assign_all_ok)
  have top: "parseTopLevelMap (from_opt (nonempty_js v)) = (case nonempty_js v of Some j \<Rightarrow> j | None \<Rightarrow> JObj [])"
    if "object_or_none v" for v
    using nonempty_js_object [OF that] by (cases "nonempty_js v") (simp_all add: parseTopLevelMap_def)
  have get: "obj_get (fill_object ?fs) k = Option.bind (map_of ?fs k) id" for k
    by (rule fill_object_get) (simp_all add: is_digit_def)
  have field: "js_prop (JObj (fill_object ?fs)) k = from_opt (Option.bind (map_of ?fs k) id)" for k
    unfolding js_prop_JObj get by (simp add: from_opt_def)
  have "parse_document (JObj (fill_object ?fs)) = norm_compose cf"
    unfolding parse_document_def field
    using services top ok by (simp add: norm_compose_def compose_ok_def as_str_field)
  with ser show ?thesis by blast
qed

end
