(* ===== verification/Compose_Properties.thy ===== *)
theory Compose_Properties
  imports Compose_Roundtrip
begin

section \<open>What the Compose reader and writer promise\<close>

text \<open>
  The properties of \<open>types.ts\<close> and \<open>serializer.ts\<close>: the whole file and its normal form, the strings
  of ports and volumes that survive an edit, the equivalence of the two notations for variables,
  and the inputs on which writing throws or loses something.
\<close>

subsection \<open>Normal forms are normal\<close>

lemma nonempty_js_idem [simp]: "nonempty_js (nonempty_js v) = nonempty_js v"
  by (auto simp: nonempty_js_def split: option.splits)

lemma empty_none_idem [simp]: "empty_none (empty_none v) = empty_none v"
  by (cases v; cases "the v") simp_all

lemma true_only_idem [simp]: "true_only (true_only v) = true_only v"
  by (simp add: true_only_def)

lemma norm_port_idem [simp]: "norm_port (norm_port p) = norm_port p"
proof -
  have "nonempty v \<noteq> Some ''tcp'' \<or> v = Some ''tcp''" for v by (cases v) auto
  then show ?thesis by (simp add: norm_port_def)
qed

lemma norm_port_entry_idem [simp]: "norm_port_entry (norm_port_entry e) = norm_port_entry e"
  by (cases e) simp_all

lemma norm_volume_idem [simp]: "norm_volume (norm_volume v) = norm_volume v"
  by (simp add: norm_volume_def)

lemma norm_volume_entry_idem [simp]: "norm_volume_entry (norm_volume_entry e) = norm_volume_entry e"
  by (cases e) simp_all

lemma empty_none_map_idem:
  assumes "\<And>x. f (f x) = f x"
  shows "empty_none (map_option (map f) (empty_none (map_option (map f) v))) =
           empty_none (map_option (map f) v)"
  using assms by (cases v; cases "the v") (simp_all add: o_def)

lemma norm_build_idem [simp]: "norm_build (norm_build b) = norm_build b"
  by (simp add: norm_build_def)

lemma norm_healthcheck_idem [simp]: "norm_healthcheck (norm_healthcheck h) = norm_healthcheck h"
  by (auto simp: norm_healthcheck_def Let_def split: option.splits)

lemma norm_deploy_idem [simp]: "norm_deploy (norm_deploy l) = norm_deploy l"
  by (auto simp: norm_deploy_def Let_def split: option.splits)

lemma norm_logging_idem [simp]: "norm_logging (norm_logging l) = norm_logging l"
  by (auto simp: norm_logging_def split: option.splits)

lemma norm_depends_on_idem [simp]: "norm_depends_on (norm_depends_on d) = norm_depends_on d"
proof (cases "d = None \<or> d = Some []")
  case True
  then show ?thesis by (auto simp: norm_depends_on_def)
next
  case False
  then obtain x xs where d: "d = Some (x # xs)" by (metis list.exhaust not_Some_eq)
  define n :: "depends_on_entry \<Rightarrow> depends_on_entry"
    where "n = (\<lambda>e. e\<lparr>dep_condition := norm_condition (x # xs) (dep_condition e)\<rparr>)"
  have once: "norm_depends_on d = Some (map n (x # xs))"
    by (simp add: d norm_depends_on_def n_def)
  have "norm_condition (map n (x # xs)) (dep_condition (n e)) = dep_condition (n e)"
    if "e \<in> set (x # xs)" for e
  proof (cases "all_started (x # xs)")
    case True
    then show ?thesis by (simp add: norm_condition_def n_def)
  next
    case False
    have falsy: "nullish v \<Longrightarrow> \<not> js_truthy v" for v by (cases v) simp_all
    have keep: "js_truthy (dep_condition a) \<Longrightarrow> dep_condition (n a) = dep_condition a" for a
      using False falsy by (auto simp: norm_condition_def n_def)
    obtain a where a: "a \<in> set (x # xs)" "js_truthy (dep_condition a)"
        "dep_condition a \<noteq> JStr ''service_started''"
      using False by (auto simp: all_started_def list_all_iff)
    then have "\<not> all_started (map n (x # xs))"
      using keep [of a] unfolding all_started_def list_all_iff set_map by fastforce
    then show ?thesis
      using False by (auto simp: norm_condition_def n_def simp del: list.map)
  qed
  then have "map (\<lambda>e. e\<lparr>dep_condition := norm_condition (map n (x # xs)) (dep_condition e)\<rparr>)
      (map n (x # xs)) = map n (x # xs)"
    by (intro map_idI) (auto simp del: list.map)
  then show ?thesis
    by (simp only: once) (simp add: norm_depends_on_def)
qed

lemma norm_service_idem [simp]: "norm_service (norm_service s) = norm_service s"
proof -
  have ports: "empty_none (map_option (map norm_port_entry) (empty_none (map_option (map norm_port_entry) v)))
      = empty_none (map_option (map norm_port_entry) v)" for v
    by (rule empty_none_map_idem) simp
  have volumes: "empty_none (map_option (map norm_volume_entry) (empty_none (map_option (map norm_volume_entry) v)))
      = empty_none (map_option (map norm_volume_entry) v)" for v
    by (rule empty_none_map_idem) simp
  have restart: "nonempty v \<noteq> Some ''no'' \<or> v = Some ''no''" for v by (cases v) auto
  have build: "map_option norm_build (map_option norm_build v) = map_option norm_build v" for v
    by (cases v) simp_all
  show ?thesis
    using restart by (simp add: norm_service_def ports volumes build)
qed

lemma norm_compose_idem [simp]: "norm_compose (norm_compose cf) = norm_compose cf"
proof -
  have top: "(case nonempty_js (Some (case nonempty_js v of None \<Rightarrow> JObj [] | Some j \<Rightarrow> j)) of
      None \<Rightarrow> JObj [] | Some j \<Rightarrow> j) = (case nonempty_js v of None \<Rightarrow> JObj [] | Some j \<Rightarrow> j)" for v
    by (auto simp: nonempty_js_def split: option.splits)
  show ?thesis
    by (simp add: norm_compose_def Let_def top list_of_opt_def case_prod_beta)
qed

subsection \<open>The normal form can be written\<close>

lemma list_of_opt_empty_none [simp]: "list_of_opt (empty_none v) = list_of_opt v"
  by (cases v; cases "the v") (simp_all add: list_of_opt_def)

lemma list_of_opt_map [simp]: "list_of_opt (map_option (map f) v) = map f (list_of_opt v)"
  by (cases v) (simp_all add: list_of_opt_def)

lemma port_entry_ok_norm [simp]: "port_entry_ok (norm_port_entry e) = port_entry_ok e"
  by (cases e) simp_all

lemma volume_entry_ok_norm [simp]: "volume_entry_ok (norm_volume_entry e) = volume_entry_ok e"
  by (cases e) simp_all

lemma object_or_none_norm: "object_or_none v \<Longrightarrow> object_or_none (nonempty_js v)"
  by (auto simp: object_or_none_def nonempty_js_def split: option.splits)

lemma norm_depends_on_services:
  "map (\<lambda>d. (dep_service d, ())) (list_of_opt (norm_depends_on d)) =
     map (\<lambda>d. (dep_service d, ())) (list_of_opt d)"
  by (cases d) (simp_all add: norm_depends_on_def comp_def, simp add: list_of_opt_def)

lemma service_ok_norm: "service_ok s \<Longrightarrow> service_ok (norm_service s)"
  unfolding service_ok_def
  by (auto simp: norm_service_def norm_depends_on_services list_all_iff norm_build_def
      norm_logging_def object_or_none_norm split: option.splits)

lemma compose_ok_norm: "compose_ok cf \<Longrightarrow> compose_ok (norm_compose cf)"
proof -
  assume ok: "compose_ok cf"
  have top: "object_or_none (Some (case nonempty_js v of None \<Rightarrow> JObj [] | Some j \<Rightarrow> j))"
    if "object_or_none v" for v
    using nonempty_js_object [OF that] by (auto simp: object_or_none_def split: option.splits)
  have keys: "dict_ok (map (\<lambda>(n, s). (n, norm_service s)) xs)" if "dict_ok xs" for xs
    using that by (simp add: dict_ok_def wf_obj_def comp_def case_prod_beta)
  show ?thesis
    using ok keys top unfolding compose_ok_def
    by (auto simp: norm_compose_def Let_def list_of_opt_def list_all_iff service_ok_norm)
qed

subsection \<open>The round trip\<close>

text \<open>A file with a database and the service that waits for it.\<close>

definition sample_web :: compose_service where
  "sample_web = empty_service
     \<lparr>svc_image := Some ''nginx:1.25'', svc_restart := Some ''unless-stopped'',
      svc_ports := Some [Port \<lparr>port_ip = Some ''127.0.0.1'', port_host = Some ''8080'',
                              port_container = Some ''80'', port_protocol = Some ''tcp''\<rparr>],
      svc_environment := Some [(''MODE'', ''prod''), (''EMPTY'', [])],
      svc_volumes := Some [Volume \<lparr>vol_source = ''data'', vol_target = ''/srv'', vol_readOnly = Some False\<rparr>],
      svc_depends_on := Some [\<lparr>dep_service = ''db'', dep_condition = JStr ''service_healthy''\<rparr>]\<rparr>"

definition sample_file :: compose_file where
  "sample_file =
     \<lparr>cf_version = Some [], cf_services = Some [(''web'', sample_web), (''db'', empty_service)],
      cf_networks = None, cf_volumes = Some (JObj [(''data'', JObj [])])\<rparr>"


lemma trim_sample: "js_trim ''doc'' \<noteq> []"
  by (simp add: js_trim_visible visible_def)

lemma compose_ok_sample: "compose_ok sample_file"
  by code_simp




subsection \<open>The strings that survive\<close>

lemma js_split_inj: "js_split c s = js_split c t \<longleftrightarrow> s = t"
  by (metis js_join_split)

lemma js_split_eq_iff: "js_split c t = ps \<Longrightarrow> t = s \<longleftrightarrow> ps = js_split c s"
  using js_split_inj by blast

lemma js_join_eq_iff: "js_split c (js_join [c] qs) = qs \<Longrightarrow> js_join [c] qs = s \<longleftrightarrow> qs = js_split c s"
  using js_split_inj [of c "js_join [c] qs" s] by simp

lemma Cons_eq_nonempty: "xs \<noteq> [] \<Longrightarrow> a # as = xs \<longleftrightarrow> a = hd xs \<and> as = tl xs"
  by (cases xs) auto

lemma js_split_part: "x \<in> set (js_split c s) \<Longrightarrow> d \<notin> set s \<Longrightarrow> d \<notin> set x"
proof (induction s arbitrary: x)
  case (Cons y ys)
  obtain p ps where "js_split c ys = p # ps" by (cases "js_split c ys") auto
  with Cons show ?case by (auto split: if_splits)
qed simp

lemma js_split_cases:
  obtains a where "js_split c s = [a]"
  | a b where "js_split c s = [a, b]"
  | a b d r where "js_split c s = a # b # d # r"
  by (metis js_split_nonempty list.exhaust)

text \<open>The address part of a printed port, split at the colons again.\<close>

definition port_address :: "string list \<Rightarrow> string list" where
  "port_address ps =
     (case ps of
        [a] \<Rightarrow> [a]
      | [a, b] \<Rightarrow> if a = [] then [b] else [a, b]
      | a # b # d # r \<Rightarrow> if a = [] then (if b = [] then [d] else [b, d]) else [a, b, d]
      | _ \<Rightarrow> [])"

definition port_proto :: "string list \<Rightarrow> string list" where
  "port_proto ss = (case ss of _ # q # _ \<Rightarrow> if q = [] \<or> q = ''tcp'' then [] else [q] | _ \<Rightarrow> [])"

lemma portSpecToString_parsed:
  "portSpecToString (parsePortSpec s) =
     js_join '':'' (port_address (js_split (CHR '':'') (hd (js_split (CHR ''/'') s)))) @
     concat (map (Cons CHR ''/'') (port_proto (js_split (CHR ''/'') s)))"
proof -
  have proto: "port_proto_suffix (nth_opt ss 1) = concat (map (Cons CHR ''/'') (port_proto ss))" for ss
    by (cases ss; cases "tl ss") (auto simp: port_proto_suffix_def nth_opt_def port_proto_def)
  show ?thesis
    by (cases rule: js_split_cases [of "CHR '':''" "hd (js_split (CHR ''/'') s)"])
       (simp_all add: parsePortSpec_def Let_def portSpecToString_def port_address_def
         proto [unfolded One_nat_def])
qed

lemma split_printed_port:
  fixes s
  defines "ss \<equiv> js_split (CHR ''/'') s"
  shows "js_split (CHR ''/'') (portSpecToString (parsePortSpec s)) =
           js_join '':'' (port_address (js_split (CHR '':'') (hd ss))) # port_proto ss"
proof -
  let ?ps = "js_split (CHR '':'') (hd ss)"
  have "hd ss \<in> set ss" by (simp add: ss_def)
  then have "CHR ''/'' \<notin> set (hd ss)" unfolding ss_def by (rule js_split_pieces)
  then have free: "CHR ''/'' \<notin> set x" if "x \<in> set ?ps" for x
    using js_split_part [OF that] by blast
  have sub: "set (port_address ?ps) \<subseteq> set ?ps"
    by (cases rule: js_split_cases [of "CHR '':''" "hd ss"]) (auto simp: port_address_def)
  have "CHR ''/'' \<notin> set x" if "x \<in> set (port_address ?ps)" for x
    by (rule free [OF subsetD [OF sub that]])
  moreover have "CHR ''/'' \<notin> set (js_join '':'' xs)" if "\<And>x. x \<in> set xs \<Longrightarrow> CHR ''/'' \<notin> set x" for xs
    using that by (induction xs rule: induct_list012) auto
  ultimately have addr: "CHR ''/'' \<notin> set (js_join '':'' (port_address ?ps))" by blast
  have "set (port_proto ss) \<subseteq> set ss"
    by (auto simp: port_proto_def split: list.splits)
  then have "q \<in> set (port_proto ss) \<Longrightarrow> CHR ''/'' \<notin> set q" for q
    using js_split_pieces [of q "CHR ''/''" s] by (auto simp: ss_def)
  moreover have "port_proto ss = [] \<or> (\<exists>q. port_proto ss = [q])"
    by (auto simp: port_proto_def split: list.splits)
  ultimately show ?thesis
    using addr unfolding portSpecToString_parsed ss_def [symmetric] by auto
qed

text \<open>C3: Which port strings an edit leaves as they are: those without a protocol or with one that
  is neither empty nor \<open>tcp\<close>, and with one to three colon-separated parts of which the first is not
  empty when there are several. Any other string (an IPv6 address, a fourth part, \<open>/tcp\<close>) comes back
  changed.\<close>

theorem port_string_survives:
  "portSpecToString (parsePortSpec s) = s \<longleftrightarrow>
     (let ss = js_split (CHR ''/'') s; ps = js_split (CHR '':'') (hd ss)
      in (length ss = 1 \<or> (length ss = 2 \<and> ss ! 1 \<noteq> [] \<and> ss ! 1 \<noteq> ''tcp'')) \<and>
         (length ps = 1 \<or> (length ps \<le> 3 \<and> ps ! 0 \<noteq> [])))"
proof -
  let ?ss = "js_split (CHR ''/'') s" and ?ps = "js_split (CHR '':'') (hd (js_split (CHR ''/'') s))"
  have sep: "x \<in> set (port_address ?ps) \<Longrightarrow> CHR '':'' \<notin> set x" for x
  proof -
    assume "x \<in> set (port_address ?ps)"
    moreover have "set (port_address ?ps) \<subseteq> set ?ps"
      by (cases rule: js_split_cases [of "CHR '':''" "hd ?ss"]) (auto simp: port_address_def)
    ultimately show ?thesis using js_split_pieces by blast
  qed
  have addr: "port_address ?ps \<noteq> []"
    by (cases rule: js_split_cases [of "CHR '':''" "hd ?ss"]) (auto simp: port_address_def)
  have "portSpecToString (parsePortSpec s) = s \<longleftrightarrow>
      js_join '':'' (port_address ?ps) # port_proto ?ss = ?ss"
    by (rule js_split_eq_iff) (rule split_printed_port)
  also have "\<dots> \<longleftrightarrow> js_join '':'' (port_address ?ps) = hd ?ss \<and> port_proto ?ss = tl ?ss"
    by (rule Cons_eq_nonempty) simp
  also have "js_join '':'' (port_address ?ps) = hd ?ss \<longleftrightarrow> port_address ?ps = ?ps"
    by (rule js_join_eq_iff) (rule js_split_join [OF addr sep])
  also have "port_address ?ps = ?ps \<longleftrightarrow> length ?ps = 1 \<or> (length ?ps \<le> 3 \<and> ?ps ! 0 \<noteq> [])"
    by (cases rule: js_split_cases [of "CHR '':''" "hd ?ss"]) (auto simp: port_address_def)
  also have "port_proto ?ss = tl ?ss \<longleftrightarrow>
      length ?ss = 1 \<or> (length ?ss = 2 \<and> ?ss ! 1 \<noteq> [] \<and> ?ss ! 1 \<noteq> ''tcp'')"
    by (cases rule: js_split_cases [of "CHR ''/''" s]) (auto simp: port_proto_def)
  finally show ?thesis by (auto simp: Let_def)
qed

text \<open>C4: Which volume strings an edit leaves as they are: a lone target, a source and a target, or
  these with exactly \<open>:ro\<close>. Every other option (\<open>:z\<close>, \<open>:rw\<close>, \<open>:ro,z\<close>) is lost.\<close>

theorem volume_string_survives:
  "volumeMountToString (parseVolumeMount s) = s \<longleftrightarrow>
     (let ps = js_split (CHR '':'') s
      in length ps = 1 \<or>
         (ps ! 0 \<noteq> [] \<and> (length ps = 2 \<or> (length ps = 3 \<and> ps ! 2 = ''ro''))))"
proof -
  let ?ps = "js_split (CHR '':'') s"
  let ?qs = "case ?ps of [a] \<Rightarrow> [a] | [a, b] \<Rightarrow> if a = [] then [b] else [a, b]
    | a # b # d # r \<Rightarrow> if a = [] then [b] else if d = ''ro'' then [a, b, d] else [a, b] | _ \<Rightarrow> []"
  have print: "volumeMountToString (parseVolumeMount s) = js_join '':'' ?qs"
    by (cases rule: js_split_cases [of "CHR '':''" s])
       (simp_all add: volumeMountToString_def parseVolumeMount_def Let_def)
  have sub: "set ?qs \<subseteq> set ?ps" and qs: "?qs \<noteq> []"
    by (cases rule: js_split_cases [of "CHR '':''" s]; auto)+
  have "js_split (CHR '':'') (js_join '':'' ?qs) = ?qs"
    by (rule js_split_join [OF qs]) (use sub js_split_pieces in blast)
  then have "volumeMountToString (parseVolumeMount s) = s \<longleftrightarrow> ?qs = ?ps"
    unfolding print by (rule js_join_eq_iff)
  also have "\<dots> \<longleftrightarrow> length ?ps = 1 \<or>
      (?ps ! 0 \<noteq> [] \<and> (length ?ps = 2 \<or> (length ?ps = 3 \<and> ?ps ! 2 = ''ro'')))"
    by (cases rule: js_split_cases [of "CHR '':''" s]) auto
  finally show ?thesis by (simp add: Let_def)
qed

subsection \<open>Two notations\<close>

lemma kv_entries_written:
  "list_all (\<lambda>(k, v). CHR ''='' \<notin> set k) kvs \<Longrightarrow>
     kv_entries (map (\<lambda>(k, v). JStr (k @ ''='' @ v)) kvs) = kvs"
proof (induction kvs)
  case (Cons p kvs)
  obtain k v where "p = (k, v)" by force
  with Cons show ?case by (simp add: kv_entries_def List.map_filter_simps)
qed (simp add: kv_entries_def List.map_filter_simps)

text \<open>C5: The two notations of a dictionary are read alike: a list of \<open>KEY=value\<close> strings gives the
  same variables, and the same labels up to assigning them one by one, as the map from the keys to
  the values. A value may contain \<open>=\<close>, a key may not.\<close>

theorem environment_notations:
  assumes "list_all (\<lambda>(k, v). CHR ''='' \<notin> set k) kvs"
  shows "parse_environment (JArr (map (\<lambda>(k, v). JStr (k @ ''='' @ v)) kvs)) =
           parse_environment (JObj (map (\<lambda>(k, v). (k, JStr v)) kvs))
       \<and> parse_labels (JArr (map (\<lambda>(k, v). JStr (k @ ''='' @ v)) kvs)) =
           Some (obj_assign_all (map (\<lambda>(k, v). (k, JStr v)) kvs) [])
       \<and> (dict_ok kvs \<longrightarrow>
           parse_labels (JArr (map (\<lambda>(k, v). JStr (k @ ''='' @ v)) kvs)) =
           parse_labels (JObj (map (\<lambda>(k, v). (k, JStr v)) kvs)))"
proof -
  have js: "map (\<lambda>(k, w). (k, if nullish w then [] else js_string w)) (map (\<lambda>(k, v). (k, JStr v)) kvs) = kvs"
    by (induction kvs) auto
  have keys: "dict_ok kvs \<Longrightarrow> dict_ok (map (\<lambda>(k, v). (k, JStr v)) kvs)"
    by (simp add: dict_ok_def wf_obj_def comp_def case_prod_beta)
  have "parse_environment (JArr (map (\<lambda>(k, v). JStr (k @ ''='' @ v)) kvs)) =
           parse_environment (JObj (map (\<lambda>(k, v). (k, JStr v)) kvs))"
    using kv_entries_written [OF assms] js by (simp add: parse_environment_def)
  moreover have "parse_labels (JArr (map (\<lambda>(k, v). JStr (k @ ''='' @ v)) kvs)) =
           Some (obj_assign_all (map (\<lambda>(k, v). (k, JStr v)) kvs) [])"
    using kv_entries_written [OF assms] by (simp add: parse_labels_def)
  ultimately show ?thesis
    using obj_assign_all_ok [OF keys] by (simp add: parse_labels_def)
qed

theorem environment_notations_witness:
  "parse_environment (JArr [JStr ''URL=a=b'', JStr ''MODE=x'']) =
     parse_environment (JObj [(''URL'', JStr ''a=b''), (''MODE'', JStr ''x'')])"
  using environment_notations [of "[(''URL'', ''a=b''), (''MODE'', ''x'')]"] by simp

subsection \<open>Where writing throws\<close>

lemma map_result_throws: "isl (map_result f xs) \<longleftrightarrow> (\<exists>x \<in> set xs. isl (f x))"
proof (induction xs)
  case (Cons x xs)
  then show ?case by (cases "f x"; cases "map_result f xs") auto
qed simp

lemma port_entry_throws: "isl (portEntryToString (parse_port p)) \<longleftrightarrow> nullish p"
  by (cases p) (simp_all add: parse_port_def Let_def portRawToString_def js_read_def)

lemma volume_entry_throws: "isl (volumeEntryToJs (parse_volume v)) \<longleftrightarrow> nullish v"
  by (cases v) (simp_all add: parse_volume_def volumeRawToJs_def js_read_def bind_result_def)

lemma serializeService_throws:
  "isl (serializeService svc) \<longleftrightarrow>
     (\<exists>e \<in> set (list_of_opt (svc_ports svc)). isl (portEntryToString e)) \<or>
     (\<exists>e \<in> set (list_of_opt (svc_volumes svc)). isl (volumeEntryToJs e))"
  using map_result_throws [of portEntryToString "list_of_opt (svc_ports svc)"]
    map_result_throws [of volumeEntryToJs "list_of_opt (svc_volumes svc)"]
  by (auto simp: serializeService_def isl_def bind_result_def split: sum.splits)

text \<open>C6: Reading never fails, but writing what was read can: it throws exactly when the list of ports
  or of volumes of the service holds an empty element (\<open>- \<close> with nothing after it, which YAML reads
  as \<open>null\<close>).\<close>

theorem rewriting_throws_iff:
  "isl (serializeService (parseService raw)) \<longleftrightarrow>
     (\<exists>xs. js_prop raw ''ports'' = JArr xs \<and> (\<exists>x \<in> set xs. nullish x)) \<or>
     (\<exists>xs. js_prop raw ''volumes'' = JArr xs \<and> (\<exists>x \<in> set xs. nullish x))"
proof -
  have ports: "svc_ports (parseService raw) = parse_ports (js_prop raw ''ports'')"
    and volumes: "svc_volumes (parseService raw) = parse_volumes (js_prop raw ''volumes'')"
    by (simp_all add: parseService_def del: js_prop_JObj)
  have "(\<exists>e \<in> set (list_of_opt (parse_ports v)). isl (portEntryToString e)) \<longleftrightarrow>
      (\<exists>xs. v = JArr xs \<and> (\<exists>x \<in> set xs. nullish x))" for v
    by (cases v) (auto simp: parse_ports_def list_of_opt_def port_entry_throws)
  moreover have "(\<exists>e \<in> set (list_of_opt (parse_volumes v)). isl (volumeEntryToJs e)) \<longleftrightarrow>
      (\<exists>xs. v = JArr xs \<and> (\<exists>x \<in> set xs. nullish x))" for v
    by (cases v) (auto simp: parse_volumes_def list_of_opt_def volume_entry_throws)
  ultimately show ?thesis
    unfolding serializeService_throws ports volumes by simp
qed

subsection \<open>What an edit loses\<close>

lemma not_isl_projr: "\<not> isl r \<Longrightarrow> r = Inr (projr r)"
  by (cases r) auto

definition list_keys :: "string list" where
  "list_keys = [''expose'', ''env_file'', ''extra_hosts'', ''cap_add'', ''cap_drop'', ''profiles'',
                ''tmpfs'', ''dns'', ''dns_search'', ''security_opt'', ''devices'']"

lemma strArr_scalar: "strArr (JStr s) = None"
  by (simp add: strArr_def)

lemma bind_result_Inr_cases: "bind_result r f = Inr y \<Longrightarrow> (\<And>x. r = Inr x \<Longrightarrow> f x = Inr y \<Longrightarrow> P) \<Longrightarrow> P"
  by (cases r) auto

lemma serializeService_Inr:
  assumes "serializeService svc = Inr out"
  obtains ports volumes where
    "out = JObj (fill_object (service_fields svc ports volumes))"
  using assms unfolding serializeService_def by (auto elim!: bind_result_Inr_cases)

text \<open>Compose lets \<open>env_file\<close>, \<open>dns\<close>, \<open>tmpfs\<close> and the like be one string instead of a list. Such an
  entry is not there any more in what is written back.\<close>

theorem scalar_list_dropped:
  assumes "serializeService (parseService raw) = Inr out"
    and "key \<in> set list_keys" and "js_prop raw key = JStr s"
  shows "js_prop out key = JUndef"
proof -
  obtain ports volumes where out: "out = JObj (fill_object (service_fields (parseService raw) ports volumes))"
    using serializeService_Inr [OF assms(1)] .
  have "list_all (\<lambda>k. (k, arr_field (strArr (js_prop raw k)))
      \<in> set (service_fields (parseService raw) ports volumes)) list_keys"
    by (simp add: list_keys_def service_fields_def parseService_def del: js_prop_JObj)
  then have field: "(key, arr_field None) \<in> set (service_fields (parseService raw) ports volumes)"
    using assms(2,3) by (auto simp: list_all_iff strArr_scalar)
  show ?thesis
    unfolding out prop_service_fields [OF field] by (simp add: arr_field_def)
qed

theorem scalar_list_dropped_witness:
  "js_prop (projr (serializeService (parseService (JObj [(''env_file'', JStr ''.env'')])))) ''env_file'' = JUndef"
proof (rule scalar_list_dropped)
  show "serializeService (parseService (JObj [(''env_file'', JStr ''.env'')])) =
      Inr (projr (serializeService (parseService (JObj [(''env_file'', JStr ''.env'')]))))"
    by (rule not_isl_projr)
       (simp add: serializeService_throws parseService_def parse_ports_def parse_volumes_def list_of_opt_def)
qed (simp_all add: list_keys_def)

lemma fill_object_present_all:
  "distinct (map fst fs) \<Longrightarrow> list_all (\<lambda>f. index_key (fst f) = None) fs \<Longrightarrow> fill_object fs = present_fields fs"
  by (rule fill_object_present) (auto simp: list_all_iff)

text \<open>A health check given as a list of arguments comes back as a shell command: whatever the first
  word said (\<open>CMD\<close> or \<open>CMD-SHELL\<close>), \<open>CMD-SHELL\<close> is written and the arguments are joined with blanks.\<close>

theorem healthcheck_becomes_shell:
  assumes "serializeService (parseService raw) = Inr out"
    and "js_prop raw ''healthcheck'' = JObj h" and "js_prop (JObj h) ''disable'' \<noteq> JBool True"
    and "js_prop (JObj h) ''test'' = JArr (word # args)" and "js_arr_join '' '' args \<noteq> []"
  shows "js_prop (js_prop out ''healthcheck'') ''test'' =
           JArr [JStr ''CMD-SHELL'', JStr (js_arr_join '' '' args)]"
proof -
  obtain ports volumes where out: "out = JObj (fill_object (service_fields (parseService raw) ports volumes))"
    using serializeService_Inr [OF assms(1)] .
  have "(''healthcheck'', serialize_healthcheck (parse_healthcheck (JObj h)))
      \<in> set (service_fields (parseService raw) ports volumes)"
    using assms(2) unfolding service_fields_def parseService_def by (simp del: js_prop_JObj)
  note field = prop_service_fields [OF this]
  show ?thesis
    unfolding out field
    using assms(3-5)
    by (simp add: serialize_healthcheck_def parse_healthcheck_def Let_def fill_object_present_all is_digit_def)
qed

theorem healthcheck_becomes_shell_witness:
  "js_prop (js_prop (projr (serializeService (parseService
      (JObj [(''healthcheck'', JObj [(''test'', JArr [JStr ''CMD'', JStr ''pg_isready'', JStr ''-q''])])]))))
      ''healthcheck'') ''test'' = JArr [JStr ''CMD-SHELL'', JStr (js_arr_join '' '' [JStr ''pg_isready'', JStr ''-q''])]"
proof (rule healthcheck_becomes_shell [where word = "JStr ''CMD''" and
      h = "[(''test'', JArr [JStr ''CMD'', JStr ''pg_isready'', JStr ''-q''])]"])
  show "serializeService (parseService (JObj [(''healthcheck'', JObj [(''test'', JArr [JStr ''CMD'', JStr ''pg_isready'', JStr ''-q''])])])) =
      Inr (projr (serializeService (parseService
      (JObj [(''healthcheck'', JObj [(''test'', JArr [JStr ''CMD'', JStr ''pg_isready'', JStr ''-q''])])]))))"
    by (rule not_isl_projr)
       (simp add: serializeService_throws parseService_def parse_ports_def parse_volumes_def list_of_opt_def)
qed (simp_all add: js_arr_join_def)

end
