(* ===== verification/Api_Client.thy ===== *)
theory Api_Client
  imports Js_Values
begin

section \<open>The HTTP client: \<open>api/client.ts\<close>\<close>

text \<open>
  \<open>request\<close> prepares a call (content type, CSRF header, credentials), hands it to \<open>fetch\<close> and
  turns the response into a value or an \<open>ApiError\<close>. \<open>fetch\<close> is the environment: a call is the
  record \<open>http_call\<close>, a response the record \<open>http_response\<close>, and \<open>interpret_response\<close> is the part
  of \<open>request\<close> after the \<open>await\<close>. \<open>JSON.parse\<close> is the parameter \<open>json_parse\<close>, with
  \<^const>\<open>None\<close> for the \<open>SyntaxError\<close>.
\<close>

subsection \<open>Percent encoding\<close>

text \<open>\<open>encodeURIComponent\<close> on the bytes of the text: letters, digits and nine marks stand for
  themselves, every other byte is written as \<open>%XX\<close>.\<close>

definition is_alnum :: "char \<Rightarrow> bool" where
  "is_alnum c =
     (let n = (of_char c :: int) in (48 \<le> n \<and> n \<le> 57) \<or> (65 \<le> n \<and> n \<le> 90) \<or> (97 \<le> n \<and> n \<le> 122))"

definition uri_unreserved :: "char \<Rightarrow> bool" where
  "uri_unreserved c = (is_alnum c \<or> c \<in> set ''-_.!~*()'' \<or> c = CHR 0x27)"

definition hex_digit :: "int \<Rightarrow> char" where
  "hex_digit n = char_of (if n < 10 then 48 + n else 55 + n)"

definition pct_encode :: "char \<Rightarrow> string" where
  "pct_encode c = [CHR ''%'', hex_digit (of_char c div 16), hex_digit (of_char c mod 16)]"

definition encodeURIComponent :: "string \<Rightarrow> string" where
  "encodeURIComponent s = concat (map (\<lambda>c. if uri_unreserved c then [c] else pct_encode c) s)"

definition hex_val :: "char \<Rightarrow> int option" where
  "hex_val c =
     (let n = (of_char c :: int) in
      if 48 \<le> n \<and> n \<le> 57 then Some (n - 48)
      else if 65 \<le> n \<and> n \<le> 70 then Some (n - 55)
      else if 97 \<le> n \<and> n \<le> 102 then Some (n - 87)
      else None)"

text \<open>The bytes of a percent-encoded text; \<^const>\<open>None\<close> for a \<open>%\<close> without two hex digits.\<close>

fun pct_decode :: "string \<Rightarrow> string option" where
  "pct_decode [] = Some []"
| "pct_decode (c # cs) =
     (if c = CHR ''%'' then
        (case cs of
           a # b # rest \<Rightarrow>
             (case (hex_val a, hex_val b, pct_decode rest) of
                (Some x, Some y, Some r) \<Rightarrow> Some (char_of (16 * x + y) # r)
              | _ \<Rightarrow> None)
         | _ \<Rightarrow> None)
      else map_option (Cons c) (pct_decode cs))"

text \<open>Well-formed UTF-8 (no overlong form, no surrogate): what \<open>decodeURIComponent\<close> accepts.\<close>

definition cont_byte :: "int \<Rightarrow> bool" where
  "cont_byte n = (128 \<le> n \<and> n \<le> 191)"

fun utf8_ok :: "int list \<Rightarrow> bool" where
  "utf8_ok [] = True"
| "utf8_ok (a # as) =
     (if a < 128 then utf8_ok as
      else if 194 \<le> a \<and> a \<le> 223 then
        (case as of b # r \<Rightarrow> cont_byte b \<and> utf8_ok r | _ \<Rightarrow> False)
      else if 224 \<le> a \<and> a \<le> 239 then
        (case as of b # c # r \<Rightarrow>
           cont_byte b \<and> cont_byte c \<and> (a = 224 \<longrightarrow> 160 \<le> b) \<and> (a = 237 \<longrightarrow> b \<le> 159) \<and> utf8_ok r
         | _ \<Rightarrow> False)
      else if 240 \<le> a \<and> a \<le> 244 then
        (case as of b # c # d # r \<Rightarrow>
           cont_byte b \<and> cont_byte c \<and> cont_byte d \<and> (a = 240 \<longrightarrow> 144 \<le> b) \<and> (a = 244 \<longrightarrow> b \<le> 143)
           \<and> utf8_ok r
         | _ \<Rightarrow> False)
      else False)"

definition decodeURIComponent :: "string \<Rightarrow> string result" where
  "decodeURIComponent s =
     (case pct_decode s of
        Some r \<Rightarrow> if utf8_ok (map of_char r) then Inr r else Inl (ErrorMessage ''URI malformed'')
      | None \<Rightarrow> Inl (ErrorMessage ''URI malformed''))"

subsection \<open>The CSRF token\<close>

text \<open>The cookie text matched against \<open>/(?:^|;\s*)_gorilla_csrf=([^;]+)/\<close>: the first piece between
  semicolons that is that name, \<open>=\<close> and at least one character. The first piece is matched from its
  first character, the later ones after their leading white space.\<close>

definition csrf_name :: string where
  "csrf_name = ''_gorilla_csrf=''"

definition csrf_value :: "string \<Rightarrow> string option" where
  "csrf_value piece =
     (case strip_prefix csrf_name piece of Some (c # cs) \<Rightarrow> Some (c # cs) | _ \<Rightarrow> None)"

definition csrf_match :: "string \<Rightarrow> string option" where
  "csrf_match cookie =
     (let pieces = js_split (CHR '';'') cookie;
          candidates = hd pieces # map js_trim_start (tl pieces)
      in (case List.map_filter csrf_value candidates of [] \<Rightarrow> None | v # _ \<Rightarrow> Some v))"

definition getCSRFToken :: "string \<Rightarrow> string result" where
  "getCSRFToken cookie =
     (case csrf_match cookie of Some v \<Rightarrow> decodeURIComponent v | None \<Rightarrow> Inr [])"

subsection \<open>Calls\<close>

text \<open>A body is absent, the JSON text of a value, or a form. \<open>JSON.stringify(undefined)\<close> is no
  body.\<close>

datatype body = NoBody | JsonBody js | FormBody "(string \<times> string) list"

record api_call =
  call_method :: string
  call_path :: string
  call_body :: body

record http_call =
  http_path :: string
  http_method :: string
  http_headers :: "(string \<times> string) list"
  http_body :: body
  http_credentials :: string

definition api_get :: "string \<Rightarrow> api_call" where
  "api_get path = \<lparr>call_method = ''GET'', call_path = path, call_body = NoBody\<rparr>"

definition api_post :: "string \<Rightarrow> body \<Rightarrow> api_call" where
  "api_post path b = \<lparr>call_method = ''POST'', call_path = path, call_body = b\<rparr>"

definition api_put :: "string \<Rightarrow> js \<Rightarrow> api_call" where
  "api_put path j = \<lparr>call_method = ''PUT'', call_path = path, call_body = JsonBody j\<rparr>"

definition api_patch :: "string \<Rightarrow> js \<Rightarrow> api_call" where
  "api_patch path j = \<lparr>call_method = ''PATCH'', call_path = path, call_body = JsonBody j\<rparr>"

definition api_delete :: "string \<Rightarrow> api_call" where
  "api_delete path = \<lparr>call_method = ''DELETE'', call_path = path, call_body = NoBody\<rparr>"

text \<open>The first half of \<open>request\<close>: the headers. Reading the token can throw.\<close>

definition is_form :: "body \<Rightarrow> bool" where
  "is_form b = (case b of FormBody _ \<Rightarrow> True | _ \<Rightarrow> False)"

definition prepare_request :: "string \<Rightarrow> api_call \<Rightarrow> http_call result" where
  "prepare_request cookie c =
     (let ctype = (if is_form (call_body c) then [] else [(''Content-Type'', ''application/json'')]) in
      bind_result
        (if call_method c \<noteq> [] \<and> call_method c \<noteq> ''GET'' then
           bind_result (getCSRFToken cookie) (\<lambda>token.
             Inr (if token \<noteq> [] then [(''X-CSRF-Token'', token)] else []))
         else Inr [])
        (\<lambda>csrf. Inr \<lparr>http_path = call_path c, http_method = call_method c,
                     http_headers = ctype @ csrf, http_body = call_body c,
                     http_credentials = ''include''\<rparr>))"

subsection \<open>Responses\<close>

record http_response =
  resp_status :: int
  resp_text :: string
  resp_content_type :: "string option"

text \<open>What the returned promise settles to: a value, the body's text, \<open>undefined\<close>, the client's own
  error with the status and a message, or a body that is announced as JSON and is not.\<close>

datatype api_outcome =
    ApiValue js
  | ApiText string
  | ApiUndefined
  | ApiFailed int string
  | ApiBadJson

definition resp_ok :: "http_response \<Rightarrow> bool" where
  "resp_ok r = (200 \<le> resp_status r \<and> resp_status r \<le> 299)"

text \<open>The message of a failed call: the \<open>error\<close> string of a JSON body, else the raw text. (On a
  body \<open>null\<close> the property access throws inside the \<open>try\<close>, which leaves the text.)\<close>

definition error_message :: "(string \<Rightarrow> js option) \<Rightarrow> string \<Rightarrow> string" where
  "error_message json_parse text =
     (case json_parse text of
        None \<Rightarrow> text
      | Some json \<Rightarrow>
        (case js_read json ''error'' of Inr (JStr m) \<Rightarrow> m | _ \<Rightarrow> text))"

text \<open>\<open>ct.includes("application/json")\<close>.\<close>

fun contains_sub :: "string \<Rightarrow> string \<Rightarrow> bool" where
  "contains_sub [] p = (p = [])"
| "contains_sub (c # cs) p = (js_starts_with (c # cs) p \<or> contains_sub cs p)"

definition interpret_response :: "(string \<Rightarrow> js option) \<Rightarrow> http_response \<Rightarrow> api_outcome" where
  "interpret_response json_parse r =
     (if \<not> resp_ok r then ApiFailed (resp_status r) (error_message json_parse (resp_text r))
      else if resp_status r = 204 then ApiUndefined
      else if contains_sub (case resp_content_type r of None \<Rightarrow> [] | Some ct \<Rightarrow> ct) ''application/json''
      then (case json_parse (resp_text r) of Some v \<Rightarrow> ApiValue v | None \<Rightarrow> ApiBadJson)
      else ApiText (resp_text r))"

subsection \<open>Encoded text\<close>

lemma hex_roundtrip: "0 \<le> n \<Longrightarrow> n < 16 \<Longrightarrow> hex_val (hex_digit n) = Some n"
  by (simp add: hex_val_def hex_digit_def Let_def)

lemma of_char_bounds: "0 \<le> (of_char c :: int)" "(of_char c :: int) < 256"
  using pos_mod_sign [of 256 "of_char c :: int"] pos_mod_bound [of 256 "of_char c :: int"]
  by simp_all

lemma pct_decode_encode_append:
  "pct_decode (encodeURIComponent s @ t) = map_option ((@) s) (pct_decode t)"
proof (induction s)
  case Nil
  then show ?case by (simp add: encodeURIComponent_def option.map_ident)
next
  case (Cons c cs)
  have hex: "hex_val (hex_digit (of_char c div 16)) = Some (of_char c div 16)"
      "hex_val (hex_digit (of_char c mod 16)) = Some (of_char c mod 16)"
    using of_char_bounds [of c] by (simp_all add: hex_roundtrip)
  have char: "char_of (16 * (of_char c div 16) + of_char c mod 16 :: int) = c"
    by simp
  have "uri_unreserved c \<Longrightarrow> c \<noteq> CHR ''%''"
    by (auto simp: uri_unreserved_def is_alnum_def)
  with Cons hex char show ?case
    by (cases "pct_decode t") (auto simp: encodeURIComponent_def pct_encode_def)
qed

lemma pct_decode_encode: "pct_decode (encodeURIComponent s) = Some s"
  using pct_decode_encode_append [of s "[]"] by simp

lemma encode_safe: "c \<in> set (encodeURIComponent s) \<Longrightarrow> uri_unreserved c \<or> c = CHR ''%''"
proof -
  have hex: "0 \<le> n \<Longrightarrow> n < 16 \<Longrightarrow> uri_unreserved (hex_digit n)" for n
    by (simp add: uri_unreserved_def is_alnum_def hex_digit_def Let_def)
  assume "c \<in> set (encodeURIComponent s)"
  then obtain d where "d \<in> set s" "c \<in> set (if uri_unreserved d then [d] else pct_encode d)"
    by (auto simp: encodeURIComponent_def)
  then show ?thesis
    using of_char_bounds [of d] by (auto simp: pct_encode_def hex split: if_splits)
qed

lemma encode_nonempty: "s \<noteq> [] \<Longrightarrow> encodeURIComponent s \<noteq> []"
  by (cases s) (auto simp: encodeURIComponent_def pct_encode_def)

interpretation uri_codec: codec encodeURIComponent "\<lambda>s. the (pct_decode s)" "\<lambda>_. True"
  by unfold_locales (simp add: pct_decode_encode)

end
