(* ===== verification/Api_Routes.thy ===== *)
theory Api_Routes
  imports Api_Client
begin

section \<open>The calls of the client: \<open>api/*.ts\<close>\<close>

text \<open>
  One definition per exported function: the call it hands to \<open>request\<close>. Database ids are natural
  numbers, printed as the template literals print them; objects that a function only forwards are
  untyped values. What the promise resolves to is the business of \<open>interpret_response\<close>.
\<close>

definition seg :: "string \<Rightarrow> string" where
  "seg s = CHR ''/'' # s"

definition id_seg :: "nat \<Rightarrow> string" where
  "id_seg n = seg (nat_str n)"

definition obj1 :: "string \<Rightarrow> js \<Rightarrow> js" where
  "obj1 k v = JObj [(k, v)]"

subsection \<open>\<open>auth.ts\<close>, \<open>backup.ts\<close>, \<open>system.ts\<close>\<close>

definition login :: "string \<Rightarrow> string \<Rightarrow> api_call" where
  "login username password =
     api_post ''/api/login'' (FormBody [(''username'', username), (''password'', password)])"

definition logout :: api_call where
  "logout = api_post ''/api/logout'' NoBody"

text \<open>\<open>downloadBackup\<close> navigates to this address; \<open>restoreBackup\<close> calls \<open>fetch\<close> itself, so its
  request does not pass through \<open>prepare_request\<close>.\<close>

definition downloadBackup :: string where
  "downloadBackup = ''/api/backup''"

definition restoreBackup :: "string \<Rightarrow> http_call" where
  "restoreBackup file =
     \<lparr>http_path = ''/api/restore'', http_method = ''POST'', http_headers = [],
      http_body = FormBody [(''backup'', file)], http_credentials = ''include''\<rparr>"

text \<open>Its error is \<open>err.error || "Restore failed"\<close>, with the status text for a body that is not
  JSON; reading \<open>error\<close> off \<open>null\<close> throws.\<close>

definition restoreBackup_result ::
  "(string \<Rightarrow> js option) \<Rightarrow> string \<Rightarrow> http_response \<Rightarrow> js result" where
  "restoreBackup_result json_parse statusText r =
     (if \<not> resp_ok r then
        bind_result
          (js_read (case json_parse (resp_text r) of Some err \<Rightarrow> err
                    | None \<Rightarrow> obj1 ''error'' (JStr statusText)) ''error'')
          (\<lambda>e. Inl (ErrorMessage (if js_truthy e then js_string e else ''Restore failed'')))
      else (case json_parse (resp_text r) of
              Some v \<Rightarrow> Inr v
            | None \<Rightarrow> Inl (ErrorMessage ''Unexpected token in JSON'')))"

definition getVersion :: api_call where
  "getVersion = api_get ''/api/system/version''"

definition getUpdateStatus :: api_call where
  "getUpdateStatus = api_get ''/api/system/update/status''"

definition checkUpdate :: api_call where
  "checkUpdate = api_get ''/api/system/update/check''"

definition getConfig :: api_call where
  "getConfig = api_get ''/api/system/config''"

definition updateConfig :: "js \<Rightarrow> api_call" where
  "updateConfig data = api_put ''/api/system/config'' data"

subsection \<open>\<open>files.ts\<close>, \<open>containers.ts\<close>\<close>

definition listFiles :: "string \<Rightarrow> api_call" where
  "listFiles path = api_get (''/api/files?path='' @ encodeURIComponent path)"

definition getFileContent :: "string \<Rightarrow> api_call" where
  "getFileContent path = api_get (''/api/files/content?path='' @ encodeURIComponent path)"

definition updateFile :: "string \<Rightarrow> string \<Rightarrow> api_call" where
  "updateFile path content =
     api_put (''/api/files?path='' @ encodeURIComponent path) (obj1 ''content'' (JStr content))"

definition deleteFile :: "string \<Rightarrow> api_call" where
  "deleteFile path = api_delete (''/api/files?path='' @ encodeURIComponent path)"

definition listContainers :: "bool \<Rightarrow> api_call" where
  "listContainers all_of_them =
     api_get (''/api/containers?all='' @ (if all_of_them then ''true'' else ''false''))"

definition createContainer :: "js \<Rightarrow> api_call" where
  "createContainer req = api_post ''/api/containers'' (JsonBody req)"

definition removeContainer :: "string \<Rightarrow> api_call" where
  "removeContainer cid = api_delete (''/api/containers'' @ seg cid)"

subsection \<open>\<open>users.ts\<close>, \<open>roles.ts\<close>, \<open>webhooks.ts\<close>, \<open>secrets.ts\<close>\<close>

definition getUsers :: api_call where
  "getUsers = api_get ''/api/users''"

definition createUser :: "js \<Rightarrow> api_call" where
  "createUser data = api_post ''/api/users'' (JsonBody data)"

definition updateUser :: "nat \<Rightarrow> js \<Rightarrow> api_call" where
  "updateUser n data = api_patch (''/api/users'' @ id_seg n) data"

definition deleteUser :: "nat \<Rightarrow> api_call" where
  "deleteUser n = api_delete (''/api/users'' @ id_seg n)"

definition getRoles :: api_call where
  "getRoles = api_get ''/api/roles''"

definition createRole :: "js \<Rightarrow> api_call" where
  "createRole data = api_post ''/api/roles'' (JsonBody data)"

definition updateRole :: "nat \<Rightarrow> js \<Rightarrow> api_call" where
  "updateRole n data = api_put (''/api/roles'' @ id_seg n) data"

definition deleteRole :: "nat \<Rightarrow> api_call" where
  "deleteRole n = api_delete (''/api/roles'' @ id_seg n)"

definition project_path :: "string \<Rightarrow> string" where
  "project_path name = ''/api/projects'' @ seg name"

definition listWebhooks :: "string \<Rightarrow> api_call" where
  "listWebhooks projectName = api_get (project_path projectName @ ''/webhooks'')"

definition createProjectWebhook :: "string \<Rightarrow> api_call" where
  "createProjectWebhook projectName = api_post (project_path projectName @ ''/webhooks'') NoBody"

definition createServiceWebhook :: "string \<Rightarrow> string \<Rightarrow> api_call" where
  "createServiceWebhook projectName serviceName =
     api_post (project_path projectName @ ''/containers'' @ seg serviceName @ ''/webhooks'') NoBody"

definition deleteWebhook :: "string \<Rightarrow> nat \<Rightarrow> api_call" where
  "deleteWebhook projectName webhookId =
     api_delete (project_path projectName @ ''/webhooks'' @ id_seg webhookId)"

definition patchProjectConfig :: "string \<Rightarrow> js \<Rightarrow> api_call" where
  "patchProjectConfig projectName config = api_patch (project_path projectName @ ''/config'') config"

definition listSecrets :: api_call where
  "listSecrets = api_get ''/api/secrets''"

definition createSecret :: "js \<Rightarrow> api_call" where
  "createSecret data = api_post ''/api/secrets'' (JsonBody data)"

definition updateSecret :: "nat \<Rightarrow> js \<Rightarrow> api_call" where
  "updateSecret n data = api_put (''/api/secrets'' @ id_seg n) data"

definition deleteSecret :: "nat \<Rightarrow> api_call" where
  "deleteSecret n = api_delete (''/api/secrets'' @ id_seg n)"

definition revealSecret :: "nat \<Rightarrow> api_call" where
  "revealSecret n = api_post (''/api/secrets'' @ id_seg n @ ''/reveal'') (JsonBody (JObj []))"

definition listProjectSecrets :: "string \<Rightarrow> api_call" where
  "listProjectSecrets projectName = api_get (project_path projectName @ ''/secrets'')"

definition setProjectSecrets :: "string \<Rightarrow> (nat \<times> string) list \<Rightarrow> api_call" where
  "setProjectSecrets projectName secrets =
     api_put (project_path projectName @ ''/secrets'')
       (obj1 ''secrets'' (JArr (map (\<lambda>(n, v).
          JObj [(''secretId'', JNum (js_int (int n))), (''envVarName'', JStr v)]) secrets)))"

subsection \<open>\<open>cron.ts\<close>\<close>

datatype entry_type = JobEntry | CommentEntry | EnvEntry | BlankEntry

record cron_entry =
  ce_id :: string
  ce_type :: entry_type
  ce_disabled :: "bool option"
  ce_special :: "string option"
  ce_minute :: "string option"
  ce_hour :: "string option"
  ce_day :: "string option"
  ce_month :: "string option"
  ce_weekday :: "string option"
  ce_command :: "string option"
  ce_comment :: "string option"
  ce_nextRun :: "string option"
  ce_raw :: "string option"

definition entry_type_str :: "entry_type \<Rightarrow> string" where
  "entry_type_str t =
     (case t of JobEntry \<Rightarrow> ''job'' | CommentEntry \<Rightarrow> ''comment'' | EnvEntry \<Rightarrow> ''env'' | BlankEntry \<Rightarrow> ''blank'')"

text \<open>\<open>JSON.stringify\<close> of an entry leaves out what is \<open>undefined\<close>.\<close>

definition defined_fields :: "(string \<times> js) list \<Rightarrow> js obj" where
  "defined_fields fs = filter (\<lambda>(k, v). v \<noteq> JUndef) fs"

definition cron_entry_js :: "cron_entry \<Rightarrow> js" where
  "cron_entry_js e =
     JObj (defined_fields
       [(''id'', JStr (ce_id e)), (''type'', JStr (entry_type_str (ce_type e))),
        (''disabled'', opt_js JBool (ce_disabled e)), (''special'', opt_js JStr (ce_special e)),
        (''minute'', opt_js JStr (ce_minute e)), (''hour'', opt_js JStr (ce_hour e)),
        (''day'', opt_js JStr (ce_day e)), (''month'', opt_js JStr (ce_month e)),
        (''weekday'', opt_js JStr (ce_weekday e)), (''command'', opt_js JStr (ce_command e)),
        (''comment'', opt_js JStr (ce_comment e)), (''nextRun'', opt_js JStr (ce_nextRun e)),
        (''raw'', opt_js JStr (ce_raw e))])"

definition listCronUsers :: api_call where
  "listCronUsers = api_get ''/api/cron/users''"

definition cron_path :: "string \<Rightarrow> string" where
  "cron_path user = ''/api/cron'' @ seg (encodeURIComponent user)"

definition getCrontab :: "string \<Rightarrow> api_call" where
  "getCrontab user = api_get (cron_path user)"

definition saveCrontabRaw :: "string \<Rightarrow> string \<Rightarrow> api_call" where
  "saveCrontabRaw user content = api_put (cron_path user @ ''/raw'') (obj1 ''content'' (JStr content))"

definition saveCrontabEntries :: "string \<Rightarrow> cron_entry list \<Rightarrow> api_call" where
  "saveCrontabEntries user entries =
     api_put (cron_path user @ ''/entries'') (JArr (map cron_entry_js entries))"

definition validateCronExpression :: "string \<Rightarrow> nat \<Rightarrow> api_call" where
  "validateCronExpression expression count =
     api_post ''/api/cron/validate''
       (JsonBody (JObj [(''expression'', JStr expression), (''count'', JNum (js_int (int count)))]))"

subsection \<open>\<open>registries.ts\<close>\<close>

record registry =
  reg_id :: nat
  reg_name :: string
  reg_url :: string
  reg_username :: string
  reg_createdAt :: string
  reg_updatedAt :: string

definition registry_path :: "nat \<Rightarrow> string" where
  "registry_path n = ''/api/registries'' @ id_seg n"

definition listRegistries :: api_call where
  "listRegistries = api_get ''/api/registries''"

definition createRegistry :: "js \<Rightarrow> api_call" where
  "createRegistry data = api_post ''/api/registries'' (JsonBody data)"

definition updateRegistry :: "nat \<Rightarrow> js \<Rightarrow> api_call" where
  "updateRegistry n data = api_put (registry_path n) data"

definition deleteRegistry :: "nat \<Rightarrow> api_call" where
  "deleteRegistry n = api_delete (registry_path n)"

definition testRegistry :: "nat \<Rightarrow> api_call" where
  "testRegistry n = api_post (registry_path n @ ''/test'') NoBody"

definition listRepositories :: "nat \<Rightarrow> api_call" where
  "listRepositories n = api_get (registry_path n @ ''/repositories'')"

definition listRepoTags :: "nat \<Rightarrow> string \<Rightarrow> api_call" where
  "listRepoTags n repoName = api_get (registry_path n @ ''/repositories'' @ seg repoName @ ''/tags'')"

text \<open>\<open>URLSearchParams\<close> prints its pairs as a form does: letters, digits and four marks as they are,
  a blank as \<open>+\<close>, every other byte percent-encoded.\<close>

definition form_encode :: "string \<Rightarrow> string" where
  "form_encode s =
     concat (map (\<lambda>c. if is_alnum c \<or> c \<in> set ''*-._'' then [c]
                      else if c = CHR '' '' then ''+'' else pct_encode c) s)"

definition search_params :: "(string \<times> string) list \<Rightarrow> string" where
  "search_params ps = js_join ''&'' (map (\<lambda>(k, v). form_encode k @ ''='' @ form_encode v) ps)"

definition searchImageTags :: "string \<Rightarrow> string option \<Rightarrow> nat option \<Rightarrow> api_call" where
  "searchImageTags img q registryId =
     api_get (''/api/images/tags?'' @ search_params
       ([(''image'', img)] @
        (case nonempty q of Some s \<Rightarrow> [(''q'', s)] | None \<Rightarrow> []) @
        (case registryId of Some n \<Rightarrow> [(''registryId'', nat_str n)] | None \<Rightarrow> [])))"

subsection \<open>\<open>notifications.ts\<close>\<close>

definition channels_path :: string where
  "channels_path = ''/api/notifications/channels''"

definition EVENT_TYPES :: "(string \<times> string) list" where
  "EVENT_TYPES =
     [(''container.die'', ''Container stopped/died''),
      (''container.health_status'', ''Container health status change''),
      (''deploy.success'', ''Deploy succeeded''), (''deploy.fail'', ''Deploy failed''),
      (''container.oom'', ''Container OOM killed''), (''container.start'', ''Container started'')]"

definition listChannels :: api_call where
  "listChannels = api_get channels_path"

definition createChannel :: "js \<Rightarrow> api_call" where
  "createChannel data = api_post channels_path (JsonBody data)"

definition updateChannel :: "nat \<Rightarrow> js \<Rightarrow> api_call" where
  "updateChannel n data = api_put (channels_path @ id_seg n) data"

definition deleteChannel :: "nat \<Rightarrow> api_call" where
  "deleteChannel n = api_delete (channels_path @ id_seg n)"

definition testChannel :: "nat \<Rightarrow> api_call" where
  "testChannel n = api_post (channels_path @ id_seg n @ ''/test'') NoBody"

definition createRule :: "nat \<Rightarrow> js \<Rightarrow> api_call" where
  "createRule channelId data = api_post (channels_path @ id_seg channelId @ ''/rules'') (JsonBody data)"

definition updateRule :: "nat \<Rightarrow> js \<Rightarrow> api_call" where
  "updateRule n data = api_put (''/api/notifications/rules'' @ id_seg n) data"

definition deleteRule :: "nat \<Rightarrow> api_call" where
  "deleteRule n = api_delete (''/api/notifications/rules'' @ id_seg n)"

subsection \<open>\<open>projects.ts\<close>\<close>

definition listProjects :: api_call where
  "listProjects = api_get ''/api/projects''"

definition startProject :: "string \<Rightarrow> api_call" where
  "startProject name = api_post (project_path name @ ''/start'') NoBody"

definition stopProject :: "string \<Rightarrow> api_call" where
  "stopProject name = api_post (project_path name @ ''/stop'') NoBody"

definition restartProject :: "string \<Rightarrow> api_call" where
  "restartProject name = api_post (project_path name @ ''/restart'') NoBody"

definition deleteProject :: "string \<Rightarrow> api_call" where
  "deleteProject name = api_delete (project_path name)"

record project_form =
  pf_name :: string
  pf_description :: "string option"
  pf_composeContent :: string
  pf_env :: "string obj option"

definition env_js :: "string obj \<Rightarrow> js" where
  "env_js env = JObj (map (\<lambda>(k, v). (k, JStr v)) env)"

definition project_form_js :: "project_form \<Rightarrow> js" where
  "project_form_js f =
     JObj (defined_fields
       [(''name'', JStr (pf_name f)), (''description'', opt_js JStr (pf_description f)),
        (''composeContent'', JStr (pf_composeContent f)), (''env'', opt_js env_js (pf_env f))])"

definition createProject :: "project_form \<Rightarrow> api_call" where
  "createProject data = api_post ''/api/projects'' (JsonBody (project_form_js data))"

definition updateProject :: "string \<Rightarrow> project_form \<Rightarrow> api_call" where
  "updateProject name data = api_put (project_path name) (project_form_js data)"

definition getProject :: "string \<Rightarrow> api_call" where
  "getProject name = api_get (project_path name)"

record project_file =
  file_id :: nat
  file_projectName :: string
  file_filename :: string
  file_content :: string

record project_detail =
  pd_id :: nat
  pd_name :: string
  pd_description :: string
  pd_compose :: string
  pd_envVars :: "string obj"
  pd_createdBy :: string
  pd_createdAt :: string
  pd_updatedAt :: string
  pd_files :: "project_file list"
  pd_removeStaleImages :: bool

definition listProjectFiles :: "string \<Rightarrow> api_call" where
  "listProjectFiles name = api_get (project_path name @ ''/files'')"

definition upsertProjectFile :: "string \<Rightarrow> string \<Rightarrow> string \<Rightarrow> api_call" where
  "upsertProjectFile name filename content =
     api_put (project_path name @ ''/files'')
       (JObj [(''filename'', JStr filename), (''content'', JStr content)])"

definition deleteProjectFile :: "string \<Rightarrow> string \<Rightarrow> api_call" where
  "deleteProjectFile name filename =
     api_delete (project_path name @ ''/files'' @ seg (encodeURIComponent filename))"

datatype container_action = StartContainer | StopContainer | RestartContainer

definition action_str :: "container_action \<Rightarrow> string" where
  "action_str a =
     (case a of StartContainer \<Rightarrow> ''start'' | StopContainer \<Rightarrow> ''stop'' | RestartContainer \<Rightarrow> ''restart'')"

definition containerAction :: "string \<Rightarrow> string \<Rightarrow> container_action \<Rightarrow> api_call" where
  "containerAction projectName containerId act =
     api_post (project_path projectName @ ''/containers'' @ seg containerId @ seg (action_str act)) NoBody"

definition checkProjectUpdates :: "string \<Rightarrow> api_call" where
  "checkProjectUpdates name = api_get (project_path name @ ''/updates'')"

subsection \<open>\<open>docker.ts\<close>\<close>

definition force_query :: "bool \<Rightarrow> string" where
  "force_query force = (if force then ''?force=true'' else [])"

definition listAllNetworks :: api_call where
  "listAllNetworks = api_get ''/api/networks''"

definition getNetwork :: "string \<Rightarrow> api_call" where
  "getNetwork networkId = api_get (''/api/networks'' @ seg networkId)"

definition listAllVolumes :: api_call where
  "listAllVolumes = api_get ''/api/volumes''"

definition getVolume :: "string \<Rightarrow> api_call" where
  "getVolume volumeName = api_get (''/api/volumes'' @ seg (encodeURIComponent volumeName))"

definition listAllImages :: api_call where
  "listAllImages = api_get ''/api/images''"

definition listProjectNetworks :: "string \<Rightarrow> api_call" where
  "listProjectNetworks projectName = api_get (project_path projectName @ ''/networks'')"

definition getProjectNetwork :: "string \<Rightarrow> string \<Rightarrow> api_call" where
  "getProjectNetwork projectName networkId =
     api_get (project_path projectName @ ''/networks'' @ seg networkId)"

definition listProjectVolumes :: "string \<Rightarrow> api_call" where
  "listProjectVolumes projectName = api_get (project_path projectName @ ''/volumes'')"

definition getProjectVolume :: "string \<Rightarrow> string \<Rightarrow> api_call" where
  "getProjectVolume projectName volumeName =
     api_get (project_path projectName @ ''/volumes'' @ seg (encodeURIComponent volumeName))"

definition listProjectImages :: "string \<Rightarrow> api_call" where
  "listProjectImages projectName = api_get (project_path projectName @ ''/images'')"

definition deleteImage :: "string \<Rightarrow> bool \<Rightarrow> api_call" where
  "deleteImage iid force = api_delete (''/api/images'' @ seg iid @ force_query force)"

definition createNetwork :: "js \<Rightarrow> api_call" where
  "createNetwork req = api_post ''/api/networks'' (JsonBody req)"

definition deleteNetwork :: "string \<Rightarrow> api_call" where
  "deleteNetwork networkId = api_delete (''/api/networks'' @ seg networkId)"

definition connectContainer :: "string \<Rightarrow> string \<Rightarrow> api_call" where
  "connectContainer networkId containerId =
     api_post (''/api/networks'' @ seg networkId @ ''/connect'')
       (JsonBody (obj1 ''containerId'' (JStr containerId)))"

definition disconnectContainer :: "string \<Rightarrow> string \<Rightarrow> bool \<Rightarrow> api_call" where
  "disconnectContainer networkId containerId force =
     api_post (''/api/networks'' @ seg networkId @ ''/disconnect'')
       (JsonBody (JObj [(''containerId'', JStr containerId), (''force'', JBool force)]))"

definition createVolume :: "js \<Rightarrow> api_call" where
  "createVolume req = api_post ''/api/volumes'' (JsonBody req)"

definition deleteVolume :: "string \<Rightarrow> bool \<Rightarrow> api_call" where
  "deleteVolume volumeName force =
     api_delete (''/api/volumes'' @ seg (encodeURIComponent volumeName) @ force_query force)"

definition inspectContainer :: "string \<Rightarrow> string \<Rightarrow> api_call" where
  "inspectContainer projectName containerId =
     api_get (project_path projectName @ ''/containers'' @ seg containerId @ ''/inspect'')"

definition startImageBuild :: "js \<Rightarrow> api_call" where
  "startImageBuild spec = api_post ''/api/images/build'' (JsonBody spec)"

end
