(* ===== verification/Server_Routes.thy ===== *)
theory Server_Routes
  imports Api_Routes
begin

section \<open>The routes the calls meet: \<open>internal/api/router.go\<close>\<close>

text \<open>
  The table of the JSON routes the server registers, in the order of \<open>NewRouter\<close>, each with its
  method, its pattern and what it asks of the caller. The router itself is the third-party package
  chi; the table is data, and \<open>matches_pattern\<close> is what a pattern means: literal segments, \<open>{x}\<close> for
  one non-empty segment, a final \<open>*\<close> for whatever is left. (The WebSocket routes, the download
  links and the page itself are not calls of \<open>api/*.ts\<close>.)
\<close>

datatype pattern_seg = Lit string | Par | Star

datatype access = Public | SignedIn | Admin | Global string | OnProject string

record route =
  route_method :: string
  route_pattern :: "pattern_seg list"
  route_access :: access

definition route :: "string \<Rightarrow> pattern_seg list \<Rightarrow> access \<Rightarrow> route" where
  "route m p a = \<lparr>route_method = m, route_pattern = p, route_access = a\<rparr>"

definition api_routes :: "route list" where
  "api_routes =
     [route ''GET'' [Lit ''api'', Lit ''setup''] (Public),
      route ''POST'' [Lit ''api'', Lit ''setup''] (Public),
      route ''POST'' [Lit ''api'', Lit ''login''] (Public),
      route ''POST'' [Lit ''api'', Lit ''logout''] (Public),
      route ''GET'' [Lit ''api'', Lit ''me''] (SignedIn),
      route ''GET'' [Lit ''api'', Lit ''metrics''] (Global ''view_dashboard''),
      route ''GET'' [Lit ''api'', Lit ''metrics'', Lit ''history''] (Global ''view_dashboard''),
      route ''GET'' [Lit ''api'', Lit ''system'', Lit ''info''] (Global ''view_dashboard''),
      route ''GET'' [Lit ''api'', Lit ''projects''] (SignedIn),
      route ''POST'' [Lit ''api'', Lit ''projects''] (Admin),
      route ''GET'' [Lit ''api'', Lit ''projects'', Par] (OnProject ''view''),
      route ''PUT'' [Lit ''api'', Lit ''projects'', Par] (OnProject ''manage''),
      route ''DELETE'' [Lit ''api'', Lit ''projects'', Par] (OnProject ''manage''),
      route ''POST'' [Lit ''api'', Lit ''projects'', Par, Lit ''start''] (OnProject ''start''),
      route ''POST'' [Lit ''api'', Lit ''projects'', Par, Lit ''stop''] (OnProject ''stop''),
      route ''POST'' [Lit ''api'', Lit ''projects'', Par, Lit ''restart''] (OnProject ''restart''),
      route ''POST'' [Lit ''api'', Lit ''projects'', Par, Lit ''containers'', Par, Par] (OnProject ''start''),
      route ''GET'' [Lit ''api'', Lit ''projects'', Par, Lit ''files''] (OnProject ''files''),
      route ''PUT'' [Lit ''api'', Lit ''projects'', Par, Lit ''files''] (OnProject ''files''),
      route ''DELETE'' [Lit ''api'', Lit ''projects'', Par, Lit ''files'', Par] (OnProject ''files''),
      route ''GET'' [Lit ''api'', Lit ''files''] (Global ''view_files''),
      route ''GET'' [Lit ''api'', Lit ''files'', Lit ''content''] (Global ''view_files''),
      route ''PUT'' [Lit ''api'', Lit ''files''] (Global ''edit_files''),
      route ''DELETE'' [Lit ''api'', Lit ''files''] (Global ''edit_files''),
      route ''GET'' [Lit ''api'', Lit ''logs'', Lit ''history''] (Global ''view_logs''),
      route ''GET'' [Lit ''api'', Lit ''audit''] (Global ''view_audit''),
      route ''GET'' [Lit ''api'', Lit ''projects'', Par, Lit ''containers'', Par, Lit ''files''] (OnProject ''files''),
      route ''GET'' [Lit ''api'', Lit ''projects'', Par, Lit ''containers'', Par, Lit ''files'', Lit ''download''] (OnProject ''files''),
      route ''GET'' [Lit ''api'', Lit ''networks''] (Admin),
      route ''POST'' [Lit ''api'', Lit ''networks''] (Admin),
      route ''GET'' [Lit ''api'', Lit ''networks'', Par] (Admin),
      route ''DELETE'' [Lit ''api'', Lit ''networks'', Par] (Admin),
      route ''POST'' [Lit ''api'', Lit ''networks'', Par, Lit ''connect''] (Admin),
      route ''POST'' [Lit ''api'', Lit ''networks'', Par, Lit ''disconnect''] (Admin),
      route ''GET'' [Lit ''api'', Lit ''volumes''] (Admin),
      route ''POST'' [Lit ''api'', Lit ''volumes''] (Admin),
      route ''GET'' [Lit ''api'', Lit ''volumes'', Par] (Admin),
      route ''DELETE'' [Lit ''api'', Lit ''volumes'', Par] (Admin),
      route ''GET'' [Lit ''api'', Lit ''images''] (Admin),
      route ''POST'' [Lit ''api'', Lit ''images'', Lit ''build''] (Admin),
      route ''GET'' [Lit ''api'', Lit ''projects'', Par, Lit ''networks''] (OnProject ''view''),
      route ''GET'' [Lit ''api'', Lit ''projects'', Par, Lit ''networks'', Par] (OnProject ''view''),
      route ''GET'' [Lit ''api'', Lit ''projects'', Par, Lit ''volumes''] (OnProject ''view''),
      route ''GET'' [Lit ''api'', Lit ''projects'', Par, Lit ''volumes'', Par] (OnProject ''view''),
      route ''GET'' [Lit ''api'', Lit ''projects'', Par, Lit ''images''] (OnProject ''view''),
      route ''DELETE'' [Lit ''api'', Lit ''images'', Par] (Admin),
      route ''GET'' [Lit ''api'', Lit ''projects'', Par, Lit ''containers'', Par, Lit ''inspect''] (OnProject ''view''),
      route ''GET'' [Lit ''api'', Lit ''projects'', Par, Lit ''updates''] (OnProject ''view''),
      route ''GET'' [Lit ''api'', Lit ''users''] (Admin),
      route ''POST'' [Lit ''api'', Lit ''users''] (Admin),
      route ''PATCH'' [Lit ''api'', Lit ''users'', Par] (Admin),
      route ''DELETE'' [Lit ''api'', Lit ''users'', Par] (Admin),
      route ''GET'' [Lit ''api'', Lit ''roles''] (Admin),
      route ''POST'' [Lit ''api'', Lit ''roles''] (Admin),
      route ''PUT'' [Lit ''api'', Lit ''roles'', Par] (Admin),
      route ''DELETE'' [Lit ''api'', Lit ''roles'', Par] (Admin),
      route ''GET'' [Lit ''api'', Lit ''registries''] (Global ''view_registries''),
      route ''POST'' [Lit ''api'', Lit ''registries''] (Global ''manage_registries''),
      route ''PUT'' [Lit ''api'', Lit ''registries'', Par] (Global ''manage_registries''),
      route ''DELETE'' [Lit ''api'', Lit ''registries'', Par] (Global ''manage_registries''),
      route ''POST'' [Lit ''api'', Lit ''registries'', Par, Lit ''test''] (Global ''manage_registries''),
      route ''GET'' [Lit ''api'', Lit ''registries'', Par, Lit ''repositories''] (Global ''view_registries''),
      route ''GET'' [Lit ''api'', Lit ''registries'', Par, Lit ''repositories'', Star] (Global ''view_registries''),
      route ''GET'' [Lit ''api'', Lit ''images'', Lit ''tags''] (SignedIn),
      route ''PATCH'' [Lit ''api'', Lit ''projects'', Par, Lit ''config''] (OnProject ''manage''),
      route ''GET'' [Lit ''api'', Lit ''containers''] (Admin),
      route ''POST'' [Lit ''api'', Lit ''containers''] (Admin),
      route ''DELETE'' [Lit ''api'', Lit ''containers'', Par] (Admin),
      route ''GET'' [Lit ''api'', Lit ''secrets''] (Global ''view_secrets''),
      route ''POST'' [Lit ''api'', Lit ''secrets''] (Global ''manage_secrets''),
      route ''PUT'' [Lit ''api'', Lit ''secrets'', Par] (Global ''manage_secrets''),
      route ''DELETE'' [Lit ''api'', Lit ''secrets'', Par] (Global ''manage_secrets''),
      route ''POST'' [Lit ''api'', Lit ''secrets'', Par, Lit ''reveal''] (Global ''manage_secrets''),
      route ''GET'' [Lit ''api'', Lit ''projects'', Par, Lit ''secrets''] (OnProject ''manage''),
      route ''PUT'' [Lit ''api'', Lit ''projects'', Par, Lit ''secrets''] (OnProject ''manage''),
      route ''GET'' [Lit ''api'', Lit ''projects'', Par, Lit ''webhooks''] (OnProject ''manage''),
      route ''POST'' [Lit ''api'', Lit ''projects'', Par, Lit ''webhooks''] (OnProject ''manage''),
      route ''DELETE'' [Lit ''api'', Lit ''projects'', Par, Lit ''webhooks'', Par] (OnProject ''manage''),
      route ''POST'' [Lit ''api'', Lit ''projects'', Par, Lit ''containers'', Par, Lit ''webhooks''] (OnProject ''manage''),
      route ''GET'' [Lit ''api'', Lit ''notifications'', Lit ''channels''] (Global ''view_notifications''),
      route ''POST'' [Lit ''api'', Lit ''notifications'', Lit ''channels''] (Global ''manage_notifications''),
      route ''PUT'' [Lit ''api'', Lit ''notifications'', Lit ''channels'', Par] (Global ''manage_notifications''),
      route ''DELETE'' [Lit ''api'', Lit ''notifications'', Lit ''channels'', Par] (Global ''manage_notifications''),
      route ''POST'' [Lit ''api'', Lit ''notifications'', Lit ''channels'', Par, Lit ''test''] (Global ''manage_notifications''),
      route ''POST'' [Lit ''api'', Lit ''notifications'', Lit ''channels'', Par, Lit ''rules''] (Global ''manage_notifications''),
      route ''PUT'' [Lit ''api'', Lit ''notifications'', Lit ''rules'', Par] (Global ''manage_notifications''),
      route ''DELETE'' [Lit ''api'', Lit ''notifications'', Lit ''rules'', Par] (Global ''manage_notifications''),
      route ''GET'' [Lit ''api'', Lit ''backup''] (Global ''manage_backups''),
      route ''POST'' [Lit ''api'', Lit ''restore''] (Global ''manage_backups''),
      route ''GET'' [Lit ''api'', Lit ''cron'', Lit ''users''] (Global ''view_cron''),
      route ''POST'' [Lit ''api'', Lit ''cron'', Lit ''validate''] (Global ''manage_cron''),
      route ''GET'' [Lit ''api'', Lit ''cron'', Par] (Global ''view_cron''),
      route ''PUT'' [Lit ''api'', Lit ''cron'', Par, Lit ''raw''] (Global ''manage_cron''),
      route ''PUT'' [Lit ''api'', Lit ''cron'', Par, Lit ''entries''] (Global ''manage_cron''),
      route ''GET'' [Lit ''api'', Lit ''system'', Lit ''version''] (SignedIn),
      route ''GET'' [Lit ''api'', Lit ''system'', Lit ''update'', Lit ''status''] (SignedIn),
      route ''GET'' [Lit ''api'', Lit ''system'', Lit ''update'', Lit ''check''] (Global ''manage_updates''),
      route ''GET'' [Lit ''api'', Lit ''system'', Lit ''config''] (Admin),
      route ''PUT'' [Lit ''api'', Lit ''system'', Lit ''config''] (Admin)]"

subsection \<open>Matching\<close>

fun matches_pattern :: "pattern_seg list \<Rightarrow> string list \<Rightarrow> bool" where
  "matches_pattern [] ss = (ss = [])"
| "matches_pattern (Lit l # ps) ss = (case ss of s # rest \<Rightarrow> s = l \<and> matches_pattern ps rest | [] \<Rightarrow> False)"
| "matches_pattern (Par # ps) ss = (case ss of s # rest \<Rightarrow> s \<noteq> [] \<and> matches_pattern ps rest | [] \<Rightarrow> False)"
| "matches_pattern (Star # ps) ss = (ss \<noteq> [])"

text \<open>The segments of a request path: up to the query, without the leading slash.\<close>

definition path_segments :: "string \<Rightarrow> string list" where
  "path_segments path = tl (js_split (CHR ''/'') (takeWhile (\<lambda>c. c \<noteq> CHR ''?'') path))"

definition served_by :: "api_call \<Rightarrow> route \<Rightarrow> bool" where
  "served_by c r =
     (route_method r = call_method c \<and> matches_pattern (route_pattern r) (path_segments (call_path c)))"

definition served :: "api_call \<Rightarrow> bool" where
  "served c = list_ex (served_by c) api_routes"

subsection \<open>What a path parameter may hold\<close>

text \<open>A segment the URL keeps as it is: not empty, no separator, and not one of the two dot segments
  the browser resolves. A parameter the client encodes only has to avoid the empty and the dot
  segments.\<close>

definition not_dots :: "string \<Rightarrow> bool" where
  "not_dots s = (s \<noteq> [] \<and> s \<noteq> ''.'' \<and> s \<noteq> ''..'')"

definition segment_ok :: "string \<Rightarrow> bool" where
  "segment_ok s = (not_dots s \<and> CHR ''/'' \<notin> set s \<and> CHR ''?'' \<notin> set s \<and> CHR ''#'' \<notin> set s)"

lemma until_query_append [simp]:
  "CHR ''?'' \<notin> set s \<Longrightarrow> takeWhile (\<lambda>c. c \<noteq> CHR ''?'') (s @ t) = s @ takeWhile (\<lambda>c. c \<noteq> CHR ''?'') t"
  by (intro takeWhile_append2) auto

lemma until_query_all [simp]: "CHR ''?'' \<notin> set s \<Longrightarrow> takeWhile (\<lambda>c. c \<noteq> CHR ''?'') s = s"
  by (intro takeWhile_eq_all_conv [THEN iffD2]) auto

lemma reserved_not_encoded: "c \<in> {CHR ''/'', CHR ''?'', CHR ''#''} \<Longrightarrow> c \<notin> set (encodeURIComponent s)"
  by (auto dest!: encode_safe simp: uri_unreserved_def is_alnum_def)

lemma encoded_plain [simp]:
  "CHR ''/'' \<notin> set (encodeURIComponent s)" "CHR ''?'' \<notin> set (encodeURIComponent s)"
  "CHR ''#'' \<notin> set (encodeURIComponent s)"
  by (rule reserved_not_encoded, simp)+

lemma encode_eq_Nil [simp]: "encodeURIComponent s = [] \<longleftrightarrow> s = []"
  using encode_nonempty [of s] by (cases "s = []") (auto simp: encodeURIComponent_def)

lemma digits_plain: "list_all is_digit s \<Longrightarrow> c \<in> {CHR ''/'', CHR ''?''} \<Longrightarrow> c \<notin> set s"
  by (auto simp: list_all_iff is_digit_def)

lemma nat_str_plain [simp]: "CHR ''/'' \<notin> set (nat_str n)" "CHR ''?'' \<notin> set (nat_str n)"
  by (rule digits_plain [OF nat_str_digits], simp)+

lemma segment_ok_simps:
  "segment_ok s \<Longrightarrow> s \<noteq> []" "segment_ok s \<Longrightarrow> CHR ''/'' \<notin> set s" "segment_ok s \<Longrightarrow> CHR ''?'' \<notin> set s"
  by (auto simp: segment_ok_def not_dots_def)

subsection \<open>Every call is served\<close>

definition project_calls :: "string \<Rightarrow> string \<Rightarrow> string \<Rightarrow> string \<Rightarrow> nat \<Rightarrow> project_form \<Rightarrow> js \<Rightarrow> api_call list" where
  "project_calls name cid file vol n form data =
     [listProjects, startProject name, stopProject name, restartProject name, deleteProject name,
      createProject form, updateProject name form, getProject name, listProjectFiles name,
      upsertProjectFile name file file, deleteProjectFile name file,
      containerAction name cid StartContainer, containerAction name cid StopContainer,
      containerAction name cid RestartContainer, checkProjectUpdates name,
      listProjectNetworks name, getProjectNetwork name cid, listProjectVolumes name,
      getProjectVolume name vol, listProjectImages name, inspectContainer name cid,
      listWebhooks name, createProjectWebhook name, createServiceWebhook name cid,
      deleteWebhook name n, patchProjectConfig name data, listProjectSecrets name,
      setProjectSecrets name [(n, file)]]"

definition docker_calls :: "string \<Rightarrow> string \<Rightarrow> bool \<Rightarrow> js \<Rightarrow> api_call list" where
  "docker_calls cid vol force data =
     [listAllNetworks, getNetwork cid, createNetwork data, deleteNetwork cid, connectContainer cid cid,
      disconnectContainer cid cid force, listAllVolumes, getVolume vol, createVolume data,
      deleteVolume vol force, listAllImages, deleteImage cid force, startImageBuild data,
      listContainers force, createContainer data, removeContainer cid]"

definition system_calls :: "string \<Rightarrow> string \<Rightarrow> string \<Rightarrow> js \<Rightarrow> api_call list" where
  "system_calls user path text data =
     [login user text, logout, getVersion, getUpdateStatus, checkUpdate, getConfig, updateConfig data,
      listFiles path, getFileContent path, updateFile path text, deleteFile path]"

definition account_calls :: "string \<Rightarrow> string \<Rightarrow> nat \<Rightarrow> js \<Rightarrow> cron_entry list \<Rightarrow> api_call list" where
  "account_calls user text n data entries =
     [getUsers, createUser data, updateUser n data, deleteUser n,
      getRoles, createRole data, updateRole n data, deleteRole n,
      listSecrets, createSecret data, updateSecret n data, deleteSecret n, revealSecret n,
      listCronUsers, getCrontab user, saveCrontabRaw user text, saveCrontabEntries user entries,
      validateCronExpression text n]"

definition service_calls :: "string \<Rightarrow> string \<Rightarrow> string \<Rightarrow> nat \<Rightarrow> js \<Rightarrow> api_call list" where
  "service_calls path text repo n data =
     [listRegistries, createRegistry data, updateRegistry n data, deleteRegistry n, testRegistry n,
      listRepositories n, listRepoTags n repo, searchImageTags text (Some path) (Some n),
      listChannels, createChannel data, updateChannel n data, deleteChannel n, testChannel n,
      createRule n data, updateRule n data, deleteRule n]"

lemmas call_defs =
  api_get_def api_post_def api_put_def api_patch_def api_delete_def seg_def id_seg_def
  project_path_def cron_path_def registry_path_def channels_path_def force_query_def
  path_segments_def served_by_def served_def api_routes_def route_def

text \<open>
  Each route of the table, in its order, with the calls that go to it (those the pages make without \<open>api/\<close>
  are written out).
\<close>

definition table_calls ::
  "string \<Rightarrow> string \<Rightarrow> string \<Rightarrow> string \<Rightarrow> string \<Rightarrow> string \<Rightarrow> string \<Rightarrow> string \<Rightarrow> string \<Rightarrow> nat \<Rightarrow> bool \<Rightarrow> project_form \<Rightarrow> js \<Rightarrow>
   cron_entry list \<Rightarrow> api_call list list" where
  "table_calls who name cid file vol user path text repo n force form data entries =
     [[], [], [login who text], [logout], [], [api_get ''/api/metrics''],
      [api_get (''/api/metrics/history?range='' @ text)], [api_get ''/api/system/info''], [listProjects],
      [createProject form], [getProject name], [updateProject name form], [deleteProject name],
      [startProject name], [stopProject name], [restartProject name],
      [containerAction name cid StartContainer, containerAction name cid StopContainer, containerAction name cid RestartContainer],
      [listProjectFiles name], [upsertProjectFile name file file], [deleteProjectFile name file],
      [listFiles path], [getFileContent path], [updateFile path text], [deleteFile path], [],
      [api_get (''/api/audit?limit=50&offset='' @ nat_str n)],
      [api_get (''/api/projects/'' @ name @ ''/containers/'' @ cid @ ''/files?path='' @ encodeURIComponent path)],
      [], [listAllNetworks], [createNetwork data], [getNetwork cid], [deleteNetwork cid],
      [connectContainer cid cid], [disconnectContainer cid cid force], [listAllVolumes], [createVolume data],
      [getVolume vol], [deleteVolume vol force], [listAllImages], [startImageBuild data],
      [listProjectNetworks name], [getProjectNetwork name cid], [listProjectVolumes name],
      [getProjectVolume name vol], [listProjectImages name], [deleteImage cid force],
      [inspectContainer name cid], [checkProjectUpdates name], [getUsers], [createUser data],
      [updateUser n data], [deleteUser n], [getRoles], [createRole data], [updateRole n data], [deleteRole n],
      [listRegistries], [createRegistry data], [updateRegistry n data], [deleteRegistry n], [testRegistry n],
      [listRepositories n], [listRepoTags n repo], [searchImageTags text (Some path) (Some n)],
      [patchProjectConfig name data], [listContainers force], [createContainer data], [removeContainer cid],
      [listSecrets], [createSecret data], [updateSecret n data], [deleteSecret n], [revealSecret n],
      [listProjectSecrets name], [setProjectSecrets name [(n, file)]], [listWebhooks name],
      [createProjectWebhook name], [deleteWebhook name n], [createServiceWebhook name cid], [listChannels],
      [createChannel data], [updateChannel n data], [deleteChannel n], [testChannel n], [createRule n data],
      [updateRule n data], [deleteRule n], [], [], [listCronUsers], [validateCronExpression text n],
      [getCrontab user], [saveCrontabRaw user text], [saveCrontabEntries user entries], [getVersion],
      [getUpdateStatus], [checkUpdate], [getConfig], [updateConfig data]]"

lemma table_calls_routed:
  assumes "segment_ok name" and "segment_ok cid" and "not_dots file" and "not_dots vol" and "not_dots user"
    and "CHR ''?'' \<notin> set repo"
  shows "list_all2 (\<lambda>cs r. list_all (\<lambda>c. served_by c r) cs)
    (table_calls who name cid file vol user path text repo n force form data entries) api_routes"
  using assms
  by (simp add: table_calls_def call_defs segment_ok_simps not_dots_def action_str_def
        listProjects_def startProject_def stopProject_def restartProject_def deleteProject_def
        createProject_def updateProject_def getProject_def listProjectFiles_def upsertProjectFile_def
        deleteProjectFile_def containerAction_def checkProjectUpdates_def listProjectNetworks_def
        getProjectNetwork_def listProjectVolumes_def getProjectVolume_def listProjectImages_def
        inspectContainer_def listWebhooks_def createProjectWebhook_def createServiceWebhook_def
        deleteWebhook_def patchProjectConfig_def listProjectSecrets_def setProjectSecrets_def
        listAllNetworks_def getNetwork_def createNetwork_def deleteNetwork_def connectContainer_def
        disconnectContainer_def listAllVolumes_def getVolume_def createVolume_def deleteVolume_def
        listAllImages_def deleteImage_def startImageBuild_def listContainers_def createContainer_def
        removeContainer_def login_def logout_def getVersion_def getUpdateStatus_def checkUpdate_def getConfig_def
        updateConfig_def listFiles_def getFileContent_def updateFile_def deleteFile_def
        getUsers_def createUser_def updateUser_def deleteUser_def getRoles_def createRole_def
        updateRole_def deleteRole_def listSecrets_def createSecret_def updateSecret_def
        deleteSecret_def revealSecret_def listCronUsers_def getCrontab_def saveCrontabRaw_def
        saveCrontabEntries_def validateCronExpression_def
        listRegistries_def createRegistry_def updateRegistry_def
        deleteRegistry_def testRegistry_def listRepositories_def listRepoTags_def searchImageTags_def
        listChannels_def createChannel_def updateChannel_def deleteChannel_def testChannel_def
        createRule_def updateRule_def deleteRule_def)

lemma all_served_by:
  "list_all2 (\<lambda>cs r. list_all (\<lambda>c. served_by c r) cs) css rs \<Longrightarrow> set rs \<subseteq> set api_routes \<Longrightarrow> list_all served (concat css)"
  by (induction css rs rule: list_all2_induct) (auto simp: served_def list_ex_iff list_all_iff)

lemmas table_calls_served = all_served_by [OF table_calls_routed subset_refl]

lemma project_calls_served:
  assumes "segment_ok name" and "segment_ok cid" and "not_dots file" and "not_dots vol"
  shows "list_all served (project_calls name cid file vol n form data)"
  using table_calls_served [OF assms, of "''root''" "[]" "''root''" path "text" n force form data entries for path "text" force entries]
  by (simp add: project_calls_def table_calls_def not_dots_def)

lemma docker_calls_served:
  assumes "segment_ok cid" and "not_dots vol"
  shows "list_all served (docker_calls cid vol force data)"
  using table_calls_served [of "''p''" cid "''f''" vol "''root''" "[]" "''root''" path "text" n force form data entries for path "text" n form entries] assms
  by (simp add: docker_calls_def table_calls_def segment_ok_def not_dots_def)

lemma system_calls_served: "list_all served (system_calls user path text data)"
  using table_calls_served [of "''p''" "''c''" "''f''" "''v''" "''root''" "[]" user path "text" n force form data entries for n force form entries]
  by (simp add: system_calls_def table_calls_def segment_ok_def not_dots_def)

lemma account_calls_served:
  assumes "not_dots user"
  shows "list_all served (account_calls user text n data entries)"
  using table_calls_served [of "''p''" "''c''" "''f''" "''v''" user "[]" "''root''" path "text" n force form data entries for path force form] assms
  by (simp add: account_calls_def table_calls_def segment_ok_def not_dots_def)

lemma service_calls_served:
  assumes "CHR ''?'' \<notin> set repo"
  shows "list_all served (service_calls path text repo n data)"
  using table_calls_served [of "''p''" "''c''" "''f''" "''v''" "''root''" repo "''root''" path "text" n force form data entries for force form entries] assms
  by (simp add: service_calls_def table_calls_def segment_ok_def not_dots_def)

text \<open>The calls pages make without \<open>api/\<close>.\<close>

lemma page_own_calls_served:
  assumes "segment_ok name" and "segment_ok cid"
  shows "served (api_get ''/api/metrics'')" "served (api_get (''/api/metrics/history?range='' @ text))"
    "served (api_get ''/api/system/info'')" "served (api_get (''/api/audit?limit=50&offset='' @ nat_str n))"
    "served (api_get (''/api/projects/'' @ name @ ''/containers/'' @ cid @ ''/files?path='' @ encodeURIComponent path))"
  using table_calls_served [OF assms, of "''f''" "''v''" "''root''" "[]" "''root''" path "text" n force form data entries for force form data entries]
  by (simp_all add: table_calls_def not_dots_def)

end
