(* ===== verification/Api_Properties.thy ===== *)
theory Api_Properties
  imports Server_Routes
begin

section \<open>What the calls of the client promise\<close>

text \<open>
  Client and server together: every call meets a route, a parameter the client encodes arrives as it
  was, a changing call carries the CSRF token of the cookie, and which right the server asks for when
  a container is stopped.
\<close>



lemma js_split_concat: "js_split c (s @ c # t) = js_split c s @ js_split c t"
proof (induction s)
  case (Cons y ys)
  obtain p ps where "js_split c ys = p # ps" by (cases "js_split c ys") auto
  with Cons show ?case by auto
qed simp


subsection \<open>The CSRF token\<close>

definition other_cookie :: "string \<Rightarrow> bool" where
  "other_cookie c =
     (c \<noteq> [] \<and> visible (hd c) \<and> CHR '';'' \<notin> set c \<and> \<not> js_starts_with c csrf_name)"

lemma other_cookie_no_token: "other_cookie c \<Longrightarrow> csrf_value c = None"
proof -
  assume "other_cookie c"
  then have "strip_prefix csrf_name c = None"
    using strip_prefix_Some [of csrf_name c] by (cases "strip_prefix csrf_name c")
       (auto simp: other_cookie_def js_starts_with_def)
  then show ?thesis by (simp add: csrf_value_def)
qed

lemma strip_prefix_append [simp]: "strip_prefix p (p @ s) = Some s"
  by (induction p) auto

lemma map_filter_first:
  "list_all (\<lambda>x. f x = None) xs \<Longrightarrow> f y = Some v \<Longrightarrow> List.map_filter f (xs @ y # ys) = v # List.map_filter f ys"
  by (induction xs) (auto simp: List.map_filter_simps)

lemma js_split_cookies:
  "cs \<noteq> [] \<Longrightarrow> list_all (\<lambda>c. CHR '';'' \<notin> set c) cs \<Longrightarrow>
     js_split (CHR '';'') (js_join ''; '' cs) = hd cs # map (Cons CHR '' '') (tl cs)"
proof (induction cs)
  case (Cons c cs)
  then show ?case by (cases cs) (auto simp: js_join_Cons)
qed simp

lemma csrf_match_cookie:
  assumes "list_all other_cookie pre" and "list_all (\<lambda>c. CHR '';'' \<notin> set c) post"
    and "v \<noteq> []" and "CHR '';'' \<notin> set v"
  shows "csrf_match (js_join ''; '' (pre @ (csrf_name @ v) # post)) = Some v"
proof -
  let ?cs = "pre @ (csrf_name @ v) # post"
  have pieces: "js_split (CHR '';'') (js_join ''; '' ?cs) = hd ?cs # map (Cons CHR '' '') (tl ?cs)"
    by (rule js_split_cookies)
       (use assms in \<open>auto simp: list_all_iff other_cookie_def csrf_name_def\<close>)
  have name: "js_trim_start (csrf_name @ v) = csrf_name @ v"
    by (rule js_trim_start_visible) (simp_all add: csrf_name_def visible_def)
  have token: "csrf_value (csrf_name @ v) = Some v"
    using assms(3) by (cases v) (simp_all add: csrf_value_def)
  have trim: "map (js_trim_start \<circ> Cons CHR '' '') pre' = pre'" if "list_all other_cookie pre'" for pre'
    using that by (induction pre') (auto simp: js_trim_start_blank js_trim_start_visible other_cookie_def)
  have none: "list_all (\<lambda>c. csrf_value c = None) pre'" if "list_all other_cookie pre'" for pre'
    using that by (auto simp: list_all_iff other_cookie_no_token)
  show ?thesis
  proof (cases pre)
    case Nil
    with pieces have "js_split (CHR '';'') (js_join ''; '' ((csrf_name @ v) # post)) =
        (csrf_name @ v) # map (Cons CHR '' '') post" by simp
    with token Nil show ?thesis
      by (simp add: csrf_match_def Let_def List.map_filter_simps)
  next
    case (Cons p ps)
    with assms(1) have ok: "other_cookie p" "list_all other_cookie ps" by auto
    have "List.map_filter csrf_value (ps @ (csrf_name @ v) # map (js_trim_start \<circ> Cons CHR '' '') post) =
        v # List.map_filter csrf_value (map (js_trim_start \<circ> Cons CHR '' '') post)"
      using none [OF ok(2)] token by (rule map_filter_first)
    moreover have "js_split (CHR '';'') (js_join ''; '' (p # ps @ (csrf_name @ v) # post)) =
        p # map (Cons CHR '' '') (ps @ (csrf_name @ v) # post)"
      using pieces Cons by simp
    ultimately show ?thesis
      using ok by (simp add: csrf_match_def Let_def Cons trim name js_trim_start_blank
          other_cookie_no_token List.map_filter_simps)
  qed
qed



subsection \<open>Rights\<close>

text \<open>Every route that serves the stopping of a container asks only for the right to start
  containers of the project, while stopping the whole project asks for the right to stop it.\<close>

theorem container_stop_right:
  assumes "segment_ok name" and "segment_ok cid"
  shows "list_all (\<lambda>r. served_by (containerAction name cid StopContainer) r \<longrightarrow> route_access r = OnProject ''start'')
           api_routes
       \<and> list_all (\<lambda>r. served_by (stopProject name) r \<longrightarrow> route_access r = OnProject ''stop'') api_routes"
proof -
  have "path_segments (call_path (containerAction name cid StopContainer)) =
      [''api'', ''projects'', name, ''containers'', cid, ''stop'']"
    and "path_segments (call_path (stopProject name)) = [''api'', ''projects'', name, ''stop'']"
    using assms by (simp_all add: containerAction_def stopProject_def api_post_def path_segments_def
        project_path_def seg_def action_str_def segment_ok_simps)
  moreover have "call_method (containerAction name cid StopContainer) = ''POST''"
      "call_method (stopProject name) = ''POST''"
    by (simp_all add: containerAction_def stopProject_def api_post_def)
  ultimately show ?thesis
    by (simp add: served_by_def api_routes_def route_def)
qed

theorem container_stop_right_witness:
  "list_all (\<lambda>r. served_by (containerAction ''shop'' ''c1'' StopContainer) r \<longrightarrow> route_access r = OnProject ''start'')
     api_routes"
  using container_stop_right [of "''shop''" "''c1''"] by (simp only: segment_ok_def not_dots_def) simp

end
