(* ===== verification/Ui_Widgets.thy ===== *)
theory Ui_Widgets
  imports Js_Values
begin

section \<open>What a component shows and what the user can do\<close>

text \<open>
  A React component is modelled by a state, a step for each of its event handlers and a view: the
  list of controls it renders, in order, each with the event its handler raises. Of the markup a
  view keeps the texts, captions, titles, placeholders, current values, options, \<open>disabled\<close>
  conditions and the conditions under which a control is there at all; styling, icons and tooltips
  are left out. A handler runs on the state of the last render (React renders again before the
  next user event), so a step is a function of the current state.
\<close>

datatype 'e widget =
    Label string
  | Button string bool 'e
  | Input string string "string \<Rightarrow> 'e"
  | Select string "(string \<times> string) list" "string \<Rightarrow> 'e"
  | Checkbox string bool "bool \<Rightarrow> 'e"
  | KeyInput string string "string \<Rightarrow> 'e" "string \<Rightarrow> 'e" "'e option"

text \<open>
  \<^item> \<open>Button caption disabled e\<close>; \<open>Input placeholder value onChange\<close>;
  \<^item> \<open>Select value options onChange\<close>, the options as (value, text);
  \<^item> \<open>Checkbox text checked onChange\<close>;
  \<^item> \<open>KeyInput placeholder value onChange onKeyDown onBlur\<close>.

  The events a user can raise with a control: a disabled button none, a selection only with one
  of its options.
\<close>

fun widget_events :: "'e widget \<Rightarrow> 'e set" where
  "widget_events (Label _) = {}"
| "widget_events (Button _ dis e) = (if dis then {} else {e})"
| "widget_events (Input _ _ f) = range f"
| "widget_events (Select _ os f) = f ` fst ` set os"
| "widget_events (Checkbox _ _ f) = range f"
| "widget_events (KeyInput _ _ f k b) = range f \<union> range k \<union> set_option b"

definition view_events :: "'e widget list \<Rightarrow> 'e set" where
  "view_events ws = (\<Union>w \<in> set ws. widget_events w)"

lemma view_events_simps [simp]:
  "view_events [] = {}"
  "view_events (w # ws) = widget_events w \<union> view_events ws"
  "view_events (xs @ ys) = view_events xs \<union> view_events ys"
  by (auto simp: view_events_def)

lemma view_events_concat [simp]: "view_events (concat wss) = (\<Union>ws \<in> set wss. view_events ws)"
  by (induction wss) auto

lemma view_events_if [simp]:
  "view_events (if c then xs else []) = (if c then view_events xs else {})"
  by simp

lemma view_events_map: "view_events (map f xs) = (\<Union>x \<in> set xs. widget_events (f x))"
  by (auto simp: view_events_def)

text \<open>Two characters of the texts that are not ASCII.\<close>

definition em_dash :: string where
  "em_dash = [CHR 0xE2, CHR 0x80, CHR 0x94]"

definition ellipsis :: string where
  "ellipsis = [CHR 0xE2, CHR 0x80, CHR 0xA6]"

text \<open>A child's controls inside its parent: the events are wrapped.\<close>

definition lift_view :: "('a \<Rightarrow> 'b) \<Rightarrow> 'a widget list \<Rightarrow> 'b widget list" where
  "lift_view f ws = map (map_widget f) ws"

lemma widget_events_map: "widget_events (map_widget f w) = f ` widget_events w"
  by (cases w) (auto simp: image_iff)

lemma view_events_lift [simp]: "view_events (lift_view f ws) = f ` view_events ws"
  by (induction ws) (auto simp: lift_view_def widget_events_map)

subsection \<open>Lists edited by index\<close>

text \<open>\<open>xs.map((x, idx) => idx === i ? f(x) : x)\<close> and \<open>xs.filter((_, idx) => idx !== i)\<close>.\<close>

definition indexed :: "'a list \<Rightarrow> (nat \<times> 'a) list" where
  "indexed xs = zip [0..<length xs] xs"

definition map_at :: "nat \<Rightarrow> ('a \<Rightarrow> 'a) \<Rightarrow> 'a list \<Rightarrow> 'a list" where
  "map_at i f xs = map (\<lambda>(idx, x). if idx = i then f x else x) (indexed xs)"

definition remove_at :: "nat \<Rightarrow> 'a list \<Rightarrow> 'a list" where
  "remove_at i xs = map snd (filter (\<lambda>(idx, x). idx \<noteq> i) (indexed xs))"

lemma length_indexed [simp]: "length (indexed xs) = length xs"
  by (simp add: indexed_def)

lemma set_indexed: "(i, x) \<in> set (indexed xs) \<longleftrightarrow> i < length xs \<and> x = xs ! i"
  by (auto simp: indexed_def set_zip intro!: exI [of _ i])

lemma length_map_at [simp]: "length (map_at i f xs) = length xs"
  by (simp add: map_at_def)

lemma map_at_update: "map_at i f xs = (if i < length xs then xs[i := f (xs ! i)] else xs)"
  by (rule nth_equalityI) (auto simp: map_at_def indexed_def nth_list_update)

lemma nth_map_at: "j < length xs \<Longrightarrow> map_at i f xs ! j = (if j = i then f (xs ! j) else xs ! j)"
  by (simp add: map_at_update nth_list_update)

lemma filter_index_snoc:
  "indexed (xs @ [x]) = indexed xs @ [(length xs, x)]"
  by (simp add: indexed_def)

lemma remove_at_take_drop: "remove_at i xs = take i xs @ drop (Suc i) xs"
proof (induction xs rule: rev_induct)
  case (snoc x xs)
  then show ?case
    by (cases "i \<le> length xs") (auto simp: remove_at_def filter_index_snoc)
qed (simp add: remove_at_def indexed_def)

lemma length_remove_at: "i < length xs \<Longrightarrow> length (remove_at i xs) = length xs - 1"
  by (simp add: remove_at_take_drop)

text \<open>What an index editor promises: a change touches one place and keeps the length, a removal
  takes one element out, an addition appends, and an index past the end changes nothing.\<close>

locale index_editor =
  fixes change :: "nat \<Rightarrow> 'c \<Rightarrow> 'a list \<Rightarrow> 'a list"
    and edit :: "'c \<Rightarrow> 'a \<Rightarrow> 'a"
    and drop_at :: "nat \<Rightarrow> 'a list \<Rightarrow> 'a list"
  assumes change_nth:
      "j < length xs \<Longrightarrow> change i c xs ! j = (if j = i then edit c (xs ! j) else xs ! j)"
    and change_length: "length (change i c xs) = length xs"
    and drop_at_eq: "drop_at i xs = take i xs @ drop (Suc i) xs"
begin

lemma change_out_of_range: "length xs \<le> i \<Longrightarrow> change i c xs = xs"
  by (rule nth_equalityI) (auto simp: change_length change_nth)

lemma change_twice_other: "i \<noteq> j \<Longrightarrow> change i c (change j d xs) = change j d (change i c xs)"
  by (rule nth_equalityI) (auto simp: change_length change_nth)

lemma drop_at_out_of_range: "length xs \<le> i \<Longrightarrow> drop_at i xs = xs"
  by (simp add: drop_at_eq)

lemma drop_added: "drop_at (length xs) (xs @ [x]) = xs"
  by (simp add: drop_at_eq)

lemma drop_changed: "drop_at i (change i c xs) = drop_at i xs"
proof -
  have "take i (change i c xs) = take i xs"
    by (rule nth_equalityI) (auto simp: change_length change_nth)
  moreover have "drop (Suc i) (change i c xs) = drop (Suc i) xs"
    by (rule nth_equalityI) (auto simp: change_length change_nth)
  ultimately show ?thesis by (simp add: drop_at_eq)
qed

end

interpretation mapped: index_editor "\<lambda>i f. map_at i f" "\<lambda>f. f" remove_at
  by unfold_locales (simp_all add: nth_map_at remove_at_take_drop)

end
