(* ===== verification/Builder_Lists.thy ===== *)
theory Builder_Lists
  imports Ui_Widgets Compose_Serialize
begin

section \<open>The list sections of \<open>components/compose/ComposeBuilder.tsx\<close>\<close>

text \<open>
  Ports, environment, volumes, dependencies, key-value pairs and string lists of one service. Each
  section is a component with its own \<open>open\<close> flag; its props are the current lists and the
  callbacks to the service card. A step returns the new local state and the callback it makes, if
  any; a section that would throw while rendering has a view of type \<open>result\<close>.
\<close>

subsection \<open>\<open>SectionHeader\<close> and the row helpers\<close>

definition SectionHeader :: "string \<Rightarrow> nat option \<Rightarrow> 'e \<Rightarrow> 'e widget list" where
  "SectionHeader label count onToggle =
     [Button (label @ (case count of None \<Rightarrow> [] | Some c \<Rightarrow> '' ('' @ nat_str c @ '')'')) False onToggle]"

definition InputRow :: "string \<Rightarrow> string \<Rightarrow> string \<Rightarrow> (string \<Rightarrow> 'e) \<Rightarrow> 'e widget list" where
  "InputRow label value placeholder onChange = [Label label, Input placeholder value onChange]"

definition TextareaRow :: "string \<Rightarrow> string \<Rightarrow> string \<Rightarrow> (string \<Rightarrow> 'e) \<Rightarrow> 'e widget list" where
  "TextareaRow label value placeholder onChange = [Label label, Input placeholder value onChange]"

definition SelectRow ::
  "string \<Rightarrow> string \<Rightarrow> (string \<times> string) list \<Rightarrow> (string \<Rightarrow> 'e) \<Rightarrow> 'e widget list" where
  "SelectRow label value options onChange = [Label label, Select value options onChange]"

definition ToggleRow :: "string \<Rightarrow> bool option \<Rightarrow> (bool \<Rightarrow> 'e) \<Rightarrow> 'e widget list" where
  "ToggleRow label value onChange =
     [Label label, Checkbox (if value = Some True then ''Yes'' else ''No'') (value = Some True) onChange]"

definition str_or :: "string \<Rightarrow> string option \<Rightarrow> string" where
  "str_or d v = (case v of None \<Rightarrow> d | Some s \<Rightarrow> s)"

text \<open>\<open>v || undefined\<close>.\<close>

definition or_undef :: "string \<Rightarrow> string option" where
  "or_undef v = (if v = [] then None else Some v)"

lemma or_undef_simps [simp]: "or_undef [] = None" "s \<noteq> [] \<Longrightarrow> or_undef s = Some s"
  by (simp_all add: or_undef_def)

subsection \<open>\<open>PortsSection\<close>\<close>

datatype port_field = PortIp | PortHost | PortContainer | PortProtocol

datatype ports_event =
    TogglePorts
  | UpdatePort nat port_field string
  | RemovePort nat
  | AddPort
  | RemoveExpose nat
  | AddExpose
  | UpdateExpose nat string

datatype ports_call = OnPorts "port_entry list" | OnExpose "string list"

text \<open>\<open>{ ...p, [field]: val || undefined }\<close>. Spreading what is not an object gives \<open>{}\<close>, so an
  element the parser left untyped becomes a specification with that one field.\<close>

definition blank_port :: port_spec where
  "blank_port = \<lparr>port_ip = None, port_host = None, port_container = None, port_protocol = None\<rparr>"

fun put_port_field :: "port_field \<Rightarrow> string \<Rightarrow> port_spec \<Rightarrow> port_spec" where
  "put_port_field PortIp val p = p\<lparr>port_ip := or_undef val\<rparr>"
| "put_port_field PortHost val p = p\<lparr>port_host := or_undef val\<rparr>"
| "put_port_field PortContainer val p = p\<lparr>port_container := or_undef val\<rparr>"
| "put_port_field PortProtocol val p = p\<lparr>port_protocol := or_undef val\<rparr>"

fun set_port_field :: "port_field \<Rightarrow> string \<Rightarrow> port_entry \<Rightarrow> port_entry" where
  "set_port_field f val (Port p) = Port (put_port_field f val p)"
| "set_port_field f val (PortRaw v) = Port (put_port_field f val blank_port)"

definition new_port :: port_spec where
  "new_port = \<lparr>port_ip = Some ''0.0.0.0'', port_host = Some ''8080'', port_container = Some ''8080'',
               port_protocol = None\<rparr>"

definition ports_open_init :: "port_entry list \<Rightarrow> string list \<Rightarrow> bool" where
  "ports_open_init ports expose = (ports \<noteq> [] \<or> expose \<noteq> [])"

fun ports_step ::
  "port_entry list \<Rightarrow> string list \<Rightarrow> ports_event \<Rightarrow> bool \<Rightarrow> bool \<times> ports_call option" where
  "ports_step ports expose TogglePorts isopen = (\<not> isopen, None)"
| "ports_step ports expose (UpdatePort i field val) isopen =
     (isopen, Some (OnPorts (map_at i (set_port_field field val) ports)))"
| "ports_step ports expose (RemovePort i) isopen = (isopen, Some (OnPorts (remove_at i ports)))"
| "ports_step ports expose AddPort isopen = (isopen, Some (OnPorts (ports @ [Port new_port])))"
| "ports_step ports expose (RemoveExpose i) isopen = (isopen, Some (OnExpose (remove_at i expose)))"
| "ports_step ports expose AddExpose isopen = (isopen, Some (OnExpose (expose @ [''3000''])))"
| "ports_step ports expose (UpdateExpose i val) isopen =
     (isopen, Some (OnExpose (map_at i (\<lambda>_. val) expose)))"

definition IP_PRESETS :: "string list" where
  "IP_PRESETS = [''0.0.0.0'', ''127.0.0.1'']"

definition port_row :: "nat \<Rightarrow> port_spec \<Rightarrow> ports_event widget list" where
  "port_row i p =
     [Select (str_or ''0.0.0.0'' (port_ip p))
        (map (\<lambda>ip. (ip, ip)) IP_PRESETS @
         (case nonempty (port_ip p) of
            Some ip \<Rightarrow> if ip \<notin> set IP_PRESETS then [(ip, ip)] else []
          | None \<Rightarrow> []))
        (UpdatePort i PortIp),
      Input ''host'' (str_or [] (port_host p)) (UpdatePort i PortHost),
      Label '':'',
      Input ''container'' (str_or [] (port_container p)) (UpdatePort i PortContainer),
      Select (str_or ''tcp'' (port_protocol p)) [(''tcp'', ''TCP''), (''udp'', ''UDP'')]
        (UpdatePort i PortProtocol),
      Button ''Remove port'' False (RemovePort i)]"

text \<open>Rendering a row reads \<open>p.ip\<close>, which throws on a \<open>null\<close> element.\<close>

fun port_entry_row :: "nat \<Rightarrow> port_entry \<Rightarrow> ports_event widget list result" where
  "port_entry_row i (Port p) = Inr (port_row i p)"
| "port_entry_row i (PortRaw v) =
     bind_result (js_read v ''ip'') (\<lambda>_. Inr (port_row i blank_port))"

definition expose_row :: "nat \<Rightarrow> string \<Rightarrow> ports_event widget list" where
  "expose_row i p =
     [Input ''3000'' p (UpdateExpose i), Label ''container port'',
      Button ''Remove exposed port'' False (RemoveExpose i)]"

definition PortsSection ::
  "port_entry list \<Rightarrow> string list \<Rightarrow> bool \<Rightarrow> ports_event widget list result" where
  "PortsSection ports expose isopen =
     (let header = SectionHeader ''Ports'' (Some (length ports + length expose)) TogglePorts in
      if \<not> isopen then Inr header
      else bind_result (map_result (\<lambda>(i, p). port_entry_row i p) (indexed ports)) (\<lambda>rows.
        Inr (header @ [Label ''Published''] @ concat rows @
             [Button ''Add published port'' False AddPort, Label ''Exposed (internal only)''] @
             concat (map (\<lambda>(i, p). expose_row i p) (indexed expose)) @
             [Button ''Add exposed port'' False AddExpose])))"

subsection \<open>\<open>EnvSection\<close>\<close>

datatype kv_field = KvKey | KvValue

datatype env_event =
    ToggleEnv
  | UpdateEnv string kv_field string
  | RemoveEnv string
  | AddEnv
  | StartPick nat
  | PickVariable string string
  | StopPick

record env_state =
  env_open :: bool
  env_pickingRow :: "nat option"

definition env_init :: "string obj \<Rightarrow> env_state" where
  "env_init env = \<lparr>env_open = (env \<noteq> []), env_pickingRow = None\<rparr>"

text \<open>\<open>update\<close> rebuilds the dictionary entry by entry; \<open>text\<close> makes a value of what was typed.\<close>

definition kv_update :: "(string \<Rightarrow> 'v) \<Rightarrow> string \<Rightarrow> kv_field \<Rightarrow> string \<Rightarrow> 'v obj \<Rightarrow> 'v obj" where
  "kv_update text oldKey field val entries =
     obj_assign_all
       (map (\<lambda>(k, v). if k = oldKey then
                        (case field of KvKey \<Rightarrow> (val, v) | KvValue \<Rightarrow> (k, text val))
                      else (k, v)) entries) []"

fun env_step :: "string obj \<Rightarrow> env_event \<Rightarrow> env_state \<Rightarrow> env_state \<times> string obj option" where
  "env_step env ToggleEnv s = (s\<lparr>env_open := \<not> env_open s\<rparr>, None)"
| "env_step env (UpdateEnv k field val) s = (s, Some (kv_update id k field val env))"
| "env_step env (RemoveEnv k) s = (s, Some (obj_delete k env))"
| "env_step env AddEnv s = (s, Some (obj_set [] [] env))"
| "env_step env (StartPick i) s = (s\<lparr>env_pickingRow := Some i\<rparr>, None)"
| "env_step env (PickVariable k name) s =
     (s\<lparr>env_pickingRow := None\<rparr>,
      if name \<noteq> [] then Some (kv_update id k KvValue (''${'' @ name @ ''}'') env) else None)"
| "env_step env StopPick s = (s\<lparr>env_pickingRow := None\<rparr>, None)"

definition env_row ::
  "string obj option \<Rightarrow> env_state \<Rightarrow> nat \<Rightarrow> string \<times> string \<Rightarrow> env_event widget list" where
  "env_row projectEnvVars s i kv =
     (case kv of (k, v) \<Rightarrow>
       [Input ''KEY'' k (UpdateEnv k KvKey), Label ''='',
        (if env_pickingRow s = Some i then
           Select [] (([], em_dash @ '' pick a variable '' @ em_dash) #
                      map (\<lambda>n. (n, n)) (obj_keys (list_of_opt projectEnvVars))) (PickVariable k)
         else Input ''value'' v (UpdateEnv k KvValue))] @
       (if list_of_opt projectEnvVars \<noteq> [] \<and> env_pickingRow s \<noteq> Some i
        then [Button ''Pick project variable'' False (StartPick i)] else []) @
       [Button ''Remove'' False (RemoveEnv k)])"

definition EnvSection :: "string obj \<Rightarrow> string obj option \<Rightarrow> env_state \<Rightarrow> env_event widget list" where
  "EnvSection env projectEnvVars s =
     SectionHeader ''Environment'' (Some (length env)) ToggleEnv @
     (if env_open s then
        concat (map (\<lambda>(i, kv). env_row projectEnvVars s i kv) (indexed env)) @
        [Button ''Add variable'' False AddEnv]
      else [])"

subsection \<open>\<open>VolumesSection\<close>\<close>

datatype volume_edit = VolSource string | VolTarget string | VolReadOnly bool

datatype volumes_event = ToggleVolumes | UpdateVolume nat volume_edit | RemoveVolume nat | AddVolume

text \<open>\<open>{ ...v, [field]: val }\<close>, on a mount the parser read and on an untyped element.\<close>

fun set_volume_field :: "volume_edit \<Rightarrow> volume_entry \<Rightarrow> volume_entry" where
  "set_volume_field (VolSource s) (Volume v) = Volume (v\<lparr>vol_source := s\<rparr>)"
| "set_volume_field (VolTarget s) (Volume v) = Volume (v\<lparr>vol_target := s\<rparr>)"
| "set_volume_field (VolReadOnly b) (Volume v) = Volume (v\<lparr>vol_readOnly := Some b\<rparr>)"
| "set_volume_field (VolSource s) (VolumeRaw v) =
     VolumeRaw (JObj (obj_set ''source'' (JStr s) (js_entries v)))"
| "set_volume_field (VolTarget s) (VolumeRaw v) =
     VolumeRaw (JObj (obj_set ''target'' (JStr s) (js_entries v)))"
| "set_volume_field (VolReadOnly b) (VolumeRaw v) =
     VolumeRaw (JObj (obj_set ''readOnly'' (JBool b) (js_entries v)))"

definition new_volume :: volume_mount where
  "new_volume = \<lparr>vol_source = [], vol_target = ''/data'', vol_readOnly = None\<rparr>"

definition volumes_open_init :: "volume_entry list \<Rightarrow> bool" where
  "volumes_open_init volumes = (volumes \<noteq> [])"

fun volumes_step ::
  "volume_entry list \<Rightarrow> volumes_event \<Rightarrow> bool \<Rightarrow> bool \<times> volume_entry list option" where
  "volumes_step volumes ToggleVolumes isopen = (\<not> isopen, None)"
| "volumes_step volumes (UpdateVolume i ed) isopen = (isopen, Some (map_at i (set_volume_field ed) volumes))"
| "volumes_step volumes (RemoveVolume i) isopen = (isopen, Some (remove_at i volumes))"
| "volumes_step volumes AddVolume isopen = (isopen, Some (volumes @ [Volume new_volume]))"

definition volume_row :: "nat \<Rightarrow> string \<Rightarrow> string \<Rightarrow> bool \<Rightarrow> volumes_event widget list" where
  "volume_row i source target ro =
     [Input ''source (volume or path)'' source (\<lambda>x. UpdateVolume i (VolSource x)), Label '':'',
      Input ''/container/path'' target (\<lambda>x. UpdateVolume i (VolTarget x)),
      Checkbox ''ro'' ro (\<lambda>b. UpdateVolume i (VolReadOnly b)),
      Button ''Remove'' False (RemoveVolume i)]"

text \<open>An input whose value is \<open>undefined\<close> or \<open>null\<close> shows nothing.\<close>

definition input_text :: "js \<Rightarrow> string" where
  "input_text v = (if nullish v then [] else js_string v)"

fun volume_entry_row :: "nat \<Rightarrow> volume_entry \<Rightarrow> volumes_event widget list result" where
  "volume_entry_row i (Volume v) =
     Inr (volume_row i (vol_source v) (vol_target v) (vol_readOnly v = Some True))"
| "volume_entry_row i (VolumeRaw v) =
     bind_result (js_read v ''source'') (\<lambda>src.
       Inr (volume_row i (input_text src) (input_text (js_prop v ''target''))
              (js_truthy (js_prop v ''readOnly''))))"

definition VolumesSection :: "volume_entry list \<Rightarrow> bool \<Rightarrow> volumes_event widget list result" where
  "VolumesSection volumes isopen =
     (let header = SectionHeader ''Volumes'' (Some (length volumes)) ToggleVolumes in
      if \<not> isopen then Inr header
      else bind_result (map_result (\<lambda>(i, v). volume_entry_row i v) (indexed volumes)) (\<lambda>rows.
        Inr (header @ concat rows @ [Button ''Add volume'' False AddVolume])))"

subsection \<open>\<open>DependsOnSection\<close>\<close>

datatype deps_event = ToggleDeps | SetCondition nat string | RemoveDep nat | AddDep string

definition deps_open_init :: "depends_on_entry list \<Rightarrow> bool" where
  "deps_open_init deps = (deps \<noteq> [])"

fun deps_step ::
  "depends_on_entry list \<Rightarrow> deps_event \<Rightarrow> bool \<Rightarrow> bool \<times> depends_on_entry list option" where
  "deps_step deps ToggleDeps isopen = (\<not> isopen, None)"
| "deps_step deps (SetCondition i c) isopen =
     (isopen, Some (map_at i (\<lambda>d. d\<lparr>dep_condition := JStr c\<rparr>) deps))"
| "deps_step deps (RemoveDep i) isopen = (isopen, Some (remove_at i deps))"
| "deps_step deps (AddDep s) isopen =
     (isopen, if s \<noteq> [] then
                Some (deps @ [\<lparr>dep_service = s, dep_condition = JStr ''service_started''\<rparr>])
              else None)"

definition available_deps :: "depends_on_entry list \<Rightarrow> string list \<Rightarrow> string list" where
  "available_deps deps allServices = filter (\<lambda>s. s \<notin> dep_service ` set deps) allServices"

definition DependsOnSection ::
  "depends_on_entry list \<Rightarrow> string list \<Rightarrow> bool \<Rightarrow> deps_event widget list" where
  "DependsOnSection deps allServices isopen =
     (let available = available_deps deps allServices in
      SectionHeader ''Depends on'' (Some (length deps)) ToggleDeps @
      (if isopen then
         concat (map (\<lambda>(i, d).
           [Label (dep_service d),
            Select (if nullish (dep_condition d) then ''service_started'' else js_string (dep_condition d))
              [(''service_started'', ''started''), (''service_healthy'', ''healthy''),
               (''service_completed_successfully'', ''completed'')] (SetCondition i),
            Button ''Remove dependency'' False (RemoveDep i)]) (indexed deps)) @
         (if available \<noteq> [] then
            [Select [] (([], ''+ Add dependency'' @ ellipsis) # map (\<lambda>s. (s, s)) available) AddDep]
          else [])
       else []))"

subsection \<open>\<open>KVSection\<close>\<close>

datatype kv_event = ToggleKv | UpdateKv string kv_field string | RemoveKv string | AddKv

definition kv_open_init :: "'v obj \<Rightarrow> bool" where
  "kv_open_init data = (data \<noteq> [])"

fun kv_step :: "js obj \<Rightarrow> kv_event \<Rightarrow> bool \<Rightarrow> bool \<times> js obj option" where
  "kv_step data ToggleKv isopen = (\<not> isopen, None)"
| "kv_step data (UpdateKv k field val) isopen = (isopen, Some (kv_update JStr k field val data))"
| "kv_step data (RemoveKv k) isopen = (isopen, Some (obj_delete k data))"
| "kv_step data AddKv isopen = (isopen, Some (obj_set [] (JStr []) data))"

definition KVSection ::
  "string \<Rightarrow> js obj \<Rightarrow> string \<Rightarrow> string \<Rightarrow> bool \<Rightarrow> kv_event widget list" where
  "KVSection sectionLabel data keyPlaceholder valuePlaceholder isopen =
     SectionHeader sectionLabel (Some (length data)) ToggleKv @
     (if isopen then
        concat (map (\<lambda>(k, v).
          [Input keyPlaceholder k (UpdateKv k KvKey), Label ''='',
           Input valuePlaceholder (input_text v) (UpdateKv k KvValue),
           Button ''Remove'' False (RemoveKv k)]) data) @
        [Button ''Add'' False AddKv]
      else [])"

subsection \<open>\<open>StrListSection\<close>\<close>

datatype strlist_event = ToggleList | UpdateItem nat string | RemoveItem nat | AddItem

definition strlist_open_init :: "string list \<Rightarrow> bool" where
  "strlist_open_init items = (items \<noteq> [])"

fun strlist_step :: "string list \<Rightarrow> strlist_event \<Rightarrow> bool \<Rightarrow> bool \<times> string list option" where
  "strlist_step items ToggleList isopen = (\<not> isopen, None)"
| "strlist_step items (UpdateItem i val) isopen = (isopen, Some (map_at i (\<lambda>_. val) items))"
| "strlist_step items (RemoveItem i) isopen = (isopen, Some (remove_at i items))"
| "strlist_step items AddItem isopen = (isopen, Some (items @ [[]]))"

definition StrListSection ::
  "string \<Rightarrow> string list \<Rightarrow> string \<Rightarrow> bool \<Rightarrow> strlist_event widget list" where
  "StrListSection label items placeholder isopen =
     SectionHeader label (Some (length items)) ToggleList @
     (if isopen then
        concat (map (\<lambda>(i, item).
          [Input placeholder item (UpdateItem i), Button ''Remove'' False (RemoveItem i)]) (indexed items)) @
        [Button ''Add'' False AddItem]
      else [])"

subsection \<open>Editing by index\<close>

text \<open>The sections that edit a list by index meet the contract \<open>index_editor\<close>.\<close>

interpretation port_list: index_editor
    "\<lambda>i (f, val) ports. map_at i (set_port_field f val) ports"
    "\<lambda>(f, val). set_port_field f val" remove_at
  by unfold_locales (auto simp: nth_map_at remove_at_take_drop)

interpretation volume_list: index_editor
    "\<lambda>i ed volumes. map_at i (set_volume_field ed) volumes" set_volume_field remove_at
  by unfold_locales (auto simp: nth_map_at remove_at_take_drop)

end
