(* ===== verification/Image_Field.thy ===== *)
theory Image_Field
  imports Builder_Lists Api_Routes
begin

section \<open>The image input: \<open>ImageField\<close> of \<open>components/compose/ComposeBuilder.tsx\<close>\<close>

text \<open>
  An image reference split into a registry prefix and the rest, with a list of tags fetched while
  the user types behind a colon. The events are those of the user, the expiry of the debounce timer
  and the two ways the fetch can end; what the handlers ask of the outside (the new value for the
  parent, a fetch) is returned beside the state. The timer keeps the registry prefix and the
  registry of the render in which it was set, as its closure does.
\<close>

record image_ref =
  ref_prefix :: string
  ref_rest :: string

definition parseImageRef :: "string \<Rightarrow> image_ref" where
  "parseImageRef value1 =
     (case js_index_of value1 (CHR ''/'') of
        Some slash \<Rightarrow>
          (let first = take slash value1 in
           if 0 < slash \<and> (js_includes first (CHR ''.'') \<or> js_includes first (CHR '':'') \<or> first = ''localhost'')
           then \<lparr>ref_prefix = first @ ''/'', ref_rest = drop (Suc slash) value1\<rparr>
           else \<lparr>ref_prefix = [], ref_rest = value1\<rparr>)
      | None \<Rightarrow> \<lparr>ref_prefix = [], ref_rest = value1\<rparr>)"

text \<open>\<open>imageName\<close>: the rest up to its first colon.\<close>

definition image_name :: "image_ref \<Rightarrow> string" where
  "image_name p =
     (case js_index_of (ref_rest p) (CHR '':'') of Some i \<Rightarrow> take i (ref_rest p) | None \<Rightarrow> ref_rest p)"

definition drop_slash :: "string \<Rightarrow> string" where
  "drop_slash s = (if s \<noteq> [] \<and> last s = CHR ''/'' then butlast s else s)"

definition drop_scheme :: "string \<Rightarrow> string" where
  "drop_scheme s =
     (case strip_prefix ''https://'' s of Some r \<Rightarrow> r | None \<Rightarrow>
        (case strip_prefix ''http://'' s of Some r \<Rightarrow> r | None \<Rightarrow> s))"

definition matchedRegistry :: "registry list \<Rightarrow> image_ref \<Rightarrow> registry option" where
  "matchedRegistry registries p =
     (if ref_prefix p = [] then None
      else List.find (\<lambda>r. drop_slash (drop_scheme (reg_url r)) = drop_slash (ref_prefix p)) registries)"

subsection \<open>State and handlers\<close>

record tag_fetch =
  fetch_image :: string
  fetch_q :: string
  fetch_registry :: "nat option"

record image_state =
  img_tags :: "string list"
  img_tagsOpen :: bool
  img_tagsLoading :: bool
  img_selectedIdx :: int
  img_debounce :: "tag_fetch option"

definition image_init :: image_state where
  "image_init = \<lparr>img_tags = [], img_tagsOpen = False, img_tagsLoading = False,
                 img_selectedIdx = -1, img_debounce = None\<rparr>"

datatype image_event =
    RestChange string
  | ImageKey string
  | PickTag string
  | ClickOutside
  | DebounceOver
  | TagsArrived "string list"
  | TagsFailed

datatype image_out = ImageChange string | FetchTags api_call

text \<open>\<open>selectTag\<close>.\<close>

definition selectTag :: "image_ref \<Rightarrow> string \<Rightarrow> image_state \<Rightarrow> image_state \<times> image_out list" where
  "selectTag p tag s =
     (s\<lparr>img_tagsOpen := False, img_selectedIdx := -1\<rparr>,
      [ImageChange (ref_prefix p @ image_name p @ '':'' @ tag)])"

definition handleRestChange ::
  "registry list \<Rightarrow> image_ref \<Rightarrow> string \<Rightarrow> image_state \<Rightarrow> image_state \<times> image_out list" where
  "handleRestChange registries p newRest s =
     (case js_index_of newRest (CHR '':'') of
        Some ci \<Rightarrow>
          (s\<lparr>img_debounce := Some \<lparr>fetch_image = ref_prefix p @ take ci newRest,
                                  fetch_q = drop (Suc ci) newRest,
                                  fetch_registry = map_option reg_id (matchedRegistry registries p)\<rparr>\<rparr>,
           [ImageChange (ref_prefix p @ newRest)])
      | None \<Rightarrow>
          (s\<lparr>img_debounce := None, img_tagsOpen := False, img_tags := []\<rparr>,
           [ImageChange (ref_prefix p @ newRest)]))"

text \<open>\<open>tags[selectedIdx]\<close>, whose text is \<open>undefined\<close> past the end.\<close>

definition tag_at :: "string list \<Rightarrow> int \<Rightarrow> string" where
  "tag_at tags i = (if 0 \<le> i \<and> nat i < length tags then tags ! nat i else ''undefined'')"

definition backspace :: "image_ref \<Rightarrow> string \<Rightarrow> image_out list" where
  "backspace p key = (if key = ''Backspace'' \<and> ref_rest p = [] then [ImageChange []] else [])"

definition handleKeyDown :: "image_ref \<Rightarrow> string \<Rightarrow> image_state \<Rightarrow> image_state \<times> image_out list" where
  "handleKeyDown p key s =
     (if img_tagsOpen s \<and> img_tags s \<noteq> [] then
        (if key = ''ArrowDown'' then
           (s\<lparr>img_selectedIdx := min (img_selectedIdx s + 1) (int (length (img_tags s)) - 1)\<rparr>, [])
         else if key = ''ArrowUp'' then (s\<lparr>img_selectedIdx := max (img_selectedIdx s - 1) (-1)\<rparr>, [])
         else if key = ''Enter'' \<and> img_selectedIdx s \<ge> 0 then
           selectTag p (tag_at (img_tags s) (img_selectedIdx s)) s
         else if key = ''Escape'' then (s\<lparr>img_tagsOpen := False, img_selectedIdx := -1\<rparr>, [])
         else (s, backspace p key))
      else (s, backspace p key))"

fun image_step ::
  "registry list \<Rightarrow> string \<Rightarrow> image_event \<Rightarrow> image_state \<Rightarrow> image_state \<times> image_out list" where
  "image_step registries value1 (RestChange newRest) s =
     handleRestChange registries (parseImageRef value1) newRest s"
| "image_step registries value1 (ImageKey key) s = handleKeyDown (parseImageRef value1) key s"
| "image_step registries value1 (PickTag tag) s = selectTag (parseImageRef value1) tag s"
| "image_step registries value1 ClickOutside s = (s\<lparr>img_tagsOpen := False\<rparr>, [])"
| "image_step registries value1 DebounceOver s =
     (case img_debounce s of
        Some f \<Rightarrow> (s\<lparr>img_debounce := None, img_tagsLoading := True\<rparr>,
                   [FetchTags (searchImageTags (fetch_image f)
                      (if fetch_q f = [] then None else Some (fetch_q f)) (fetch_registry f))])
      | None \<Rightarrow> (s, []))"
| "image_step registries value1 (TagsArrived result) s =
     (s\<lparr>img_tags := result, img_tagsOpen := result \<noteq> [], img_selectedIdx := -1, img_tagsLoading := False\<rparr>, [])"
| "image_step registries value1 TagsFailed s =
     (s\<lparr>img_tags := [], img_tagsOpen := False, img_tagsLoading := False\<rparr>, [])"

subsection \<open>The view\<close>

definition tagMissing :: "string \<Rightarrow> bool" where
  "tagMissing value1 = (js_trim value1 \<noteq> [] \<and> \<not> js_includes value1 (CHR '':''))"

definition showLatestWarning :: "string \<Rightarrow> bool" where
  "showLatestWarning value1 =
     (js_trim value1 \<noteq> [] \<and>
      (js_ends_with value1 '':latest'' \<or> (\<not> js_includes value1 (CHR '':'') \<and> js_trim value1 \<noteq> [])))"

definition ImageField :: "string \<Rightarrow> image_state \<Rightarrow> image_event widget list" where
  "ImageField value1 s =
     (let p = parseImageRef value1 in
      [Label ''Image''] @
      (if ref_prefix p \<noteq> [] then [Label (ref_prefix p)] else []) @
      [KeyInput (if ref_prefix p \<noteq> [] then ''image:tag'' else ''nginx:1.25.3'') (ref_rest p)
         RestChange ImageKey None] @
      (if img_tagsOpen s \<and> img_tags s \<noteq> []
       then map (\<lambda>tag. Button tag False (PickTag tag)) (img_tags s) else []) @
      (if showLatestWarning value1 \<or> tagMissing value1 then
         [Label (if tagMissing value1 then
            ''No version tag specified. Without a tag Docker defaults to :latest, which can change without notice and makes deployments hard to reproduce. Add a specific tag like :1.25.3.''
          else
            ''Using :latest is not recommended in production. The latest tag can change between pulls causing unexpected behavior. Pin to a specific version instead.'')]
       else []))"

subsection \<open>The reference is put together again\<close>

lemma parseImageRef_parts: "ref_prefix (parseImageRef v) @ ref_rest (parseImageRef v) = v"
  using js_index_of_split [of v "CHR ''/''"]
  by (auto simp: parseImageRef_def Let_def split: option.split)

lemma parseImageRef_prefix:
  "ref_prefix (parseImageRef v) = [] \<or>
     (\<exists>host. ref_prefix (parseImageRef v) = host @ ''/'' \<and> host \<noteq> [] \<and> CHR ''/'' \<notin> set host)"
  using js_index_of_Some [of v "CHR ''/''"]
  by (auto simp: parseImageRef_def Let_def split: option.split)

subsection \<open>The selected tag\<close>

text \<open>While the list is open the selection is \<open>-1\<close> or a place in it; it is never below \<open>-1\<close>.\<close>

definition image_inv :: "image_state \<Rightarrow> bool" where
  "image_inv s =
     (-1 \<le> img_selectedIdx s \<and>
      (img_tagsOpen s \<and> img_tags s \<noteq> [] \<longrightarrow> img_selectedIdx s < int (length (img_tags s))))"

lemma image_inv_init: "image_inv image_init"
  by (simp add: image_inv_def image_init_def)

lemma image_inv_step: "image_inv s \<Longrightarrow> image_inv (fst (image_step registries value1 e s))"
  by (cases e)
     (auto simp: image_inv_def handleRestChange_def handleKeyDown_def selectTag_def min_def max_def
       split: option.split)

interpretation image_field: reactive
    "\<lambda>(registries, value1, e) s. fst (image_step registries value1 e s)" image_inv
  by unfold_locales (auto simp: image_inv_step)

text \<open>Whatever the user types and whatever comes back from the registry, in any order, the choice
  of a tag with Enter takes an element of the list on the screen, and replaces only what follows
  the first colon behind the registry.\<close>

theorem image_enter_picks_tag:
  assumes "s = fold (\<lambda>(registries, v, e) s. fst (image_step registries v e s)) es image_init"
    and "img_tagsOpen s" and "img_selectedIdx s \<ge> 0" and "img_tags s \<noteq> []"
  shows "\<exists>tag \<in> set (img_tags s).
           snd (image_step registries value1 (ImageKey ''Enter'') s) =
             [ImageChange (ref_prefix (parseImageRef value1) @ image_name (parseImageRef value1) @ '':'' @ tag)]"
proof -
  have "image_inv s" unfolding assms(1) by (rule image_field.run_inv [OF image_inv_init])
  then have "nat (img_selectedIdx s) < length (img_tags s)"
    using assms(2-4) by (auto simp: image_inv_def)
  then show ?thesis
    using assms(2-4) by (auto simp: handleKeyDown_def selectTag_def tag_at_def)
qed

theorem image_enter_picks_tag_witness:
  "\<exists>tag \<in> {''1.25'', ''1.26''}.
     snd (image_step [] ''ghcr.io/nginx:1'' (ImageKey ''Enter'')
       (fold (\<lambda>(registries, v, e) s. fst (image_step registries v e s))
          [([], ''ghcr.io/nginx'', RestChange ''nginx:1''), ([], ''ghcr.io/nginx:1'', DebounceOver),
           ([], ''ghcr.io/nginx:1'', TagsArrived [''1.25'', ''1.26'']),
           ([], ''ghcr.io/nginx:1'', ImageKey ''ArrowDown'')] image_init)) =
     [ImageChange (ref_prefix (parseImageRef ''ghcr.io/nginx:1'') @
        image_name (parseImageRef ''ghcr.io/nginx:1'') @ '':'' @ tag)]"
  using image_enter_picks_tag [OF refl, of "[([], ''ghcr.io/nginx'', RestChange ''nginx:1''),
      ([], ''ghcr.io/nginx:1'', DebounceOver),
      ([], ''ghcr.io/nginx:1'', TagsArrived [''1.25'', ''1.26'']),
      ([], ''ghcr.io/nginx:1'', ImageKey ''ArrowDown'')]" "[]" "''ghcr.io/nginx:1''"]
  by (simp add: image_init_def handleRestChange_def handleKeyDown_def split: option.splits)

end
