(* ===== verification/Builder_Networks.thy ===== *)
theory Builder_Networks
  imports Builder_Lists
begin

section \<open>Networks and volumes in \<open>components/compose/ComposeBuilder.tsx\<close>\<close>

text \<open>
  The networks of one service (\<open>NetworksSection\<close>) and the two top-level panels
  (\<open>TopLevelNetworksPanel\<close>, \<open>TopLevelVolumesPanel\<close>, the same code but for the base name, a
  placeholder and the order of two rows). The configurations are untyped: the parser only casts
  them, and in a Compose file they are often \<open>null\<close>. The source copies the dictionary but writes
  into the nested configuration in place; as the copy replaces the original at once, the result is
  that of writing into a copy, which is what the model does. (Two entries that share one object
  through a YAML alias would both change; that sharing is not modelled.)
\<close>

subsection \<open>Writing into a nested configuration\<close>

text \<open>\<open>v.k = w\<close> and \<open>delete v.k\<close>. Assigning to a property of a primitive throws in a module; on
  an array or a date it adds nothing that is ever written out.\<close>

definition js_set_prop :: "js \<Rightarrow> string \<Rightarrow> js \<Rightarrow> js result" where
  "js_set_prop v k w =
     (case v of
        JObj ps \<Rightarrow> Inr (JObj (obj_assign k w ps))
      | _ \<Rightarrow> if is_object v then Inr v
            else Inl (TypeError (''Cannot create property '' @ k @ '' on '' @ js_string v)))"

definition js_delete_prop :: "js \<Rightarrow> string \<Rightarrow> js" where
  "js_delete_prop v k = (case v of JObj ps \<Rightarrow> JObj (obj_delete k ps) | _ \<Rightarrow> v)"

text \<open>\<open>if (!next[name]) next[name] = {}\<close> and then \<open>next[name]\<close>, for a name the panel lists.\<close>

definition config_or_empty :: "string \<Rightarrow> js obj \<Rightarrow> js" where
  "config_or_empty name next =
     (case obj_get next name of Some v \<Rightarrow> if js_truthy v then v else JObj [] | None \<Rightarrow> JObj [])"

text \<open>\<open>Object.keys(next).length ? next : undefined\<close>.\<close>

definition keys_or_undef :: "'v obj \<Rightarrow> 'v obj option" where
  "keys_or_undef next = (if next = [] then None else Some next)"

subsection \<open>\<open>NetworksSection\<close>\<close>

datatype net_field = NetAliases | NetIpv4

datatype networks_event =
    ToggleNetworks
  | UpdateNetwork string net_field string
  | RemoveNetwork string
  | AddNetwork string

text \<open>\<open>val.split(",").map(s => s.trim()).filter(Boolean)\<close>.\<close>

definition parse_aliases :: "string \<Rightarrow> string list" where
  "parse_aliases val = filter (\<lambda>s. s \<noteq> []) (map js_trim (js_split (CHR '','') val))"

definition net_field_value :: "net_field \<Rightarrow> string \<Rightarrow> js" where
  "net_field_value f val =
     (if val = [] then JUndef
      else (case f of NetAliases \<Rightarrow> JArr (map JStr (parse_aliases val)) | NetIpv4 \<Rightarrow> JStr val))"

definition net_field_key :: "net_field \<Rightarrow> string" where
  "net_field_key f = (case f of NetAliases \<Rightarrow> ''aliases'' | NetIpv4 \<Rightarrow> ''ipv4_address'')"

definition networks_open_init :: "js obj option \<Rightarrow> bool" where
  "networks_open_init networks = (list_of_opt networks \<noteq> [])"

fun networks_step ::
  "js obj option \<Rightarrow> networks_event \<Rightarrow> bool \<Rightarrow> (bool \<times> js obj option option) result" where
  "networks_step networks ToggleNetworks isopen = Inr (\<not> isopen, None)"
| "networks_step networks (UpdateNetwork name field val) isopen =
     (let next = list_of_opt networks in
      bind_result (js_set_prop (config_or_empty name next) (net_field_key field) (net_field_value field val))
        (\<lambda>config. Inr (isopen, Some (keys_or_undef (obj_assign name config next)))))"
| "networks_step networks (RemoveNetwork name) isopen =
     Inr (isopen, Some (keys_or_undef (obj_delete name (list_of_opt networks))))"
| "networks_step networks (AddNetwork netName) isopen =
     Inr (isopen, if netName = [] then None
                  else Some (Some (obj_set netName (JObj []) (list_of_opt networks))))"

text \<open>\<open>config.aliases?.join(", ") ?? ""\<close>: reading off \<open>null\<close> throws, and so does \<open>join\<close> on what is
  not an array.\<close>

definition aliases_text :: "js \<Rightarrow> string result" where
  "aliases_text config =
     bind_result (js_read config ''aliases'') (\<lambda>a.
       case a of
         JArr xs \<Rightarrow> Inr (js_arr_join '', '' xs)
       | _ \<Rightarrow> if nullish a then Inr [] else Inl (TypeError ''config.aliases?.join is not a function''))"

definition network_row :: "string \<times> js \<Rightarrow> networks_event widget list result" where
  "network_row nc =
     (case nc of (name, config) \<Rightarrow>
       bind_result (aliases_text config) (\<lambda>aliases.
         Inr [Label name, Button ''Remove'' False (RemoveNetwork name),
              Input ''aliases (comma-separated)'' aliases (UpdateNetwork name NetAliases),
              Input ''ipv4_address (optional)'' (input_text (js_prop config ''ipv4_address''))
                (UpdateNetwork name NetIpv4)]))"

definition NetworksSection ::
  "js obj option \<Rightarrow> string list \<Rightarrow> bool \<Rightarrow> networks_event widget list result" where
  "NetworksSection networks availableNetworks isopen =
     (let entries = list_of_opt networks;
          header = SectionHeader ''Networks'' (Some (length entries)) ToggleNetworks
      in if \<not> isopen then Inr header
         else bind_result (map_result network_row entries) (\<lambda>rows.
           Inr (header @ concat rows @
             (if availableNetworks \<noteq> [] then
                [Select [] (([], ''+ Add network'' @ ellipsis) #
                   map (\<lambda>n. (n, n))
                     (filter (\<lambda>n. networks = None \<or> \<not> obj_in n entries) availableNetworks)) AddNetwork]
              else []))))"

subsection \<open>The top-level panels\<close>

datatype top_field = TopDriver | TopExternal | TopName

definition top_field_key :: "top_field \<Rightarrow> string" where
  "top_field_key f = (case f of TopDriver \<Rightarrow> ''driver'' | TopExternal \<Rightarrow> ''external'' | TopName \<Rightarrow> ''name'')"

datatype top_event =
    ToggleTop
  | UpdateText string top_field string
  | UpdateExternal string bool
  | BlurName string string
  | RemoveTop string
  | AddTop

text \<open>\<open>update(name, field, val)\<close>, with \<^const>\<open>None\<close> for \<open>null\<close>.\<close>

definition top_update :: "js obj \<Rightarrow> string \<Rightarrow> top_field \<Rightarrow> js option \<Rightarrow> js obj result" where
  "top_update networks name field val =
     (let config = config_or_empty name networks in
      case val of
        None \<Rightarrow> Inr (obj_assign name (js_delete_prop config (top_field_key field)) networks)
      | Some w \<Rightarrow> bind_result (js_set_prop config (top_field_key field) w)
                   (\<lambda>c. Inr (obj_assign name c networks)))"

text \<open>\<open>rename(oldName, newName)\<close>: nothing happens for an empty, an unchanged or a taken name, where
  a name is taken when the dictionary has a truthy value there.\<close>

definition rename_key :: "string \<Rightarrow> string \<Rightarrow> 'v obj \<Rightarrow> 'v obj" where
  "rename_key oldName newName xs =
     obj_assign_all (map (\<lambda>(k, v). (if k = oldName then newName else k, v)) xs) []"

definition top_rename :: "js obj \<Rightarrow> string \<Rightarrow> string \<Rightarrow> js obj option" where
  "top_rename networks oldName newName =
     (if newName = [] \<or> newName = oldName \<or> obj_lookup_truthy js_truthy newName networks then None
      else Some (rename_key oldName newName networks))"

definition top_remove :: "js obj \<Rightarrow> string \<Rightarrow> js obj" where
  "top_remove networks name = obj_delete name networks"

definition top_add :: "string \<Rightarrow> js obj \<Rightarrow> js obj" where
  "top_add base networks = obj_set (fresh_key js_truthy base networks) (JObj []) networks"

fun top_step :: "string \<Rightarrow> js obj \<Rightarrow> top_event \<Rightarrow> bool \<Rightarrow> (bool \<times> js obj option) result" where
  "top_step base networks ToggleTop isopen = Inr (\<not> isopen, None)"
| "top_step base networks (UpdateText name field text) isopen =
     bind_result (top_update networks name field (if text = [] then None else Some (JStr text)))
       (\<lambda>next. Inr (isopen, Some next))"
| "top_step base networks (UpdateExternal name checked) isopen =
     bind_result (top_update networks name TopExternal (if checked then Some (JBool True) else None))
       (\<lambda>next. Inr (isopen, Some next))"
| "top_step base networks (BlurName name text) isopen =
     Inr (isopen, top_rename networks name (js_trim text))"
| "top_step base networks (RemoveTop name) isopen = Inr (isopen, Some (top_remove networks name))"
| "top_step base networks AddTop isopen = Inr (isopen, Some (top_add base networks))"

definition TopLevelNetworksPanel_step ::
  "js obj \<Rightarrow> top_event \<Rightarrow> bool \<Rightarrow> (bool \<times> js obj option) result" where
  "TopLevelNetworksPanel_step = top_step ''network''"

definition TopLevelVolumesPanel_step ::
  "js obj \<Rightarrow> top_event \<Rightarrow> bool \<Rightarrow> (bool \<times> js obj option) result" where
  "TopLevelVolumesPanel_step = top_step ''volume''"

text \<open>The name is an uncontrolled input: leaving it (or Enter) hands over its text, Escape puts the
  name back first.\<close>

definition top_name_row :: "string \<Rightarrow> top_event widget list" where
  "top_name_row name = [Input [] name (BlurName name), Button ''Remove'' False (RemoveTop name)]"

definition top_driver_row :: "string \<Rightarrow> js \<Rightarrow> string \<Rightarrow> top_event widget list" where
  "top_driver_row name config placeholder =
     [Label ''driver:'',
      Input placeholder (input_text (js_prop config ''driver'')) (UpdateText name TopDriver)]"

definition top_external_row :: "string \<Rightarrow> js \<Rightarrow> top_event widget list" where
  "top_external_row name config =
     [Checkbox ''external'' (js_truthy (js_prop config ''external'')) (UpdateExternal name)]"

definition top_override_row :: "string \<Rightarrow> js \<Rightarrow> top_event widget list" where
  "top_override_row name config =
     [Input ''override name (optional)'' (input_text (js_prop config ''name'')) (UpdateText name TopName)]"

definition TopLevelNetworksPanel :: "js obj \<Rightarrow> bool \<Rightarrow> top_event widget list" where
  "TopLevelNetworksPanel networks isopen =
     SectionHeader ''Networks'' (Some (length networks)) ToggleTop @
     (if isopen then
        concat (map (\<lambda>(name, config).
          top_name_row name @ top_driver_row name config ''bridge'' @ top_external_row name config @
          top_override_row name config) networks) @
        [Button ''Add network'' False AddTop]
      else [])"

definition TopLevelVolumesPanel :: "js obj \<Rightarrow> bool \<Rightarrow> top_event widget list" where
  "TopLevelVolumesPanel volumes isopen =
     SectionHeader ''Volumes'' (Some (length volumes)) ToggleTop @
     (if isopen then
        concat (map (\<lambda>(name, config).
          top_name_row name @ top_external_row name config @ top_driver_row name config ''local'' @
          top_override_row name config) volumes) @
        [Button ''Add volume'' False AddTop]
      else [])"

subsection \<open>Renaming a key\<close>

text \<open>Renaming assigns every entry again under its new key. When the new name is free and neither
  name is one that changes the order or the prototype, the entry stays in its place.\<close>

definition rename_list :: "string \<Rightarrow> string \<Rightarrow> 'v obj \<Rightarrow> 'v obj" where
  "rename_list oldName newName xs = map (\<lambda>(k, v). (if k = oldName then newName else k, v)) xs"

lemma rename_list_keys:
  "obj_keys (rename_list a b xs) = map (\<lambda>k. if k = a then b else k) (obj_keys xs)"
  by (induction xs) (auto simp: rename_list_def)

lemma sorted_wrt_plain_keys: "\<forall>k \<in> set ks. index_key k = None \<Longrightarrow> sorted_wrt key_before ks"
  by (induction ks) auto

lemma distinct_rename: "distinct ks \<Longrightarrow> b \<notin> set ks \<Longrightarrow> distinct (map (\<lambda>k. if k = a then b else k) ks)"
  by (induction ks) auto

lemma rename_key_in_place:
  assumes "wf_obj xs" and "newName \<notin> set (obj_keys xs)" and "newName \<noteq> ''__proto__''"
    and "''__proto__'' \<notin> set (obj_keys xs)"
    and "\<forall>k \<in> set (obj_keys xs). index_key k = None" and "index_key newName = None"
  shows "rename_key oldName newName xs = rename_list oldName newName xs"
proof -
  have "distinct (obj_keys (rename_list oldName newName xs))"
    using assms(1,2) unfolding rename_list_keys by (intro distinct_rename) (auto simp: wf_obj_def)
  moreover have "sorted_wrt key_before (obj_keys (rename_list oldName newName xs))"
    unfolding rename_list_keys using assms(5,6) by (intro sorted_wrt_plain_keys) auto
  moreover have "''__proto__'' \<notin> set (obj_keys (rename_list oldName newName xs))"
    unfolding rename_list_keys using assms(3,4) by auto
  ultimately show ?thesis
    unfolding rename_key_def rename_list_def [symmetric] by (intro obj_assign_all_wf) (simp_all add: wf_obj_def)
qed

lemma wf_rename_key [simp]: "wf_obj (rename_key a b xs)"
  by (simp add: rename_key_def)

lemma rename_list_get:
  "b \<notin> set (obj_keys xs) \<Longrightarrow> obj_get (rename_list a b xs) k =
     (if k = b then obj_get xs a else if k = a then None else obj_get xs k)"
proof (induction xs)
  case (Cons p xs)
  obtain j v where p: "p = (j, v)" by force
  have "b \<noteq> j" using Cons.prems p by auto
  with Cons p show ?case by (auto simp: rename_list_def)
qed (simp add: rename_list_def)

end
