(* ===== verification/Service_Card.thy ===== *)
theory Service_Card
  imports Image_Field Builder_Networks
begin

section \<open>One service: \<open>ServiceCard\<close> of \<open>components/compose/ComposeBuilder.tsx\<close>\<close>

text \<open>
  The health check and resource sections, and the card that composes all sections. A section that is
  not on the screen has no state: the states of the sections are created when the card, or its
  advanced part, opens, from the service as it then is. Every change of the service goes to the
  parent as a whole new service (\<open>set(key, val)\<close>).
\<close>

subsection \<open>\<open>HealthCheckSection\<close>\<close>

datatype health_event =
    StartHealth
  | ToggleHealth
  | SetTest string
  | SetInterval string
  | SetTimeout string
  | SetRetries string
  | SetStartPeriod string
  | RemoveHealth

definition no_health :: health_check where
  "no_health = \<lparr>hc_test = None, hc_interval = None, hc_timeout = None, hc_retries = None,
                hc_startPeriod = None, hc_disable = None\<rparr>"

definition health_open_init :: "health_check option \<Rightarrow> bool" where
  "health_open_init hc = (case hc of None \<Rightarrow> False | Some h \<Rightarrow> hc_disable h \<noteq> Some True)"

definition current_health :: "health_check option \<Rightarrow> health_check" where
  "current_health hc = (case hc of None \<Rightarrow> no_health | Some h \<Rightarrow> h)"

text \<open>\<open>e.target.value ? Number(e.target.value) : undefined\<close>.\<close>

definition number_input :: "string \<Rightarrow> jsnum option" where
  "number_input v = (if v = [] then None else Some (js_number v))"

fun health_step ::
  "health_check option \<Rightarrow> health_event \<Rightarrow> bool \<Rightarrow> bool \<times> health_check option option" where
  "health_step hc StartHealth isopen = (True, Some (Some (no_health\<lparr>hc_test := Some []\<rparr>)))"
| "health_step hc ToggleHealth isopen = (\<not> isopen, None)"
| "health_step hc (SetTest v) isopen = (isopen, Some (Some ((current_health hc)\<lparr>hc_test := Some v\<rparr>)))"
| "health_step hc (SetInterval v) isopen =
     (isopen, Some (Some ((current_health hc)\<lparr>hc_interval := Some v\<rparr>)))"
| "health_step hc (SetTimeout v) isopen = (isopen, Some (Some ((current_health hc)\<lparr>hc_timeout := Some v\<rparr>)))"
| "health_step hc (SetRetries v) isopen =
     (isopen, Some (Some ((current_health hc)\<lparr>hc_retries := number_input v\<rparr>)))"
| "health_step hc (SetStartPeriod v) isopen =
     (isopen, Some (Some ((current_health hc)\<lparr>hc_startPeriod := Some v\<rparr>)))"
| "health_step hc RemoveHealth isopen = (False, Some None)"

definition number_text :: "jsnum option \<Rightarrow> string" where
  "number_text v = (case v of None \<Rightarrow> [] | Some n \<Rightarrow> js_num_str n)"

definition HealthCheckSection :: "health_check option \<Rightarrow> bool \<Rightarrow> health_event widget list" where
  "HealthCheckSection hc isopen =
     (let current = current_health hc in
      if \<not> isopen \<and> hc = None then SectionHeader ''Healthcheck'' None StartHealth
      else SectionHeader ''Healthcheck'' None ToggleHealth @
        (if isopen then
           InputRow ''Test command'' (str_or [] (hc_test current)) ''curl -f http://localhost/ || exit 1'' SetTest @
           InputRow ''Interval'' (str_or [] (hc_interval current)) ''30s'' SetInterval @
           InputRow ''Timeout'' (str_or [] (hc_timeout current)) ''10s'' SetTimeout @
           InputRow ''Retries'' (number_text (hc_retries current)) ''3'' SetRetries @
           InputRow ''Start period'' (str_or [] (hc_startPeriod current)) ''10s'' SetStartPeriod @
           [Button ''Remove healthcheck'' False RemoveHealth]
         else []))"

subsection \<open>\<open>ResourcesSection\<close>\<close>

datatype limits_event = ToggleLimits | SetCpus string | SetMemory string | RemoveLimits

definition no_limits :: resource_limits where
  "no_limits = \<lparr>lim_cpus = None, lim_memory = None\<rparr>"

definition current_limits :: "resource_limits option \<Rightarrow> resource_limits" where
  "current_limits l = (case l of None \<Rightarrow> no_limits | Some x \<Rightarrow> x)"

definition limits_open_init :: "resource_limits option \<Rightarrow> bool" where
  "limits_open_init l = (l \<noteq> None)"

fun limits_step ::
  "resource_limits option \<Rightarrow> limits_event \<Rightarrow> bool \<Rightarrow> bool \<times> resource_limits option option" where
  "limits_step limits ToggleLimits isopen =
     (\<not> isopen, if limits = None then Some (Some no_limits) else None)"
| "limits_step limits (SetCpus v) isopen =
     (isopen, Some (Some ((current_limits limits)\<lparr>lim_cpus := or_undef v\<rparr>)))"
| "limits_step limits (SetMemory v) isopen =
     (isopen, Some (Some ((current_limits limits)\<lparr>lim_memory := or_undef v\<rparr>)))"
| "limits_step limits RemoveLimits isopen = (False, Some None)"

definition ResourcesSection :: "resource_limits option \<Rightarrow> bool \<Rightarrow> limits_event widget list" where
  "ResourcesSection limits isopen =
     SectionHeader ''Resource limits'' None ToggleLimits @
     (if isopen then
        InputRow ''CPUs'' (str_or [] (lim_cpus (current_limits limits))) ''0.5'' SetCpus @
        InputRow ''Memory'' (str_or [] (lim_memory (current_limits limits))) ''512m'' SetMemory @
        [Button ''Remove limits'' False RemoveLimits]
      else [])"

subsection \<open>The fields of the card\<close>

datatype text_field =
    ContainerName | Hostname | Command | Entrypoint | RunUser | WorkingDir | StopGrace | PidMode | IpcMode | ShmSize

fun put_text :: "text_field \<Rightarrow> string option \<Rightarrow> compose_service \<Rightarrow> compose_service" where
  "put_text ContainerName v svc = svc\<lparr>svc_container_name := v\<rparr>"
| "put_text Hostname v svc = svc\<lparr>svc_hostname := v\<rparr>"
| "put_text Command v svc = svc\<lparr>svc_command := v\<rparr>"
| "put_text Entrypoint v svc = svc\<lparr>svc_entrypoint := v\<rparr>"
| "put_text RunUser v svc = svc\<lparr>svc_user := v\<rparr>"
| "put_text WorkingDir v svc = svc\<lparr>svc_working_dir := v\<rparr>"
| "put_text StopGrace v svc = svc\<lparr>svc_stop_grace_period := v\<rparr>"
| "put_text PidMode v svc = svc\<lparr>svc_pid := v\<rparr>"
| "put_text IpcMode v svc = svc\<lparr>svc_ipc := v\<rparr>"
| "put_text ShmSize v svc = svc\<lparr>svc_shm_size := v\<rparr>"

datatype flag_field = Privileged | ReadOnlyFs | InitProcess | Tty | StdinOpen

fun put_flag :: "flag_field \<Rightarrow> bool option \<Rightarrow> compose_service \<Rightarrow> compose_service" where
  "put_flag Privileged v svc = svc\<lparr>svc_privileged := v\<rparr>"
| "put_flag ReadOnlyFs v svc = svc\<lparr>svc_read_only := v\<rparr>"
| "put_flag InitProcess v svc = svc\<lparr>svc_init := v\<rparr>"
| "put_flag Tty v svc = svc\<lparr>svc_tty := v\<rparr>"
| "put_flag StdinOpen v svc = svc\<lparr>svc_stdin_open := v\<rparr>"

datatype list_field =
    ExtraHosts | CapAdd | CapDrop | DnsServers | DnsSearch | Devices | TmpfsMounts | SecurityOptions | Profiles

definition list_fields :: "list_field list" where
  "list_fields =
     [ExtraHosts, CapAdd, CapDrop, DnsServers, DnsSearch, Devices, TmpfsMounts, SecurityOptions, Profiles]"

fun get_list :: "list_field \<Rightarrow> compose_service \<Rightarrow> string list option" where
  "get_list ExtraHosts svc = svc_extra_hosts svc"
| "get_list CapAdd svc = svc_cap_add svc"
| "get_list CapDrop svc = svc_cap_drop svc"
| "get_list DnsServers svc = svc_dns svc"
| "get_list DnsSearch svc = svc_dns_search svc"
| "get_list Devices svc = svc_devices svc"
| "get_list TmpfsMounts svc = svc_tmpfs svc"
| "get_list SecurityOptions svc = svc_security_opt svc"
| "get_list Profiles svc = svc_profiles svc"

fun put_list :: "list_field \<Rightarrow> string list option \<Rightarrow> compose_service \<Rightarrow> compose_service" where
  "put_list ExtraHosts v svc = svc\<lparr>svc_extra_hosts := v\<rparr>"
| "put_list CapAdd v svc = svc\<lparr>svc_cap_add := v\<rparr>"
| "put_list CapDrop v svc = svc\<lparr>svc_cap_drop := v\<rparr>"
| "put_list DnsServers v svc = svc\<lparr>svc_dns := v\<rparr>"
| "put_list DnsSearch v svc = svc\<lparr>svc_dns_search := v\<rparr>"
| "put_list Devices v svc = svc\<lparr>svc_devices := v\<rparr>"
| "put_list TmpfsMounts v svc = svc\<lparr>svc_tmpfs := v\<rparr>"
| "put_list SecurityOptions v svc = svc\<lparr>svc_security_opt := v\<rparr>"
| "put_list Profiles v svc = svc\<lparr>svc_profiles := v\<rparr>"

fun list_caption :: "list_field \<Rightarrow> string \<times> string" where
  "list_caption ExtraHosts = (''Extra hosts'', ''hostname:ip'')"
| "list_caption CapAdd = (''cap_add'', ''NET_ADMIN'')"
| "list_caption CapDrop = (''cap_drop'', ''ALL'')"
| "list_caption DnsServers = (''DNS servers'', ''8.8.8.8'')"
| "list_caption DnsSearch = (''DNS search'', ''example.com'')"
| "list_caption Devices = (''Devices'', ''/dev/sda:/dev/xda'')"
| "list_caption TmpfsMounts = (''Tmpfs mounts'', ''/tmp'')"
| "list_caption SecurityOptions = (''Security options'', ''no-new-privileges:true'')"
| "list_caption Profiles = (''Profiles'', ''production'')"

text \<open>\<open>x.length ? x : undefined\<close>.\<close>

definition len_or_undef :: "'a list \<Rightarrow> 'a list option" where
  "len_or_undef xs = (if xs = [] then None else Some xs)"

subsection \<open>State, events, calls\<close>

record main_state =
  ms_image :: image_state
  ms_ports :: bool
  ms_env :: env_state
  ms_volumes :: bool
  ms_networks :: bool
  ms_deps :: bool
  ms_health :: bool
  ms_limits :: bool
  ms_labels :: bool

record advanced_state =
  adv_lists :: "list_field \<Rightarrow> bool"
  adv_sysctls :: bool

record card_state =
  card_expanded :: "main_state option"
  card_editingName :: bool
  card_nameVal :: string
  card_showAdvanced :: bool
  card_advanced :: "advanced_state option"

definition main_init :: "compose_service \<Rightarrow> main_state" where
  "main_init svc =
     \<lparr>ms_image = image_init,
      ms_ports = ports_open_init (list_of_opt (svc_ports svc)) (list_of_opt (svc_expose svc)),
      ms_env = env_init (list_of_opt (svc_environment svc)),
      ms_volumes = volumes_open_init (list_of_opt (svc_volumes svc)),
      ms_networks = networks_open_init (svc_networks svc),
      ms_deps = deps_open_init (list_of_opt (svc_depends_on svc)),
      ms_health = health_open_init (svc_healthcheck svc),
      ms_limits = limits_open_init (svc_deploy svc),
      ms_labels = kv_open_init (list_of_opt (svc_labels svc))\<rparr>"

definition advanced_init :: "compose_service \<Rightarrow> advanced_state" where
  "advanced_init svc =
     \<lparr>adv_lists = (\<lambda>f. strlist_open_init (list_of_opt (get_list f svc))),
      adv_sysctls = kv_open_init (list_of_opt (svc_sysctls svc))\<rparr>"

definition card_init :: "string \<Rightarrow> compose_service \<Rightarrow> card_state" where
  "card_init name svc =
     \<lparr>card_expanded = Some (main_init svc), card_editingName = False, card_nameVal = name,
      card_showAdvanced = False, card_advanced = None\<rparr>"

datatype card_event =
    ToggleCard
  | StartNameEdit
  | TypeName string
  | LeaveName
  | NameKey string
  | RemoveClicked
  | ImageEv image_event
  | TextEv text_field string
  | RestartEv string
  | PortsEv ports_event
  | EnvEv env_event
  | VolumesEv volumes_event
  | NetworksEv networks_event
  | DepsEv deps_event
  | HealthEv health_event
  | LimitsEv limits_event
  | LabelsEv kv_event
  | ToggleAdvanced
  | FlagEv flag_field bool
  | StopSignalEv string
  | ScaleEv string
  | ListEv list_field strlist_event
  | SysctlsEv kv_event

datatype card_out =
    ServiceChange compose_service
  | ServiceRename string
  | ServiceRemove
  | CardFetch api_call

subsection \<open>The handlers\<close>

text \<open>Leaving the name field and Enter do the same: rename when the text is not blank and differs.\<close>

definition commit_name :: "string \<Rightarrow> card_state \<Rightarrow> card_state \<times> card_out list" where
  "commit_name name s =
     (s\<lparr>card_editingName := False\<rparr>,
      if js_trim (card_nameVal s) \<noteq> [] \<and> card_nameVal s \<noteq> name
      then [ServiceRename (js_trim (card_nameVal s))] else [])"

definition change_with :: "('a \<Rightarrow> compose_service) \<Rightarrow> 'a option \<Rightarrow> card_out list" where
  "change_with f v = (case v of None \<Rightarrow> [] | Some x \<Rightarrow> [ServiceChange (f x)])"

definition image_outs :: "compose_service \<Rightarrow> image_out list \<Rightarrow> card_out list" where
  "image_outs svc outs =
     map (\<lambda>w. case w of ImageChange v \<Rightarrow> ServiceChange (svc\<lparr>svc_image := or_undef v\<rparr>)
                      | FetchTags c \<Rightarrow> CardFetch c) outs"

definition ports_outs :: "compose_service \<Rightarrow> ports_call option \<Rightarrow> card_out list" where
  "ports_outs svc call =
     (case call of
        None \<Rightarrow> []
      | Some (OnPorts p) \<Rightarrow> [ServiceChange (svc\<lparr>svc_ports := len_or_undef p\<rparr>)]
      | Some (OnExpose e) \<Rightarrow> [ServiceChange (svc\<lparr>svc_expose := len_or_undef e\<rparr>)])"

text \<open>The sections of the main part, given their states.\<close>

fun main_step ::
  "registry list \<Rightarrow> compose_service \<Rightarrow> card_event \<Rightarrow> main_state \<Rightarrow> (main_state \<times> card_out list) result" where
  "main_step registries svc (ImageEv e) m =
     (let (i, outs) = image_step registries (str_or [] (svc_image svc)) e (ms_image m)
      in Inr (m\<lparr>ms_image := i\<rparr>, image_outs svc outs))"
| "main_step registries svc (TextEv f v) m = Inr (m, [ServiceChange (put_text f (or_undef v) svc)])"
| "main_step registries svc (RestartEv v) m =
     Inr (m, [ServiceChange (svc\<lparr>svc_restart := Some (if v = [] then ''no'' else v)\<rparr>)])"
| "main_step registries svc (PortsEv e) m =
     (let (b, call) = ports_step (list_of_opt (svc_ports svc)) (list_of_opt (svc_expose svc)) e (ms_ports m)
      in Inr (m\<lparr>ms_ports := b\<rparr>, ports_outs svc call))"
| "main_step registries svc (EnvEv e) m =
     (let (b, call) = env_step (list_of_opt (svc_environment svc)) e (ms_env m)
      in Inr (m\<lparr>ms_env := b\<rparr>, change_with (\<lambda>v. svc\<lparr>svc_environment := keys_or_undef v\<rparr>) call))"
| "main_step registries svc (VolumesEv e) m =
     (let (b, call) = volumes_step (list_of_opt (svc_volumes svc)) e (ms_volumes m)
      in Inr (m\<lparr>ms_volumes := b\<rparr>, change_with (\<lambda>v. svc\<lparr>svc_volumes := len_or_undef v\<rparr>) call))"
| "main_step registries svc (NetworksEv e) m =
     bind_result (networks_step (svc_networks svc) e (ms_networks m)) (\<lambda>(b, call).
       Inr (m\<lparr>ms_networks := b\<rparr>, change_with (\<lambda>v. svc\<lparr>svc_networks := v\<rparr>) call))"
| "main_step registries svc (DepsEv e) m =
     (let (b, call) = deps_step (list_of_opt (svc_depends_on svc)) e (ms_deps m)
      in Inr (m\<lparr>ms_deps := b\<rparr>, change_with (\<lambda>v. svc\<lparr>svc_depends_on := len_or_undef v\<rparr>) call))"
| "main_step registries svc (HealthEv e) m =
     (let (b, call) = health_step (svc_healthcheck svc) e (ms_health m)
      in Inr (m\<lparr>ms_health := b\<rparr>, change_with (\<lambda>v. svc\<lparr>svc_healthcheck := v\<rparr>) call))"
| "main_step registries svc (LimitsEv e) m =
     (let (b, call) = limits_step (svc_deploy svc) e (ms_limits m)
      in Inr (m\<lparr>ms_limits := b\<rparr>, change_with (\<lambda>v. svc\<lparr>svc_deploy := v\<rparr>) call))"
| "main_step registries svc (LabelsEv e) m =
     (let (b, call) = kv_step (list_of_opt (svc_labels svc)) e (ms_labels m)
      in Inr (m\<lparr>ms_labels := b\<rparr>, change_with (\<lambda>v. svc\<lparr>svc_labels := keys_or_undef v\<rparr>) call))"
| "main_step registries svc _ m = Inr (m, [])"

text \<open>The advanced part.\<close>

fun advanced_step ::
  "compose_service \<Rightarrow> card_event \<Rightarrow> advanced_state \<Rightarrow> advanced_state \<times> card_out list" where
  "advanced_step svc (FlagEv f v) a = (a, [ServiceChange (put_flag f (if v then Some True else None) svc)])"
| "advanced_step svc (StopSignalEv v) a =
     (a, [ServiceChange (svc\<lparr>svc_stop_signal := (if v = ''SIGTERM'' then None else Some v)\<rparr>)])"
| "advanced_step svc (TextEv f v) a = (a, [ServiceChange (put_text f (or_undef v) svc)])"
| "advanced_step svc (ScaleEv v) a = (a, [ServiceChange (svc\<lparr>svc_scale := number_input v\<rparr>)])"
| "advanced_step svc (ListEv f e) a =
     (let (b, call) = strlist_step (list_of_opt (get_list f svc)) e (adv_lists a f)
      in (a\<lparr>adv_lists := (adv_lists a)(f := b)\<rparr>, change_with (\<lambda>v. put_list f (len_or_undef v) svc) call))"
| "advanced_step svc (SysctlsEv e) a =
     (let (b, call) = kv_step (list_of_opt (svc_sysctls svc)) e (adv_sysctls a)
      in (a\<lparr>adv_sysctls := b\<rparr>, change_with (\<lambda>v. svc\<lparr>svc_sysctls := keys_or_undef v\<rparr>) call))"
| "advanced_step svc _ a = (a, [])"

definition in_advanced :: "card_event \<Rightarrow> bool" where
  "in_advanced e =
     (case e of
        FlagEv _ _ \<Rightarrow> True | StopSignalEv _ \<Rightarrow> True | ScaleEv _ \<Rightarrow> True | ListEv _ _ \<Rightarrow> True
      | SysctlsEv _ \<Rightarrow> True | TextEv f _ \<Rightarrow> f \<in> {StopGrace, PidMode, IpcMode, ShmSize} | _ \<Rightarrow> False)"

text \<open>Collapsing the card unmounts everything below its header; opening it again, or its advanced part,
  creates the sections anew.\<close>

definition card_step ::
  "registry list \<Rightarrow> string \<Rightarrow> compose_service \<Rightarrow> card_event \<Rightarrow> card_state \<Rightarrow>
     (card_state \<times> card_out list) result" where
  "card_step registries name svc e s =
     (case e of
        ToggleCard \<Rightarrow>
          Inr (if card_expanded s = None
               then s\<lparr>card_expanded := Some (main_init svc),
                      card_advanced := (if card_showAdvanced s then Some (advanced_init svc) else None)\<rparr>
               else s\<lparr>card_expanded := None, card_advanced := None\<rparr>, [])
      | StartNameEdit \<Rightarrow> Inr (s\<lparr>card_editingName := True\<rparr>, [])
      | TypeName v \<Rightarrow> Inr (s\<lparr>card_nameVal := v\<rparr>, [])
      | LeaveName \<Rightarrow> Inr (commit_name name s)
      | NameKey key \<Rightarrow>
          Inr (if key = ''Enter'' then commit_name name s
               else if key = ''Escape'' then (s\<lparr>card_nameVal := name, card_editingName := False\<rparr>, [])
               else (s, []))
      | RemoveClicked \<Rightarrow> Inr (s, [ServiceRemove])
      | ToggleAdvanced \<Rightarrow>
          Inr (if card_showAdvanced s
               then s\<lparr>card_showAdvanced := False, card_advanced := None\<rparr>
               else s\<lparr>card_showAdvanced := True, card_advanced := Some (advanced_init svc)\<rparr>, [])
      | _ \<Rightarrow>
          if in_advanced e then
            (case card_advanced s of
               None \<Rightarrow> Inr (s, [])
             | Some a \<Rightarrow> (let (a', outs) = advanced_step svc e a in Inr (s\<lparr>card_advanced := Some a'\<rparr>, outs)))
          else
            (case card_expanded s of
               None \<Rightarrow> Inr (s, [])
             | Some m \<Rightarrow> bind_result (main_step registries svc e m) (\<lambda>(m', outs).
                 Inr (s\<lparr>card_expanded := Some m'\<rparr>, outs))))"

end
