(* ===== verification/Card_View.thy ===== *)
theory Card_View
  imports Service_Card
begin

section \<open>What a service card shows: the markup of \<open>ServiceCard\<close>\<close>

text \<open>
  The controls of the card in their order, each section lifted into the card's events. Two sections
  throw while rendering on values the parser left untyped, so the view is a \<open>result\<close>.
\<close>

definition card_header :: "string \<Rightarrow> compose_service \<Rightarrow> card_state \<Rightarrow> card_event widget list" where
  "card_header name svc s =
     [Button (if card_expanded s \<noteq> None then ''Collapse'' else ''Expand'') False ToggleCard,
      (if card_editingName s then KeyInput [] (card_nameVal s) TypeName NameKey (Some LeaveName)
       else Button name False StartNameEdit)] @
     (case nonempty (svc_image svc) of Some img \<Rightarrow> [Label img] | None \<Rightarrow> []) @
     [Button ''Remove service'' False RemoveClicked]"

definition dashed :: "string \<Rightarrow> string \<Rightarrow> string" where
  "dashed a b = a @ '' '' @ em_dash @ '' '' @ b"

definition restart_options :: "(string \<times> string) list" where
  "restart_options =
     [(''no'', dashed ''no'' ''never restart''), (''always'', dashed ''always'' ''restart always''),
      (''on-failure'', dashed ''on-failure'' ''restart on error exit''),
      (''unless-stopped'', dashed ''unless-stopped'' ''always except manual stop'')]"

definition card_basic :: "compose_service \<Rightarrow> main_state \<Rightarrow> card_event widget list" where
  "card_basic svc m =
     lift_view ImageEv (ImageField (str_or [] (svc_image svc)) (ms_image m)) @
     InputRow ''Container name'' (str_or [] (svc_container_name svc)) ''(auto)'' (TextEv ContainerName) @
     InputRow ''Hostname'' (str_or [] (svc_hostname svc)) ''(auto)'' (TextEv Hostname) @
     SelectRow ''Restart'' (str_or ''no'' (svc_restart svc)) restart_options RestartEv @
     TextareaRow ''Command'' (str_or [] (svc_command svc)) ''(default from image)'' (TextEv Command) @
     TextareaRow ''Entrypoint'' (str_or [] (svc_entrypoint svc)) ''(default from image)'' (TextEv Entrypoint) @
     InputRow ''User'' (str_or [] (svc_user svc)) ''1000:1000'' (TextEv RunUser) @
     InputRow ''Working dir'' (str_or [] (svc_working_dir svc)) ''/app'' (TextEv WorkingDir)"

definition card_sections ::
  "string \<Rightarrow> compose_service \<Rightarrow> string list \<Rightarrow> string obj option \<Rightarrow> string list \<Rightarrow> main_state \<Rightarrow>
     card_event widget list result" where
  "card_sections name svc allServices projectEnvVars availableNetworks m =
     bind_result (PortsSection (list_of_opt (svc_ports svc)) (list_of_opt (svc_expose svc)) (ms_ports m)) (\<lambda>ports.
     bind_result (VolumesSection (list_of_opt (svc_volumes svc)) (ms_volumes m)) (\<lambda>volumes.
     bind_result (NetworksSection (svc_networks svc) availableNetworks (ms_networks m)) (\<lambda>networks.
       Inr (lift_view PortsEv ports @
            lift_view EnvEv (EnvSection (list_of_opt (svc_environment svc)) projectEnvVars (ms_env m)) @
            lift_view VolumesEv volumes @
            lift_view NetworksEv networks @
            lift_view DepsEv (DependsOnSection (list_of_opt (svc_depends_on svc))
              (filter (\<lambda>s. s \<noteq> name) allServices) (ms_deps m)) @
            lift_view HealthEv (HealthCheckSection (svc_healthcheck svc) (ms_health m)) @
            lift_view LimitsEv (ResourcesSection (svc_deploy svc) (ms_limits m)) @
            lift_view LabelsEv (KVSection ''Labels'' (list_of_opt (svc_labels svc)) ''key'' ''value'' (ms_labels m)) @
            [Button ''Advanced'' False ToggleAdvanced]))))"

definition stop_signals :: "(string \<times> string) list" where
  "stop_signals =
     [(''SIGTERM'', ''SIGTERM (default)''), (''SIGKILL'', ''SIGKILL''), (''SIGUSR1'', ''SIGUSR1''),
      (''SIGUSR2'', ''SIGUSR2''), (''SIGHUP'', ''SIGHUP'')]"

definition card_advanced_view :: "compose_service \<Rightarrow> advanced_state \<Rightarrow> card_event widget list" where
  "card_advanced_view svc a =
     ToggleRow ''Privileged'' (svc_privileged svc) (FlagEv Privileged) @
     ToggleRow ''Read-only FS'' (svc_read_only svc) (FlagEv ReadOnlyFs) @
     ToggleRow ''Init process'' (svc_init svc) (FlagEv InitProcess) @
     ToggleRow ''TTY'' (svc_tty svc) (FlagEv Tty) @
     ToggleRow ''stdin_open'' (svc_stdin_open svc) (FlagEv StdinOpen) @
     SelectRow ''Stop signal'' (str_or ''SIGTERM'' (svc_stop_signal svc)) stop_signals StopSignalEv @
     InputRow ''Stop timeout'' (str_or [] (svc_stop_grace_period svc)) ''10s'' (TextEv StopGrace) @
     InputRow ''Scale'' (number_text (svc_scale svc)) ''1'' ScaleEv @
     SelectRow ''PID mode'' (str_or [] (svc_pid svc))
       [([], ''(default)''), (''host'', dashed ''host'' ''share host PID namespace'')] (TextEv PidMode) @
     SelectRow ''IPC mode'' (str_or [] (svc_ipc svc))
       [([], ''(default)''), (''host'', dashed ''host'' ''share host IPC namespace''),
        (''shareable'', dashed ''shareable'' ''can share with other containers''),
        (''none'', dashed ''none'' ''private, isolated'')] (TextEv IpcMode) @
     InputRow ''Shared memory'' (str_or [] (svc_shm_size svc)) ''64m'' (TextEv ShmSize) @
     concat (map (\<lambda>f. lift_view (ListEv f)
       (StrListSection (fst (list_caption f)) (list_of_opt (get_list f svc)) (snd (list_caption f))
          (adv_lists a f))) list_fields) @
     lift_view SysctlsEv
       (KVSection ''Sysctls'' (list_of_opt (svc_sysctls svc)) ''net.ipv4.ip_forward'' ''1'' (adv_sysctls a))"

definition ServiceCard ::
  "string \<Rightarrow> compose_service \<Rightarrow> string list \<Rightarrow> string obj option \<Rightarrow> string list \<Rightarrow> card_state \<Rightarrow>
     card_event widget list result" where
  "ServiceCard name svc allServices projectEnvVars availableNetworks s =
     (case card_expanded s of
        None \<Rightarrow> Inr (card_header name svc s)
      | Some m \<Rightarrow>
          bind_result (card_sections name svc allServices projectEnvVars availableNetworks m) (\<lambda>sections.
            Inr (card_header name svc s @ card_basic svc m @ sections @
                 (case card_advanced s of None \<Rightarrow> [] | Some a \<Rightarrow> card_advanced_view svc a))))"

end
