(* ===== verification/Compose_Builder.thy ===== *)
theory Compose_Builder
  imports Card_View "HOL-Library.AList"
begin

section \<open>The whole editor: \<open>ComposeBuilder\<close> of \<open>components/compose/ComposeBuilder.tsx\<close>\<close>

text \<open>
  The operations on the set of services, the upkeep of the top-level volumes, and the component
  that composes the cards and the two panels. The Compose file is the parent's: a step returns the
  file it hands to \<open>onChange\<close>, and \<open>builder_render\<close> creates and drops the cards' states when the
  services change, as React does by their keys.
\<close>

subsection \<open>Named volumes\<close>

text \<open>\<open>isNamedVolume\<close> on the source of a mount; calling \<open>startsWith\<close> on a value that is not a string
  throws.\<close>

definition isNamedVolume :: "string \<Rightarrow> bool" where
  "isNamedVolume source =
     (source \<noteq> [] \<and> \<not> js_starts_with source ''/'' \<and> \<not> js_starts_with source ''.'')"

definition named_source :: "js \<Rightarrow> string list result" where
  "named_source v =
     bind_result (js_read v ''source'') (\<lambda>src.
       case src of
         JStr s \<Rightarrow> Inr (if isNamedVolume s then [s] else [])
       | _ \<Rightarrow> if js_truthy src then Inl (TypeError ''source.startsWith is not a function'') else Inr [])"

fun volume_entry_names :: "volume_entry \<Rightarrow> string list result" where
  "volume_entry_names (Volume v) = Inr (if isNamedVolume (vol_source v) then [vol_source v] else [])"
| "volume_entry_names (VolumeRaw v) = named_source v"

text \<open>The \<open>Set\<close> as the list of its elements in the order they were added.\<close>

definition set_add :: "string list \<Rightarrow> string list \<Rightarrow> string list" where
  "set_add used names = fold (\<lambda>n u. if n \<in> set u then u else u @ [n]) names used"

definition getUsedVolumes :: "compose_service obj option \<Rightarrow> string list result" where
  "getUsedVolumes services =
     bind_result
       (map_result volume_entry_names
         (concat (map (\<lambda>(n, svc). list_of_opt (svc_volumes svc)) (list_of_opt services))))
       (\<lambda>names. Inr (set_add [] (concat names)))"

text \<open>\<open>!config || Object.keys(config).length === 0\<close>.\<close>

definition default_config :: "js \<Rightarrow> bool" where
  "default_config config =
     (\<not> js_truthy config \<or> (case config of JStr _ \<Rightarrow> False | _ \<Rightarrow> js_entries config = []))"

definition declare_volumes :: "string list \<Rightarrow> js obj \<Rightarrow> js obj" where
  "declare_volumes used vols =
     fold (\<lambda>v next. if obj_in v next then next else obj_assign v (JObj []) next) used vols"

definition prune_volumes :: "string list \<Rightarrow> js obj \<Rightarrow> js obj" where
  "prune_volumes used vols =
     fold (\<lambda>(v, config) next. if v \<notin> set used \<and> default_config config then obj_delete v next else next)
       vols vols"

definition top_entries :: "js option \<Rightarrow> js obj" where
  "top_entries v = (case v of None \<Rightarrow> [] | Some j \<Rightarrow> js_entries j)"

definition syncTopLevelVolumes :: "compose_file \<Rightarrow> compose_file result" where
  "syncTopLevelVolumes cf =
     bind_result (getUsedVolumes (cf_services cf)) (\<lambda>used.
       (let next = prune_volumes used (declare_volumes used (top_entries (cf_volumes cf)))
        in Inr (cf\<lparr>cf_volumes := map_option JObj (keys_or_undef next)\<rparr>)))"

subsection \<open>The services\<close>

definition updateService :: "compose_file \<Rightarrow> string \<Rightarrow> compose_service \<Rightarrow> compose_file result" where
  "updateService cf name svc =
     syncTopLevelVolumes (cf\<lparr>cf_services := Some (obj_set name svc (list_of_opt (cf_services cf)))\<rparr>)"

definition retarget_dep :: "string \<Rightarrow> string \<Rightarrow> depends_on_entry \<Rightarrow> depends_on_entry" where
  "retarget_dep oldName newName d = (if dep_service d = oldName then d\<lparr>dep_service := newName\<rparr> else d)"

definition retarget :: "string \<Rightarrow> string \<Rightarrow> compose_service \<Rightarrow> compose_service" where
  "retarget oldName newName svc =
     (case svc_depends_on svc of
        None \<Rightarrow> svc
      | Some ds \<Rightarrow> svc\<lparr>svc_depends_on := Some (map (retarget_dep oldName newName) ds)\<rparr>)"

text \<open>A service is an object, so looking a name up is truthy for every service and every inherited
  name. The second loop of \<open>renameService\<close> rewrites each entry in its place.\<close>

definition renameService :: "compose_file \<Rightarrow> string \<Rightarrow> string \<Rightarrow> compose_file option" where
  "renameService cf oldName newName =
     (let services = list_of_opt (cf_services cf) in
      if obj_lookup_truthy (\<lambda>_. True) newName services then None
      else Some (cf\<lparr>cf_services :=
        Some (map (\<lambda>(k, svc). (k, retarget oldName newName svc)) (rename_key oldName newName services))\<rparr>))"

definition removeService :: "compose_file \<Rightarrow> string \<Rightarrow> compose_file" where
  "removeService cf name = cf\<lparr>cf_services := Some (obj_delete name (list_of_opt (cf_services cf)))\<rparr>"

definition addService :: "compose_file \<Rightarrow> compose_file" where
  "addService cf =
     (let services = list_of_opt (cf_services cf) in
      cf\<lparr>cf_services := Some (obj_set (fresh_key (\<lambda>_. True) ''service'' services)
           (empty_service\<lparr>svc_restart := Some ''unless-stopped''\<rparr>) services)\<rparr>)"

subsection \<open>The component\<close>

record builder_state =
  bs_cards :: "(string \<times> card_state) list"
  bs_registries :: "registry list"
  bs_networks_open :: "bool option"
  bs_volumes_open :: "bool option"

datatype builder_event =
    CardEv string card_event
  | AddServiceClicked
  | NetworksPanelEv top_event
  | VolumesPanelEv top_event
  | RegistriesArrived "registry list"

datatype builder_out = FileChange compose_file | BuilderFetch api_call

definition service_names :: "compose_file \<Rightarrow> string list" where
  "service_names cf = obj_keys (list_of_opt (cf_services cf))"

text \<open>Rendering a file: a card per service, new where its key is new; the panels exist only beside at
  least one service.\<close>

definition panel_open :: "js option \<Rightarrow> bool option \<Rightarrow> bool option" where
  "panel_open v b = (case b of Some x \<Rightarrow> Some x | None \<Rightarrow> Some (top_entries v \<noteq> []))"

definition builder_render :: "compose_file \<Rightarrow> builder_state \<Rightarrow> builder_state" where
  "builder_render cf s =
     s\<lparr>bs_cards := map (\<lambda>(n, svc). (n, case map_of (bs_cards s) n of Some c \<Rightarrow> c | None \<Rightarrow> card_init n svc))
                     (list_of_opt (cf_services cf)),
       bs_networks_open := (if service_names cf = [] then None else panel_open (cf_networks cf) (bs_networks_open s)),
       bs_volumes_open := (if service_names cf = [] then None else panel_open (cf_volumes cf) (bs_volumes_open s))\<rparr>"

definition builder_init :: "compose_file \<Rightarrow> builder_state \<times> api_call" where
  "builder_init cf =
     (builder_render cf \<lparr>bs_cards = [], bs_registries = [], bs_networks_open = None, bs_volumes_open = None\<rparr>,
      listRegistries)"

fun card_outs :: "compose_file \<Rightarrow> string \<Rightarrow> card_out \<Rightarrow> builder_out list result" where
  "card_outs cf name (ServiceChange svc) =
     bind_result (updateService cf name svc) (\<lambda>c. Inr [FileChange c])"
| "card_outs cf name (ServiceRename newName) =
     Inr (case renameService cf name newName of Some c \<Rightarrow> [FileChange c] | None \<Rightarrow> [])"
| "card_outs cf name ServiceRemove = Inr [FileChange (removeService cf name)]"
| "card_outs cf name (CardFetch c) = Inr [BuilderFetch c]"

definition panel_outs :: "(js option \<Rightarrow> compose_file) \<Rightarrow> js obj option \<Rightarrow> builder_out list" where
  "panel_outs put_panel call =
     (case call of None \<Rightarrow> [] | Some next \<Rightarrow> [FileChange (put_panel (map_option JObj (keys_or_undef next)))])"

fun builder_step ::
  "compose_file \<Rightarrow> builder_event \<Rightarrow> builder_state \<Rightarrow> (builder_state \<times> builder_out list) result" where
  "builder_step cf (CardEv name e) s =
     (case (map_of (bs_cards s) name, obj_get (list_of_opt (cf_services cf)) name) of
        (Some c, Some svc) \<Rightarrow>
          bind_result (card_step (bs_registries s) name svc e c) (\<lambda>(c', outs).
            bind_result (map_result (card_outs cf name) outs) (\<lambda>calls.
              Inr (s\<lparr>bs_cards := AList.update name c' (bs_cards s)\<rparr>, concat calls)))
      | _ \<Rightarrow> Inr (s, []))"
| "builder_step cf AddServiceClicked s = Inr (s, [FileChange (addService cf)])"
| "builder_step cf (NetworksPanelEv e) s =
     (case bs_networks_open s of
        None \<Rightarrow> Inr (s, [])
      | Some b \<Rightarrow>
          bind_result (TopLevelNetworksPanel_step (top_entries (cf_networks cf)) e b) (\<lambda>(b', call).
            Inr (s\<lparr>bs_networks_open := Some b'\<rparr>, panel_outs (\<lambda>v. cf\<lparr>cf_networks := v\<rparr>) call)))"
| "builder_step cf (VolumesPanelEv e) s =
     (case bs_volumes_open s of
        None \<Rightarrow> Inr (s, [])
      | Some b \<Rightarrow>
          bind_result (TopLevelVolumesPanel_step (top_entries (cf_volumes cf)) e b) (\<lambda>(b', call).
            Inr (s\<lparr>bs_volumes_open := Some b'\<rparr>, panel_outs (\<lambda>v. cf\<lparr>cf_volumes := v\<rparr>) call)))"
| "builder_step cf (RegistriesArrived rs) s = Inr (s\<lparr>bs_registries := rs\<rparr>, [])"

text \<open>The page. Before the panels are rendered the used volumes are computed, which can throw.\<close>

definition ComposeBuilder ::
  "compose_file \<Rightarrow> string obj option \<Rightarrow> builder_state \<Rightarrow> builder_event widget list result" where
  "ComposeBuilder cf projectEnvVars s =
     (if service_names cf = [] then
        Inr [Label ''No services defined'', Button ''Add service'' False AddServiceClicked]
      else
        bind_result
          (map_result (\<lambda>(n, svc).
             bind_result (ServiceCard n svc (service_names cf) projectEnvVars
                (obj_keys (top_entries (cf_networks cf)))
                (case map_of (bs_cards s) n of Some c \<Rightarrow> c | None \<Rightarrow> card_init n svc))
               (\<lambda>ws. Inr (lift_view (CardEv n) ws))) (list_of_opt (cf_services cf)))
          (\<lambda>cards.
             bind_result (getUsedVolumes (cf_services cf)) (\<lambda>_.
               Inr (concat cards @ [Button ''Add service'' False AddServiceClicked] @
                    (case bs_networks_open s of None \<Rightarrow> [] | Some b \<Rightarrow>
                       lift_view NetworksPanelEv (TopLevelNetworksPanel (top_entries (cf_networks cf)) b)) @
                    (case bs_volumes_open s of None \<Rightarrow> [] | Some b \<Rightarrow>
                       lift_view VolumesPanelEv (TopLevelVolumesPanel (top_entries (cf_volumes cf)) b))))))"

end
