(* ===== verification/Builder_Properties.thy ===== *)
theory Builder_Properties
  imports Compose_Builder Compose_Properties
begin

section \<open>What the visual editor promises\<close>

text \<open>
  The top-level volumes follow the mounts of the services; renaming, adding and removing a service
  and its dependencies; renaming keys of dictionaries; and the pages the editor cannot render.
\<close>

subsection \<open>Top-level volumes\<close>

lemma declare_volumes_set:
  "declare_volumes used vols =
     fold (\<lambda>v next. if obj_in v next then next else obj_set v (JObj []) next) used vols"
proof -
  have step: "(if obj_in v next then next else obj_assign v (JObj []) next) =
      (if obj_in v next then next else obj_set v (JObj []) next)" for v and "next" :: "js obj"
    by (auto simp: obj_assign_def obj_in_def proto_keys_def)
  show ?thesis unfolding declare_volumes_def step ..
qed

lemma wf_declare: "wf_obj vols \<Longrightarrow> wf_obj (declare_volumes used vols)"
  unfolding declare_volumes_set by (rule objs.valid_fold_default)

lemma declare_get:
  "wf_obj vols \<Longrightarrow>
     obj_get (declare_volumes used vols) v =
       (case obj_get vols v of Some c \<Rightarrow> Some c
        | None \<Rightarrow> if v \<in> set used \<and> v \<notin> set proto_keys then Some (JObj []) else None)"
  unfolding declare_volumes_set
  by (rule objs.get_fold_default) (auto simp: obj_in_def map_of_eq_None_iff)

lemma wf_prune: "wf_obj vols \<Longrightarrow> wf_obj (prune_volumes used vols)"
  unfolding prune_volumes_def
  using objs.valid_fold_del [of vols "\<lambda>v config. v \<notin> set used \<and> default_config config" vols] by simp

lemma prune_get:
  assumes "wf_obj vols"
  shows "obj_get (prune_volumes used vols) v =
           (case obj_get vols v of None \<Rightarrow> None
            | Some c \<Rightarrow> if v \<notin> set used \<and> default_config c then None else Some c)"
proof -
  have "distinct (obj_keys vols)" using assms by (simp add: wf_obj_def)
  then have "(\<exists>c. (v, c) \<in> set vols \<and> v \<notin> set used \<and> default_config c) \<longleftrightarrow>
      (\<exists>c. obj_get vols v = Some c \<and> v \<notin> set used \<and> default_config c)"
    by simp
  then show ?thesis
    unfolding prune_volumes_def
    using objs.get_fold_del [of vols "\<lambda>v config. v \<notin> set used \<and> default_config config" vols v] assms
    by (auto split: option.split)
qed

lemma top_entries_put [simp]: "top_entries (map_option JObj (keys_or_undef next)) = next"
  by (simp add: top_entries_def keys_or_undef_def)


definition shop_file :: compose_file where
  "shop_file =
     \<lparr>cf_version = None,
      cf_services = Some [(''db'', empty_service\<lparr>svc_volumes :=
        Some [Volume \<lparr>vol_source = ''data'', vol_target = ''/var'', vol_readOnly = None\<rparr>,
              Volume \<lparr>vol_source = ''./conf'', vol_target = ''/etc'', vol_readOnly = None\<rparr>]\<rparr>)],
      cf_networks = None, cf_volumes = Some (JObj [(''old'', JNull), (''kept'', JObj [(''external'', JBool True)])])\<rparr>"


lemma fold_default_none:
  "(\<And>k. k \<in> set ks \<Longrightarrow> present k s) \<Longrightarrow> fold (\<lambda>k s. if present k s then s else f k s) ks s = s"
  by (induction ks) auto

lemma fold_drop_none:
  "(\<And>k v. (k, v) \<in> set ps \<Longrightarrow> \<not> drop_it k v) \<Longrightarrow> fold (\<lambda>(k, v) s. if drop_it k v then f k s else s) ps s = s"
  by (induction ps) auto

text \<open>Bringing the volumes in line a second time changes nothing.\<close>

theorem sync_volumes_idempotent:
  assumes "syncTopLevelVolumes cf = Inr cf'" and "wf_obj (top_entries (cf_volumes cf))"
  shows "syncTopLevelVolumes cf' = Inr cf'"
proof -
  let ?vols = "top_entries (cf_volumes cf)"
  obtain used where used: "getUsedVolumes (cf_services cf) = Inr used"
    using assms(1) by (auto simp: syncTopLevelVolumes_def bind_result_eq_Inr)
  define next1 where "next1 = prune_volumes used (declare_volumes used ?vols)"
  have cf': "cf' = cf\<lparr>cf_volumes := map_option JObj (keys_or_undef next1)\<rparr>"
    using assms(1) used by (simp add: syncTopLevelVolumes_def Let_def next1_def)
  have get: "obj_get next1 v = (case obj_get (declare_volumes used ?vols) v of None \<Rightarrow> None
      | Some c \<Rightarrow> if v \<notin> set used \<and> default_config c then None else Some c)" for v
    unfolding next1_def by (rule prune_get [OF wf_declare [OF assms(2)]])
  have wf: "wf_obj next1" unfolding next1_def by (rule wf_prune [OF wf_declare [OF assms(2)]])
  have "obj_in v next1" if "v \<in> set used" for v
  proof (cases "v \<in> set proto_keys")
    case False
    then have "obj_get next1 v \<noteq> None"
      using get [of v] declare_get [OF assms(2), of used v] that by (auto split: option.splits)
    then show ?thesis by (simp add: obj_in_def map_of_eq_None_iff)
  qed (simp add: obj_in_def)
  then have declared: "declare_volumes used next1 = next1"
    unfolding declare_volumes_def by (rule fold_default_none)
  have "\<not> (v \<notin> set used \<and> default_config c)" if "(v, c) \<in> set next1" for v c
  proof -
    have "obj_get next1 v = Some c" using that wf by (simp add: wf_obj_def)
    then show ?thesis using get [of v] by (auto split: option.splits if_splits)
  qed
  then have pruned: "prune_volumes used next1 = next1"
    unfolding prune_volumes_def by (rule fold_drop_none)
  show ?thesis
    using used by (simp add: syncTopLevelVolumes_def Let_def cf' declared pruned)
qed

theorem sync_volumes_idempotent_witness:
  "syncTopLevelVolumes (projr (syncTopLevelVolumes shop_file)) = Inr (projr (syncTopLevelVolumes shop_file))"
proof (rule sync_volumes_idempotent)
  have used: "getUsedVolumes (cf_services shop_file) = Inr [''data'']"
    by (simp add: shop_file_def getUsedVolumes_def list_of_opt_def isNamedVolume_def js_starts_with_def set_add_def)
  show "syncTopLevelVolumes shop_file = Inr (projr (syncTopLevelVolumes shop_file))"
    by (simp add: syncTopLevelVolumes_def used Let_def)
  show "wf_obj (top_entries (cf_volumes shop_file))"
    by (simp add: shop_file_def top_entries_def wf_obj_def key_before_def index_key_def is_digit_def)
qed

subsection \<open>Keys that are renamed\<close>

lemma keys_assign:
  "set (obj_keys (obj_assign k v xs)) = set (obj_keys xs) \<union> ({k} - {''__proto__''})"
  using set_obj_keys_set [of k v xs] by (auto simp: obj_assign_def)

lemma keys_assign_all:
  "set (obj_keys (obj_assign_all ps xs)) = set (obj_keys xs) \<union> (set (obj_keys ps) - {''__proto__''})"
proof (induction ps arbitrary: xs)
  case (Cons p ps)
  obtain k v where p: "p = (k, v)" by force
  have "obj_assign_all (p # ps) xs = obj_assign_all ps (obj_assign k v xs)"
    by (simp add: obj_assign_all_def p)
  then show ?case unfolding Cons.IH keys_assign p by (simp only: Cons.IH keys_assign) auto
qed (simp add: obj_assign_all_def)

lemma wf_length: "wf_obj xs \<Longrightarrow> length xs = card (set (obj_keys xs))"
  by (metis distinct_card length_map wf_obj_def)

lemma keys_rename:
  "dict_ok xs \<Longrightarrow> b \<noteq> ''__proto__'' \<Longrightarrow>
     set (obj_keys (rename_key a b xs)) = (\<lambda>k. if k = a then b else k) ` set (obj_keys xs)"
  unfolding rename_key_def keys_assign_all
  by (auto simp: dict_ok_def image_iff case_prod_beta split: if_splits)

lemma card_replace:
  "finite K \<Longrightarrow> a \<in> K \<Longrightarrow> card (insert b (K - {a})) = card K - (if a \<noteq> b \<and> b \<in> K then 1 else 0)"
  using card_gt_0_iff [of K] by (auto simp: card_insert_if insert_absorb)

lemma image_replace: "(\<lambda>k. if k = a then b else k) ` K = (if a \<in> K then insert b (K - {a}) else K)"
  by auto

lemma length_rename:
  assumes "dict_ok xs" and "b \<noteq> ''__proto__''"
  shows "length (rename_key a b xs) =
           length xs - (if a \<noteq> b \<and> a \<in> set (obj_keys xs) \<and> b \<in> set (obj_keys xs) then 1 else 0)"
proof -
  have len: "length xs = card (set (obj_keys xs))"
    using assms(1) by (intro wf_length) (simp add: dict_ok_def)
  have "length (rename_key a b xs) = card ((\<lambda>k. if k = a then b else k) ` set (obj_keys xs))"
    unfolding wf_length [OF wf_rename_key] keys_rename [OF assms] ..
  then show ?thesis
    unfolding len image_replace using card_replace [of "set (obj_keys xs)" a b] by (auto simp del: set_map)
qed

lemma kv_update_key: "kv_update txt a KvKey b xs = rename_key a b xs"
proof -
  have "(\<lambda>(k, v). if k = a then (case KvKey of KvKey \<Rightarrow> (b, v) | KvValue \<Rightarrow> (k, txt b)) else (k, v)) =
      (\<lambda>(k, v). (if k = a then b else k, v))"
    by (auto simp: fun_eq_iff)
  then show ?thesis by (simp add: kv_update_def rename_key_def)
qed

text \<open>Editing the name of a variable renames it on every keystroke: as soon as the text typed so far
  is the name of another variable, the two collapse into one and a value is lost. Otherwise the number
  of variables stays the same.\<close>

theorem env_key_edit_count:
  assumes "dict_ok env" and "val \<noteq> ''__proto__''"
    and "env_step env (UpdateEnv k KvKey val) s = (s', Some env')"
  shows "length env' =
           length env - (if k \<noteq> val \<and> k \<in> set (obj_keys env) \<and> val \<in> set (obj_keys env) then 1 else 0)"
  using assms(3) length_rename [OF assms(1,2), of k] by (auto simp: kv_update_key)

theorem env_key_edit_count_witness:
  "length (rename_key ''B'' ''A'' [(''A'', ''1''), (''B'', ''2'')]) = 1"
  using env_key_edit_count [of "[(''A'', ''1''), (''B'', ''2'')]" "''A''" "''B''" s s
      "rename_key ''B'' ''A'' [(''A'', ''1''), (''B'', ''2'')]"]
  by (simp add: kv_update_key dict_ok_def wf_obj_def key_before_def index_key_def is_digit_def)

text \<open>Renaming a top-level network is refused when the new name is taken by a configuration that is
  not empty in JavaScript's sense; a name whose configuration is \<open>null\<close> (the short form \<open>net:\<close>) is not
  seen as taken, and renaming onto it drops one of the two networks.\<close>

theorem top_rename_count:
  assumes "dict_ok networks" and "oldName \<in> set (obj_keys networks)" and "newName \<noteq> ''__proto__''"
    and "top_rename networks oldName newName = Some next1"
  shows "(\<forall>c. obj_get networks newName = Some c \<longrightarrow> \<not> js_truthy c) \<and>
         length next1 = length networks - (if newName \<in> set (obj_keys networks) then 1 else 0)"
proof -
  have "newName \<noteq> oldName" "\<not> obj_lookup_truthy js_truthy newName networks"
      "next1 = rename_key oldName newName networks"
    using assms(4) by (auto simp: top_rename_def split: if_splits)
  then show ?thesis
    using length_rename [OF assms(1,3), of oldName] assms(2)
    by (auto simp: obj_lookup_truthy_def split: option.splits)
qed

theorem top_rename_count_witness:
  "length (the (top_rename [(''front'', JObj [(''driver'', JStr ''overlay'')]), (''back'', JNull)] ''front'' ''back'')) = 1"
proof -
  let ?nets = "[(''front'', JObj [(''driver'', JStr ''overlay'')]), (''back'', JNull)]"
  have "top_rename ?nets ''front'' ''back'' = Some (rename_key ''front'' ''back'' ?nets)"
    by (simp add: top_rename_def obj_lookup_truthy_def)
  then show ?thesis
    using top_rename_count [of ?nets "''front''" "''back''" "rename_key ''front'' ''back'' ?nets"]
    by (simp add: dict_ok_def wf_obj_def key_before_def index_key_def is_digit_def)
qed

subsection \<open>Services\<close>

text \<open>Every dependency names a service of the file.\<close>

definition deps_of :: "compose_service \<Rightarrow> string set" where
  "deps_of svc = dep_service ` set (list_of_opt (svc_depends_on svc))"

definition deps_closed :: "compose_file \<Rightarrow> bool" where
  "deps_closed cf =
     (\<forall>(n, svc) \<in> set (list_of_opt (cf_services cf)). deps_of svc \<subseteq> set (service_names cf))"

lemma deps_of_retarget:
  "deps_of (retarget a b svc) = (\<lambda>k. if k = a then b else k) ` deps_of svc"
proof -
  have "dep_service (retarget_dep a b d) = (\<lambda>k. if k = a then b else k) (dep_service d)" for d
    by (simp add: retarget_dep_def)
  then have "dep_service ` set (map (retarget_dep a b) ds) = (\<lambda>k. if k = a then b else k) ` dep_service ` set ds" for ds
    unfolding set_map image_image by (intro image_cong) simp_all
  then show ?thesis
    by (cases "svc_depends_on svc") (simp_all add: deps_of_def retarget_def list_of_opt_def del: set_map)
qed

lemma values_obj_set: "snd ` set (obj_set k v ys) \<subseteq> insert v (snd ` set ys)"
proof (cases "k \<in> set (obj_keys ys)")
  case True
  have "snd ` set (obj_replace k v ys) \<subseteq> insert v (snd ` set ys)"
    by (induction k v ys rule: obj_replace.induct) auto
  with True show ?thesis by (simp only: obj_set_def if_True)
next
  case False
  have "set (takeWhile P ys @ (k, v) # dropWhile P ys) = insert (k, v) (set (takeWhile P ys @ dropWhile P ys))" for P
    unfolding set_append by simp
  with False show ?thesis
    by (simp only: obj_set_def if_False takeWhile_dropWhile_id image_insert snd_conv order_refl)
qed

lemma values_obj_assign: "snd ` set (obj_assign k v ys) \<subseteq> insert v (snd ` set ys)"
  using values_obj_set [of k v ys] by (auto simp: obj_assign_def)

lemma values_assign_all: "snd ` set (obj_assign_all ps ys) \<subseteq> snd ` set ps \<union> snd ` set ys"
proof (induction ps arbitrary: ys)
  case (Cons p ps)
  obtain k v where p: "p = (k, v)" by force
  have "obj_assign_all (p # ps) ys = obj_assign_all ps (obj_assign k v ys)"
    by (simp add: obj_assign_all_def p)
  then have "snd ` set (obj_assign_all (p # ps) ys) \<subseteq> snd ` set ps \<union> snd ` set (obj_assign k v ys)"
    using Cons.IH by simp
  then show ?case using values_obj_assign [of k v ys] by (auto simp: p)
qed (simp add: obj_assign_all_def)

lemma values_rename: "snd ` set (rename_key a b xs) \<subseteq> snd ` set xs"
proof -
  have "snd ` set (map (\<lambda>(k, v). (if k = a then b else k, v)) xs) = snd ` set xs"
    by (induction xs) auto
  then show ?thesis
    unfolding rename_key_def using values_assign_all [of "map (\<lambda>(k, v). (if k = a then b else k, v)) xs" "[]"]
    by simp
qed

text \<open>C11: Renaming a service carries its dependents along: when every dependency named a service before,
  every dependency names a service after, no service is lost, and the old name is gone.\<close>

theorem rename_service_keeps_deps:
  assumes "dict_ok (list_of_opt (cf_services cf))" and "deps_closed cf"
    and "oldName \<in> set (service_names cf)" and "renameService cf oldName newName = Some cf'"
  shows "deps_closed cf' \<and> length (service_names cf') = length (service_names cf) \<and>
         set (service_names cf') = insert newName (set (service_names cf) - {oldName}) \<and>
         newName \<notin> set (service_names cf)"
proof -
  let ?ss = "list_of_opt (cf_services cf)" and ?f = "\<lambda>k. if k = oldName then newName else k"
  have new: "newName \<notin> set (obj_keys ?ss)" "newName \<noteq> ''__proto__''"
    using assms(4) by (auto simp: renameService_def obj_lookup_truthy_def proto_keys_def
        map_of_eq_None_iff Let_def image_iff split: if_splits option.splits)
  have services: "list_of_opt (cf_services cf') =
      map (\<lambda>(k, svc). (k, retarget oldName newName svc)) (rename_key oldName newName ?ss)"
    using assms(4) by (auto simp: renameService_def Let_def list_of_opt_def split: if_splits)
  have names: "service_names cf' = obj_keys (rename_key oldName newName ?ss)"
    by (simp add: service_names_def services comp_def case_prod_beta)
  have keys: "set (service_names cf') = ?f ` set (service_names cf)"
    unfolding names keys_rename [OF assms(1) new(2)] by (simp only: service_names_def)
  have "deps_of (retarget oldName newName svc) \<subseteq> set (service_names cf')"
    if "(n, svc) \<in> set (rename_key oldName newName ?ss)" for n svc
  proof -
    have "svc \<in> snd ` set ?ss" using values_rename that by (force simp: image_iff)
    then have "deps_of svc \<subseteq> set (service_names cf)"
      using assms(2) by (fastforce simp: deps_closed_def)
    then show ?thesis unfolding deps_of_retarget keys by blast
  qed
  then have "deps_closed cf'" by (auto simp: deps_closed_def services)
  moreover have "length (service_names cf') = length (service_names cf)"
    unfolding names using length_rename [OF assms(1) new(2), of oldName] new(1) by (simp add: service_names_def)
  moreover have "set (service_names cf') = insert newName (set (service_names cf) - {oldName})"
    unfolding keys using assms(3) by auto
  ultimately show ?thesis using new(1) by (simp add: service_names_def)
qed

definition pair_file :: compose_file where
  "pair_file =
     \<lparr>cf_version = None,
      cf_services = Some [(''web'', empty_service\<lparr>svc_depends_on :=
          Some [\<lparr>dep_service = ''db'', dep_condition = JStr ''service_healthy''\<rparr>]\<rparr>), (''db'', empty_service)],
      cf_networks = None, cf_volumes = None\<rparr>"

lemma pair_file_facts:
  "dict_ok (list_of_opt (cf_services pair_file))" "deps_closed pair_file"
  "service_names pair_file = [''web'', ''db'']"
  by (simp_all add: pair_file_def list_of_opt_def dict_ok_def wf_obj_def key_before_def index_key_def
      is_digit_def deps_closed_def deps_of_def service_names_def empty_service_def)

theorem rename_service_keeps_deps_witness:
  "deps_closed (the (renameService pair_file ''db'' ''postgres''))"
proof -
  have "\<exists>cf'. renameService pair_file ''db'' ''postgres'' = Some cf'"
    by (simp add: renameService_def pair_file_def list_of_opt_def obj_lookup_truthy_def proto_keys_def)
  then obtain cf' where "renameService pair_file ''db'' ''postgres'' = Some cf'" by blast
  with rename_service_keeps_deps [OF pair_file_facts(1,2), of "''db''" "''postgres''" cf'] pair_file_facts(3)
  show ?thesis by simp
qed

text \<open>Removing a service leaves the others as they are, so the file keeps naming it: all dependencies
  name services afterwards exactly when no other service depended on the removed one.\<close>

theorem remove_service_deps:
  assumes "deps_closed cf"
  shows "deps_closed (removeService cf name) \<longleftrightarrow>
           (\<forall>(n, svc) \<in> set (list_of_opt (cf_services cf)). n \<noteq> name \<longrightarrow> name \<notin> deps_of svc)"
proof -
  have services: "list_of_opt (cf_services (removeService cf name)) =
      obj_delete name (list_of_opt (cf_services cf))"
    by (simp add: removeService_def list_of_opt_def)
  have names: "set (service_names (removeService cf name)) = set (service_names cf) - {name}"
    by (auto simp: service_names_def services obj_keys_delete)
  show ?thesis
    using assms unfolding deps_closed_def names services by (fastforce simp: obj_delete_def)
qed

theorem remove_service_deps_witness: "\<not> deps_closed (removeService pair_file ''db'')"
  using remove_service_deps [OF pair_file_facts(2), of "''db''"]
  by (simp add: pair_file_def list_of_opt_def deps_of_def)

lemma base_name_plain: "\<not> is_digit c \<Longrightarrow> index_key (c # cs) = None"
  by simp

text \<open>Adding a service appends one with a name not in use, which restarts unless stopped and depends
  on nothing; the services already there stay as they are, in their order.\<close>

theorem add_service_appends:
  "\<exists>name. service_names (addService cf) = service_names cf @ [name] \<and> name \<notin> set (service_names cf) \<and>
     cf_services (addService cf) = Some (list_of_opt (cf_services cf) @
       [(name, empty_service\<lparr>svc_restart := Some ''unless-stopped''\<rparr>)])"
proof -
  let ?ss = "list_of_opt (cf_services cf)"
  let ?n = "fresh_key (\<lambda>_. True) ''service'' ?ss"
  have new: "?n \<notin> set (obj_keys ?ss)" by (rule fresh_key_new) simp
  have "index_key ?n = None"
    using fresh_key_shape [of "\<lambda>_. True" "''service''" ?ss] by (auto simp: is_digit_def)
  then have "obj_set ?n v ?ss = ?ss @ [(?n, v)]" for v
    using new by (intro obj_set_append)
  then show ?thesis
    using new by (intro exI [of _ ?n]) (simp add: addService_def Let_def service_names_def list_of_opt_def)
qed

subsection \<open>Rendering\<close>

lemma network_row_throws:
  "isl (network_row (n, c)) \<longleftrightarrow>
     nullish c \<or> (\<not> nullish (js_prop c ''aliases'') \<and> \<not> is_array (js_prop c ''aliases''))"
  by (cases "js_prop c ''aliases''")
     (auto simp: network_row_def aliases_text_def js_read_def simp del: js_prop_JObj)

lemma networks_section_throws:
  "isl (NetworksSection networks available True) \<longleftrightarrow>
     (\<exists>(n, c) \<in> set (list_of_opt networks).
        nullish c \<or> (\<not> nullish (js_prop c ''aliases'') \<and> \<not> is_array (js_prop c ''aliases'')))"
proof -
  have "isl (NetworksSection networks available True) \<longleftrightarrow> isl (map_result network_row (list_of_opt networks))"
    by (cases "map_result network_row (list_of_opt networks)") (auto simp: NetworksSection_def Let_def)
  then show ?thesis
    using map_result_throws [of network_row "list_of_opt networks"] network_row_throws by auto
qed

lemma isl_bind: "isl r \<Longrightarrow> isl (bind_result r f)"
  by (cases r) auto

lemma isl_bind_later: "(\<And>x. isl (f x)) \<Longrightarrow> isl (bind_result r f)"
  by (cases r) auto

text \<open>A Compose file that attaches a service to a network in the usual short way (\<open>networks:\<close> with
  \<open>front:\<close> and nothing behind it, a \<open>null\<close>) makes the card of that service throw the first time it is
  rendered, and with it the whole editor.\<close>

theorem null_network_crashes_card:
  assumes "js_prop raw ''networks'' = JObj ns" and "(n, JNull) \<in> set ns"
  shows "isl (ServiceCard name (parseService raw) services env available (card_init name (parseService raw)))"
proof -
  have nets: "svc_networks (parseService raw) = Some ns"
    using assms(1) by (simp add: parseService_def parse_svc_networks_def del: js_prop_JObj)
  have shown: "networks_open_init (Some ns)"
    using assms(2) by (auto simp: networks_open_init_def list_of_opt_def)
  have "isl (NetworksSection (Some ns) available True)"
    unfolding networks_section_throws using assms(2) by (force simp: list_of_opt_def)
  then have "isl (card_sections name (parseService raw) services env available (main_init (parseService raw)))"
    unfolding card_sections_def
    by (intro isl_bind_later isl_bind) (simp add: main_init_def nets shown)
  then show ?thesis
    unfolding ServiceCard_def by (simp add: card_init_def isl_bind)
qed

theorem null_network_crashes_card_witness:
  "isl (ServiceCard ''web'' (parseService (JObj [(''networks'', JObj [(''front'', JNull)])])) [''web''] None []
      (card_init ''web'' (parseService (JObj [(''networks'', JObj [(''front'', JNull)])]))))"
  by (rule null_network_crashes_card [where ns = "[(''front'', JNull)]" and n = "''front''"]) simp_all

text \<open>Clearing the container port in a row of the ports does not remove the port: the file then says
  \<open>undefined\<close> where the port was.\<close>

theorem cleared_container_port:
  assumes "i < length ports" and "ports ! i = Port p"
    and "ports_step ports expose (UpdatePort i PortContainer []) isopen = (isopen', Some (OnPorts ports'))"
  shows "\<exists>pre post. portEntryToString (ports' ! i) = Inr (pre @ ''undefined'' @ post)
           \<and> pre @ (case port_container p of Some c \<Rightarrow> c | None \<Rightarrow> ''undefined'') @ post = portSpecToString p"
proof -
  have entry: "ports' ! i = Port (p\<lparr>port_container := None\<rparr>)"
    using assms by (auto simp: nth_map_at)
  let ?pre = "case (nonempty (port_ip p), nonempty (port_host p)) of
      (Some ip, Some h) \<Rightarrow> ip @ '':'' @ h @ '':'' | (Some ip, None) \<Rightarrow> ip @ ''::''
    | (None, Some h) \<Rightarrow> h @ '':'' | (None, None) \<Rightarrow> []"
  show ?thesis
    by (rule exI [of _ ?pre], rule exI [of _ "port_proto_suffix (port_protocol p)"])
       (simp add: entry portSpecToString_def Let_def split: option.split)
qed

theorem cleared_container_port_witness:
  "\<exists>pre post. portEntryToString (set_port_field PortContainer [] (Port new_port)) = Inr (pre @ ''undefined'' @ post)
     \<and> pre @ ''8080'' @ post = portSpecToString new_port"
  using cleared_container_port [of 0 "[Port new_port]" new_port "[]" True True
      "[set_port_field PortContainer [] (Port new_port)]"]
  by (simp add: map_at_def indexed_def new_port_def)

subsection \<open>What the page offers\<close>

lemma map_result_set:
  "map_result f xs = Inr ys \<Longrightarrow> y \<in> set ys \<Longrightarrow> \<exists>x \<in> set xs. f x = Inr y"
  by (induction xs arbitrary: ys) (auto simp: bind_result_eq_Inr)

lemma port_rows_in_range:
  assumes "PortsSection ports expose isopen = Inr ws"
    and "UpdatePort i f v \<in> view_events ws \<or> RemovePort i \<in> view_events ws"
  shows "i < length ports"
proof -
  have header: "view_events (SectionHeader l c TogglePorts) = {TogglePorts}" for l c
    by (simp add: SectionHeader_def)
  have row: "e \<in> view_events (port_row j p) \<Longrightarrow> (\<exists>f v. e = UpdatePort j f v) \<or> e = RemovePort j" for e j p
    by (auto simp: port_row_def)
  have rows: "j = i" if "port_entry_row j p = Inr r" "UpdatePort i f v \<in> view_events r \<or> RemovePort i \<in> view_events r" for j p r
    using that row by (cases p) (fastforce simp: bind_result_eq_Inr)+
  have expose_free: "e \<in> view_events (expose_row j x) \<Longrightarrow> (\<exists>v. e = UpdateExpose j v) \<or> e = RemoveExpose j" for e j x
    by (auto simp: expose_row_def)
  show ?thesis
  proof (cases isopen)
    case False
    with assms header show ?thesis by (auto simp: PortsSection_def Let_def)
  next
    case True
    with assms(1) obtain rs where rs: "map_result (\<lambda>(i, p). port_entry_row i p) (indexed ports) = Inr rs"
      and ws: "ws = SectionHeader ''Ports'' (Some (length ports + length expose)) TogglePorts @
        [Label ''Published''] @ concat rs @
        [Button ''Add published port'' False AddPort, Label ''Exposed (internal only)''] @
        concat (map (\<lambda>(i, p). expose_row i p) (indexed expose)) @ [Button ''Add exposed port'' False AddExpose]"
      by (auto simp: PortsSection_def Let_def bind_result_eq_Inr)
    have "\<exists>r \<in> set rs. UpdatePort i f v \<in> view_events r \<or> RemovePort i \<in> view_events r"
      using assms(2) expose_free unfolding ws by (fastforce simp: header)
    then obtain r where r: "r \<in> set rs" "UpdatePort i f v \<in> view_events r \<or> RemovePort i \<in> view_events r"
      by blast
    then obtain j p where "(j, p) \<in> set (indexed ports)" "port_entry_row j p = Inr r"
      using map_result_set [OF rs r(1)] by auto
    then show ?thesis using rows [OF _ r(2)] by (auto simp: set_indexed)
  qed
qed

lemma card_ports_events:
  assumes "ServiceCard name svc services env available c = Inr ws" and "PortsEv e \<in> view_events ws"
  shows "\<exists>isopen ps. PortsSection (list_of_opt (svc_ports svc)) (list_of_opt (svc_expose svc)) isopen = Inr ps
           \<and> e \<in> view_events ps"
proof -
  have header: "PortsEv e \<notin> view_events (card_header name svc c)"
    by (auto simp: card_header_def split: option.splits if_splits)
  have basic: "PortsEv e \<notin> view_events (card_basic svc m)" for m
    by (auto simp: card_basic_def InputRow_def SelectRow_def TextareaRow_def)
  have advanced: "PortsEv e \<notin> view_events (card_advanced_view svc a)" for a
    by (auto simp: card_advanced_view_def InputRow_def SelectRow_def ToggleRow_def)
  obtain m sec where "card_expanded c = Some m"
      and sec: "card_sections name svc services env available m = Inr sec" "PortsEv e \<in> view_events sec"
    using assms header basic advanced
    by (auto simp: ServiceCard_def bind_result_eq_Inr split: option.splits)
  obtain ps where "PortsSection (list_of_opt (svc_ports svc)) (list_of_opt (svc_expose svc)) (ms_ports m) = Inr ps"
      and "e \<in> view_events ps"
    using sec by (auto simp: card_sections_def bind_result_eq_Inr)
  then show ?thesis by blast
qed

text \<open>Every event the page offers is about something that is there: a card's events come from a
  service of the file, and a port row that can be changed or removed is a port of that service.\<close>

theorem builder_events_exist:
  assumes "ComposeBuilder cf env s = Inr ws" and "CardEv n e \<in> view_events ws"
  shows "\<exists>svc. (n, svc) \<in> set (list_of_opt (cf_services cf)) \<and>
           (\<forall>i f v. e = PortsEv (UpdatePort i f v) \<or> e = PortsEv (RemovePort i) \<longrightarrow>
              i < length (list_of_opt (svc_ports svc)))"
proof -
  let ?card = "\<lambda>(n, svc). bind_result (ServiceCard n svc (service_names cf) env
      (obj_keys (top_entries (cf_networks cf)))
      (case map_of (bs_cards s) n of Some c \<Rightarrow> c | None \<Rightarrow> card_init n svc))
     (\<lambda>ws. Inr (lift_view (CardEv n) ws))"
  obtain cards where cards: "map_result ?card (list_of_opt (cf_services cf)) = Inr cards"
      and event: "CardEv n e \<in> view_events (concat cards)"
    using assms
    by (cases "bs_networks_open s"; cases "bs_volumes_open s")
       (simp add: ComposeBuilder_def bind_result_eq_Inr split: if_splits; fastforce)+
  from event obtain c where c: "c \<in> set cards" "CardEv n e \<in> view_events c"
    by (auto simp del: view_events_simps)
  obtain n' svc ws' where svc: "(n', svc) \<in> set (list_of_opt (cf_services cf))"
      and ws': "ServiceCard n' svc (service_names cf) env (obj_keys (top_entries (cf_networks cf)))
        (case map_of (bs_cards s) n' of Some c \<Rightarrow> c | None \<Rightarrow> card_init n' svc) = Inr ws'"
      and lifted: "c = lift_view (CardEv n') ws'"
    using map_result_set [OF cards c(1)] by (auto simp: bind_result_eq_Inr)
  then have "n' = n" "e \<in> view_events ws'" using c(2) by auto
  moreover have "i < length (list_of_opt (svc_ports svc))"
    if "e = PortsEv (UpdatePort i f v) \<or> e = PortsEv (RemovePort i)" for i f v
    using that \<open>e \<in> view_events ws'\<close> card_ports_events [OF ws'] port_rows_in_range by metis
  ultimately show ?thesis using svc by blast
qed

theorem builder_events_exist_witness:
  "\<exists>svc. (''web'', svc) \<in> set (list_of_opt (cf_services pair_file)) \<and>
     (\<forall>i f v. RemoveClicked = PortsEv (UpdatePort i f v) \<or> RemoveClicked = PortsEv (RemovePort i) \<longrightarrow>
        i < length (list_of_opt (svc_ports svc)))"
proof -
  let ?folded = "\<lambda>n. (card_init n empty_service)\<lparr>card_expanded := None\<rparr>"
  let ?s = "\<lparr>bs_cards = [(''web'', ?folded ''web''), (''db'', ?folded ''db'')], bs_registries = [],
             bs_networks_open = None, bs_volumes_open = None\<rparr>"
  have page: "ComposeBuilder pair_file None ?s =
      Inr (lift_view (CardEv ''web'') (card_header ''web'' (the (obj_get (the (cf_services pair_file)) ''web'')) (?folded ''web'')) @
           lift_view (CardEv ''db'') (card_header ''db'' empty_service (?folded ''db'')) @
           [Button ''Add service'' False AddServiceClicked])"
    by (simp add: ComposeBuilder_def pair_file_facts(3))
       (simp add: pair_file_def list_of_opt_def ServiceCard_def getUsedVolumes_def empty_service_def)
  show ?thesis
    by (rule builder_events_exist [OF page]) (simp add: card_header_def image_iff empty_service_def pair_file_def)
qed

end
