(* ===== verification/Web_Socket.thy ===== *)
theory Web_Socket
  imports Js_Values Keyed_Store
begin

section \<open>The reconnecting socket: \<open>hooks/useWebSocket.ts\<close>\<close>

text \<open>
  The hook as a state machine. Its effect (one per path and \<open>enabled\<close>) owns a socket, a number of
  failed attempts, a reconnect timer and the \<open>dead\<close> flag its cleanup sets. The events are those of
  React (a render with the current path and \<open>enabled\<close>, the unmounting), of the browser's socket and
  of its timer; the outputs are what the hook asks of the browser and the messages it delivers. A
  socket reports its opening at most once and nothing after its closing, a cleared timer does not
  fire: an event that cannot happen in a state leaves it as it is. \<open>JSON.parse\<close> is a parameter. The
  delay is \<open>Math.min(1_000 * 2 ** attempts, MAX_BACKOFF_MS)\<close>; the power never loses precision below the
  bound.
\<close>

datatype ws_status = Connecting | WsOpen | WsClosed

datatype socket = NoSocket | Opening | Opened

record ws_effect =
  we_path :: string
  we_socket :: socket
  we_attempts :: nat
  we_timer :: "nat option"
  we_dead :: bool

record ws_hook =
  wh_status :: ws_status
  wh_effect :: "ws_effect option"

datatype ws_event =
    Render string bool
  | Unmount
  | SocketOpened
  | SocketMessage string
  | SocketFailed
  | SocketClosed
  | TimerExpired

datatype ws_out =
    Dial string
  | Deliver js
  | SetTimer nat
  | ClearTimer
  | HangUp

definition MAX_BACKOFF_MS :: nat where
  "MAX_BACKOFF_MS = 30000"

definition buildWsUrl :: "string \<Rightarrow> string \<Rightarrow> string \<Rightarrow> string" where
  "buildWsUrl protocol host path =
     (if protocol = ''https:'' then ''wss:'' else ''ws:'') @ ''//'' @ host @ path"

definition backoff :: "nat \<Rightarrow> nat" where
  "backoff attempts = min (1000 * 2 ^ attempts) MAX_BACKOFF_MS"

definition ws_init :: ws_hook where
  "ws_init = \<lparr>wh_status = Connecting, wh_effect = None\<rparr>"

text \<open>\<open>connect()\<close>: nothing on a dead effect, otherwise a new socket.\<close>

definition connect ::
  "(string \<Rightarrow> string) \<Rightarrow> ws_effect \<Rightarrow> ws_status \<Rightarrow> ws_effect \<times> ws_status \<times> ws_out list" where
  "connect url eff st =
     (if we_dead eff then (eff, st, [])
      else (eff\<lparr>we_socket := Opening\<rparr>, Connecting, [Dial (url (we_path eff))]))"

definition fresh_effect :: "string \<Rightarrow> ws_effect" where
  "fresh_effect path =
     \<lparr>we_path = path, we_socket = NoSocket, we_attempts = 0, we_timer = None, we_dead = False\<rparr>"

text \<open>The cleanup: \<open>dead\<close>, the timer, and \<open>ws?.close()\<close>. Clearing a timer that has fired and closing a
  socket that is closed do nothing and are not listed.\<close>

definition cleanup :: "ws_effect \<Rightarrow> ws_out list" where
  "cleanup eff =
     (if we_timer eff \<noteq> None then [ClearTimer] else []) @
     (if we_socket eff \<noteq> NoSocket then [HangUp] else [])"

definition cleanup_outs :: "ws_hook \<Rightarrow> ws_out list" where
  "cleanup_outs h = (case wh_effect h of None \<Rightarrow> [] | Some eff \<Rightarrow> cleanup eff)"

text \<open>React runs the effect again when the path or \<open>enabled\<close> has changed: the old one is cleaned up and
  its socket's late events find \<open>dead\<close> set, so it is dropped here.\<close>

definition on_render :: "(string \<Rightarrow> string) \<Rightarrow> string \<Rightarrow> bool \<Rightarrow> ws_hook \<Rightarrow> ws_hook \<times> ws_out list" where
  "on_render url path enabled h =
     (if (case wh_effect h of None \<Rightarrow> \<not> enabled | Some eff \<Rightarrow> enabled \<and> we_path eff = path) then (h, [])
      else if enabled then
        (let (eff, st, outs) = connect url (fresh_effect path) (wh_status h)
         in (h\<lparr>wh_status := st, wh_effect := Some eff\<rparr>, cleanup_outs h @ outs))
      else (h\<lparr>wh_effect := None\<rparr>, cleanup_outs h))"

definition on_closed :: "ws_effect \<Rightarrow> ws_hook \<Rightarrow> ws_hook \<times> ws_out list" where
  "on_closed eff h =
     (if we_dead eff then (h\<lparr>wh_effect := Some (eff\<lparr>we_socket := NoSocket\<rparr>)\<rparr>, [])
      else
        (let delay = backoff (we_attempts eff) in
         (h\<lparr>wh_status := WsClosed,
            wh_effect := Some (eff\<lparr>we_socket := NoSocket, we_attempts := we_attempts eff + 1,
                                   we_timer := Some delay\<rparr>)\<rparr>, [SetTimer delay])))"

fun ws_step ::
  "(string \<Rightarrow> string) \<Rightarrow> (string \<Rightarrow> js option) \<Rightarrow> ws_event \<Rightarrow> ws_hook \<Rightarrow> ws_hook \<times> ws_out list" where
  "ws_step url json_parse (Render path enabled) h = on_render url path enabled h"
| "ws_step url json_parse Unmount h = (h\<lparr>wh_effect := None\<rparr>, cleanup_outs h)"
| "ws_step url json_parse SocketOpened h =
     (case wh_effect h of
        Some eff \<Rightarrow>
          if we_socket eff = Opening then
            (h\<lparr>wh_status := WsOpen, wh_effect := Some (eff\<lparr>we_socket := Opened, we_attempts := 0\<rparr>)\<rparr>, [])
          else (h, [])
      | None \<Rightarrow> (h, []))"
| "ws_step url json_parse (SocketMessage data) h =
     (case wh_effect h of
        Some eff \<Rightarrow>
          (h, if we_socket eff = Opened
              then (case json_parse data of Some v \<Rightarrow> [Deliver v] | None \<Rightarrow> []) else [])
      | None \<Rightarrow> (h, []))"
| "ws_step url json_parse SocketFailed h = (h, [])"
| "ws_step url json_parse SocketClosed h =
     (case wh_effect h of
        Some eff \<Rightarrow> if we_socket eff \<noteq> NoSocket then on_closed eff h else (h, [])
      | None \<Rightarrow> (h, []))"
| "ws_step url json_parse TimerExpired h =
     (case wh_effect h of
        Some eff \<Rightarrow>
          (if we_timer eff \<noteq> None then
             (let (eff', st, outs) = connect url (eff\<lparr>we_timer := None\<rparr>) (wh_status h)
              in (h\<lparr>wh_status := st, wh_effect := Some eff'\<rparr>, outs))
           else (h, []))
      | None \<Rightarrow> (h, []))"

fun ws_run ::
  "(string \<Rightarrow> string) \<Rightarrow> (string \<Rightarrow> js option) \<Rightarrow> ws_event list \<Rightarrow> ws_hook \<Rightarrow> ws_hook \<times> ws_out list" where
  "ws_run url json_parse [] h = (h, [])"
| "ws_run url json_parse (e # es) h =
     (let (h1, o1) = ws_step url json_parse e h; (h2, o2) = ws_run url json_parse es h1 in (h2, o1 @ o2))"

subsection \<open>The invariant\<close>

text \<open>A live effect has either a socket or a timer, never both; the timer holds the delay of the attempts
  made so far; and the status says which socket there is.\<close>

definition ws_inv :: "ws_hook \<Rightarrow> bool" where
  "ws_inv h =
     (case wh_effect h of
        None \<Rightarrow> True
      | Some eff \<Rightarrow>
          \<not> we_dead eff \<and> (we_socket eff = NoSocket \<longleftrightarrow> we_timer eff \<noteq> None) \<and>
          (\<forall>d. we_timer eff = Some d \<longrightarrow> 0 < we_attempts eff \<and> d = backoff (we_attempts eff - 1)) \<and>
          wh_status h = (case we_socket eff of NoSocket \<Rightarrow> WsClosed | Opening \<Rightarrow> Connecting | Opened \<Rightarrow> WsOpen))"

lemma ws_inv_init: "ws_inv ws_init"
  by (simp add: ws_inv_def ws_init_def)

lemma ws_inv_step: "ws_inv h \<Longrightarrow> ws_inv (fst (ws_step url json_parse e h))"
  by (cases e)
     (auto simp: ws_inv_def on_render_def connect_def fresh_effect_def on_closed_def Let_def
       split: option.splits socket.splits)

interpretation socket_hook: reactive "\<lambda>e h. fst (ws_step url json_parse e h)" ws_inv for url json_parse
  by unfold_locales (rule ws_inv_step)

lemma fst_ws_run: "fst (ws_run url json_parse es h) = fold (\<lambda>e h. fst (ws_step url json_parse e h)) es h"
  by (induction es arbitrary: h) (auto simp: Let_def case_prod_beta)

lemma ws_inv_run: "ws_inv (fst (ws_run url json_parse es ws_init))"
  unfolding fst_ws_run by (rule socket_hook.run_inv [OF ws_inv_init])


subsection \<open>Waiting\<close>

lemma backoff_bounds: "1000 \<le> backoff n" "backoff n \<le> MAX_BACKOFF_MS"
proof -
  have "(1000::nat) \<le> 1000 * 2 ^ n" by simp
  then show "1000 \<le> backoff n" by (simp add: backoff_def MAX_BACKOFF_MS_def)
qed (simp add: backoff_def)

lemma backoff_mono: "m \<le> n \<Longrightarrow> backoff m \<le> backoff n"
proof -
  assume "m \<le> n"
  then have "(1000::nat) * 2 ^ m \<le> 1000 * 2 ^ n" by (simp add: power_increasing)
  then show ?thesis by (simp add: backoff_def min_le_iff_disj)
qed

lemma backoff_max: "5 \<le> n \<Longrightarrow> backoff n = MAX_BACKOFF_MS"
proof -
  assume "5 \<le> n"
  then have "backoff 5 \<le> backoff n" by (rule backoff_mono)
  moreover have "backoff 5 = MAX_BACKOFF_MS" by (simp add: backoff_def MAX_BACKOFF_MS_def)
  ultimately show ?thesis using backoff_bounds(2) [of n] by simp
qed

text \<open>A connection that fails \<open>n\<close> times in a row.\<close>

definition failures :: "nat \<Rightarrow> ws_event list" where
  "failures n = concat (replicate n [SocketFailed, SocketClosed, TimerExpired])"

lemma failure_step:
  assumes "wh_effect h = Some eff" and "we_socket eff = Opening" and "\<not> we_dead eff"
  shows "ws_run url json_parse [SocketFailed, SocketClosed, TimerExpired] h =
     (h\<lparr>wh_status := Connecting,
        wh_effect := Some (eff\<lparr>we_attempts := we_attempts eff + 1, we_timer := None\<rparr>)\<rparr>,
      [SetTimer (backoff (we_attempts eff)), Dial (url (we_path eff))])"
  using assms by (simp add: on_closed_def connect_def Let_def)

lemma ws_run_append:
  "ws_run url json_parse (as @ bs) h =
     (let (h1, o1) = ws_run url json_parse as h; (h2, o2) = ws_run url json_parse bs h1 in (h2, o1 @ o2))"
  by (induction as arbitrary: h) (auto simp: Let_def case_prod_beta)

lemma failures_outs:
  "wh_effect h = Some eff \<Longrightarrow> we_socket eff = Opening \<Longrightarrow> \<not> we_dead eff \<Longrightarrow>
     snd (ws_run url json_parse (failures n) h) =
       concat (map (\<lambda>k. [SetTimer (backoff (we_attempts eff + k)), Dial (url (we_path eff))]) [0..<n])"
proof (induction n arbitrary: h eff)
  case (Suc n)
  let ?eff = "eff\<lparr>we_attempts := we_attempts eff + 1, we_timer := None\<rparr>"
  let ?h = "h\<lparr>wh_status := Connecting, wh_effect := Some ?eff\<rparr>"
  have rest: "snd (ws_run url json_parse (failures n) ?h) =
      concat (map (\<lambda>k. [SetTimer (backoff (we_attempts ?eff + k)), Dial (url (we_path ?eff))]) [0..<n])"
    by (rule Suc.IH) (use Suc.prems in simp_all)
  have shift: "[0..<Suc n] = 0 # map Suc [0..<n]" by (simp add: map_Suc_upt upt_conv_Cons)
  have "failures (Suc n) = [SocketFailed, SocketClosed, TimerExpired] @ failures n"
    by (simp add: failures_def)
  then show ?case
    unfolding shift using failure_step [OF Suc.prems] rest
    by (simp only: ws_run_append Let_def case_prod_beta fst_conv snd_conv list.map concat.simps)
       (simp add: comp_def)
qed (simp add: failures_def)

text \<open>C15: A server that stays away is dialled again after one second, then two, four, eight, sixteen, and
  from then on every thirty seconds, without end.\<close>

theorem reconnect_schedule:
  "snd (ws_run url json_parse (Render path True # failures n) ws_init) =
     Dial (url path) # concat (map (\<lambda>k. [SetTimer (backoff k), Dial (url path)]) [0..<n])
   \<and> map backoff [0..<5] = [1000, 2000, 4000, 8000, 16000] \<and> backoff (5 + m) = 30000"
proof -
  let ?h = "\<lparr>wh_status = Connecting, wh_effect = Some ((fresh_effect path)\<lparr>we_socket := Opening\<rparr>)\<rparr>"
  have "ws_step url json_parse (Render path True) ws_init = (?h, [Dial (url path)])"
    by (simp add: on_render_def ws_init_def connect_def cleanup_outs_def fresh_effect_def)
  moreover have "snd (ws_run url json_parse (failures n) ?h) =
      concat (map (\<lambda>k. [SetTimer (backoff (0 + k)), Dial (url path)]) [0..<n])"
    using failures_outs [of ?h "(fresh_effect path)\<lparr>we_socket := Opening\<rparr>" url json_parse n]
    by (simp add: fresh_effect_def)
  moreover have "map backoff [0..<5] = [1000, 2000, 4000, 8000, 16000]"
    by (simp add: upt_conv_Cons backoff_def MAX_BACKOFF_MS_def)
  ultimately show ?thesis
    using backoff_max [of "5 + m"] by (simp add: Let_def case_prod_beta MAX_BACKOFF_MS_def)
qed

subsection \<open>After the end\<close>

lemma idle_step:
  "wh_effect h = None \<Longrightarrow> (\<And>p. e \<noteq> Render p True) \<Longrightarrow>
     wh_effect (fst (ws_step url json_parse e h)) = None \<and> snd (ws_step url json_parse e h) = []"
proof (cases e)
  case (Render p b)
  assume idle: "wh_effect h = None" and off: "\<And>p. e \<noteq> Render p True"
  show ?thesis using Render idle off [of p] by (cases b) (simp_all add: on_render_def)
qed (simp_all add: cleanup_outs_def)



end
