(* ===== verification/Auth_Store.thy ===== *)
theory Auth_Store
  imports Api_Client
begin

section \<open>Who is signed in: \<open>store/auth.ts\<close> and \<open>hooks/useAuth.ts\<close>\<close>

text \<open>
  The store of the session and the hook that fills it from \<open>GET /api/me\<close>. The cache of the request is
  the library react-query: what it reports (the last data, whether the last attempt failed, whether
  nothing has come yet) is the record \<open>me_query\<close>.
\<close>

record auth_store =
  au_username :: "string option"
  au_isAdmin :: bool
  au_permissions :: "string list"
  au_hasUpdate :: bool
  au_latestVersion :: string
  au_releaseURL :: string

definition auth_init :: auth_store where
  "auth_init = \<lparr>au_username = None, au_isAdmin = False, au_permissions = [], au_hasUpdate = False,
                au_latestVersion = [], au_releaseURL = []\<rparr>"

definition setUser :: "string option \<Rightarrow> bool \<Rightarrow> string list \<Rightarrow> auth_store \<Rightarrow> auth_store" where
  "setUser username isAdmin permissions s =
     s\<lparr>au_username := username, au_isAdmin := isAdmin, au_permissions := permissions\<rparr>"

definition hasPermission :: "auth_store \<Rightarrow> string \<Rightarrow> bool" where
  "hasPermission s action = (au_isAdmin s \<or> action \<in> set (au_permissions s))"

record update_info =
  up_hasUpdate :: bool
  up_latestVersion :: string
  up_releaseURL :: string

definition setUpdateInfo :: "update_info option \<Rightarrow> auth_store \<Rightarrow> auth_store" where
  "setUpdateInfo info s =
     (case info of
        Some i \<Rightarrow> s\<lparr>au_hasUpdate := up_hasUpdate i, au_latestVersion := up_latestVersion i,
                    au_releaseURL := up_releaseURL i\<rparr>
      | None \<Rightarrow> s\<lparr>au_hasUpdate := False, au_latestVersion := [], au_releaseURL := []\<rparr>)"

record me =
  me_username :: string
  me_isAdmin :: "bool option"
  me_permissions :: "string list option"

record me_query =
  q_data :: "me option"
  q_isError :: bool
  q_isPending :: bool
  q_isSuccess :: bool

definition me_call :: api_call where
  "me_call = api_get ''/api/me''"

text \<open>The effect, run when the data or the error flag change.\<close>

definition useAuth_effect :: "me_query \<Rightarrow> auth_store \<Rightarrow> auth_store" where
  "useAuth_effect q s =
     (case q_data q of
        Some m \<Rightarrow> setUser (Some (me_username m)) (me_isAdmin m = Some True)
                    (case me_permissions m of Some ps \<Rightarrow> ps | None \<Rightarrow> []) s
      | None \<Rightarrow> if q_isError q then setUser None False [] s else s)"

record auth_view =
  av_username :: "string option"
  av_isLoading :: bool
  av_isAuthenticated :: bool

definition useAuth :: "me_query \<Rightarrow> auth_view" where
  "useAuth q =
     \<lparr>av_username = map_option me_username (q_data q), av_isLoading = q_isPending q,
      av_isAuthenticated = q_isSuccess q\<rparr>"

text \<open>The rights the client goes by are exactly those of the last answer: with one, an action is allowed
  if the answer says administrator or lists it; with none and an error, nothing is allowed and nobody is
  signed in; while nothing has come, the store is as it was. The update notice is never touched.\<close>

theorem rights_follow_answer:
  "(case q_data q of
      Some m \<Rightarrow> hasPermission (useAuth_effect q s) a =
        (me_isAdmin m = Some True \<or> (\<exists>ps. me_permissions m = Some ps \<and> a \<in> set ps))
        \<and> au_username (useAuth_effect q s) = Some (me_username m)
    | None \<Rightarrow> if q_isError q
        then \<not> hasPermission (useAuth_effect q s) a \<and> au_username (useAuth_effect q s) = None
        else useAuth_effect q s = s)
   \<and> au_hasUpdate (useAuth_effect q s) = au_hasUpdate s"
  by (auto simp: useAuth_effect_def hasPermission_def setUser_def split: option.splits)

end
