(* ===== verification/Cron_Dialog.thy ===== *)
theory Cron_Dialog
  imports Ui_Widgets Api_Routes
begin

section \<open>Editing one cron job: \<open>components/CronEntryDialog.tsx\<close>\<close>

text \<open>
  The dialog's form, its schedule presets, the five field pickers and the debounced validation. The
  events are those of the user, the opening of the dialog (the effect that resets the form), the
  expiry of the timer and the two answers of the server. What the handlers ask for (a validation
  call, the saving, the closing) is returned beside the state. \<open>saving\<close> is set and cleared inside one
  handler, so no render sees it; the local time format of the browser is the parameter \<open>fmt\<close>.
\<close>

definition en_dash :: string where
  "en_dash = [CHR 0xE2, CHR 0x80, CHR 0x93]"

definition PRESETS :: "(string \<times> string) list" where
  "PRESETS =
     [(''Every minute'', ''* * * * *''), (''Every hour'', ''0 * * * *''),
      (''Daily at midnight'', ''0 0 * * *''), (''Daily at noon'', ''0 12 * * *''),
      (''Every week (Sun)'', ''0 0 * * 0''), (''Every month (1st)'', ''0 0 1 * *''),
      (''Yearly (Jan 1)'', ''0 0 1 1 *''), (''On reboot'', ''@reboot''),
      (''Custom'' @ ellipsis, ''custom'')]"

datatype cron_field = Minute | Hour | Day | Month | Weekday

definition cron_fields :: "cron_field list" where
  "cron_fields = [Minute, Hour, Day, Month, Weekday]"

fun FIELD_HINT :: "cron_field \<Rightarrow> string" where
  "FIELD_HINT Minute = ''0'' @ en_dash @ ''59, *, */5, 0-30''"
| "FIELD_HINT Hour = ''0'' @ en_dash @ ''23, *, */2, 8-17''"
| "FIELD_HINT Day = ''1'' @ en_dash @ ''31, *, */2, 1,15''"
| "FIELD_HINT Month = ''1'' @ en_dash @ ''12, *, jan-dec''"
| "FIELD_HINT Weekday = ''0'' @ en_dash @ ''7 (0/7=Sun), *, mon-sun''"

definition MONTH_NAMES :: "string list" where
  "MONTH_NAMES = [''*'', ''1'', ''2'', ''3'', ''4'', ''5'', ''6'', ''7'', ''8'', ''9'', ''10'', ''11'', ''12'']"

definition DOW_NAMES :: "string list" where
  "DOW_NAMES = [''*'', ''0'', ''1'', ''2'', ''3'', ''4'', ''5'', ''6'']"

fun field_label :: "cron_field \<Rightarrow> string" where
  "field_label Minute = ''Min''"
| "field_label Hour = ''Hour''"
| "field_label Day = ''Day''"
| "field_label Month = ''Month''"
| "field_label Weekday = ''Wday''"

subsection \<open>\<open>InlineFieldPicker\<close>\<close>

record picker_state =
  pk_open :: bool
  pk_draft :: string

datatype picker_event =
    TogglePicker
  | ClickBesidePicker
  | PickOption string
  | TypeDraft string
  | DraftKey string
  | SetDraft

definition picker_init :: "string \<Rightarrow> picker_state" where
  "picker_init value1 = \<lparr>pk_open = False, pk_draft = value1\<rparr>"

fun picker_step :: "picker_event \<Rightarrow> picker_state \<Rightarrow> picker_state \<times> string option" where
  "picker_step TogglePicker s = (s\<lparr>pk_open := \<not> pk_open s\<rparr>, None)"
| "picker_step ClickBesidePicker s = (s\<lparr>pk_open := False\<rparr>, None)"
| "picker_step (PickOption opt) s = (s\<lparr>pk_open := False\<rparr>, Some opt)"
| "picker_step (TypeDraft v) s = (s\<lparr>pk_draft := v\<rparr>, None)"
| "picker_step (DraftKey key) s =
     (if key = ''Enter'' then (s\<lparr>pk_open := False\<rparr>, Some (pk_draft s)) else (s, None))"
| "picker_step SetDraft s = (s\<lparr>pk_open := False\<rparr>, Some (pk_draft s))"

definition picker_options :: "cron_field \<Rightarrow> string list option" where
  "picker_options f = (case f of Month \<Rightarrow> Some MONTH_NAMES | Weekday \<Rightarrow> Some DOW_NAMES | _ \<Rightarrow> None)"

definition InlineFieldPicker :: "cron_field \<Rightarrow> string \<Rightarrow> picker_state \<Rightarrow> picker_event widget list" where
  "InlineFieldPicker f value1 s =
     [Label (field_label f), Button value1 False TogglePicker] @
     (if pk_open s then
        [Label (FIELD_HINT f)] @
        (case picker_options f of
           Some opts \<Rightarrow> map (\<lambda>opt. Button opt False (PickOption opt)) opts
         | None \<Rightarrow> []) @
        [KeyInput ''e.g. */5'' (pk_draft s) TypeDraft DraftKey None, Button ''Set'' False SetDraft]
      else [])"

subsection \<open>The form\<close>

definition BLANK_JOB :: cron_entry where
  "BLANK_JOB =
     \<lparr>ce_id = [], ce_type = JobEntry, ce_disabled = Some False, ce_special = Some [],
      ce_minute = Some ''*'', ce_hour = Some ''*'', ce_day = Some ''*'', ce_month = Some ''*'',
      ce_weekday = Some ''*'', ce_command = Some [], ce_comment = Some [], ce_nextRun = None, ce_raw = None\<rparr>"

fun get_field :: "cron_field \<Rightarrow> cron_entry \<Rightarrow> string option" where
  "get_field Minute e = ce_minute e"
| "get_field Hour e = ce_hour e"
| "get_field Day e = ce_day e"
| "get_field Month e = ce_month e"
| "get_field Weekday e = ce_weekday e"

fun set_cron_field :: "cron_field \<Rightarrow> string option \<Rightarrow> cron_entry \<Rightarrow> cron_entry" where
  "set_cron_field Minute v e = e\<lparr>ce_minute := v\<rparr>"
| "set_cron_field Hour v e = e\<lparr>ce_hour := v\<rparr>"
| "set_cron_field Day v e = e\<lparr>ce_day := v\<rparr>"
| "set_cron_field Month v e = e\<lparr>ce_month := v\<rparr>"
| "set_cron_field Weekday v e = e\<lparr>ce_weekday := v\<rparr>"

text \<open>A field in a template literal; a missing one prints as \<open>undefined\<close>.\<close>

definition opt_text :: "string option \<Rightarrow> string" where
  "opt_text v = (case v of Some s \<Rightarrow> s | None \<Rightarrow> ''undefined'')"

text \<open>\<open>currentExpr\<close>, the \<open>sched\<close> of the reset, and \<open>scheduleLabel\<close> of the page are the same text.\<close>

definition schedule_text :: "cron_entry \<Rightarrow> string" where
  "schedule_text e =
     (case nonempty (ce_special e) of
        Some sp \<Rightarrow> sp
      | None \<Rightarrow> js_join '' '' (map (\<lambda>f. opt_text (get_field f e)) cron_fields))"

datatype sched_mode = PresetMode | CustomMode

record dialog_state =
  dg_entry :: cron_entry
  dg_schedMode :: sched_mode
  dg_preset :: string
  dg_nextRuns :: "string list"
  dg_validateErr :: string
  dg_validating :: bool
  dg_timer :: "string option"
  dg_pickers :: "(cron_field \<Rightarrow> picker_state) option"

definition initial_entry :: "cron_entry option \<Rightarrow> cron_entry" where
  "initial_entry initial = (case initial of Some e \<Rightarrow> e | None \<Rightarrow> BLANK_JOB)"

text \<open>The pickers are there in custom mode without a special schedule; each keeps a draft that follows
  its value.\<close>

definition pickers_shown :: "dialog_state \<Rightarrow> bool" where
  "pickers_shown s = (dg_schedMode s = CustomMode \<and> nonempty (ce_special (dg_entry s)) = None)"

definition field_value :: "cron_field \<Rightarrow> cron_entry \<Rightarrow> string" where
  "field_value f e = (case get_field f e of Some v \<Rightarrow> v | None \<Rightarrow> ''*'')"

definition sync_pickers :: "dialog_state \<Rightarrow> dialog_state \<Rightarrow> dialog_state" where
  "sync_pickers old s =
     s\<lparr>dg_pickers :=
        (if \<not> pickers_shown s then None
         else Some (case dg_pickers s of
           None \<Rightarrow> (\<lambda>f. picker_init (field_value f (dg_entry s)))
         | Some ps \<Rightarrow> (\<lambda>f. if field_value f (dg_entry s) = field_value f (dg_entry old) then ps f
                          else (ps f)\<lparr>pk_draft := field_value f (dg_entry s)\<rparr>)))\<rparr>"

text \<open>The effect that validates 400 ms after the schedule has changed.\<close>

definition schedule_fields :: "cron_entry \<Rightarrow> string option list" where
  "schedule_fields e = ce_special e # map (\<lambda>f. get_field f e) cron_fields"

definition rearm :: "dialog_state \<Rightarrow> dialog_state \<Rightarrow> dialog_state" where
  "rearm old s =
     (if schedule_fields (dg_entry s) = schedule_fields (dg_entry old) then s
      else s\<lparr>dg_timer := Some (schedule_text (dg_entry s))\<rparr>)"

definition settle :: "dialog_state \<Rightarrow> dialog_state \<Rightarrow> dialog_state" where
  "settle old s = sync_pickers old (rearm old s)"

definition dialog_init :: "cron_entry option \<Rightarrow> dialog_state" where
  "dialog_init initial =
     \<lparr>dg_entry = initial_entry initial, dg_schedMode = PresetMode, dg_preset = ''* * * * *'',
      dg_nextRuns = [], dg_validateErr = [], dg_validating = False,
      dg_timer = Some (schedule_text (initial_entry initial)), dg_pickers = None\<rparr>"

subsection \<open>The handlers\<close>

definition reset_form :: "cron_entry option \<Rightarrow> dialog_state \<Rightarrow> dialog_state" where
  "reset_form initial s =
     (let e = initial_entry initial; sched = schedule_text e;
          s' = s\<lparr>dg_entry := e, dg_validateErr := [], dg_nextRuns := []\<rparr>
      in case List.find (\<lambda>(l, v). v \<noteq> ''custom'' \<and> v = sched) PRESETS of
           Some (l, v) \<Rightarrow> s'\<lparr>dg_preset := v, dg_schedMode := PresetMode\<rparr>
         | None \<Rightarrow> s'\<lparr>dg_schedMode := CustomMode, dg_preset := ''custom''\<rparr>)"

definition applyPreset :: "string \<Rightarrow> dialog_state \<Rightarrow> dialog_state" where
  "applyPreset value1 s =
     (if value1 = ''custom'' then s\<lparr>dg_preset := value1, dg_schedMode := CustomMode\<rparr>
      else
        (let s' = s\<lparr>dg_preset := value1, dg_schedMode := PresetMode\<rparr>; e = dg_entry s in
         if js_starts_with value1 ''@'' then
           s'\<lparr>dg_entry := e\<lparr>ce_special := Some value1, ce_minute := Some ''*'', ce_hour := Some ''*'',
                             ce_day := Some ''*'', ce_month := Some ''*'', ce_weekday := Some ''*''\<rparr>\<rparr>
         else
           (let parts = js_split (CHR '' '') value1;
                part = (\<lambda>i. if i < length parts then Some (parts ! i) else None)
            in s'\<lparr>dg_entry := e\<lparr>ce_special := Some [], ce_minute := part 0, ce_hour := part 1,
                              ce_day := part 2, ce_month := part 3, ce_weekday := part 4\<rparr>\<rparr>)))"

datatype dialog_event =
    DialogOpened "cron_entry option"
  | ApplyPreset string
  | FieldEv cron_field picker_event
  | TypeCommand string
  | TypeComment string
  | FlipDisabled
  | SubmitForm
  | CancelForm
  | ValidateDue
  | RunsArrived "string list"
  | RunsFailed string

datatype dialog_out = Validate api_call | SaveEntry cron_entry | CloseDialog

definition doValidate :: "string \<Rightarrow> dialog_state \<Rightarrow> dialog_state \<times> dialog_out list" where
  "doValidate expr s =
     (if expr = [] \<or> expr = ''@reboot'' then (s\<lparr>dg_nextRuns := [], dg_validateErr := []\<rparr>, [])
      else (s\<lparr>dg_validating := True\<rparr>, [Validate (validateCronExpression expr 5)]))"

definition has_command :: "cron_entry \<Rightarrow> bool" where
  "has_command e = (case ce_command e of None \<Rightarrow> False | Some c \<Rightarrow> js_trim c \<noteq> [])"

fun dialog_step :: "dialog_event \<Rightarrow> dialog_state \<Rightarrow> dialog_state \<times> dialog_out list" where
  "dialog_step (DialogOpened initial) s = (settle s ((reset_form initial s)\<lparr>dg_pickers := None\<rparr>), [])"
| "dialog_step (ApplyPreset v) s = (settle s (applyPreset v s), [])"
| "dialog_step (FieldEv f e) s =
     (case dg_pickers s of
        None \<Rightarrow> (s, [])
      | Some ps \<Rightarrow>
          (let (p, v) = picker_step e (ps f);
               s' = s\<lparr>dg_pickers := Some (ps(f := p))\<rparr>
           in case v of
                None \<Rightarrow> (s', [])
              | Some w \<Rightarrow> (settle s (s'\<lparr>dg_entry := set_cron_field f (Some w) (dg_entry s)\<rparr>), [])))"
| "dialog_step (TypeCommand v) s = (s\<lparr>dg_entry := (dg_entry s)\<lparr>ce_command := Some v\<rparr>\<rparr>, [])"
| "dialog_step (TypeComment v) s = (s\<lparr>dg_entry := (dg_entry s)\<lparr>ce_comment := Some v\<rparr>\<rparr>, [])"
| "dialog_step FlipDisabled s =
     (s\<lparr>dg_entry := (dg_entry s)\<lparr>ce_disabled := Some (ce_disabled (dg_entry s) \<noteq> Some True)\<rparr>\<rparr>, [])"
| "dialog_step SubmitForm s = (s, if has_command (dg_entry s) then [SaveEntry (dg_entry s), CloseDialog] else [])"
| "dialog_step CancelForm s = (s, [CloseDialog])"
| "dialog_step ValidateDue s =
     (case dg_timer s of None \<Rightarrow> (s, []) | Some expr \<Rightarrow> doValidate expr (s\<lparr>dg_timer := None\<rparr>))"
| "dialog_step (RunsArrived runs) s =
     (s\<lparr>dg_nextRuns := runs, dg_validateErr := [], dg_validating := False\<rparr>, [])"
| "dialog_step (RunsFailed msg) s =
     (s\<lparr>dg_nextRuns := [], dg_validateErr := msg, dg_validating := False\<rparr>, [])"

subsection \<open>The view\<close>

definition CronEntryDialog ::
  "(string \<Rightarrow> string) \<Rightarrow> cron_entry option \<Rightarrow> dialog_state \<Rightarrow> dialog_event widget list" where
  "CronEntryDialog fmt initial s =
     (let e = dg_entry s in
      [Label (if initial \<noteq> None then ''Edit cron job'' else ''New cron job''), Label ''Schedule''] @
      map (\<lambda>(l, v). Button l False (ApplyPreset v)) PRESETS @
      (case dg_pickers s of
         None \<Rightarrow> []
       | Some ps \<Rightarrow> concat (map (\<lambda>f. lift_view (FieldEv f) (InlineFieldPicker f (field_value f e) (ps f))) cron_fields)) @
      [Label (schedule_text e)] @
      (if dg_validateErr s \<noteq> [] then [Label (dg_validateErr s)] else []) @
      (if dg_validateErr s = [] \<and> dg_nextRuns s \<noteq> [] then
         Label (''Next '' @ nat_str (length (dg_nextRuns s)) @ '' runs'') # map (\<lambda>r. Label (fmt r)) (dg_nextRuns s)
       else []) @
      [Label ''Command'', Input ''/usr/local/bin/my-script.sh'' (case ce_command e of Some c \<Rightarrow> c | None \<Rightarrow> []) TypeCommand,
       Label ''Comment (optional)'', Input ''What does this job do?'' (case ce_comment e of Some c \<Rightarrow> c | None \<Rightarrow> []) TypeComment,
       Button (if ce_disabled e = Some True then ''Disabled'' else ''Enabled'') False FlipDisabled,
       Button ''Cancel'' False CancelForm,
       Button ''Save'' (\<not> has_command e) SubmitForm])"

subsection \<open>Invariant\<close>

text \<open>The pickers are mounted exactly when they are shown.\<close>

definition dialog_inv :: "dialog_state \<Rightarrow> bool" where
  "dialog_inv s = ((dg_pickers s \<noteq> None) = pickers_shown s)"

lemma dialog_inv_settle: "dialog_inv (settle old s)"
  by (simp add: dialog_inv_def settle_def sync_pickers_def pickers_shown_def)

lemma dialog_inv_init: "dialog_inv (dialog_init initial)"
  by (simp add: dialog_inv_def dialog_init_def pickers_shown_def)

lemma dialog_inv_keep:
  "dialog_inv s \<Longrightarrow> dg_schedMode s' = dg_schedMode s \<Longrightarrow> ce_special (dg_entry s') = ce_special (dg_entry s) \<Longrightarrow>
     (dg_pickers s' = None) = (dg_pickers s = None) \<Longrightarrow> dialog_inv s'"
  by (auto simp: dialog_inv_def pickers_shown_def)

lemma dialog_inv_doValidate: "dialog_inv s \<Longrightarrow> dialog_inv (fst (doValidate expr (s\<lparr>dg_timer := t\<rparr>)))"
  by (rule dialog_inv_keep [of s]) (simp_all add: doValidate_def)

lemma dialog_inv_step: "dialog_inv s \<Longrightarrow> dialog_inv (fst (dialog_step e s))"
proof (cases e)
  case (FieldEv f pe)
  assume inv: "dialog_inv s"
  show ?thesis
  proof (cases "dg_pickers s")
    case None
    with inv FieldEv show ?thesis by simp
  next
    case (Some ps)
    then show ?thesis
      using FieldEv dialog_inv_settle dialog_inv_keep [OF inv]
      by (auto simp: Let_def case_prod_beta split: option.split)
  qed
qed (simp_all add: dialog_inv_settle dialog_inv_doValidate dialog_inv_keep split: option.split)

interpretation cron_dialog: reactive "\<lambda>e s. fst (dialog_step e s)" dialog_inv
  by unfold_locales (rule dialog_inv_step)

text \<open>The presets, one by one.\<close>

lemma preset_entry:
  assumes "(label1, v) \<in> set PRESETS" and "v \<noteq> ''custom''"
  shows "schedule_text (dg_entry (applyPreset v s)) = v"
proof -
  have "list_all (\<lambda>(l, v). v = ''custom'' \<or> schedule_text (dg_entry (applyPreset v s)) = v) PRESETS"
    by (simp add: PRESETS_def applyPreset_def Let_def schedule_text_def cron_fields_def opt_text_def
        js_starts_with_def numeral_nat)
  then show ?thesis
    using assms by (auto simp: list_all_iff)
qed

text \<open>A preset is what it says: choosing it makes the job's schedule that very expression, and a job
  with that schedule opens again with the same preset chosen.\<close>

theorem preset_roundtrip:
  assumes "(label1, v) \<in> set PRESETS" and "v \<noteq> ''custom''"
  shows "schedule_text (dg_entry (fst (dialog_step (ApplyPreset v) s))) = v
       \<and> dg_preset (fst (dialog_step (DialogOpened (Some (dg_entry (fst (dialog_step (ApplyPreset v) s))))) s')) = v
       \<and> dg_schedMode (fst (dialog_step (DialogOpened (Some (dg_entry (fst (dialog_step (ApplyPreset v) s))))) s')) = PresetMode"
proof -
  have entry: "dg_entry (settle old t) = dg_entry t" "dg_preset (settle old t) = dg_preset t"
      "dg_schedMode (settle old t) = dg_schedMode t" for old t
    by (simp_all add: settle_def sync_pickers_def rearm_def)
  have sched: "schedule_text (dg_entry (applyPreset v s)) = v"
    by (rule preset_entry [OF assms])
  have "List.find (\<lambda>(l, w). w \<noteq> ''custom'' \<and> w = v) PRESETS \<noteq> None"
    using assms by (auto simp: find_None_iff)
  then obtain p where p: "List.find (\<lambda>(l, w). w \<noteq> ''custom'' \<and> w = v) PRESETS = Some p"
    by blast
  then have "snd p = v"
    by (auto simp: find_Some_iff)
  then have "List.find (\<lambda>(l, w). w \<noteq> ''custom'' \<and> w = v) PRESETS = Some (fst p, v)"
    using p by (metis prod.collapse)
  then show ?thesis
    using sched by (simp add: entry reset_form_def Let_def initial_entry_def)
qed

theorem preset_roundtrip_witness:
  "schedule_text (dg_entry (fst (dialog_step (ApplyPreset ''0 12 * * *'') (dialog_init None)))) = ''0 12 * * *''"
  using preset_roundtrip [of "''Daily at noon''" "''0 12 * * *''" "dialog_init None" "dialog_init None"]
  by (simp add: PRESETS_def)

text \<open>Choosing \<open>Custom\<close> on a job with a special schedule (\<open>@reboot\<close>, \<open>@daily\<close>) offers no field to edit:
  the dialog says custom, the schedule stays the special one, and no control changes it except another
  preset.\<close>

theorem custom_on_special_stuck:
  assumes "ce_special (dg_entry s) = Some sp" and "sp \<noteq> []"
  shows "dg_preset (fst (dialog_step (ApplyPreset ''custom'') s)) = ''custom''
       \<and> schedule_text (dg_entry (fst (dialog_step (ApplyPreset ''custom'') s))) = sp
       \<and> FieldEv f pe \<notin> view_events (CronEntryDialog fmt initial (fst (dialog_step (ApplyPreset ''custom'') s)))"
proof -
  have "dg_pickers (fst (dialog_step (ApplyPreset ''custom'') s)) = None"
    using assms by (simp add: applyPreset_def settle_def sync_pickers_def rearm_def pickers_shown_def)
  then show ?thesis
    using assms by (auto simp: CronEntryDialog_def Let_def applyPreset_def settle_def sync_pickers_def rearm_def
        schedule_text_def view_events_def split: if_splits)
qed

theorem custom_on_special_stuck_witness:
  "FieldEv Minute TogglePicker \<notin> view_events (CronEntryDialog id None
     (fst (dialog_step (ApplyPreset ''custom'') (dialog_init (Some (BLANK_JOB\<lparr>ce_special := Some ''@reboot''\<rparr>))))))"
  using custom_on_special_stuck [of "dialog_init (Some (BLANK_JOB\<lparr>ce_special := Some ''@reboot''\<rparr>))"
      "''@reboot''" Minute TogglePicker id None]
  by (simp add: dialog_init_def initial_entry_def)

end
