(* ===== verification/Cron_Page.thy ===== *)
theory Cron_Page
  imports Cron_Dialog
begin

section \<open>The crontab page: \<open>pages/CronJobs.tsx\<close>\<close>

text \<open>
  The page, with its dialog inside. The state has the page's \<open>useState\<close> cells and what it uses of
  the query cache: per user no entry, a first load under way, a failed first load, or data. The
  events are those of the user, of the dialog and of the query and mutation hooks: an answer, a
  refetch (a focused window, data older than the stale time) and the dropping of a cache entry that
  nobody watches. The two confirm dialogs are modal, so while one is open only its own controls can
  be used. \<open>now\<close> is \<open>Date.now()\<close>.
\<close>

record crontab =
  ct_raw :: string
  ct_entries :: "cron_entry list"

datatype cron_query = QLoading | QFailed | QLoaded crontab

datatype cron_view = VisualView | RawView

record page_state =
  cp_users :: "string list"
  cp_selectedUser :: string
  cp_viewMode :: cron_view
  cp_rawContent :: string
  cp_entries :: "cron_entry list"
  cp_dialogOpen :: bool
  cp_editing :: "cron_entry option"
  cp_deleteTarget :: "cron_entry option"
  cp_dirty :: bool
  cp_cache :: "string \<rightharpoonup> cron_query"
  cp_rawPending :: bool
  cp_entriesPending :: bool
  cp_dialog :: dialog_state

datatype page_event =
    UsersArrived "string list"
  | SelectUser string
  | CrontabArrived string crontab
  | CrontabFailed string
  | Refetch
  | CacheDropped string
  | ShowVisual
  | ShowRaw
  | RawTyped string
  | SaveClicked
  | SaveDone cron_view
  | SaveFailed cron_view string
  | EditRow cron_entry
  | AddJob
  | DialogEv dialog_event
  | ToggleRow string
  | AskDelete cron_entry
  | CancelDelete
  | ConfirmDelete

datatype page_out = PageCall api_call | ToastSuccess string | ToastError string

definition page_init :: page_state where
  "page_init =
     \<lparr>cp_users = [], cp_selectedUser = [], cp_viewMode = VisualView, cp_rawContent = [], cp_entries = [],
      cp_dialogOpen = False, cp_editing = None, cp_deleteTarget = None, cp_dirty = False,
      cp_cache = Map.empty, cp_rawPending = False, cp_entriesPending = False, cp_dialog = dialog_init None\<rparr>"

definition page_mount :: "page_out list" where
  "page_mount = [PageCall listCronUsers]"

subsection \<open>The two queries\<close>

definition crontab_data :: "page_state \<Rightarrow> crontab option" where
  "crontab_data s = (case cp_cache s (cp_selectedUser s) of Some (QLoaded c) \<Rightarrow> Some c | _ \<Rightarrow> None)"

definition is_loading :: "page_state \<Rightarrow> bool" where
  "is_loading s = (cp_cache s (cp_selectedUser s) = Some QLoading)"

text \<open>The effect on \<open>users\<close>.\<close>

definition pick_user :: "page_state \<Rightarrow> page_state" where
  "pick_user s =
     (if cp_users s \<noteq> [] \<and> cp_selectedUser s = [] then
        s\<lparr>cp_selectedUser := (if ''root'' \<in> set (cp_users s) then ''root'' else hd (cp_users s))\<rparr>
      else s)"

text \<open>A new query key starts a load unless the cache has data for it or one is under way.\<close>

definition watch_user :: "page_state \<Rightarrow> page_state \<Rightarrow> page_state \<times> page_out list" where
  "watch_user old s =
     (let u = cp_selectedUser s in
      if u \<noteq> [] \<and> u \<noteq> cp_selectedUser old \<and> (cp_cache s u = None \<or> cp_cache s u = Some QFailed) then
        (s\<lparr>cp_cache := (cp_cache s)(u \<mapsto> QLoading)\<rparr>, [PageCall (getCrontab u)])
      else (s, []))"

text \<open>The effect on \<open>crontab\<close>: the reference changes with the user and with new data (equal data
  keep theirs), and the effect does nothing while there is none.\<close>

definition deliver :: "page_state \<Rightarrow> page_state \<Rightarrow> page_state" where
  "deliver old s =
     (case crontab_data s of
        None \<Rightarrow> s
      | Some c \<Rightarrow>
          if cp_selectedUser s = cp_selectedUser old \<and> crontab_data old = Some c then s
          else s\<lparr>cp_rawContent := ct_raw c, cp_entries := ct_entries c, cp_dirty := False\<rparr>)"

text \<open>The dialog's effect on \<open>open\<close> and \<open>initial\<close>.\<close>

definition open_dialog :: "page_state \<Rightarrow> page_state \<Rightarrow> page_state" where
  "open_dialog old s =
     (if cp_dialogOpen s \<and> (\<not> cp_dialogOpen old \<or> cp_editing s \<noteq> cp_editing old) then
        s\<lparr>cp_dialog := fst (dialog_step (DialogOpened (cp_editing s)) (cp_dialog s))\<rparr>
      else s)"

subsection \<open>Handlers\<close>

definition handleSave :: "page_state \<Rightarrow> page_state \<times> page_out list" where
  "handleSave s =
     (case cp_viewMode s of
        RawView \<Rightarrow> (s\<lparr>cp_rawPending := True\<rparr>, [PageCall (saveCrontabRaw (cp_selectedUser s) (cp_rawContent s))])
      | VisualView \<Rightarrow>
          (s\<lparr>cp_entriesPending := True\<rparr>, [PageCall (saveCrontabEntries (cp_selectedUser s) (cp_entries s))]))"

definition settled :: "cron_view \<Rightarrow> page_state \<Rightarrow> page_state" where
  "settled m s = (case m of RawView \<Rightarrow> s\<lparr>cp_rawPending := False\<rparr> | VisualView \<Rightarrow> s\<lparr>cp_entriesPending := False\<rparr>)"

definition is_job :: "cron_entry \<Rightarrow> bool" where
  "is_job e = (ce_type e = JobEntry)"

definition jobEntries :: "page_state \<Rightarrow> cron_entry list" where
  "jobEntries s = filter is_job (cp_entries s)"

definition handleEntryDialogSave :: "nat \<Rightarrow> cron_entry \<Rightarrow> page_state \<Rightarrow> page_state" where
  "handleEntryDialogSave now updated s =
     (case cp_editing s of
        Some ed \<Rightarrow>
          s\<lparr>cp_entries := map (\<lambda>e. if ce_id e = ce_id ed then updated\<lparr>ce_id := ce_id ed\<rparr> else e) (cp_entries s),
            cp_dirty := True, cp_dialogOpen := False\<rparr>
      | None \<Rightarrow>
          s\<lparr>cp_entries := cp_entries s @ [updated\<lparr>ce_id := ''new-'' @ nat_str now, ce_type := JobEntry\<rparr>],
            cp_dirty := True, cp_dialogOpen := False\<rparr>)"

definition flip_disabled :: "cron_entry \<Rightarrow> cron_entry" where
  "flip_disabled e = e\<lparr>ce_disabled := Some (ce_disabled e \<noteq> Some True)\<rparr>"

definition handleToggle :: "string \<Rightarrow> page_state \<Rightarrow> page_state" where
  "handleToggle i s =
     s\<lparr>cp_entries := map (\<lambda>e. if ce_id e = i then flip_disabled e else e) (cp_entries s), cp_dirty := True\<rparr>"

definition handleDelete :: "string \<Rightarrow> page_state \<Rightarrow> page_state" where
  "handleDelete i s =
     s\<lparr>cp_entries := filter (\<lambda>e. ce_id e \<noteq> i) (cp_entries s), cp_dirty := True, cp_deleteTarget := None\<rparr>"

fun dialog_out_step :: "nat \<Rightarrow> dialog_out \<Rightarrow> page_state \<times> page_out list \<Rightarrow> page_state \<times> page_out list" where
  "dialog_out_step now (Validate call) (s, os) = (s, os @ [PageCall call])"
| "dialog_out_step now (SaveEntry e) (s, os) = (handleEntryDialogSave now e s, os)"
| "dialog_out_step now CloseDialog (s, os) = (s\<lparr>cp_dialogOpen := False\<rparr>, os)"

fun page_handle :: "nat \<Rightarrow> page_event \<Rightarrow> page_state \<Rightarrow> page_state \<times> page_out list" where
  "page_handle now (UsersArrived us) s = (pick_user (s\<lparr>cp_users := us\<rparr>), [])"
| "page_handle now (SelectUser u) s = (s\<lparr>cp_selectedUser := u, cp_dirty := False\<rparr>, [])"
| "page_handle now (CrontabArrived u c) s = (s\<lparr>cp_cache := (cp_cache s)(u \<mapsto> QLoaded c)\<rparr>, [])"
| "page_handle now (CrontabFailed u) s =
     (case cp_cache s u of
        Some (QLoaded c) \<Rightarrow> (s, [])
      | _ \<Rightarrow> (s\<lparr>cp_cache := (cp_cache s)(u \<mapsto> QFailed)\<rparr>, []))"
| "page_handle now Refetch s =
     (let u = cp_selectedUser s in
      if u = [] \<or> is_loading s then (s, [])
      else ((if cp_cache s u = Some QFailed then s\<lparr>cp_cache := (cp_cache s)(u \<mapsto> QLoading)\<rparr> else s),
            [PageCall (getCrontab u)]))"
| "page_handle now (CacheDropped u) s =
     (if u = cp_selectedUser s then (s, []) else (s\<lparr>cp_cache := (cp_cache s)(u := None)\<rparr>, []))"
| "page_handle now ShowVisual s = (s\<lparr>cp_viewMode := VisualView\<rparr>, [])"
| "page_handle now ShowRaw s = (s\<lparr>cp_viewMode := RawView\<rparr>, [])"
| "page_handle now (RawTyped val) s = (s\<lparr>cp_rawContent := val, cp_dirty := True\<rparr>, [])"
| "page_handle now SaveClicked s = handleSave s"
| "page_handle now (SaveDone m) s = ((settled m s)\<lparr>cp_dirty := False\<rparr>, [ToastSuccess ''Crontab saved''])"
| "page_handle now (SaveFailed m msg) s = (settled m s, [ToastError msg])"
| "page_handle now (EditRow e) s = (s\<lparr>cp_editing := Some e, cp_dialogOpen := True\<rparr>, [])"
| "page_handle now AddJob s = (s\<lparr>cp_editing := None, cp_dialogOpen := True\<rparr>, [])"
| "page_handle now (DialogEv e) s =
     (let (d, os) = dialog_step e (cp_dialog s)
      in fold (dialog_out_step now) os (s\<lparr>cp_dialog := d\<rparr>, []))"
| "page_handle now (ToggleRow i) s = (handleToggle i s, [])"
| "page_handle now (AskDelete e) s = (s\<lparr>cp_deleteTarget := Some e\<rparr>, [])"
| "page_handle now CancelDelete s = (s\<lparr>cp_deleteTarget := None\<rparr>, [])"
| "page_handle now ConfirmDelete s =
     (case cp_deleteTarget s of Some e \<Rightarrow> (handleDelete (ce_id e) s, []) | None \<Rightarrow> (s, []))"

text \<open>A handler, then what the render after it starts: the load of a new user's crontab and the effects.\<close>

definition page_step :: "nat \<Rightarrow> page_event \<Rightarrow> page_state \<Rightarrow> page_state \<times> page_out list" where
  "page_step now e s =
     (let (s1, os) = page_handle now e s; (s2, os') = watch_user s s1
      in (open_dialog s (deliver s s2), os @ os'))"

fun page_run :: "nat \<Rightarrow> page_event list \<Rightarrow> page_state \<Rightarrow> page_state \<times> page_out list" where
  "page_run now [] s = (s, [])"
| "page_run now (e # es) s =
     (let (s', os) = page_step now e s; (s'', os') = page_run now es s' in (s'', os @ os'))"

subsection \<open>The view\<close>

definition CronJobRow :: "(string \<Rightarrow> string) \<Rightarrow> cron_entry \<Rightarrow> page_event widget list" where
  "CronJobRow fmt e =
     [Button (if ce_disabled e = Some True then ''Enable'' else ''Disable'') False (ToggleRow (ce_id e)),
      Label (schedule_text e)] @
     (case nonempty (ce_nextRun e) of
        Some next_iso \<Rightarrow> if ce_disabled e = Some True then [] else [Label (''next: '' @ fmt next_iso)]
      | None \<Rightarrow> []) @
     [Label (case ce_command e of Some c \<Rightarrow> c | None \<Rightarrow> [])] @
     (case nonempty (ce_comment e) of Some c \<Rightarrow> [Label c] | None \<Rightarrow> []) @
     [Button ''Edit'' False (EditRow e), Button ''Delete'' False (AskDelete e)]"

definition page_body :: "(string \<Rightarrow> string) \<Rightarrow> page_state \<Rightarrow> page_event widget list" where
  "page_body fmt s =
     [Label ''Cron Jobs'', Label ''Manage system crontabs''] @
     (if 1 < length (cp_users s) then
        Label (if cp_selectedUser s = [] then em_dash else cp_selectedUser s) #
        map (\<lambda>u. Button u False (SelectUser u)) (cp_users s)
      else []) @
     [Button ''Visual'' False ShowVisual, Button ''Raw'' False ShowRaw,
      Button ''Save'' (cp_rawPending s \<or> cp_entriesPending s \<or> \<not> cp_dirty s) SaveClicked] @
     (if is_loading s then [Label (''Loading crontab'' @ ellipsis)] else []) @
     (if \<not> is_loading s \<and> cp_selectedUser s \<noteq> [] then
        (case cp_viewMode s of
           VisualView \<Rightarrow>
             (if jobEntries s = [] then
                [Label (''No cron jobs for '' @ cp_selectedUser s @ ''. Add one below.'')] else []) @
             concat (map (CronJobRow fmt) (jobEntries s)) @
             [Button ''Add cron job'' False AddJob]
         | RawView \<Rightarrow>
             [Label (''crontab for '' @ cp_selectedUser s), Input [] (cp_rawContent s) RawTyped])
      else [])"

definition delete_confirm :: "cron_entry \<Rightarrow> page_event widget list" where
  "delete_confirm e =
     [Label ''Delete cron job?'',
      Label (''This will remove the job '' @ (case ce_command e of Some c \<Rightarrow> c | None \<Rightarrow> []) @
             '' from the crontab. You must save to apply the change.''),
      Button ''Cancel'' False CancelDelete, Button ''Delete'' False ConfirmDelete]"

definition CronJobs :: "(string \<Rightarrow> string) \<Rightarrow> page_state \<Rightarrow> page_event widget list" where
  "CronJobs fmt s =
     (if cp_dialogOpen s then lift_view DialogEv (CronEntryDialog fmt (cp_editing s) (cp_dialog s))
      else case cp_deleteTarget s of
        Some e \<Rightarrow> delete_confirm e
      | None \<Rightarrow> page_body fmt s)"

end
