(* ===== verification/Cron_Properties.thy ===== *)
theory Cron_Properties
  imports Cron_Page
begin

section \<open>What the crontab page does to a crontab\<close>

text \<open>
  The reachable states of the page: the user uses a control that is shown, or the server, a timer
  or the query cache acts. What is assumed of the server is how \<open>internal/cron/parser.go\<close> makes
  the ids: an id is the hexadecimal digest of the line's place and text, so it does not start with
  \<open>new-\<close>, and the text decides whether the line is a job (\<open>job_id\<close>). The flag \<open>fails\<close> says whether a
  load may fail; no query runs for the empty user name.
\<close>

definition server_line :: "(string \<Rightarrow> bool) \<Rightarrow> cron_entry \<Rightarrow> bool" where
  "server_line job_id e = (\<not> js_starts_with (ce_id e) ''new-'' \<and> is_job e = job_id (ce_id e))"

fun env_event :: "(string \<Rightarrow> bool) \<Rightarrow> bool \<Rightarrow> page_event \<Rightarrow> bool" where
  "env_event job_id fails (UsersArrived us) = True"
| "env_event job_id fails (CrontabArrived u c) = (u \<noteq> [] \<and> list_all (server_line job_id) (ct_entries c))"
| "env_event job_id fails (CrontabFailed u) = (u \<noteq> [] \<and> fails)"
| "env_event job_id fails Refetch = True"
| "env_event job_id fails (CacheDropped u) = True"
| "env_event job_id fails (SaveDone m) = True"
| "env_event job_id fails (SaveFailed m msg) = True"
| "env_event job_id fails (DialogEv ValidateDue) = True"
| "env_event job_id fails (DialogEv (RunsArrived runs)) = True"
| "env_event job_id fails (DialogEv (RunsFailed msg)) = True"
| "env_event job_id fails e = False"

definition allowed :: "(string \<Rightarrow> string) \<Rightarrow> (string \<Rightarrow> bool) \<Rightarrow> bool \<Rightarrow> page_state \<Rightarrow> page_event \<Rightarrow> bool" where
  "allowed fmt job_id fails s e = (e \<in> view_events (CronJobs fmt s) \<or> env_event job_id fails e)"

inductive page_reach :: "(string \<Rightarrow> string) \<Rightarrow> (string \<Rightarrow> bool) \<Rightarrow> bool \<Rightarrow> page_state \<Rightarrow> bool"
  for fmt job_id fails where
  mounted: "page_reach fmt job_id fails page_init"
| acted: "page_reach fmt job_id fails s \<Longrightarrow> allowed fmt job_id fails s e \<Longrightarrow>
            page_reach fmt job_id fails (fst (page_step now e s))"

subsection \<open>What the controls can raise\<close>

lemma dialog_view_events:
  "DialogOpened i \<notin> view_events (CronEntryDialog fmt initial d)"
  "ValidateDue \<notin> view_events (CronEntryDialog fmt initial d)"
  by (auto simp: CronEntryDialog_def Let_def view_events_map split: option.splits prod.splits)

lemma view_modal:
  assumes "e \<in> view_events (CronJobs fmt s)"
  shows "cp_dialogOpen s \<and> (\<exists>d. e = DialogEv d \<and> d \<in> view_events (CronEntryDialog fmt (cp_editing s) (cp_dialog s)))
       \<or> \<not> cp_dialogOpen s \<and> cp_deleteTarget s \<noteq> None \<and> e \<in> {CancelDelete, ConfirmDelete}
       \<or> \<not> cp_dialogOpen s \<and> cp_deleteTarget s = None \<and> e \<in> view_events (page_body fmt s)"
  using assms by (auto simp: CronJobs_def delete_confirm_def split: if_splits option.splits)

lemma row_events:
  "view_events (CronJobRow fmt e) = {ToggleRow (ce_id e), EditRow e, AskDelete e}"
  by (auto simp: CronJobRow_def split: option.split)

lemma body_events:
  assumes "e \<in> view_events (page_body fmt s)"
  shows "(\<exists>u. e = SelectUser u) \<or> e = ShowVisual \<or> e = ShowRaw \<or> e = SaveClicked \<and> cp_dirty s
       \<or> \<not> is_loading s \<and> cp_selectedUser s \<noteq> [] \<and>
          (e = AddJob \<or> (\<exists>v. e = RawTyped v) \<or>
           (\<exists>j \<in> set (jobEntries s). e \<in> {ToggleRow (ce_id j), EditRow j, AskDelete j}))"
  using assms
  by (auto simp: page_body_def row_events view_events_map split: if_splits cron_view.splits)

subsection \<open>The dialog keeps the kind of its entry\<close>

lemma dg_entry_settle [simp]: "dg_entry (settle old s) = dg_entry s"
  by (simp add: settle_def sync_pickers_def rearm_def)

lemma is_job_set_field [simp]: "is_job (set_cron_field f v e) = is_job e"
  by (cases f) (simp_all add: is_job_def)

lemma dialog_keeps_kind:
  assumes "\<And>i. e \<noteq> DialogOpened i"
  shows "is_job (dg_entry (fst (dialog_step e d))) = is_job (dg_entry d)"
proof (cases e)
  case (DialogOpened i)
  with assms show ?thesis by blast
next
  case (ApplyPreset v)
  then show ?thesis by (simp add: applyPreset_def Let_def is_job_def)
next
  case (FieldEv f pe)
  then show ?thesis by (auto simp: Let_def case_prod_beta split: option.split)
next
  case ValidateDue
  then show ?thesis by (simp add: doValidate_def split: option.split)
qed (simp_all add: is_job_def)

lemma dialog_opened_kind:
  "is_job (dg_entry (fst (dialog_step (DialogOpened i) d))) = (case i of None \<Rightarrow> True | Some e \<Rightarrow> is_job e)"
  by (simp add: reset_form_def Let_def initial_entry_def is_job_def BLANK_JOB_def split: option.split)

text \<open>What the dialog asks the page to do: at most to save its entry and to close, or to validate.\<close>

lemma dialog_outs:
  "snd (dialog_step e d) \<in> {[], [CloseDialog], [SaveEntry (dg_entry d), CloseDialog]} \<or>
   (\<exists>call. snd (dialog_step e d) = [Validate call])"
  by (cases e) (auto simp: doValidate_def Let_def case_prod_beta split: option.split)

lemma page_handle_dialog:
  "fst (page_handle now (DialogEv e) s) \<in>
     {s\<lparr>cp_dialog := fst (dialog_step e (cp_dialog s))\<rparr>,
      (s\<lparr>cp_dialog := fst (dialog_step e (cp_dialog s))\<rparr>)\<lparr>cp_dialogOpen := False\<rparr>,
      (handleEntryDialogSave now (dg_entry (cp_dialog s)) (s\<lparr>cp_dialog := fst (dialog_step e (cp_dialog s))\<rparr>))
        \<lparr>cp_dialogOpen := False\<rparr>}"
proof -
  have "snd (dialog_step e (cp_dialog s)) \<in> {[], [CloseDialog], [SaveEntry (dg_entry (cp_dialog s)), CloseDialog]} \<or>
      (\<exists>call. snd (dialog_step e (cp_dialog s)) = [Validate call])"
    by (rule dialog_outs)
  then show ?thesis by (auto simp: case_prod_beta)
qed

subsection \<open>Jobs and other lines\<close>

definition other_lines :: "page_state \<Rightarrow> cron_entry list" where
  "other_lines s = filter (\<lambda>e. \<not> is_job e) (cp_entries s)"

definition job_kind :: "(string \<Rightarrow> bool) \<Rightarrow> string \<Rightarrow> bool" where
  "job_kind job_id i = (js_starts_with i ''new-'' \<or> job_id i)"

definition fits :: "(string \<Rightarrow> bool) \<Rightarrow> cron_entry \<Rightarrow> bool" where
  "fits job_id e = (is_job e = job_kind job_id (ce_id e))"

text \<open>Every entry's id tells its kind, and the two dialogs are about jobs.\<close>

definition lines_inv :: "(string \<Rightarrow> bool) \<Rightarrow> page_state \<Rightarrow> bool" where
  "lines_inv job_id s =
     (list_all (fits job_id) (cp_entries s) \<and>
      (\<forall>u c. cp_cache s u = Some (QLoaded c) \<longrightarrow> list_all (server_line job_id) (ct_entries c)) \<and>
      (\<forall>e. cp_editing s = Some e \<or> cp_deleteTarget s = Some e \<longrightarrow> is_job e \<and> job_kind job_id (ce_id e)) \<and>
      is_job (dg_entry (cp_dialog s)))"

lemma server_line_fits: "server_line job_id e \<Longrightarrow> fits job_id e"
  by (simp add: server_line_def fits_def job_kind_def)

lemma jobEntries_fit: "lines_inv job_id s \<Longrightarrow> j \<in> set (jobEntries s) \<Longrightarrow> is_job j \<and> job_kind job_id (ce_id j)"
  by (auto simp: lines_inv_def jobEntries_def list_all_iff fits_def)

text \<open>Changing or removing the jobs with one id leaves the other lines.\<close>

lemma other_lines_map:
  assumes "list_all (fits job_id) es" and "job_kind job_id i" and "\<And>e. ce_id e = i \<Longrightarrow> is_job e \<Longrightarrow> is_job (f e)"
  shows "filter (\<lambda>e. \<not> is_job e) (map (\<lambda>e. if ce_id e = i then f e else e) es) = filter (\<lambda>e. \<not> is_job e) es"
  using assms by (induction es) (auto simp: fits_def)

lemma other_lines_filter:
  assumes "list_all (fits job_id) es" and "job_kind job_id i"
  shows "filter (\<lambda>e. \<not> is_job e) (filter (\<lambda>e. ce_id e \<noteq> i) es) = filter (\<lambda>e. \<not> is_job e) es"
  using assms by (induction es) (auto simp: fits_def)

lemma fits_map:
  assumes "list_all (fits job_id) es" and "\<And>e. ce_id e = i \<Longrightarrow> fits job_id e \<Longrightarrow> fits job_id (f e)"
  shows "list_all (fits job_id) (map (\<lambda>e. if ce_id e = i then f e else e) es)"
  using assms by (auto simp: list_all_iff)

lemma fits_filter: "list_all (fits job_id) es \<Longrightarrow> list_all (fits job_id) (filter p es)"
  by (auto simp: list_all_iff)

lemma flip_disabled_simps [simp]: "is_job (flip_disabled e) = is_job e" "ce_id (flip_disabled e) = ce_id e"
  by (simp_all add: flip_disabled_def is_job_def)

lemma is_job_id [simp]: "is_job (e\<lparr>ce_id := i\<rparr>) = is_job e"
  by (simp add: is_job_def)

lemma js_starts_with_new [simp]: "js_starts_with (''new-'' @ x) ''new-''"
  by (simp add: js_starts_with_def)

lemma save_keeps:
  assumes "lines_inv job_id s" and "is_job upd"
  shows "other_lines (handleEntryDialogSave now upd s) = other_lines s
       \<and> list_all (fits job_id) (cp_entries (handleEntryDialogSave now upd s))"
proof (cases "cp_editing s")
  case None
  have "fits job_id (upd\<lparr>ce_id := ''new-'' @ nat_str now, ce_type := JobEntry\<rparr>)"
    by (simp add: fits_def is_job_def job_kind_def del: append.simps)
  then show ?thesis using None assms by (simp add: handleEntryDialogSave_def lines_inv_def other_lines_def is_job_def)
next
  case (Some ed)
  then have ed: "job_kind job_id (ce_id ed)" and fit: "list_all (fits job_id) (cp_entries s)"
    using assms by (auto simp: lines_inv_def)
  have "fits job_id (upd\<lparr>ce_id := ce_id ed\<rparr>)" using ed assms(2) by (simp add: fits_def)
  then show ?thesis
    using Some assms(2) other_lines_map [OF fit ed] fits_map [OF fit]
    by (simp add: handleEntryDialogSave_def other_lines_def)
qed

subsection \<open>One step\<close>

text \<open>The frame of a step: what the handler leaves, then at most a delivery and an opening.\<close>

lemma other_lines_cong: "cp_entries s = cp_entries t \<Longrightarrow> other_lines s = other_lines t"
  by (simp add: other_lines_def)

lemma handle_lines:
  assumes inv: "lines_inv job_id s" and ok: "allowed fmt job_id fails s e"
  shows "lines_inv job_id (fst (page_handle now e s)) \<and> other_lines (fst (page_handle now e s)) = other_lines s"
proof (cases e)
  case (DialogEv d)
  have "\<And>i. d \<noteq> DialogOpened i"
    using ok DialogEv view_modal [of e fmt s] dialog_view_events body_events [of e fmt s]
    by (auto simp: allowed_def)
  then have "is_job (dg_entry (fst (dialog_step d (cp_dialog s))))"
    using inv by (simp add: dialog_keeps_kind lines_inv_def)
  then show ?thesis
    using inv DialogEv page_handle_dialog [of now d s]
      save_keeps [of job_id "s\<lparr>cp_dialog := fst (dialog_step d (cp_dialog s))\<rparr>" "dg_entry (cp_dialog s)" now]
    by (auto simp: lines_inv_def other_lines_def handleEntryDialogSave_def split: option.splits)
next
  case (ToggleRow i)
  then obtain j where "j \<in> set (jobEntries s)" "i = ce_id j"
    using ok view_modal [of e fmt s] body_events [of e fmt s] by (auto simp: allowed_def)
  then have "job_kind job_id i" using jobEntries_fit [OF inv] by blast
  then show ?thesis
    using inv ToggleRow other_lines_map [of job_id "cp_entries s" i flip_disabled]
      fits_map [of job_id "cp_entries s" i flip_disabled]
    by (simp add: handleToggle_def lines_inv_def other_lines_def fits_def)
next
  case ConfirmDelete
  then show ?thesis
    using inv other_lines_filter [of job_id "cp_entries s"] fits_filter [of job_id "cp_entries s"]
    by (auto simp: handleDelete_def lines_inv_def other_lines_def split: option.split)
next
  case (EditRow j)
  then have "j \<in> set (jobEntries s)"
    using ok view_modal [of e fmt s] body_events [of e fmt s] by (auto simp: allowed_def)
  then show ?thesis
    using EditRow inv jobEntries_fit [OF inv] by (auto simp: lines_inv_def other_lines_def)
next
  case (AskDelete j)
  then have "j \<in> set (jobEntries s)"
    using ok view_modal [of e fmt s] body_events [of e fmt s] by (auto simp: allowed_def)
  then show ?thesis
    using AskDelete inv jobEntries_fit [OF inv] by (auto simp: lines_inv_def other_lines_def)
next
  case (CrontabArrived u c)
  then have "list_all (server_line job_id) (ct_entries c)"
    using ok view_modal [of e fmt s] body_events [of e fmt s] by (auto simp: allowed_def)
  then show ?thesis
    using CrontabArrived inv by (auto simp: lines_inv_def other_lines_def)
next
  case (SaveDone m)
  then show ?thesis using inv by (cases m) (auto simp: lines_inv_def other_lines_def settled_def)
next
  case (SaveFailed m msg)
  then show ?thesis using inv by (cases m) (auto simp: lines_inv_def other_lines_def settled_def)
qed (use inv in \<open>auto simp: lines_inv_def other_lines_def Let_def pick_user_def handleSave_def
       split: option.splits cron_view.splits cron_query.splits\<close>)

lemma watch_frame:
  "cp_entries (fst (watch_user old s)) = cp_entries s"
  "cp_editing (fst (watch_user old s)) = cp_editing s"
  "cp_deleteTarget (fst (watch_user old s)) = cp_deleteTarget s"
  "cp_dialog (fst (watch_user old s)) = cp_dialog s"
  "cp_dialogOpen (fst (watch_user old s)) = cp_dialogOpen s"
  "cp_dirty (fst (watch_user old s)) = cp_dirty s"
  "cp_selectedUser (fst (watch_user old s)) = cp_selectedUser s"
  "cp_cache (fst (watch_user old s)) u = Some (QLoaded c) \<longleftrightarrow> cp_cache s u = Some (QLoaded c)"
  by (auto simp: watch_user_def Let_def)

lemma lines_inv_watch: "lines_inv job_id s \<Longrightarrow> lines_inv job_id (fst (watch_user old s))"
  by (simp add: lines_inv_def watch_frame)

lemma lines_inv_deliver: "lines_inv job_id s \<Longrightarrow> lines_inv job_id (deliver old s)"
  by (auto simp: lines_inv_def deliver_def crontab_data_def list_all_iff server_line_fits
      split: option.split cron_query.splits)

lemma lines_inv_open: "lines_inv job_id s \<Longrightarrow> lines_inv job_id (open_dialog old s)"
  by (auto simp: lines_inv_def open_dialog_def dialog_opened_kind simp del: dialog_step.simps split: option.split)

lemma page_step_fst:
  "fst (page_step now e s) = open_dialog s (deliver s (fst (watch_user s (fst (page_handle now e s)))))"
  by (simp add: page_step_def case_prod_beta Let_def)

lemma lines_inv_step:
  assumes "lines_inv job_id s" and "allowed fmt job_id fails s e"
  shows "lines_inv job_id (fst (page_step now e s))"
  unfolding page_step_fst
  using handle_lines [OF assms] by (intro lines_inv_open lines_inv_deliver lines_inv_watch) blast

lemma lines_inv_reach: "page_reach fmt job_id fails s \<Longrightarrow> lines_inv job_id s"
proof (induction rule: page_reach.induct)
  case mounted
  show ?case
    by (simp add: lines_inv_def page_init_def dialog_init_def initial_entry_def BLANK_JOB_def is_job_def)
next
  case (acted s e now)
  then show ?case by (blast intro: lines_inv_step)
qed

text \<open>What a delivery changes.\<close>

lemma deliver_cases:
  "deliver old s = s \<or>
   (cp_selectedUser s, crontab_data s) \<noteq> (cp_selectedUser old, crontab_data old) \<and>
   (\<exists>c. crontab_data s = Some c \<and>
        deliver old s = s\<lparr>cp_rawContent := ct_raw c, cp_entries := ct_entries c, cp_dirty := False\<rparr>)"
  by (auto simp: deliver_def split: option.split)

lemma open_frame:
  "cp_entries (open_dialog old s) = cp_entries s"
  "cp_dirty (open_dialog old s) = cp_dirty s"
  "cp_selectedUser (open_dialog old s) = cp_selectedUser s"
  "cp_cache (open_dialog old s) = cp_cache s"
  "cp_dialogOpen (open_dialog old s) = cp_dialogOpen s"
  "cp_deleteTarget (open_dialog old s) = cp_deleteTarget s"
  by (simp_all add: open_dialog_def)

lemma data_cong: "cp_cache s = cp_cache t \<Longrightarrow> cp_selectedUser s = cp_selectedUser t \<Longrightarrow> crontab_data s = crontab_data t"
  by (simp add: crontab_data_def)

text \<open>C12: Whatever the user does with the jobs of a crontab (adding, editing, enabling, deleting, typing,
  saving), its comments, blank lines and environment lines stay as they are and in their order, and
  whatever the server does they change only by the delivery of a crontab, which replaces all entries
  and happens only when the user or the data behind the page has changed.\<close>

theorem crontab_other_lines_kept:
  assumes "page_reach fmt job_id fails s" and "allowed fmt job_id fails s e"
  shows "other_lines (fst (page_step now e s)) = other_lines s
       \<or> (cp_selectedUser (fst (page_step now e s)), crontab_data (fst (page_step now e s)))
            \<noteq> (cp_selectedUser s, crontab_data s)
          \<and> (\<exists>c. crontab_data (fst (page_step now e s)) = Some c
                 \<and> cp_entries (fst (page_step now e s)) = ct_entries c)"
proof -
  let ?h = "fst (watch_user s (fst (page_handle now e s)))"
  have keep: "other_lines ?h = other_lines s"
    using handle_lines [OF lines_inv_reach [OF assms(1)] assms(2)] by (simp add: other_lines_def watch_frame)
  have "deliver s ?h = ?h \<or>
      (cp_selectedUser ?h, crontab_data ?h) \<noteq> (cp_selectedUser s, crontab_data s) \<and>
      (\<exists>c. crontab_data ?h = Some c \<and>
        deliver s ?h = ?h\<lparr>cp_rawContent := ct_raw c, cp_entries := ct_entries c, cp_dirty := False\<rparr>)"
    by (rule deliver_cases)
  then show ?thesis
    unfolding page_step_fst using keep
    by (auto simp: open_frame other_lines_def crontab_data_def)
qed

text \<open>A crontab for the witnesses: a comment and a job.\<close>

definition sample_comment :: cron_entry where
  "sample_comment = BLANK_JOB\<lparr>ce_id := ''c0'', ce_type := CommentEntry, ce_raw := Some ''# backups''\<rparr>"

definition sample_job :: cron_entry where
  "sample_job = BLANK_JOB\<lparr>ce_id := ''a1'', ce_command := Some ''backup''\<rparr>"

definition sample_tab :: crontab where
  "sample_tab = \<lparr>ct_raw = ''0 0 * * * backup'', ct_entries = [sample_comment, sample_job]\<rparr>"

definition sample_page :: page_state where
  "sample_page = page_init\<lparr>cp_users := [''root'', ''www''], cp_selectedUser := ''root'',
     cp_rawContent := ''0 0 * * * backup'', cp_entries := [sample_comment, sample_job],
     cp_cache := [''root'' \<mapsto> QLoaded sample_tab]\<rparr>"

lemmas sample_defs = sample_comment_def sample_job_def sample_tab_def sample_page_def BLANK_JOB_def

lemmas page_defs = page_step_def watch_user_def deliver_def open_dialog_def crontab_data_def is_loading_def
  Let_def case_prod_beta

lemma sample_reached: "page_reach id (\<lambda>i. i = ''a1'') fails sample_page"
proof -
  let ?u = "fst (page_step 0 (UsersArrived [''root'', ''www'']) page_init)"
  have "page_reach id (\<lambda>i. i = ''a1'') fails ?u"
    by (intro acted mounted) (simp add: allowed_def)
  moreover have "allowed id (\<lambda>i. i = ''a1'') fails ?u (CrontabArrived ''root'' sample_tab)"
    by (simp add: allowed_def sample_defs server_line_def js_starts_with_def is_job_def)
  ultimately have "page_reach id (\<lambda>i. i = ''a1'') fails (fst (page_step 0 (CrontabArrived ''root'' sample_tab) ?u))"
    by (rule acted)
  moreover have "fst (page_step 0 (CrontabArrived ''root'' sample_tab) ?u) = sample_page"
    by (simp add: page_defs page_init_def pick_user_def sample_page_def sample_tab_def)
  ultimately show ?thesis by simp
qed

theorem crontab_other_lines_kept_witness:
  "other_lines (fst (page_step 5 (ToggleRow ''a1'') sample_page)) = [sample_comment]"
proof -
  have "allowed id (\<lambda>i. i = ''a1'') True sample_page (ToggleRow ''a1'')"
    by (simp add: allowed_def CronJobs_def page_body_def sample_defs page_init_def jobEntries_def
        is_job_def row_events is_loading_def)
  from crontab_other_lines_kept [OF sample_reached this, of 5]
  show ?thesis
    by (simp add: page_defs handleToggle_def sample_page_def page_init_def)
      (simp add: other_lines_def is_job_def sample_defs)
qed

subsection \<open>When \<open>Save\<close> can be pressed\<close>

text \<open>While no load fails: unsaved changes and open dialogs are there only over loaded data, and every
  selected user has a load under way or data.\<close>

definition has_data :: "page_state \<Rightarrow> bool" where
  "has_data s = (\<exists>c. cp_cache s (cp_selectedUser s) = Some (QLoaded c))"

lemma data_loaded: "crontab_data s \<noteq> None \<longleftrightarrow> has_data s"
  by (auto simp: crontab_data_def has_data_def split: option.splits cron_query.splits)

definition busy :: "page_state \<Rightarrow> bool" where
  "busy s = (cp_dirty s \<or> cp_dialogOpen s \<or> cp_deleteTarget s \<noteq> None)"

definition no_failure :: "(string \<rightharpoonup> cron_query) \<Rightarrow> bool" where
  "no_failure m = ((\<forall>u. m u \<noteq> Some QFailed) \<and> m [] = None)"

definition loaded_inv :: "page_state \<Rightarrow> bool" where
  "loaded_inv s =
     ((busy s \<longrightarrow> has_data s) \<and> no_failure (cp_cache s) \<and>
      (cp_selectedUser s \<noteq> [] \<longrightarrow> cp_cache s (cp_selectedUser s) \<noteq> None))"

text \<open>Before the load of a new user starts, its cache entry may be missing.\<close>

definition unwatched_inv :: "page_state \<Rightarrow> page_state \<Rightarrow> bool" where
  "unwatched_inv old s =
     ((busy s \<longrightarrow> has_data s) \<and> no_failure (cp_cache s) \<and>
      (cp_selectedUser s \<noteq> [] \<longrightarrow> cp_cache s (cp_selectedUser s) \<noteq> None \<or> cp_selectedUser s \<noteq> cp_selectedUser old))"

lemma loaded_watch: "unwatched_inv old s \<Longrightarrow> loaded_inv (fst (watch_user old s))"
  by (auto simp: unwatched_inv_def loaded_inv_def watch_user_def Let_def has_data_def busy_def no_failure_def
      split: if_splits)

lemma loaded_deliver: "loaded_inv s \<Longrightarrow> loaded_inv (open_dialog old (deliver old s))"
  using deliver_cases [of old s]
  by (auto simp: loaded_inv_def open_frame has_data_def busy_def no_failure_def)

text \<open>Two ways for a handler to keep this: the selection and the cache stay and it adds nothing to do,
  or there is data.\<close>

lemma unwatched_same:
  "loaded_inv s \<Longrightarrow> cp_cache t = cp_cache s \<Longrightarrow> cp_selectedUser t = cp_selectedUser s \<Longrightarrow>
     busy t \<longrightarrow> busy s \<or> has_data s \<Longrightarrow> unwatched_inv s t"
  by (auto simp: loaded_inv_def unwatched_inv_def has_data_def)

lemma shown_needs_data:
  assumes "loaded_inv s" and "allowed fmt job_id False s e"
    and "e \<in> range ToggleRow \<union> range RawTyped \<union> range EditRow \<union> range AskDelete \<union> {AddJob, DialogEv SubmitForm}"
  shows "has_data s"
proof -
  have "e \<in> view_events (CronJobs fmt s)"
    using assms(2,3) by (auto simp: allowed_def)
  then have "busy s \<or> \<not> is_loading s \<and> cp_selectedUser s \<noteq> []"
    using view_modal [of e fmt s] body_events [of e fmt s] assms(3) by (auto simp: busy_def)
  then show ?thesis
    using assms(1) by (cases "cp_cache s (cp_selectedUser s)"; cases "the (cp_cache s (cp_selectedUser s))")
      (auto simp: loaded_inv_def is_loading_def has_data_def no_failure_def)
qed

lemma dialog_saves_only_submitted:
  "d \<noteq> SubmitForm \<Longrightarrow> snd (dialog_step d s) \<in> {[], [CloseDialog]} \<or> (\<exists>call. snd (dialog_step d s) = [Validate call])"
  by (cases d) (auto simp: doValidate_def Let_def case_prod_beta split: option.split)

lemma handle_loaded:
  assumes inv: "loaded_inv s" and ok: "allowed fmt job_id False s e"
  shows "unwatched_inv s (fst (page_handle now e s))"
proof (cases e)
  case (DialogEv d)
  show ?thesis
  proof (cases "d = SubmitForm")
    case True
    then have "has_data s" using shown_needs_data [OF inv ok] DialogEv by simp
    then show ?thesis using DialogEv True
      by (intro unwatched_same [OF inv]) (auto simp: handleEntryDialogSave_def split: option.split)
  next
    case False
    then have "snd (dialog_step d (cp_dialog s)) \<in> {[], [CloseDialog]} \<or>
        (\<exists>call. snd (dialog_step d (cp_dialog s)) = [Validate call])"
      by (rule dialog_saves_only_submitted)
    then show ?thesis using DialogEv
      by (intro unwatched_same [OF inv]) (auto simp: case_prod_beta busy_def)
  qed
next
  case (ToggleRow i)
  then show ?thesis
    using shown_needs_data [OF inv ok] by (intro unwatched_same [OF inv]) (auto simp: handleToggle_def)
next
  case (SelectUser u)
  then have "\<not> cp_dialogOpen s" "cp_deleteTarget s = None"
    using ok view_modal [of e fmt s] by (auto simp: allowed_def)
  then show ?thesis using SelectUser inv by (auto simp: unwatched_inv_def loaded_inv_def busy_def)
next
  case (UsersArrived us)
  show ?thesis
  proof (cases "cp_selectedUser s = []")
    case True
    then have "\<not> busy s" using inv by (auto simp: loaded_inv_def has_data_def no_failure_def)
    then show ?thesis using UsersArrived inv True by (auto simp: unwatched_inv_def loaded_inv_def busy_def pick_user_def)
  next
    case False
    then show ?thesis using UsersArrived by (intro unwatched_same [OF inv]) (auto simp: pick_user_def busy_def)
  qed
next
  case (CrontabArrived u c)
  then have "u \<noteq> []" using ok view_modal [of e fmt s] body_events [of e fmt s] by (auto simp: allowed_def)
  then show ?thesis using CrontabArrived inv
    by (auto simp: unwatched_inv_def loaded_inv_def busy_def has_data_def no_failure_def)
next
  case (CrontabFailed u)
  then show ?thesis using ok view_modal [of e fmt s] body_events [of e fmt s] by (auto simp: allowed_def)
next
  case Refetch
  then show ?thesis using inv
    by (intro unwatched_same [OF inv]) (auto simp: Let_def loaded_inv_def no_failure_def busy_def)
next
  case (CacheDropped u)
  then show ?thesis using inv
    by (auto simp: unwatched_inv_def loaded_inv_def busy_def has_data_def no_failure_def)
next
  case (SaveDone m)
  then show ?thesis by (intro unwatched_same [OF inv]; cases m) (auto simp: settled_def busy_def)
next
  case (SaveFailed m msg)
  then show ?thesis by (intro unwatched_same [OF inv]; cases m) (auto simp: settled_def busy_def)
next
  case SaveClicked
  then show ?thesis by (intro unwatched_same [OF inv]) (auto simp: handleSave_def busy_def split: cron_view.split)
next
  case ConfirmDelete
  then show ?thesis by (intro unwatched_same [OF inv]) (auto simp: handleDelete_def busy_def split: option.split)
next
  case (RawTyped v)
  then show ?thesis using shown_needs_data [OF inv ok] by (intro unwatched_same [OF inv]) auto
next
  case (EditRow j)
  then show ?thesis using shown_needs_data [OF inv ok] by (intro unwatched_same [OF inv]) auto
next
  case (AskDelete j)
  then show ?thesis using shown_needs_data [OF inv ok] by (intro unwatched_same [OF inv]) auto
next
  case AddJob
  then show ?thesis using shown_needs_data [OF inv ok] by (intro unwatched_same [OF inv]) auto
next
  case ShowVisual
  then show ?thesis by (intro unwatched_same [OF inv]) (auto simp: busy_def)
next
  case ShowRaw
  then show ?thesis by (intro unwatched_same [OF inv]) (auto simp: busy_def)
next
  case CancelDelete
  then show ?thesis by (intro unwatched_same [OF inv]) (auto simp: busy_def)
qed

lemma loaded_reach: "page_reach fmt job_id False s \<Longrightarrow> loaded_inv s"
proof (induction rule: page_reach.induct)
  case mounted
  show ?case by (simp add: loaded_inv_def page_init_def busy_def no_failure_def)
next
  case (acted s e now)
  then show ?case unfolding page_step_fst by (blast intro: loaded_deliver loaded_watch handle_loaded)
qed



subsection \<open>What goes wrong\<close>

text \<open>The steps of the scenarios, one by one.\<close>

lemma quiet_step:
  assumes "page_handle now e s = (t, os)" and "cp_selectedUser t = cp_selectedUser s" and "cp_cache t = cp_cache s"
    and "cp_dialogOpen t = cp_dialogOpen s" and "cp_editing t = cp_editing s"
  shows "page_step now e s = (t, os)"
  using assms data_cong [of t s]
  by (simp add: page_step_def watch_user_def deliver_def open_dialog_def Let_def split: option.split)

lemma toggle_step: "page_step now (ToggleRow i) s = (handleToggle i s, [])"
  by (rule quiet_step) (simp_all add: handleToggle_def)

lemma raw_step: "page_step now ShowRaw s = (s\<lparr>cp_viewMode := RawView\<rparr>, [])"
  by (rule quiet_step) simp_all

lemma save_step: "page_step now SaveClicked s = handleSave s"
  by (subst quiet_step [of now SaveClicked s "fst (handleSave s)" "snd (handleSave s)"])
    (auto simp: handleSave_def split: cron_view.split)

lemma saved_step: "page_step now (SaveDone m) s = ((settled m s)\<lparr>cp_dirty := False\<rparr>, [ToastSuccess ''Crontab saved''])"
  by (rule quiet_step) (auto simp: settled_def split: cron_view.split)

lemma select_step:
  assumes "u \<noteq> []" and "u \<noteq> cp_selectedUser s" and "cp_cache s u = None" and "\<not> cp_dialogOpen s"
  shows "page_step now (SelectUser u) s =
    (s\<lparr>cp_selectedUser := u, cp_dirty := False, cp_cache := (cp_cache s)(u \<mapsto> QLoading)\<rparr>, [PageCall (getCrontab u)])"
  using assms by (simp add: page_step_def watch_user_def deliver_def open_dialog_def crontab_data_def)

lemma back_step:
  assumes "u \<noteq> cp_selectedUser s" and "cp_cache s u = Some (QLoaded c)" and "\<not> cp_dialogOpen s"
  shows "page_step now (SelectUser u) s =
    (s\<lparr>cp_selectedUser := u, cp_dirty := False, cp_rawContent := ct_raw c, cp_entries := ct_entries c\<rparr>, [])"
  using assms by (simp add: page_step_def watch_user_def deliver_def open_dialog_def crontab_data_def)

lemma fail_step:
  assumes "cp_selectedUser s = u" and "cp_cache s u = Some QLoading" and "\<not> cp_dialogOpen s"
  shows "page_step now (CrontabFailed u) s = (s\<lparr>cp_cache := (cp_cache s)(u \<mapsto> QFailed)\<rparr>, [])"
  using assms by (simp add: page_step_def watch_user_def deliver_def open_dialog_def crontab_data_def)

lemma arrive_step:
  assumes "cp_selectedUser s = u" and "cp_cache s u = Some QLoading" and "\<not> cp_dialogOpen s"
  shows "page_step now (CrontabArrived u c) s =
    (s\<lparr>cp_cache := (cp_cache s)(u \<mapsto> QLoaded c), cp_dirty := False, cp_rawContent := ct_raw c,
       cp_entries := ct_entries c\<rparr>, [])"
  using assms by (simp add: page_step_def watch_user_def deliver_def open_dialog_def crontab_data_def)

lemmas scenario_steps = toggle_step raw_step save_step saved_step select_step back_step fail_step arrive_step

text \<open>When the load of another user's crontab fails, the page keeps showing the previous user's
  jobs under the new user's name, and an edit followed by \<open>Save\<close> writes them all over the new user's
  crontab.\<close>

theorem failed_load_writes_other_user:
  assumes "u \<noteq> []" and "u \<noteq> cp_selectedUser s" and "cp_cache s u = None"
    and "\<not> cp_dialogOpen s" and "cp_deleteTarget s = None" and "cp_viewMode s = VisualView"
    and "\<not> cp_rawPending s" and "\<not> cp_entriesPending s"
  shows "snd (page_run now [SelectUser u, CrontabFailed u, ToggleRow i, SaveClicked] s) =
           [PageCall (getCrontab u),
            PageCall (saveCrontabEntries u (map (\<lambda>e. if ce_id e = i then flip_disabled e else e) (cp_entries s)))]
       \<and> SaveClicked \<in> view_events (CronJobs fmt (fst (page_run now [SelectUser u, CrontabFailed u, ToggleRow i] s)))
       \<and> (ToggleRow i \<in> view_events (CronJobs fmt (fst (page_run now [SelectUser u, CrontabFailed u] s)))
          \<longleftrightarrow> i \<in> ce_id ` set (jobEntries s))"
  using assms
  by (simp add: scenario_steps handleToggle_def handleSave_def CronJobs_def page_body_def row_events jobEntries_def
      is_loading_def) (auto simp: view_events_map)

theorem failed_load_writes_other_user_witness:
  "snd (page_run 5 [SelectUser ''www'', CrontabFailed ''www'', ToggleRow ''a1'', SaveClicked] sample_page) =
     [PageCall (getCrontab ''www''),
      PageCall (saveCrontabEntries ''www'' [sample_comment, flip_disabled sample_job])]"
  using failed_load_writes_other_user [of "''www''" sample_page 5 "''a1''" id]
  by (simp add: sample_defs page_init_def)

text \<open>Saving does not tell the query cache: after \<open>Save\<close> has succeeded, going to another user and
  back shows the crontab as it was before the save, without asking the server again, so that the next
  edit and \<open>Save\<close> undoes the saved change.\<close>

theorem saved_edit_reappears_old:
  assumes "cp_cache s (cp_selectedUser s) = Some (QLoaded c)" and "cp_selectedUser s \<noteq> []"
    and "v \<noteq> []" and "v \<noteq> cp_selectedUser s" and "cp_cache s v = None"
    and "\<not> cp_dialogOpen s" and "cp_viewMode s = VisualView"
  shows "snd (page_run now [SaveClicked, SaveDone VisualView, SelectUser v, CrontabArrived v c',
                            SelectUser (cp_selectedUser s)] s) =
           [PageCall (saveCrontabEntries (cp_selectedUser s) (cp_entries s)), ToastSuccess ''Crontab saved'',
            PageCall (getCrontab v)]
       \<and> cp_entries (fst (page_run now [SaveClicked, SaveDone VisualView, SelectUser v, CrontabArrived v c',
                            SelectUser (cp_selectedUser s)] s)) = ct_entries c"
  using assms by (simp add: scenario_steps handleSave_def settled_def)

theorem saved_edit_reappears_old_witness:
  "cp_entries (fst (page_run 5 [SaveClicked, SaveDone VisualView, SelectUser ''www'',
      CrontabArrived ''www'' \<lparr>ct_raw = [], ct_entries = []\<rparr>, SelectUser ''root'']
      (sample_page\<lparr>cp_entries := [sample_comment, flip_disabled sample_job], cp_dirty := True\<rparr>))) =
   [sample_comment, sample_job]"
  using saved_edit_reappears_old [of "sample_page\<lparr>cp_entries := [sample_comment, flip_disabled sample_job], cp_dirty := True\<rparr>"
      sample_tab "''www''" 5 "\<lparr>ct_raw = [], ct_entries = []\<rparr>"]
  by (simp add: sample_page_def page_init_def sample_tab_def)

text \<open>The two modes are two copies: after an edit of a job, switching to the raw text and saving
  there writes the text without the edit and reports everything saved, while the page still shows the
  edit in the visual mode.\<close>

theorem raw_save_forgets_visual_edit:
  assumes "cp_selectedUser s = u" and "cp_cache s u = Some (QLoaded c)" and "cp_rawContent s = ct_raw c"
    and "\<not> cp_dialogOpen s"
  shows "snd (page_run now [ToggleRow i, ShowRaw, SaveClicked, SaveDone RawView] s) =
           [PageCall (saveCrontabRaw u (ct_raw c)), ToastSuccess ''Crontab saved'']
       \<and> \<not> cp_dirty (fst (page_run now [ToggleRow i, ShowRaw, SaveClicked, SaveDone RawView] s))
       \<and> cp_entries (fst (page_run now [ToggleRow i, ShowRaw, SaveClicked, SaveDone RawView] s)) =
           map (\<lambda>e. if ce_id e = i then flip_disabled e else e) (cp_entries s)"
  using assms by (simp add: scenario_steps handleSave_def handleToggle_def settled_def)

theorem raw_save_forgets_visual_edit_witness:
  "snd (page_run 5 [ToggleRow ''a1'', ShowRaw, SaveClicked, SaveDone RawView] sample_page) =
     [PageCall (saveCrontabRaw ''root'' ''0 0 * * * backup''), ToastSuccess ''Crontab saved'']"
  using raw_save_forgets_visual_edit [of sample_page "''root''" sample_tab 5 "''a1''"]
  by (simp add: sample_page_def page_init_def sample_tab_def)

end
