(* ===== verification/Page_Common.thy ===== *)
theory Page_Common
  imports Ui_Widgets Api_Routes
begin

section \<open>What the pages share\<close>

text \<open>
  The effects a page's handlers have outside its own state: a request, a toast, a navigation, the
  invalidation, the refetch or the dropping of queries, a link that leaves the page, an exception no
  handler catches. Queries of \<open>@tanstack/react-query\<close> are
  seen by a page as pending, failed or loaded.
\<close>

datatype client_out =
    Send api_call
  | ToastOk string
  | ToastErr string
  | ToastInfo string
  | ToastWarn string
  | GoTo string
  | Invalidate "string list"
  | CopyText string
  | OpenSocket string
  | CloseSocket nat
  | ClearQueries
  | Refetch "string list"
  | OpenUrl string
  | Uncaught js_error

datatype 'a query = Pending | QueryFailed string | Loaded 'a

fun query_data :: "'a query \<Rightarrow> 'a option" where
  "query_data (Loaded x) = Some x"
| "query_data _ = None"

definition data_or :: "'a \<Rightarrow> 'a query \<Rightarrow> 'a" where
  "data_or d q = (case query_data q of Some x \<Rightarrow> x | None \<Rightarrow> d)"

lemma data_or_simps [simp]: "data_or d (Loaded x) = x" "data_or d Pending = d" "data_or d (QueryFailed m) = d"
  by (simp_all add: data_or_def)

text \<open>A refetch that fails leaves the data that is there.\<close>

definition query_fail :: "string \<Rightarrow> 'a query \<Rightarrow> 'a query" where
  "query_fail msg q = (case q of Loaded x \<Rightarrow> q | _ \<Rightarrow> QueryFailed msg)"

subsection \<open>\<open>components/ConfirmDialog.tsx\<close>\<close>

definition ConfirmDialog ::
  "string \<Rightarrow> string option \<Rightarrow> string option \<Rightarrow> 'e \<Rightarrow> 'e \<Rightarrow> 'e widget list" where
  "ConfirmDialog title description confirmLabel onConfirm onCancel =
     [Label title] @
     (case nonempty description of None \<Rightarrow> [] | Some d \<Rightarrow> [Label d]) @
     [Button ''Cancel'' False onCancel,
      Button (case confirmLabel of None \<Rightarrow> ''Confirm'' | Some l \<Rightarrow> l) False onConfirm]"

lemma confirm_events [simp]: "view_events (ConfirmDialog title d l yes no) = {no, yes}"
  by (auto simp: ConfirmDialog_def split: option.split)

subsection \<open>Numbers in the values of a form control\<close>

text \<open>\<open>parseInt(s, 10)\<close>; \<open>None\<close> is \<open>NaN\<close>.\<close>

definition js_parseInt :: "string \<Rightarrow> int option" where
  "js_parseInt s =
     (case split_sign (js_trim_start s) of (sg, r) \<Rightarrow>
        map_option (\<lambda>n. sg * n) (parse_digits (takeWhile is_digit r)))"

end
