(* ===== verification/Project_Editor.thy ===== *)
theory Project_Editor
  imports Compose_Builder Compose_Serialize Page_Common
begin

section \<open>The project editor: \<open>pages/ProjectEditor.tsx\<close>\<close>

text \<open>
  A new project, or with a \<open>name\<close> in the address the edit of one: the Compose file as text or in the
  builder, extra files, environment variables and attached secrets, and the save, a chain of
  requests of which each waits for the answer of the one before. The chain works on the values of
  the render in which \<open>Save\<close> was pressed; what is typed meanwhile is not part of it. \<open>load\<close> and \<open>dump\<close>
  are the YAML library. The highlighting of the text editors is left out.
\<close>

record env_entry =
  en_key :: string
  en_value :: string

record file_entry =
  fe_filename :: string
  fe_content :: string
  fe_toDelete :: bool

record project_secret =
  ps_secretId :: nat
  ps_secretName :: string
  ps_envVarName :: string

record secret =
  sec_id :: nat
  sec_name :: string
  sec_description :: string
  sec_createdBy :: string
  sec_createdAt :: string
  sec_updatedAt :: string

datatype active_tab = ComposeTab | FileTab nat

datatype compose_mode = YamlMode | VisualMode

record editor_state =
  pe_projectName :: string
  pe_compose :: string
  pe_env :: "env_entry list"
  pe_files :: "file_entry list"
  pe_original :: "project_file list"
  pe_saving :: bool
  pe_tab :: active_tab
  pe_dirty :: "active_tab set"
  pe_pendingNav :: "string option"
  pe_attached :: "project_secret list"
  pe_mode :: compose_mode
  pe_model :: compose_file
  pe_builder :: "builder_state option"
  pe_project :: "project_detail option"
  pe_available :: "secret list"
  pe_projectSecrets :: "project_secret list option"
  pe_chain :: "api_call list"
  pe_target :: string

definition empty_compose_model :: compose_file where
  "empty_compose_model = \<lparr>cf_version = None, cf_services = None, cf_networks = None, cf_volumes = None\<rparr>"

definition editor_init :: editor_state where
  "editor_init =
     \<lparr>pe_projectName = [], pe_compose = ''services:'' @ [CHR 0x0A], pe_env = [], pe_files = [],
      pe_original = [], pe_saving = False, pe_tab = ComposeTab, pe_dirty = {}, pe_pendingNav = None,
      pe_attached = [], pe_mode = YamlMode, pe_model = empty_compose_model, pe_builder = None,
      pe_project = None, pe_available = [], pe_projectSecrets = None, pe_chain = [], pe_target = []\<rparr>"

definition is_edit :: "string option \<Rightarrow> bool" where
  "is_edit name = (nonempty name \<noteq> None)"

definition editor_mount :: "string option \<Rightarrow> client_out list" where
  "editor_mount name =
     (case nonempty name of
        None \<Rightarrow> []
      | Some n \<Rightarrow> [Send (getProject n), Send listSecrets, Send (listProjectSecrets n)])"

definition hasUnsavedChanges :: "editor_state \<Rightarrow> bool" where
  "hasUnsavedChanges s = (pe_dirty s \<noteq> {})"

definition markDirty :: "active_tab \<Rightarrow> editor_state \<Rightarrow> editor_state" where
  "markDirty t s = s\<lparr>pe_dirty := insert t (pe_dirty s)\<rparr>"

definition guardedNavigate :: "string \<Rightarrow> editor_state \<Rightarrow> editor_state \<times> client_out list" where
  "guardedNavigate dest s =
     (if hasUnsavedChanges s then (s\<lparr>pe_pendingNav := Some dest\<rparr>, []) else (s, [GoTo dest]))"

subsection \<open>What the server sends\<close>

definition load_project :: "project_detail \<Rightarrow> editor_state \<Rightarrow> editor_state" where
  "load_project d s =
     s\<lparr>pe_projectName := pd_name d, pe_compose := pd_compose d,
       pe_env := map (\<lambda>(k, v). \<lparr>en_key = k, en_value = v\<rparr>) (pd_envVars d),
       pe_files := map (\<lambda>f. \<lparr>fe_filename = file_filename f, fe_content = file_content f, fe_toDelete = False\<rparr>)
                     (pd_files d),
       pe_original := pd_files d\<rparr>"

subsection \<open>The save\<close>

datatype file_op = DeleteFile string | UpsertFile string string

fun file_call :: "string \<Rightarrow> file_op \<Rightarrow> api_call" where
  "file_call target (DeleteFile n) = deleteProjectFile target n"
| "file_call target (UpsertFile n c) = upsertProjectFile target n c"

definition kept_files :: "file_entry list \<Rightarrow> file_entry list" where
  "kept_files fs = filter (\<lambda>f. \<not> fe_toDelete f) fs"

definition original_of :: "project_file list \<Rightarrow> string \<Rightarrow> project_file option" where
  "original_of orig n = List.find (\<lambda>f. file_filename f = n) orig"

definition delete_ops :: "project_file list \<Rightarrow> file_entry list \<Rightarrow> file_op list" where
  "delete_ops orig fs =
     map (\<lambda>f. DeleteFile (file_filename f))
       (filter (\<lambda>f. file_filename f \<notin> fe_filename ` set (kept_files fs)) orig)"

definition changed_ops :: "project_file list \<Rightarrow> file_entry list \<Rightarrow> file_op list" where
  "changed_ops orig fs =
     map (\<lambda>f. UpsertFile (fe_filename f) (fe_content f))
       (filter (\<lambda>f. case original_of orig (fe_filename f) of
                      None \<Rightarrow> True
                    | Some g \<Rightarrow> file_content g \<noteq> fe_content f) (kept_files fs))"

definition new_ops :: "project_file list \<Rightarrow> file_entry list \<Rightarrow> file_op list" where
  "new_ops orig fs =
     map (\<lambda>f. UpsertFile (fe_filename f) (fe_content f))
       (filter (\<lambda>f. fe_filename f \<notin> file_filename ` set orig) (kept_files fs))"

definition file_ops :: "project_file list \<Rightarrow> file_entry list \<Rightarrow> file_op list" where
  "file_ops orig fs = delete_ops orig fs @ changed_ops orig fs @ new_ops orig fs"

definition env_object :: "env_entry list \<Rightarrow> string obj" where
  "env_object es =
     obj_from_entries (map (\<lambda>e. (js_trim (en_key e), en_value e)) (filter (\<lambda>e. js_trim (en_key e) \<noteq> []) es))"

definition target_name :: "string option \<Rightarrow> editor_state \<Rightarrow> string" where
  "target_name name s = (case nonempty name of Some n \<Rightarrow> n | None \<Rightarrow> pe_projectName s)"

definition first_call :: "string option \<Rightarrow> editor_state \<Rightarrow> api_call" where
  "first_call name s =
     (let form = \<lparr>pf_name = target_name name s, pf_description = None, pf_composeContent = pe_compose s,
                  pf_env = Some (env_object (pe_env s))\<rparr>
      in case nonempty name of Some n \<Rightarrow> updateProject n form | None \<Rightarrow> createProject form)"

definition save_calls :: "string option \<Rightarrow> editor_state \<Rightarrow> api_call list" where
  "save_calls name s =
     first_call name s #
     map (file_call (target_name name s)) (file_ops (pe_original s) (pe_files s)) @
     (if is_edit name then
        [setProjectSecrets (target_name name s) (map (\<lambda>a. (ps_secretId a, ps_envVarName a)) (pe_attached s))]
      else [])"

definition project_handleSave :: "string option \<Rightarrow> editor_state \<Rightarrow> editor_state \<times> client_out list" where
  "project_handleSave name s =
     (if js_trim (pe_projectName s) = [] then (s, [ToastErr ''Project name is required''])
      else if js_trim (pe_compose s) = [] then (s, [ToastErr ''Compose content is required''])
      else (s\<lparr>pe_saving := True, pe_chain := tl (save_calls name s), pe_target := target_name name s\<rparr>,
            [Send (hd (save_calls name s))]))"

definition save_finished :: "string option \<Rightarrow> editor_state \<Rightarrow> editor_state \<times> client_out list" where
  "save_finished name s =
     (s\<lparr>pe_saving := False, pe_dirty := {}\<rparr>,
      (if is_edit name then [Invalidate [''project-secrets'', pe_target s]] else []) @
      [Invalidate [''projects''], ToastOk (if is_edit name then ''Project updated'' else ''Project created''),
       GoTo ''/projects''])"

subsection \<open>Handlers\<close>

datatype editor_event =
    ProjectArrived project_detail
  | SecretsArrived "secret list"
  | ProjectSecretsArrived "project_secret list"
  | BackClicked
  | SaveProject
  | CallDone
  | CallFailed
  | TypeProjectName string
  | ShowTab active_tab
  | GoVisual
  | GoYaml
  | BuilderEv builder_event
  | TypeYaml string
  | TypeFilename nat string
  | TypeContent nat string
  | AddEnv
  | RemoveEnv nat
  | TypeEnvKey nat string
  | TypeEnvValue nat string
  | AttachSecret string
  | DetachSecret nat
  | TypeSecretVar nat string
  | AddFile
  | RemoveFile nat
  | LeaveConfirmed
  | LeaveCancelled

definition addFile :: "editor_state \<Rightarrow> editor_state" where
  "addFile s =
     s\<lparr>pe_files := pe_files s @ [\<lparr>fe_filename = [], fe_content = [], fe_toDelete = False\<rparr>],
       pe_tab := FileTab (length (pe_files s))\<rparr>"

definition removeFile :: "nat \<Rightarrow> editor_state \<Rightarrow> editor_state" where
  "removeFile i s =
     s\<lparr>pe_files := map_at i (\<lambda>f. f\<lparr>fe_toDelete := True\<rparr>) (pe_files s),
       pe_tab := (if pe_tab s = FileTab i then ComposeTab else pe_tab s)\<rparr>"

definition updateFileField :: "nat \<Rightarrow> (file_entry \<Rightarrow> file_entry) \<Rightarrow> editor_state \<Rightarrow> editor_state" where
  "updateFileField i f s = s\<lparr>pe_files := map_at i f (pe_files s)\<rparr>"

definition addAttachedSecret :: "nat \<Rightarrow> string \<Rightarrow> project_secret list \<Rightarrow> project_secret list" where
  "addAttachedSecret secretId secretName as =
     as @ [\<lparr>ps_secretId = secretId, ps_secretName = secretName, ps_envVarName = secretName\<rparr>]"

definition attach_choice :: "string \<Rightarrow> editor_state \<Rightarrow> editor_state" where
  "attach_choice v s =
     (case js_parseInt v of
        None \<Rightarrow> s
      | Some n \<Rightarrow>
          case List.find (\<lambda>x. int (sec_id x) = n) (pe_available s) of
            None \<Rightarrow> s
          | Some x \<Rightarrow> s\<lparr>pe_attached := addAttachedSecret (sec_id x) (sec_name x) (pe_attached s)\<rparr>)"

definition removeAttachedSecret :: "nat \<Rightarrow> project_secret list \<Rightarrow> project_secret list" where
  "removeAttachedSecret i as = filter (\<lambda>a. ps_secretId a \<noteq> i) as"

definition updateAttachedSecretEnvVar :: "nat \<Rightarrow> string \<Rightarrow> project_secret list \<Rightarrow> project_secret list" where
  "updateAttachedSecretEnvVar i v as = map (\<lambda>a. if ps_secretId a = i then a\<lparr>ps_envVarName := v\<rparr> else a) as"

text \<open>The builder's \<open>onChange\<close>: the model is set first, and a file that cannot be written leaves the
  text as it was and the exception uncaught.\<close>

definition model_changed :: "(js \<Rightarrow> string) \<Rightarrow> compose_file \<Rightarrow> editor_state \<Rightarrow> editor_state \<times> client_out list" where
  "model_changed dump cf s =
     (case serializeCompose dump cf of
        Inl err \<Rightarrow> (s\<lparr>pe_model := cf\<rparr>, [Uncaught err])
      | Inr yaml \<Rightarrow> (markDirty ComposeTab (s\<lparr>pe_model := cf, pe_compose := yaml\<rparr>), []))"

fun builder_outs_step ::
  "(js \<Rightarrow> string) \<Rightarrow> builder_out \<Rightarrow> editor_state \<times> client_out list \<Rightarrow> editor_state \<times> client_out list" where
  "builder_outs_step dump (FileChange cf) (s, os) = (let (s', os') = model_changed dump cf s in (s', os @ os'))"
| "builder_outs_step dump (BuilderFetch c) (s, os) = (s, os @ [Send c])"

fun editor_handle ::
  "(string \<Rightarrow> js option) \<Rightarrow> (js \<Rightarrow> string) \<Rightarrow> string option \<Rightarrow> editor_event \<Rightarrow> editor_state \<Rightarrow>
     editor_state \<times> client_out list" where
  "editor_handle load dump name (ProjectArrived d) s =
     (if pe_project s = Some d then (s, []) else (load_project d (s\<lparr>pe_project := Some d\<rparr>), []))"
| "editor_handle load dump name (SecretsArrived xs) s = (s\<lparr>pe_available := xs\<rparr>, [])"
| "editor_handle load dump name (ProjectSecretsArrived xs) s =
     (if pe_projectSecrets s = Some xs then (s, [])
      else (s\<lparr>pe_projectSecrets := Some xs, pe_attached := xs\<rparr>, []))"
| "editor_handle load dump name BackClicked s = guardedNavigate ''/projects'' s"
| "editor_handle load dump name SaveProject s =
     (if pe_saving s then (s, []) else project_handleSave name s)"
| "editor_handle load dump name CallDone s =
     (if \<not> pe_saving s then (s, [])
      else case pe_chain s of
        [] \<Rightarrow> save_finished name s
      | c # cs \<Rightarrow> (s\<lparr>pe_chain := cs\<rparr>, [Send c]))"
| "editor_handle load dump name CallFailed s =
     (if pe_saving s then (s\<lparr>pe_saving := False, pe_chain := []\<rparr>, [ToastErr ''Failed to save project'']) else (s, []))"
| "editor_handle load dump name (TypeProjectName v) s = (s\<lparr>pe_projectName := v\<rparr>, [])"
| "editor_handle load dump name (ShowTab t) s = (s\<lparr>pe_tab := t\<rparr>, [])"
| "editor_handle load dump name GoVisual s =
     (s\<lparr>pe_model := parseCompose load (pe_compose s), pe_mode := VisualMode\<rparr>, [])"
| "editor_handle load dump name GoYaml s =
     (if pe_mode s = VisualMode then
        (case serializeCompose dump (pe_model s) of
           Inl err \<Rightarrow> (s, [Uncaught err])
         | Inr yaml \<Rightarrow> (markDirty ComposeTab (s\<lparr>pe_compose := yaml, pe_mode := YamlMode\<rparr>), []))
      else (s, []))"
| "editor_handle load dump name (BuilderEv e) s =
     (case pe_builder s of
        None \<Rightarrow> (s, [])
      | Some b \<Rightarrow>
          case builder_step (pe_model s) e b of
            Inl err \<Rightarrow> (s, [Uncaught err])
          | Inr (b', os) \<Rightarrow> fold (builder_outs_step dump) os (s\<lparr>pe_builder := Some b'\<rparr>, []))"
| "editor_handle load dump name (TypeYaml v) s = (markDirty ComposeTab (s\<lparr>pe_compose := v\<rparr>), [])"
| "editor_handle load dump name (TypeFilename i v) s =
     (markDirty (FileTab i) (updateFileField i (\<lambda>f. f\<lparr>fe_filename := v\<rparr>) s), [])"
| "editor_handle load dump name (TypeContent i v) s =
     (markDirty (FileTab i) (updateFileField i (\<lambda>f. f\<lparr>fe_content := v\<rparr>) s), [])"
| "editor_handle load dump name AddEnv s = (s\<lparr>pe_env := pe_env s @ [\<lparr>en_key = [], en_value = []\<rparr>]\<rparr>, [])"
| "editor_handle load dump name (RemoveEnv i) s = (s\<lparr>pe_env := remove_at i (pe_env s)\<rparr>, [])"
| "editor_handle load dump name (TypeEnvKey i v) s = (s\<lparr>pe_env := map_at i (\<lambda>e. e\<lparr>en_key := v\<rparr>) (pe_env s)\<rparr>, [])"
| "editor_handle load dump name (TypeEnvValue i v) s = (s\<lparr>pe_env := map_at i (\<lambda>e. e\<lparr>en_value := v\<rparr>) (pe_env s)\<rparr>, [])"
| "editor_handle load dump name (AttachSecret v) s = (attach_choice v s, [])"
| "editor_handle load dump name (DetachSecret i) s = (s\<lparr>pe_attached := removeAttachedSecret i (pe_attached s)\<rparr>, [])"
| "editor_handle load dump name (TypeSecretVar i v) s =
     (s\<lparr>pe_attached := updateAttachedSecretEnvVar i v (pe_attached s)\<rparr>, [])"
| "editor_handle load dump name AddFile s = (addFile s, [])"
| "editor_handle load dump name (RemoveFile i) s = (removeFile i s, [])"
| "editor_handle load dump name LeaveConfirmed s =
     (case pe_pendingNav s of Some dest \<Rightarrow> (s\<lparr>pe_pendingNav := None\<rparr>, [GoTo dest]) | None \<Rightarrow> (s, []))"
| "editor_handle load dump name LeaveCancelled s = (s\<lparr>pe_pendingNav := None\<rparr>, [])"

text \<open>The builder is mounted while its tab and mode are shown and follows the model.\<close>

definition builder_shown :: "editor_state \<Rightarrow> bool" where
  "builder_shown s = (pe_tab s = ComposeTab \<and> pe_mode s = VisualMode)"

definition mount_builder :: "editor_state \<Rightarrow> editor_state \<times> client_out list" where
  "mount_builder s =
     (if \<not> builder_shown s then (s\<lparr>pe_builder := None\<rparr>, [])
      else case pe_builder s of
        Some b \<Rightarrow> (s\<lparr>pe_builder := Some (builder_render (pe_model s) b)\<rparr>, [])
      | None \<Rightarrow> (case builder_init (pe_model s) of (b, call) \<Rightarrow> (s\<lparr>pe_builder := Some b\<rparr>, [Send call])))"

definition editor_step ::
  "(string \<Rightarrow> js option) \<Rightarrow> (js \<Rightarrow> string) \<Rightarrow> string option \<Rightarrow> editor_event \<Rightarrow> editor_state \<Rightarrow>
     editor_state \<times> client_out list" where
  "editor_step load dump name e s =
     (let (s', os) = editor_handle load dump name e s; (s'', os') = mount_builder s' in (s'', os @ os'))"

fun editor_run ::
  "(string \<Rightarrow> js option) \<Rightarrow> (js \<Rightarrow> string) \<Rightarrow> string option \<Rightarrow> editor_event list \<Rightarrow> editor_state \<Rightarrow>
     editor_state \<times> client_out list" where
  "editor_run load dump name [] s = (s, [])"
| "editor_run load dump name (e # es) s =
     (let (s', os) = editor_step load dump name e s; (s'', os') = editor_run load dump name es s'
      in (s'', os @ os'))"

subsection \<open>The view\<close>

definition full_plus :: string where
  "full_plus = [CHR 0xEF, CHR 0xBC, CHR 0x8B]"

definition unattachedSecrets :: "editor_state \<Rightarrow> secret list" where
  "unattachedSecrets s = filter (\<lambda>x. sec_id x \<notin> ps_secretId ` set (pe_attached s)) (pe_available s)"

text \<open>\<open>visibleFiles\<close>: the files not marked for deletion, with their place in \<open>files\<close>.\<close>

definition visibleFiles :: "editor_state \<Rightarrow> (nat \<times> file_entry) list" where
  "visibleFiles s = filter (\<lambda>(i, f). \<not> fe_toDelete f) (indexed (pe_files s))"

definition file_title :: "string \<Rightarrow> string" where
  "file_title n = (if n = [] then ''untitled'' else n)"

definition editor_topbar :: "string option \<Rightarrow> editor_state \<Rightarrow> editor_event widget list" where
  "editor_topbar name s =
     [Button ''Back to projects'' False BackClicked,
      Label (case nonempty name of Some n \<Rightarrow> ''Edit '' @ em_dash @ '' '' @ n | None \<Rightarrow> ''New project''),
      Button ''Save'' (pe_saving s) SaveProject] @
     (if is_edit name then [] else [Label ''Project name'', Input ''my-app'' (pe_projectName s) TypeProjectName])"

definition editor_tabs :: "editor_state \<Rightarrow> editor_event widget list" where
  "editor_tabs s =
     Button ''docker-compose.yml'' False (ShowTab ComposeTab) #
     map (\<lambda>(i, f). Button (file_title (fe_filename f)) False (ShowTab (FileTab i))) (visibleFiles s) @
     (if pe_tab s = ComposeTab then [Button ''Visual'' False GoVisual, Button ''YAML'' False GoYaml] else [])"

definition editor_main :: "editor_state \<Rightarrow> editor_event widget list result" where
  "editor_main s =
     (case pe_tab s of
        ComposeTab \<Rightarrow>
          (case (pe_mode s, pe_builder s) of
             (VisualMode, Some b) \<Rightarrow>
               bind_result (ComposeBuilder (pe_model s) (map_option pd_envVars (pe_project s)) b)
                 (\<lambda>ws. Inr (lift_view BuilderEv ws))
           | (VisualMode, None) \<Rightarrow> Inr []
           | (YamlMode, _) \<Rightarrow> Inr [Input [] (pe_compose s) TypeYaml])
      | FileTab i \<Rightarrow>
          Inr (if i < length (pe_files s) then
                 [Label ''Filename:'', Input ''e.g. config.yaml, app.env'' (fe_filename (pe_files s ! i)) (TypeFilename i),
                  Input [] (fe_content (pe_files s ! i)) (TypeContent i)]
               else []))"

definition editor_env :: "editor_state \<Rightarrow> editor_event widget list" where
  "editor_env s =
     [Label ''Env variables'', Button ''Add'' False AddEnv] @
     (if pe_env s = [] then [Label ''No variables'']
      else concat (map (\<lambda>(i, e).
        [Input ''KEY'' (en_key e) (TypeEnvKey i), Input ''value'' (en_value e) (TypeEnvValue i),
         Button [] False (RemoveEnv i)]) (indexed (pe_env s))))"

definition editor_secrets :: "editor_state \<Rightarrow> editor_event widget list" where
  "editor_secrets s =
     Label ''Secrets'' #
     (if pe_attached s = [] \<and> pe_available s = [] then [Label ''No secrets defined yet'']
      else
        concat (map (\<lambda>a.
          [Label (ps_secretName a), Button ''Detach secret'' False (DetachSecret (ps_secretId a)),
           Input ''ENV_VAR_NAME'' (ps_envVarName a) (TypeSecretVar (ps_secretId a))]) (pe_attached s)) @
        (if unattachedSecrets s \<noteq> [] then
           [Select [] (([], full_plus @ '' Attach secret'' @ ellipsis) #
                       map (\<lambda>x. (nat_str (sec_id x), sec_name x)) (unattachedSecrets s)) AttachSecret]
         else []) @
        (if pe_attached s \<noteq> [] \<and> unattachedSecrets s = [] then [Label ''All secrets attached''] else []))"

definition editor_files :: "editor_state \<Rightarrow> editor_event widget list" where
  "editor_files s =
     [Label ''Extra files'', Button ''Add'' False AddFile] @
     (if visibleFiles s = [] then [Label ''No extra files'']
      else concat (map (\<lambda>(i, f).
        [Button (file_title (fe_filename f)) False (ShowTab (FileTab i)), Button [] False (RemoveFile i)])
        (visibleFiles s)))"

text \<open>The dialog that asks before leaving is modal.\<close>

definition ProjectEditor :: "string option \<Rightarrow> editor_state \<Rightarrow> editor_event widget list result" where
  "ProjectEditor name s =
     (if pe_pendingNav s \<noteq> None then
        Inr (ConfirmDialog ''Unsaved changes'' (Some ''You have unsaved changes. Are you sure you want to leave?'')
               (Some ''Leave'') LeaveConfirmed LeaveCancelled)
      else
        bind_result (editor_main s) (\<lambda>main.
          Inr (editor_topbar name s @ editor_tabs s @ main @ editor_env s @
               (if is_edit name then editor_secrets s else []) @ editor_files s)))"

end
