(* ===== verification/Editor_Properties.thy ===== *)
theory Editor_Properties
  imports Project_Editor Compose_Properties
begin

section \<open>What the project editor saves\<close>

subsection \<open>The files of a project as a map\<close>

text \<open>What the two requests for files do on the server (\<open>internal/api/jsonapi.go\<close>,
  \<open>internal/db/project_files.go\<close>): there is one row per project and name; a write trims the name
  (\<open>tidy\<close>, Go's \<open>TrimSpace\<close>), refuses an empty one and replaces the row; deleting a row that is not
  there is refused.\<close>

fun server_op :: "(string \<Rightarrow> string) \<Rightarrow> file_op \<Rightarrow> (string \<rightharpoonup> string) \<Rightarrow> (string \<rightharpoonup> string) option" where
  "server_op tidy (DeleteFile n) m = (if m n = None then None else Some (m(n := None)))"
| "server_op tidy (UpsertFile n c) m = (if tidy n = [] then None else Some (m(tidy n \<mapsto> c)))"

fun server_ops :: "(string \<Rightarrow> string) \<Rightarrow> file_op list \<Rightarrow> (string \<rightharpoonup> string) \<Rightarrow> (string \<rightharpoonup> string) option" where
  "server_ops tidy [] m = Some m"
| "server_ops tidy (p # ps) m = (case server_op tidy p m of None \<Rightarrow> None | Some m' \<Rightarrow> server_ops tidy ps m')"

definition stored_files :: "project_file list \<Rightarrow> (string \<rightharpoonup> string)" where
  "stored_files fs = map_of (map (\<lambda>f. (file_filename f, file_content f)) fs)"

definition shown_files :: "file_entry list \<Rightarrow> (string \<rightharpoonup> string)" where
  "shown_files fs = map_of (map (\<lambda>f. (fe_filename f, fe_content f)) (kept_files fs))"

interpretation file_map: keyed_store "\<lambda>m. m" "\<lambda>k v m. m(k \<mapsto> v)" "\<lambda>k m. m(k := None)" "\<lambda>_. True"
  by unfold_locales auto

lemma server_ops_append:
  "server_ops tidy (ps @ qs) m = Option.bind (server_ops tidy ps m) (server_ops tidy qs)"
  by (induction ps arbitrary: m) (auto split: option.split)

abbreviation upsert :: "file_entry \<Rightarrow> file_op" where
  "upsert f \<equiv> UpsertFile (fe_filename f) (fe_content f)"

abbreviation file_pair :: "file_entry \<Rightarrow> string \<times> string" where
  "file_pair f \<equiv> (fe_filename f, fe_content f)"

lemma server_upserts:
  assumes "\<forall>f \<in> set fs. fe_filename f \<noteq> [] \<and> tidy (fe_filename f) = fe_filename f"
  shows "server_ops tidy (map upsert fs) m = Some (m ++ map_of (rev (map file_pair fs)))"
proof -
  have "server_ops tidy (map upsert fs) m = Some (fold (\<lambda>(k, v) m. m(k \<mapsto> v)) (map file_pair fs) m)"
    using assms by (induction fs arbitrary: m) auto
  then show ?thesis using file_map.get_fold_put by simp
qed

lemma server_deletes:
  assumes "distinct (map file_filename fs)" and "\<forall>f \<in> set fs. m (file_filename f) \<noteq> None"
  shows "server_ops tidy (map (\<lambda>f. DeleteFile (file_filename f)) fs) m =
     Some (\<lambda>n. if n \<in> file_filename ` set fs then None else m n)"
  using assms
proof (induction fs arbitrary: m)
  case (Cons f fs)
  have "server_ops tidy (map (\<lambda>f. DeleteFile (file_filename f)) fs) (m(file_filename f := None)) =
      Some (\<lambda>n. if n \<in> file_filename ` set fs then None else (m(file_filename f := None)) n)"
    by (rule Cons.IH) (use Cons.prems in \<open>auto simp: image_iff\<close>)
  then show ?case using Cons.prems by (auto simp: fun_eq_iff)
qed simp

lemma stored_original: "stored_files orig n = map_option file_content (original_of orig n)"
  by (induction orig) (auto simp: stored_files_def original_of_def)

lemma original_none: "original_of orig n = None \<longleftrightarrow> n \<notin> file_filename ` set orig"
  by (auto simp: original_of_def find_None_iff)

lemma shown_lookup:
  assumes "distinct (map fe_filename (kept_files fs))" and "f \<in> set (kept_files fs)"
  shows "shown_files fs (fe_filename f) = Some (fe_content f)"
  using assms by (auto simp: shown_files_def comp_def intro!: map_of_is_SomeI)

lemma shown_none: "shown_files fs n = None \<longleftrightarrow> n \<notin> fe_filename ` set (kept_files fs)"
  by (auto simp: shown_files_def map_of_eq_None_iff image_image comp_def)

text \<open>Writing a part of the shown files gives their contents there.\<close>

lemma part_lookup:
  assumes "distinct (map fe_filename (kept_files fs))"
  shows "map_of (rev (map file_pair (filter p (kept_files fs)))) n =
    (if \<exists>f \<in> set (kept_files fs). fe_filename f = n \<and> p f then shown_files fs n else None)"
proof -
  have d: "distinct (map fe_filename (filter p (kept_files fs)))"
    using assms by (rule distinct_map_filter)
  show ?thesis
  proof (cases "\<exists>f \<in> set (kept_files fs). fe_filename f = n \<and> p f")
    case True
    then obtain f where f: "f \<in> set (kept_files fs)" "fe_filename f = n" "p f" by blast
    have "map_of (rev (map file_pair (filter p (kept_files fs)))) n = Some (fe_content f)"
      by (rule map_of_is_SomeI) (use d f in \<open>auto simp: comp_def rev_map [symmetric]\<close>)
    then show ?thesis using True f shown_lookup [OF assms f(1)] by simp
  next
    case False
    then show ?thesis by (auto simp: map_of_eq_None_iff)
  qed
qed


text \<open>A project with two files, one of which is changed, one removed and one new.\<close>

definition sample_originals :: "project_file list" where
  "sample_originals =
     [\<lparr>file_id = 1, file_projectName = ''shop'', file_filename = ''app.env'', file_content = ''A=1''\<rparr>,
      \<lparr>file_id = 2, file_projectName = ''shop'', file_filename = ''old.conf'', file_content = ''x''\<rparr>]"

definition sample_files :: "file_entry list" where
  "sample_files =
     [\<lparr>fe_filename = ''app.env'', fe_content = ''A=2'', fe_toDelete = False\<rparr>,
      \<lparr>fe_filename = ''old.conf'', fe_content = ''x'', fe_toDelete = True\<rparr>,
      \<lparr>fe_filename = ''new.sql'', fe_content = ''y'', fe_toDelete = False\<rparr>]"


subsection \<open>The chain of requests\<close>

text \<open>Between two events the builder follows the model.\<close>

definition settled_editor :: "editor_state \<Rightarrow> bool" where
  "settled_editor s =
     (case pe_builder s of
        None \<Rightarrow> \<not> builder_shown s
      | Some b \<Rightarrow> builder_shown s \<and> builder_render (pe_model s) b = b)"

lemma mount_settled: "settled_editor s \<Longrightarrow> mount_builder s = (s, [])"
  by (auto simp: settled_editor_def mount_builder_def split: option.splits)

lemma settled_saving [simp]:
  "settled_editor (s\<lparr>pe_saving := a\<rparr>) = settled_editor s"
  "settled_editor (s\<lparr>pe_chain := cs\<rparr>) = settled_editor s"
  "settled_editor (s\<lparr>pe_target := t\<rparr>) = settled_editor s"
  "settled_editor (s\<lparr>pe_dirty := d\<rparr>) = settled_editor s"
  by (simp_all add: settled_editor_def builder_shown_def split: option.split)

definition with_chain :: "api_call list \<Rightarrow> string \<Rightarrow> editor_state \<Rightarrow> editor_state" where
  "with_chain cs t s = s\<lparr>pe_saving := True, pe_chain := cs, pe_target := t\<rparr>"

lemma chain_frame [simp]:
  "pe_saving (with_chain cs t s)" "pe_chain (with_chain cs t s) = cs" "pe_target (with_chain cs t s) = t"
  "pe_dirty (with_chain cs t s) = pe_dirty s"
  "(with_chain cs t s)\<lparr>pe_chain := ds\<rparr> = with_chain ds t s"
  "settled_editor (with_chain cs t s) = settled_editor s"
  by (simp_all add: with_chain_def)

lemma answer_step:
  assumes "settled_editor s"
  shows "editor_step load dump name CallDone (with_chain (c # cs) t s) = (with_chain cs t s, [Send c])"
  using assms by (simp add: editor_step_def mount_settled)

lemma refused_step:
  assumes "settled_editor s"
  shows "editor_step load dump name CallFailed (with_chain cs t s) =
    (s\<lparr>pe_saving := False, pe_chain := [], pe_target := t\<rparr>, [ToastErr ''Failed to save project''])"
  using assms by (simp add: editor_step_def mount_settled with_chain_def)

lemma editor_run_append:
  "editor_run load dump name (es @ fs) s =
     (let (s', os) = editor_run load dump name es s; (s'', os') = editor_run load dump name fs s' in (s'', os @ os'))"
  by (induction es arbitrary: s) (simp_all add: case_prod_beta Let_def)

lemma answers_run:
  assumes "settled_editor s" and "k \<le> length cs"
  shows "editor_run load dump name (replicate k CallDone) (with_chain cs t s) =
           (with_chain (drop k cs) t s, map Send (take k cs))"
  using assms(2)
proof (induction k arbitrary: cs)
  case (Suc k)
  then obtain c ds where "cs = c # ds" by (cases cs) auto
  then show ?case using Suc assms(1) by (simp add: answer_step)
qed simp

lemma start_step:
  assumes "settled_editor s" and "\<not> pe_saving s" and "js_trim (pe_projectName s) \<noteq> []" and "js_trim (pe_compose s) \<noteq> []"
  shows "editor_step load dump name SaveProject s =
    (with_chain (tl (save_calls name s)) (target_name name s) s, [Send (hd (save_calls name s))])"
  using assms
  by (simp add: editor_step_def project_handleSave_def mount_settled with_chain_def)

lemma save_calls_nonempty: "save_calls name s \<noteq> []"
  by (simp add: save_calls_def)

text \<open>C18: A save sends its requests one after the other and ends: when every request is answered, all of
  them have been sent in order, nothing is unsaved any more and the editor goes back to the list; when one
  is refused, the requests up to that one have been sent, no other is, what was unsaved still is, and
  \<open>Save\<close> can be pressed again.\<close>

theorem save_runs_to_end:
  assumes "settled_editor s" and "\<not> pe_saving s" and "js_trim (pe_projectName s) \<noteq> []" and "js_trim (pe_compose s) \<noteq> []"
    and "k < length (save_calls name s)"
  shows "snd (editor_run load dump name (SaveProject # replicate (length (save_calls name s)) CallDone) s) =
           map Send (save_calls name s) @
           (if is_edit name then [Invalidate [''project-secrets'', target_name name s]] else []) @
           [Invalidate [''projects''], ToastOk (if is_edit name then ''Project updated'' else ''Project created''),
            GoTo ''/projects'']
       \<and> \<not> hasUnsavedChanges (fst (editor_run load dump name (SaveProject # replicate (length (save_calls name s)) CallDone) s))
       \<and> snd (editor_run load dump name (SaveProject # replicate k CallDone @ [CallFailed]) s) =
           map Send (take (Suc k) (save_calls name s)) @ [ToastErr ''Failed to save project'']
       \<and> pe_dirty (fst (editor_run load dump name (SaveProject # replicate k CallDone @ [CallFailed]) s)) = pe_dirty s
       \<and> \<not> pe_saving (fst (editor_run load dump name (SaveProject # replicate k CallDone @ [CallFailed]) s))"
proof -
  obtain c cs where calls: "save_calls name s = c # cs" using save_calls_nonempty by (metis list.exhaust)
  let ?t = "target_name name s"
  have start: "editor_step load dump name SaveProject s = (with_chain cs ?t s, [Send c])"
    using start_step [OF assms(1-4)] calls by simp
  have finish: "editor_step load dump name CallDone (with_chain [] ?t s) = save_finished name (with_chain [] ?t s)"
    using assms(1) by (simp add: editor_step_def save_finished_def mount_settled with_chain_def)
  have all: "editor_run load dump name (replicate (length (save_calls name s)) CallDone) (with_chain cs ?t s) =
      (let (s', os) = save_finished name (with_chain [] ?t s) in (s', map Send cs @ os))"
    unfolding calls length_Cons replicate_Suc replicate_append_same [symmetric] editor_run_append
    by (simp add: answers_run [OF assms(1)] finish Let_def case_prod_beta)
  have "k \<le> length cs" using assms(5) calls by simp
  then have part: "editor_run load dump name (replicate k CallDone @ [CallFailed]) (with_chain cs ?t s) =
      (s\<lparr>pe_saving := False, pe_chain := [], pe_target := ?t\<rparr>,
       map Send (take k cs) @ [ToastErr ''Failed to save project''])"
    unfolding editor_run_append by (simp add: answers_run [OF assms(1)] refused_step [OF assms(1)] Let_def)
  show ?thesis
    using start all part calls
    by (simp add: save_finished_def hasUnsavedChanges_def Let_def)
qed

definition sample_editor :: editor_state where
  "sample_editor = editor_init\<lparr>pe_projectName := ''shop'', pe_compose := ''services: {}'', pe_files :=
     [\<lparr>fe_filename = ''app.env'', fe_content = ''A=1'', fe_toDelete = False\<rparr>], pe_dirty := {ComposeTab}\<rparr>"

lemma sample_editor_ready:
  "settled_editor sample_editor" "\<not> pe_saving sample_editor" "js_trim (pe_projectName sample_editor) \<noteq> []"
  "js_trim (pe_compose sample_editor) \<noteq> []"
proof -
  show "js_trim (pe_projectName sample_editor) \<noteq> []"
    by (simp add: sample_editor_def js_trim_visible visible_def)
  show "js_trim (pe_compose sample_editor) \<noteq> []"
    by (simp add: sample_editor_def editor_init_def js_trim_visible visible_def)
qed (simp_all add: sample_editor_def editor_init_def settled_editor_def builder_shown_def)

lemma sample_editor_calls:
  "save_calls None sample_editor =
     [createProject \<lparr>pf_name = ''shop'', pf_description = None, pf_composeContent = ''services: {}'',
        pf_env = Some []\<rparr>,
      upsertProjectFile ''shop'' ''app.env'' ''A=1'', upsertProjectFile ''shop'' ''app.env'' ''A=1'']"
  by (simp add: save_calls_def first_call_def target_name_def is_edit_def sample_editor_def editor_init_def
      env_object_def obj_from_entries_def file_ops_def delete_ops_def changed_ops_def new_ops_def kept_files_def
      original_of_def)

theorem save_runs_to_end_witness:
  "\<not> hasUnsavedChanges (fst (editor_run (\<lambda>_. None) (\<lambda>_. []) None [SaveProject, CallDone, CallDone, CallDone] sample_editor))"
  using save_runs_to_end [OF sample_editor_ready, where k = 0 and name = None and load = "\<lambda>_. None" and dump = "\<lambda>_. []"]
  by (simp add: sample_editor_calls numeral_eq_Suc del: editor_run.simps)

subsection \<open>Leaving with unsaved changes\<close>

lemma mount_frame:
  "pe_dirty (fst (mount_builder s)) = pe_dirty s" "pe_pendingNav (fst (mount_builder s)) = pe_pendingNav s"
  "GoTo d \<notin> set (snd (mount_builder s))"
  by (auto simp: mount_builder_def split: option.split prod.split)

lemma model_changed_dirty:
  "pe_dirty s \<subseteq> pe_dirty (fst (model_changed dump cf s))" "GoTo d \<notin> set (snd (model_changed dump cf s))"
  by (auto simp: model_changed_def markDirty_def split: sum.split)

lemma builder_outs_dirty:
  "pe_dirty (fst p) \<subseteq> pe_dirty (fst (fold (builder_outs_step dump) os p)) \<and>
   (GoTo d \<in> set (snd (fold (builder_outs_step dump) os p)) \<longrightarrow> GoTo d \<in> set (snd p))"
proof (induction os arbitrary: p)
  case (Cons b os)
  have "pe_dirty (fst p) \<subseteq> pe_dirty (fst (builder_outs_step dump b p)) \<and>
      (GoTo d \<in> set (snd (builder_outs_step dump b p)) \<longrightarrow> GoTo d \<in> set (snd p))"
    using model_changed_dirty [where s = "fst p" and dump = dump]
    by (cases b; cases p) (auto simp: Let_def case_prod_beta)
  then show ?case using Cons.IH [of "builder_outs_step dump b p"] by auto
qed simp

lemma handle_dirty:
  assumes "hasUnsavedChanges s" and "e \<noteq> LeaveConfirmed" and "e \<noteq> CallDone"
  shows "hasUnsavedChanges (fst (editor_handle load dump name e s)) \<and> GoTo d \<notin> set (snd (editor_handle load dump name e s))"
proof (cases e)
  case (BuilderEv be)
  show ?thesis
  proof (cases "pe_builder s")
    case None
    then show ?thesis using BuilderEv assms(1) by simp
  next
    case (Some b)
    show ?thesis
    proof (cases "builder_step (pe_model s) be b")
      case (Inl err)
      then show ?thesis using BuilderEv Some assms(1) by simp
    next
      case (Inr r)
      then show ?thesis
        using BuilderEv Some assms(1) builder_outs_dirty [of "(s\<lparr>pe_builder := Some (fst r)\<rparr>, [])" dump "snd r" d]
        by (auto simp: hasUnsavedChanges_def case_prod_beta)
    qed
  qed
qed (use assms in \<open>auto simp: hasUnsavedChanges_def guardedNavigate_def markDirty_def load_project_def
       project_handleSave_def updateFileField_def attach_choice_def addFile_def removeFile_def Let_def
       split: option.split sum.split\<close>)

lemma step_dirty:
  assumes "hasUnsavedChanges s" and "e \<noteq> LeaveConfirmed" and "e \<noteq> CallDone"
  shows "hasUnsavedChanges (fst (editor_step load dump name e s)) \<and> GoTo d \<notin> set (snd (editor_step load dump name e s))"
  using handle_dirty [OF assms, of load dump name d] mount_frame
  by (auto simp: editor_step_def Let_def case_prod_beta hasUnsavedChanges_def)



text \<open>The edits that mark nothing as unsaved.\<close>

fun untracked :: "editor_event \<Rightarrow> bool" where
  "untracked (TypeProjectName v) = True"
| "untracked AddEnv = True"
| "untracked (RemoveEnv i) = True"
| "untracked (TypeEnvKey i v) = True"
| "untracked (TypeEnvValue i v) = True"
| "untracked (AttachSecret v) = True"
| "untracked (DetachSecret i) = True"
| "untracked (TypeSecretVar i v) = True"
| "untracked AddFile = True"
| "untracked (RemoveFile i) = True"
| "untracked e = False"

lemma untracked_step:
  assumes "untracked e"
  shows "pe_dirty (fst (editor_step load dump name e s)) = pe_dirty s"
proof -
  have "pe_dirty (fst (editor_handle load dump name e s)) = pe_dirty s"
    using assms by (cases e) (auto simp: attach_choice_def addFile_def removeFile_def split: option.split)
  then show ?thesis by (simp add: editor_step_def Let_def case_prod_beta mount_frame)
qed

lemma untracked_run:
  "list_all untracked es \<Longrightarrow> pe_dirty (fst (editor_run load dump name es s)) = pe_dirty s"
  by (induction es arbitrary: s) (simp_all add: Let_def case_prod_beta untracked_step)

text \<open>Not all edits are guarded: whatever is done to the environment variables, the attached
  secrets, the project's name, and by adding and removing files, \<open>Back\<close> leaves at once and the edits are
  lost without a question.\<close>

theorem untracked_edits_lost:
  assumes "list_all untracked es" and "\<not> hasUnsavedChanges s"
  shows "hd (snd (editor_step load dump name BackClicked (fst (editor_run load dump name es s)))) = GoTo ''/projects''"
  using untracked_run [OF assms(1), of load dump name s] assms(2)
  by (simp add: editor_step_def guardedNavigate_def hasUnsavedChanges_def Let_def case_prod_beta)

theorem untracked_edits_lost_witness:
  "hd (snd (editor_step (\<lambda>_. None) (\<lambda>_. []) None BackClicked
     (fst (editor_run (\<lambda>_. None) (\<lambda>_. []) None [AddEnv, TypeEnvKey 0 ''TOKEN'', TypeEnvValue 0 ''abc''] editor_init)))) =
   GoTo ''/projects''"
  by (rule untracked_edits_lost) (simp_all add: hasUnsavedChanges_def editor_init_def)

text \<open>A new project whose save fails after the project has been created (at one of its files) cannot
  be saved by pressing \<open>Save\<close> again: the second attempt begins with the same request to create it.\<close>

theorem failed_save_creates_again:
  assumes "settled_editor s" and "\<not> pe_saving s" and "js_trim (pe_projectName s) \<noteq> []" and "js_trim (pe_compose s) \<noteq> []"
    and "0 < k" and "k < length (save_calls None s)"
  shows "snd (editor_run load dump None ((SaveProject # replicate k CallDone @ [CallFailed]) @ [SaveProject]) s) =
           map Send (take (Suc k) (save_calls None s)) @ [ToastErr ''Failed to save project''] @ [Send (first_call None s)]
       \<and> hd (save_calls None s) = first_call None s"
proof -
  obtain c cs where calls: "save_calls None s = c # cs" using save_calls_nonempty by (metis list.exhaust)
  let ?t = "target_name None s" and ?s = "s\<lparr>pe_saving := False, pe_chain := [], pe_target := target_name None s\<rparr>"
  have same: "save_calls None ?s = save_calls None s"
    by (simp add: save_calls_def first_call_def target_name_def is_edit_def)
  have "editor_run load dump None (SaveProject # replicate k CallDone @ [CallFailed]) s =
      (?s, map Send (take (Suc k) (save_calls None s)) @ [ToastErr ''Failed to save project''])"
    using assms(6) unfolding editor_run.simps(2) editor_run_append calls
    by (simp add: start_step [OF assms(1-4)] calls answers_run [OF assms(1)] refused_step [OF assms(1)] Let_def)
  moreover have "snd (editor_step load dump None SaveProject ?s) = [Send (first_call None s)]"
    using start_step [of ?s load dump None] assms(1-4) same by (simp add: save_calls_def)
  ultimately show ?thesis
    unfolding editor_run_append by (simp add: Let_def case_prod_beta save_calls_def)
qed

theorem failed_save_creates_again_witness:
  "last (snd (editor_run (\<lambda>_. None) (\<lambda>_. []) None [SaveProject, CallDone, CallFailed, SaveProject] sample_editor)) =
     Send (createProject \<lparr>pf_name = ''shop'', pf_description = None, pf_composeContent = ''services: {}'', pf_env = Some []\<rparr>)"
  using failed_save_creates_again [OF sample_editor_ready, of 1 "\<lambda>_. None" "\<lambda>_. []"]
  by (simp add: sample_editor_calls del: editor_run.simps)

subsection \<open>Between the builder and the text\<close>

text \<open>In the visual mode, going to the text and back gives the builder the same file again, in its
  normal form, and the text in between is what the writer makes of it; the change is marked as unsaved.\<close>

theorem visual_text_visual:
  assumes "pe_mode s = VisualMode" and "compose_ok (pe_model s)"
    and "\<And>out. serialize_document (pe_model s) = Inr out \<Longrightarrow> load (dump out) = Some out \<and> js_trim (dump out) \<noteq> []"
  shows "pe_model (fst (editor_run load dump name [GoYaml, GoVisual] s)) = norm_compose (pe_model s)
       \<and> serializeCompose dump (pe_model s) = Inr (pe_compose (fst (editor_run load dump name [GoYaml] s)))
       \<and> hasUnsavedChanges (fst (editor_run load dump name [GoYaml] s))"
proof -
  obtain out where out: "serialize_document (pe_model s) = Inr (JObj out)" "parse_document (JObj out) = norm_compose (pe_model s)"
    using serialize_document_read_back [OF assms(2)] by blast
  have frame: "pe_model (fst (mount_builder t)) = pe_model t" "pe_compose (fst (mount_builder t)) = pe_compose t"
      "pe_dirty (fst (mount_builder t)) = pe_dirty t" for t
    by (auto simp: mount_builder_def split: option.split prod.split)
  show ?thesis
    using out assms(1) assms(3) [OF out(1)]
    by (simp add: editor_step_def serializeCompose_def parseCompose_def markDirty_def hasUnsavedChanges_def frame
        Let_def case_prod_beta)
qed

theorem visual_text_visual_witness:
  "pe_model (fst (editor_run (\<lambda>_. Some (projr (serialize_document sample_file))) (\<lambda>_. ''doc'') None [GoYaml, GoVisual]
     (editor_init\<lparr>pe_mode := VisualMode, pe_model := sample_file\<rparr>))) = norm_compose sample_file"
proof -
  let ?s = "editor_init\<lparr>pe_mode := VisualMode, pe_model := sample_file\<rparr>"
  have "pe_model (fst (editor_run (\<lambda>_. Some (projr (serialize_document sample_file))) (\<lambda>_. ''doc'') None [GoYaml, GoVisual] ?s)) =
      norm_compose (pe_model ?s)"
    by (rule visual_text_visual [THEN conjunct1]) (simp_all add: compose_ok_sample trim_sample)
  then show ?thesis by simp
qed

end
