(* ===== verification/Byte_Format.thy ===== *)
theory Byte_Format
  imports Page_Common
begin

section \<open>Sizes in bytes: the pages' \<open>formatBytes\<close>\<close>

text \<open>
  \<open>Math.floor(Math.log(bytes) / Math.log(1024))\<close>: how often a size can be divided by 1024. (For sizes below
  \<open>2 ^ 40\<close> the quotient of the two doubles has the same integer part; above, no unit is left.)
\<close>

fun size_exponent :: "nat \<Rightarrow> nat" where
  "size_exponent n = (if n < 1024 then 0 else Suc (size_exponent (n div 1024)))"

declare size_exponent.simps [simp del]

text \<open>\<open>toFixed\<close> rounds to the nearest, a half upwards; the quotient by a power of two is exact.\<close>

definition round_div :: "nat \<Rightarrow> nat \<Rightarrow> nat" where
  "round_div a d = (2 * a + d) div (2 * d)"

definition tenths_str :: "nat \<Rightarrow> string" where
  "tenths_str k = nat_str (k div 10) @ ''.'' @ nat_str (k mod 10)"

definition fixed_scale :: "nat \<Rightarrow> nat" where
  "fixed_scale i = (if i > 1 then 10 else 1)"

definition fixed_str :: "nat \<Rightarrow> nat \<Rightarrow> string" where
  "fixed_str i k = (if i > 1 then tenths_str k else nat_str k)"

definition format_bytes :: "string list \<Rightarrow> nat \<Rightarrow> string" where
  "format_bytes units bytes =
     (if bytes = 0 then ''0 B''
      else let i = size_exponent bytes in
        fixed_str i (round_div (fixed_scale i * bytes) (1024 ^ i)) @ '' '' @
        (if i < length units then units ! i else ''undefined''))"

text \<open>The project page and the pages of images know four units, the page of a container five.\<close>

definition formatBytes :: "nat \<Rightarrow> string" where
  "formatBytes = format_bytes [''B'', ''KB'', ''MB'', ''GB'']"

definition formatBytes_tb :: "nat \<Rightarrow> string" where
  "formatBytes_tb = format_bytes [''B'', ''KB'', ''MB'', ''GB'', ''TB'']"

subsection \<open>Bounds\<close>

lemma size_exponent_bounds:
  assumes "0 < n"
  shows "1024 ^ size_exponent n \<le> n" and "n < 1024 ^ Suc (size_exponent n)"
proof -
  have "0 < n \<Longrightarrow> 1024 ^ size_exponent n \<le> n \<and> n < 1024 ^ Suc (size_exponent n)"
  proof (induction n rule: size_exponent.induct)
    case (1 n)
    show ?case
    proof (cases "n < 1024")
      case True
      then show ?thesis using 1(2) by (simp add: size_exponent.simps [of n])
    next
      case False
      then have "0 < n div 1024" by (simp add: div_greater_zero_iff)
      with 1(1) False have IH: "1024 ^ size_exponent (n div 1024) \<le> n div 1024"
          "n div 1024 < 1024 ^ Suc (size_exponent (n div 1024))" by auto
      have eq: "size_exponent n = Suc (size_exponent (n div 1024))" using False by (simp add: size_exponent.simps [of n])
      show ?thesis using IH unfolding eq power_Suc [of _ "Suc _"] power_Suc [of _ "size_exponent _"]
        by (auto simp: less_eq_div_iff_mult_less_eq div_less_iff_less_mult algebra_simps)
    qed
  qed
  then show "1024 ^ size_exponent n \<le> n" "n < 1024 ^ Suc (size_exponent n)" using assms by auto
qed

lemma size_exponent_less:
  assumes "0 < n"
  shows "size_exponent n < k \<longleftrightarrow> n < 1024 ^ k"
proof
  assume "size_exponent n < k"
  then have "(1024::nat) ^ Suc (size_exponent n) \<le> 1024 ^ k" by (intro power_increasing) auto
  then show "n < 1024 ^ k" using size_exponent_bounds(2) [OF assms] by linarith
next
  assume "n < 1024 ^ k"
  then have "(1024::nat) ^ size_exponent n < 1024 ^ k" using size_exponent_bounds(1) [OF assms] by linarith
  then show "size_exponent n < k" by simp
qed

lemma round_div_near:
  assumes "0 < d"
  shows "2 * \<bar>int (round_div a d) * int d - int a\<bar> \<le> int d"
proof -
  define q where "q = round_div a d"
  have eq: "2 * a + d = q * (2 * d) + (2 * a + d) mod (2 * d)" unfolding q_def round_div_def by (rule div_mult_mod_eq [symmetric])
  moreover have "(2 * a + d) mod (2 * d) < 2 * d" using assms by simp
  ultimately have "q * (2 * d) \<le> 2 * a + d" "2 * a + d < q * (2 * d) + 2 * d" by linarith+
  then have "int (q * (2 * d)) \<le> int (2 * a + d)" "int (2 * a + d) < int (q * (2 * d) + 2 * d)"
    by (simp_all only: of_nat_le_iff of_nat_less_iff)
  then have "2 * (int q * int d) \<le> 2 * int a + int d" "2 * int a + int d < 2 * (int q * int d) + 2 * int d"
    by (simp_all add: algebra_simps)
  then show ?thesis unfolding q_def [symmetric] by (simp add: abs_if)
qed

lemma round_div_bounds:
  assumes "0 < d" and "p * d \<le> a" and "a \<le> r * d"
  shows "p \<le> round_div a d" and "round_div a d \<le> r"
proof -
  have "p * (2 * d) \<le> 2 * a + d" using assms(2) by linarith
  then show "p \<le> round_div a d" using assms(1) by (simp add: round_div_def less_eq_div_iff_mult_less_eq)
  have "2 * a + d < (r + 1) * (2 * d)" using assms(1,3) by (simp add: algebra_simps)
  then show "round_div a d \<le> r" using assms(1) by (simp add: round_div_def less_Suc_eq_le [symmetric] div_less_iff_less_mult)
qed

text \<open>C23: A size below \<open>2 ^ 40\<close> bytes (1 TB) is shown in the largest unit it reaches, with a number that
  lies between 1 and 1024 and differs from the exact quotient by at most half of its last digit (a whole
  number of bytes or kilobytes, a tenth of a megabyte or gigabyte); the upper end 1024 does occur.\<close>

theorem formatBytes_accurate:
  assumes "0 < n" and "n < 2 ^ 40"
  shows "\<exists>i k. i < 4 \<and> 1024 ^ i \<le> n \<and> n < 1024 ^ Suc i
           \<and> formatBytes n = fixed_str i k @ '' '' @ [''B'', ''KB'', ''MB'', ''GB''] ! i
           \<and> fixed_scale i \<le> k \<and> k \<le> 1024 * fixed_scale i
           \<and> 2 * \<bar>int k * 1024 ^ i - int (fixed_scale i) * int n\<bar> \<le> 1024 ^ i"
proof (intro exI conjI)
  let ?i = "size_exponent n" and ?k = "round_div (fixed_scale (size_exponent n) * n) (1024 ^ size_exponent n)"
  show less: "?i < 4" using assms size_exponent_less [of n 4] by simp
  show b: "1024 ^ ?i \<le> n" "n < 1024 ^ Suc ?i" using size_exponent_bounds assms(1) by blast+
  show "formatBytes n = fixed_str ?i ?k @ '' '' @ [''B'', ''KB'', ''MB'', ''GB''] ! ?i"
    using assms less by (simp add: formatBytes_def format_bytes_def Let_def)
  have lower: "fixed_scale ?i * 1024 ^ ?i \<le> fixed_scale ?i * n" using b(1) by simp
  have "n \<le> 1024 * 1024 ^ ?i" using b(2) by simp
  then have upper: "fixed_scale ?i * n \<le> 1024 * fixed_scale ?i * 1024 ^ ?i"
    using mult_le_mono2 [of n "1024 * 1024 ^ ?i" "fixed_scale ?i"] by (simp add: mult_ac)
  show "fixed_scale ?i \<le> ?k" "?k \<le> 1024 * fixed_scale ?i"
    using round_div_bounds [OF _ lower upper] by simp_all
  show "2 * \<bar>int ?k * 1024 ^ ?i - int (fixed_scale ?i) * int n\<bar> \<le> 1024 ^ ?i"
    using round_div_near [of "1024 ^ ?i" "fixed_scale ?i * n"] by simp
qed

theorem formatBytes_accurate_witness:
  "\<exists>i k. i < 4 \<and> formatBytes 1048575 = fixed_str i k @ '' '' @ [''B'', ''KB'', ''MB'', ''GB''] ! i"
  using formatBytes_accurate [of 1048575] by auto

text \<open>From 1 TB on the unit is printed as the text \<open>undefined\<close>.\<close>

theorem large_size_without_unit:
  assumes "2 ^ 40 \<le> n"
  shows "\<exists>k. formatBytes n = tenths_str k @ '' undefined''"
proof -
  have "0 < n" using assms by simp
  then have "4 \<le> size_exponent n" using assms size_exponent_less [of n 4] by simp
  then show ?thesis by (auto simp: formatBytes_def format_bytes_def Let_def fixed_str_def assms)
      (use \<open>0 < n\<close> in blast)+
qed

theorem large_size_without_unit_witness: "\<exists>k. formatBytes (2 ^ 40) = tenths_str k @ '' undefined''"
  by (rule large_size_without_unit) simp

end
