(* ===== verification/Docker_Types.thy ===== *)
theory Docker_Types
  imports Byte_Format
begin

section \<open>What the server reports: \<open>types/index.ts\<close>\<close>

text \<open>
  The records the pages show. A count or a size is a natural number, a measured share a \<open>jsnum\<close>. The
  texts a browser makes of dates (\<open>toLocaleString\<close>) and of a measured share (\<open>toFixed\<close>) are the parameters
  \<open>fm_date\<close>, \<open>fm_day\<close> and \<open>fm_percent\<close>.
\<close>

record formats =
  fm_date :: "string \<Rightarrow> string"
  fm_day :: "string \<Rightarrow> string"
  fm_percent :: "jsnum \<Rightarrow> string"

definition plain_formats :: formats where
  "plain_formats = \<lparr>fm_date = (\<lambda>d. d), fm_day = (\<lambda>d. d), fm_percent = (\<lambda>n. js_num_str n)\<rparr>"

record container =
  con_id :: string
  con_name :: string
  con_serviceName :: string
  con_image :: string
  con_state :: string
  con_status :: string
  con_ports :: string
  con_health :: string

record project =
  prj_name :: string
  prj_dir :: string
  prj_status :: string
  prj_containers :: "container list"
  prj_description :: string
  prj_createdBy :: string
  prj_createdAt :: string
  prj_updatedAt :: string

record container_stat =
  st_name :: string
  st_cpuPercent :: jsnum
  st_memUsed :: nat
  st_memLimit :: nat

record network_summary =
  net_id :: string
  net_name :: string
  net_driver :: string
  net_scope :: string
  net_internal :: bool
  net_labels :: "string obj"
  net_associatedProject :: string
  net_inUse :: bool
  net_created :: string

record volume_summary =
  vs_name :: string
  vs_driver :: string
  vs_mountpoint :: string
  vs_labels :: "string obj"
  vs_associatedProject :: string
  vs_inUse :: bool
  vs_createdAt :: string

record image_summary =
  img_id :: string
  img_repoTags :: "string list option"
  img_size :: nat
  img_created :: nat
  img_inUse :: bool

record webhook =
  wk_id :: nat
  wk_token :: string
  wk_projectName :: string
  wk_serviceName :: string
  wk_createdAt :: string
  wk_lastCalledAt :: "string option"
  wk_callCount :: nat

record service_update =
  su_hasUpdate :: bool
  su_currentImage :: string
  su_newerImage :: "string option"

record update_status =
  us_services :: "service_update obj"
  us_hasUpdates :: bool

subsection \<open>Texts\<close>

text \<open>A missing text is shown as a dash.\<close>

definition or_dash :: "string \<Rightarrow> string" where
  "or_dash s = (if s = [] then em_dash else s)"

text \<open>\<open>s.replace(t, "")\<close> for a text \<open>t\<close>: the first occurrence goes.\<close>

fun remove_first :: "string \<Rightarrow> string \<Rightarrow> string" where
  "remove_first t [] = []"
| "remove_first t (c # s) =
     (case strip_prefix t (c # s) of Some r \<Rightarrow> r | None \<Rightarrow> c # remove_first t s)"

text \<open>\<open>s.replace(/-\d+$/, "")\<close>.\<close>

definition drop_number_suffix :: "string \<Rightarrow> string" where
  "drop_number_suffix s =
     (let r = rev s; ds = takeWhile is_digit r; rest = drop (length ds) r in
      if ds \<noteq> [] \<and> rest \<noteq> [] \<and> hd rest = CHR ''-'' then rev (tl rest) else s)"

text \<open>\<open>toLowerCase\<close> and \<open>toUpperCase\<close> on the ASCII letters; the other characters are kept.\<close>

definition lower_char :: "char \<Rightarrow> char" where
  "lower_char c = (if 65 \<le> (of_char c :: nat) \<and> (of_char c :: nat) \<le> 90 then char_of (of_char c + 32 :: nat) else c)"

definition upper_char :: "char \<Rightarrow> char" where
  "upper_char c = (if 97 \<le> (of_char c :: nat) \<and> (of_char c :: nat) \<le> 122 then char_of (of_char c - 32 :: nat) else c)"

definition ascii_lower :: "string \<Rightarrow> string" where
  "ascii_lower s = map lower_char s"

definition ascii_upper :: "string \<Rightarrow> string" where
  "ascii_upper s = map upper_char s"

text \<open>\<open>s.includes(t)\<close> for texts.\<close>

fun str_contains :: "string \<Rightarrow> string \<Rightarrow> bool" where
  "str_contains [] t = (t = [])"
| "str_contains (c # s) t = (strip_prefix t (c # s) \<noteq> None \<or> str_contains s t)"

end
