(* ===== verification/Detail_Parts.thy ===== *)
theory Detail_Parts
  imports Project_Editor Docker_Types
begin

section \<open>The parts of the project page\<close>

text \<open>
  The components \<open>pages/ProjectDetail.tsx\<close> defines beside its page (container row, secrets, webhooks,
  resource cards, the dialog before deleting) and \<open>components/UpdatesDialog.tsx\<close>. Each has its state,
  a step that returns the requests and toasts, and its view. \<open>isPending\<close> of a mutation is that of the
  latest call; the answers say whether they are for the latest.
\<close>

subsection \<open>\<open>ContainerRow\<close>\<close>

datatype row_confirm = ConfirmStop | ConfirmRestart

record row_state =
  row_confirm :: "row_confirm option"
  row_pending :: bool

definition row_init :: row_state where
  "row_init = \<lparr>row_confirm = None, row_pending = False\<rparr>"

datatype row_event =
    OpenContainer
  | StartClicked
  | AskRow row_confirm
  | RowConfirmed row_confirm
  | RowCancelled
  | OpenContainerFiles
  | OpenContainerShell
  | ActionDone bool
  | ActionFailed bool container_action string

definition isRunning :: "container \<Rightarrow> bool" where
  "isRunning c = (con_state c = ''running'')"

definition short_name :: "string \<Rightarrow> container \<Rightarrow> string" where
  "short_name projectName c = remove_first (projectName @ ''-'') (con_name c)"

definition container_route :: "string \<Rightarrow> container \<Rightarrow> string" where
  "container_route projectName c = ''/projects/'' @ projectName @ ''/containers/'' @ con_id c"

definition run_action :: "string \<Rightarrow> container \<Rightarrow> container_action \<Rightarrow> row_state \<Rightarrow> row_state \<times> client_out list" where
  "run_action projectName c act s =
     (s\<lparr>row_pending := True\<rparr>, [Send (containerAction projectName (con_id c) act)])"

definition confirmed_action :: "row_confirm \<Rightarrow> container_action" where
  "confirmed_action k = (case k of ConfirmStop \<Rightarrow> StopContainer | ConfirmRestart \<Rightarrow> RestartContainer)"

fun row_step :: "string \<Rightarrow> container \<Rightarrow> row_event \<Rightarrow> row_state \<Rightarrow> row_state \<times> client_out list" where
  "row_step p c OpenContainer s = (s, [GoTo (container_route p c)])"
| "row_step p c StartClicked s = run_action p c StartContainer s"
| "row_step p c (AskRow k) s = (s\<lparr>row_confirm := Some k\<rparr>, [])"
| "row_step p c (RowConfirmed k) s =
     (let (s', os) = run_action p c (confirmed_action k) s in (s'\<lparr>row_confirm := None\<rparr>, os))"
| "row_step p c RowCancelled s = (s\<lparr>row_confirm := None\<rparr>, [])"
| "row_step p c OpenContainerFiles s = (s, [GoTo (container_route p c @ ''/files'')])"
| "row_step p c OpenContainerShell s = (s, [GoTo (container_route p c @ ''/shell'')])"
| "row_step p c (ActionDone latest) s =
     (if latest then s\<lparr>row_pending := False\<rparr> else s, [Invalidate [''projects'']])"
| "row_step p c (ActionFailed latest act msg) s =
     (if latest then s\<lparr>row_pending := False\<rparr> else s,
      [ToastErr (if msg \<noteq> [] then msg else ''Failed to '' @ action_str act @ '' container'')])"

definition containerStateBadge :: "(string \<times> string) list" where
  "containerStateBadge =
     [(''running'', ''Running''), (''exited'', ''Stopped''), (''dead'', ''Dead''), (''created'', ''Created''),
      (''restarting'', ''Restarting''), (''paused'', ''Paused''), (''removing'', ''Removing'')]"

definition state_label :: "container \<Rightarrow> string" where
  "state_label c =
     (case map_of containerStateBadge (ascii_lower (con_state c)) of Some l \<Rightarrow> l | None \<Rightarrow> con_state c)"

definition row_cells :: "formats \<Rightarrow> string \<Rightarrow> container \<Rightarrow> container_stat option \<Rightarrow> row_event widget list" where
  "row_cells fm projectName c stat =
     [Button (short_name projectName c) False OpenContainer, Label (or_dash (con_image c)), Label (or_dash (con_ports c)),
      Label (state_label c), Label (or_dash (con_status c)),
      Label (if con_health c \<noteq> ''none'' then or_dash (con_health c) else em_dash)] @
     (case stat of
        Some st \<Rightarrow>
          if isRunning c then
            [Label (fm_percent fm (st_cpuPercent st) @ ''%''),
             Label (formatBytes (st_memUsed st) @ '' / '' @ formatBytes (st_memLimit st))]
          else [Label em_dash, Label em_dash]
      | None \<Rightarrow> [Label em_dash, Label em_dash])"

definition ContainerRow ::
  "formats \<Rightarrow> string \<Rightarrow> container \<Rightarrow> container_stat option \<Rightarrow> row_state \<Rightarrow> row_event widget list" where
  "ContainerRow fm projectName c stat s =
     row_cells fm projectName c stat @
     [Button ''Start'' (row_pending s \<or> isRunning c) StartClicked,
      Button ''Restart'' (row_pending s \<or> \<not> isRunning c) (AskRow ConfirmRestart),
      Button ''Stop'' (row_pending s \<or> \<not> isRunning c) (AskRow ConfirmStop),
      Button ''Browse Files'' False OpenContainerFiles,
      Button ''Shell'' (\<not> isRunning c) OpenContainerShell]"

definition row_dialog :: "string \<Rightarrow> container \<Rightarrow> row_confirm \<Rightarrow> row_event widget list" where
  "row_dialog projectName c k =
     (case k of
        ConfirmStop \<Rightarrow>
          ConfirmDialog (''Stop '' @ short_name projectName c @ ''?'')
            (Some ''The container will be stopped. You can start it again at any time.'') (Some ''Stop'')
            (RowConfirmed ConfirmStop) RowCancelled
      | ConfirmRestart \<Rightarrow>
          ConfirmDialog (''Restart '' @ short_name projectName c @ ''?'')
            (Some ''The container will be restarted briefly causing a short interruption.'') (Some ''Restart'')
            (RowConfirmed ConfirmRestart) RowCancelled)"

subsection \<open>\<open>DeleteConfirmDialog\<close>\<close>

datatype delete_event = TypeConfirm string | ConfirmKey string | DeleteConfirmed | DeleteCancelled

text \<open>The typed text and whether \<open>onConfirm\<close> or \<open>onCancel\<close> is called.\<close>

fun delete_step :: "string \<Rightarrow> delete_event \<Rightarrow> string \<Rightarrow> string \<times> bool option" where
  "delete_step projectName (TypeConfirm v) val = (v, None)"
| "delete_step projectName (ConfirmKey key) val =
     (val, if key = ''Enter'' \<and> val = projectName then Some True else None)"
| "delete_step projectName DeleteConfirmed val = (val, Some True)"
| "delete_step projectName DeleteCancelled val = (val, Some False)"

definition DeleteConfirmDialog :: "string \<Rightarrow> string \<Rightarrow> delete_event widget list" where
  "DeleteConfirmDialog projectName val =
     [Label (''Delete '' @ projectName @ ''?''),
      Label ''This will permanently delete all project files, stop all containers, and remove all volumes and networks. This cannot be undone.'',
      Label (''Type '' @ projectName @ '' to confirm:''),
      KeyInput projectName val TypeConfirm ConfirmKey None,
      Button ''Cancel'' False DeleteCancelled,
      Button ''Delete everything'' (val \<noteq> projectName) DeleteConfirmed]"

subsection \<open>\<open>SecretsSection\<close>\<close>

record secrets_state =
  ss_adding :: bool
  ss_selected :: "nat option"
  ss_envVarName :: string
  ss_secrets :: "project_secret list query"
  ss_all :: "secret list query"
  ss_pending :: bool

definition secrets_init :: secrets_state where
  "secrets_init =
     \<lparr>ss_adding = False, ss_selected = None, ss_envVarName = [], ss_secrets = Pending, ss_all = Pending,
      ss_pending = False\<rparr>"

datatype secrets_event =
    AssignedLoaded "project_secret list"
  | AssignedFailed string
  | AllLoaded "secret list"
  | ToggleAdding
  | SelectSecret string
  | TypeVarName string
  | CancelAdding
  | AssignClicked
  | RemoveSecret nat
  | SetDone bool
  | SetFailed bool string

definition assigned :: "secrets_state \<Rightarrow> project_secret list" where
  "assigned s = data_or [] (ss_secrets s)"

definition secret_pair :: "project_secret \<Rightarrow> nat \<times> string" where
  "secret_pair a = (ps_secretId a, ps_envVarName a)"

text \<open>The options carry the ids as digits; \<open>Number(...)\<close> reads them. A missing choice and the id 0 are
  both false.\<close>

definition chosen :: "secrets_state \<Rightarrow> nat option" where
  "chosen s = (case ss_selected s of Some 0 \<Rightarrow> None | c \<Rightarrow> c)"

definition handleAdd :: "string \<Rightarrow> secrets_state \<Rightarrow> secrets_state \<times> client_out list" where
  "handleAdd p s =
     (case chosen s of
        None \<Rightarrow> (s, [])
      | Some n \<Rightarrow>
          if js_trim (ss_envVarName s) = [] then (s, [])
          else
            (s\<lparr>ss_pending := True, ss_adding := False, ss_selected := None, ss_envVarName := []\<rparr>,
             [Send (setProjectSecrets p (map secret_pair (assigned s) @ [(n, js_trim (ss_envVarName s))]))]))"

definition handleRemove :: "string \<Rightarrow> nat \<Rightarrow> secrets_state \<Rightarrow> secrets_state \<times> client_out list" where
  "handleRemove p i s =
     (s\<lparr>ss_pending := True\<rparr>,
      [Send (setProjectSecrets p (map secret_pair (filter (\<lambda>a. ps_secretId a \<noteq> i) (assigned s))))])"

fun secrets_step :: "string \<Rightarrow> secrets_event \<Rightarrow> secrets_state \<Rightarrow> secrets_state \<times> client_out list" where
  "secrets_step p (AssignedLoaded xs) s = (s\<lparr>ss_secrets := Loaded xs\<rparr>, [])"
| "secrets_step p (AssignedFailed msg) s = (s\<lparr>ss_secrets := query_fail msg (ss_secrets s)\<rparr>, [])"
| "secrets_step p (AllLoaded xs) s = (s\<lparr>ss_all := Loaded xs\<rparr>, [])"
| "secrets_step p ToggleAdding s =
     (s\<lparr>ss_adding := \<not> ss_adding s\<rparr>,
      if \<not> ss_adding s \<and> query_data (ss_all s) = None then [Send listSecrets] else [])"
| "secrets_step p (SelectSecret v) s =
     (s\<lparr>ss_selected := (if v = [] then None else map_option nat (parse_digits v))\<rparr>, [])"
| "secrets_step p (TypeVarName v) s = (s\<lparr>ss_envVarName := ascii_upper v\<rparr>, [])"
| "secrets_step p CancelAdding s = (s\<lparr>ss_adding := False, ss_selected := None, ss_envVarName := []\<rparr>, [])"
| "secrets_step p AssignClicked s = handleAdd p s"
| "secrets_step p (RemoveSecret i) s = handleRemove p i s"
| "secrets_step p (SetDone latest) s =
     (if latest then s\<lparr>ss_pending := False\<rparr> else s, [Invalidate [''project-secrets'', p], ToastOk ''Secrets updated''])"
| "secrets_step p (SetFailed latest msg) s =
     (if latest then s\<lparr>ss_pending := False\<rparr> else s,
      [ToastErr (if msg \<noteq> [] then msg else ''Failed to update secrets'')])"

definition availableSecrets :: "secrets_state \<Rightarrow> secret list" where
  "availableSecrets s = filter (\<lambda>x. sec_id x \<notin> ps_secretId ` set (assigned s)) (data_or [] (ss_all s))"

definition SecretsSection :: "secrets_state \<Rightarrow> secrets_event widget list" where
  "SecretsSection s =
     [Label ''Secrets'', Label (''('' @ nat_str (length (assigned s)) @ '')''), Button ''Assign secret'' False ToggleAdding] @
     (if ss_adding s then
        [Label ''Secret'',
         Select (case ss_selected s of None \<Rightarrow> [] | Some n \<Rightarrow> nat_str n)
           (([], ''Select a secret'' @ ellipsis) # map (\<lambda>x. (nat_str (sec_id x), sec_name x)) (availableSecrets s))
           SelectSecret,
         Label ''Env var name'', Input ''MY_SECRET'' (ss_envVarName s) TypeVarName,
         Button ''Cancel'' False CancelAdding,
         Button ''Assign'' (chosen s = None \<or> js_trim (ss_envVarName s) = [] \<or> ss_pending s) AssignClicked] @
        (if availableSecrets s = [] then [Label ''No unassigned secrets available.''] else [])
      else []) @
     (if assigned s = [] then [Label ''No secrets assigned to this project.'']
      else concat (map (\<lambda>a.
        [Label (ps_secretName a), Label (ps_envVarName a), Button ''Remove'' False (RemoveSecret (ps_secretId a))])
        (assigned s)))"

subsection \<open>\<open>WebhooksSection\<close>\<close>

record hooks_state =
  wh_open :: bool
  wh_hooks :: "webhook list query"
  wh_projectPending :: bool
  wh_servicePending :: bool

definition hooks_init :: hooks_state where
  "hooks_init = \<lparr>wh_open = False, wh_hooks = Pending, wh_projectPending = False, wh_servicePending = False\<rparr>"

datatype hooks_event =
    ToggleHooks
  | HooksLoaded "webhook list"
  | HooksFailed string
  | CreateProjectHook
  | CreateServiceHook string
  | DeleteHook nat
  | CopyHook webhook
  | ProjectHookDone bool
  | ProjectHookFailed bool string
  | ServiceHookDone bool
  | ServiceHookFailed bool string
  | HookDeleted
  | HookDeleteFailed string

definition hook_list :: "hooks_state \<Rightarrow> webhook list" where
  "hook_list s = data_or [] (wh_hooks s)"

definition hook_url :: "string \<Rightarrow> webhook \<Rightarrow> string" where
  "hook_url origin h =
     (if wk_serviceName h \<noteq> [] then
        origin @ ''/webhooks/'' @ wk_projectName h @ ''/'' @ wk_serviceName h @ ''/'' @ wk_token h
      else origin @ ''/webhooks/'' @ wk_projectName h @ ''/'' @ wk_token h)"

definition hook_created :: "string \<Rightarrow> client_out list" where
  "hook_created p = [Invalidate [''webhooks'', p], ToastOk ''Webhook created'']"

fun hooks_step :: "string \<Rightarrow> string \<Rightarrow> hooks_event \<Rightarrow> hooks_state \<Rightarrow> hooks_state \<times> client_out list" where
  "hooks_step origin p ToggleHooks s =
     (s\<lparr>wh_open := \<not> wh_open s\<rparr>,
      if \<not> wh_open s \<and> query_data (wh_hooks s) = None then [Send (listWebhooks p)] else [])"
| "hooks_step origin p (HooksLoaded hs) s = (s\<lparr>wh_hooks := Loaded hs\<rparr>, [])"
| "hooks_step origin p (HooksFailed msg) s = (s\<lparr>wh_hooks := query_fail msg (wh_hooks s)\<rparr>, [])"
| "hooks_step origin p CreateProjectHook s = (s\<lparr>wh_projectPending := True\<rparr>, [Send (createProjectWebhook p)])"
| "hooks_step origin p (CreateServiceHook svc) s =
     (s\<lparr>wh_servicePending := True\<rparr>, [Send (createServiceWebhook p svc)])"
| "hooks_step origin p (DeleteHook i) s = (s, [Send (deleteWebhook p i)])"
| "hooks_step origin p (CopyHook h) s = (s, [CopyText (hook_url origin h)])"
| "hooks_step origin p (ProjectHookDone latest) s =
     (if latest then s\<lparr>wh_projectPending := False\<rparr> else s, hook_created p)"
| "hooks_step origin p (ProjectHookFailed latest msg) s =
     (if latest then s\<lparr>wh_projectPending := False\<rparr> else s, [ToastErr msg])"
| "hooks_step origin p (ServiceHookDone latest) s =
     (if latest then s\<lparr>wh_servicePending := False\<rparr> else s, hook_created p)"
| "hooks_step origin p (ServiceHookFailed latest msg) s =
     (if latest then s\<lparr>wh_servicePending := False\<rparr> else s, [ToastErr msg])"
| "hooks_step origin p HookDeleted s = (s, [Invalidate [''webhooks'', p]])"
| "hooks_step origin p (HookDeleteFailed msg) s = (s, [ToastErr msg])"

definition times_sign :: string where
  "times_sign = [CHR 0xC3, CHR 0x97]"

definition middle_dot :: string where
  "middle_dot = [CHR 0xC2, CHR 0xB7]"

definition WebhookRow :: "formats \<Rightarrow> string \<Rightarrow> webhook \<Rightarrow> string \<Rightarrow> hooks_event widget list" where
  "WebhookRow fm origin h label1 =
     [Label label1] @
     (case nonempty (wk_lastCalledAt h) of
        None \<Rightarrow> []
      | Some d \<Rightarrow> [Label (nat_str (wk_callCount h) @ times_sign @ '' '' @ middle_dot @ '' last '' @ fm_day fm d)]) @
     [Button ''Delete webhook'' False (DeleteHook (wk_id h)), Label (hook_url origin h), Button ''Copy URL'' False (CopyHook h)]"

text \<open>The service of a container: its label, or the container's name without the project and the number.\<close>

definition container_service :: "string \<Rightarrow> container \<Rightarrow> string" where
  "container_service p c =
     (if con_serviceName c \<noteq> [] then con_serviceName c
      else drop_number_suffix (remove_first (p @ ''-'') (con_name c)))"

definition WebhooksSection ::
  "formats \<Rightarrow> string \<Rightarrow> string \<Rightarrow> container list \<Rightarrow> hooks_state \<Rightarrow> hooks_event widget list" where
  "WebhooksSection fm origin p cs s =
     [Button ''Webhooks'' False ToggleHooks] @
     (if \<not> wh_open s then []
      else
        [Label ''POST to a webhook URL to trigger a pull-and-redeploy from CI/CD.'', Label ''Project webhook''] @
        (case List.find (\<lambda>h. wk_serviceName h = []) (hook_list s) of
           Some h \<Rightarrow> WebhookRow fm origin h ''project''
         | None \<Rightarrow> [Button ''Create'' (wh_projectPending s) CreateProjectHook, Label ''No project webhook'']) @
        (if cs = [] then []
         else
           Label ''Service webhooks'' #
           concat (map (\<lambda>c.
             (let svc = container_service p c in
              case List.find (\<lambda>h. wk_serviceName h = svc) (filter (\<lambda>h. wk_serviceName h \<noteq> []) (hook_list s)) of
                Some h \<Rightarrow> WebhookRow fm origin h svc
              | None \<Rightarrow> [Label svc, Button ''Create webhook'' (wh_servicePending s) (CreateServiceHook svc)])) cs)))"

subsection \<open>\<open>ProjectResourceCards\<close>\<close>

record cards_state =
  rc_networks :: "network_summary list query"
  rc_volumes :: "volume_summary list query"
  rc_images :: "image_summary list query"

definition cards_init :: cards_state where
  "cards_init = \<lparr>rc_networks = Pending, rc_volumes = Pending, rc_images = Pending\<rparr>"

definition cards_mount :: "string \<Rightarrow> client_out list" where
  "cards_mount p = [Send (listProjectNetworks p), Send (listProjectVolumes p), Send (listProjectImages p)]"

text \<open>The links of the cards, as the routes they go to.\<close>

definition InUseDot :: "bool \<Rightarrow> string" where
  "InUseDot inUse = (if inUse then ''In use'' else ''Unused'')"

definition image_tag :: "image_summary \<Rightarrow> string" where
  "image_tag i =
     (case img_repoTags i of
        None \<Rightarrow> img_id i
      | Some ts \<Rightarrow> (case List.find (\<lambda>t. t \<noteq> ''<none>:<none>'') ts of Some t \<Rightarrow> t | None \<Rightarrow> img_id i))"

definition card_head :: "string \<Rightarrow> nat \<Rightarrow> string widget list" where
  "card_head title n = [Label title, Label (nat_str n)]"

definition ProjectResourceCards :: "cards_state \<Rightarrow> string widget list" where
  "ProjectResourceCards s =
     (let ns = data_or [] (rc_networks s); vs = data_or [] (rc_volumes s); is = data_or [] (rc_images s) in
      (if ns = [] then []
       else card_head ''Networks'' (length ns) @
         concat (map (\<lambda>n. [Button (net_name n) False (''/networks/'' @ net_id n), Label (net_driver n),
                           Label (InUseDot (net_inUse n))]) ns)) @
      (if vs = [] then []
       else card_head ''Volumes'' (length vs) @
         concat (map (\<lambda>v. [Button (vs_name v) False (''/volumes/'' @ encodeURIComponent (vs_name v)), Label (vs_driver v),
                           Label (InUseDot (vs_inUse v))]) vs)) @
      (if is = [] then []
       else card_head ''Images'' (length is) @
         concat (map (\<lambda>i. [Button (image_tag i) False ''/images'', Label (InUseDot (img_inUse i))]) is)))"

subsection \<open>\<open>UpdatesDialog\<close>\<close>

datatype updates_event = CloseUpdates | DeployUpdates

definition updated_rows :: "(string \<times> service_update) list \<Rightarrow> updates_event widget list" where
  "updated_rows ps =
     concat (map (\<lambda>(service, info).
       [Label service, Label ''update available''] @
       (if su_currentImage info = [] then []
        else Label (su_currentImage info) #
             (case nonempty (su_newerImage info) of None \<Rightarrow> [] | Some i \<Rightarrow> [Label i]))) ps)"

definition current_rows :: "(string \<times> service_update) list \<Rightarrow> updates_event widget list" where
  "current_rows ps =
     concat (map (\<lambda>(service, info).
       Label service # (if su_currentImage info = [] then [] else [Label (su_currentImage info)])) ps)"

definition UpdatesDialog :: "string \<Rightarrow> update_status \<Rightarrow> updates_event widget list" where
  "UpdatesDialog projectName st =
     (let updated = filter (\<lambda>(n, i). su_hasUpdate i) (us_services st);
          current = filter (\<lambda>(n, i). \<not> su_hasUpdate i) (us_services st) in
      [Label (''Updates available '' @ em_dash @ '' '' @ projectName),
       Label ''New image versions are available for the following services.''] @
      (if updated = [] then [] else Label ''Has updates'' # updated_rows updated) @
      (if current = [] then [] else Label ''Up to date'' # current_rows current) @
      [Button ''Cancel'' False CloseUpdates, Button ''Deploy updates'' False DeployUpdates])"

end
