(* ===== verification/Deploy_State.thy ===== *)
theory Deploy_State
  imports Docker_Types
begin

section \<open>Deploying a project: \<open>useDeployState\<close> and \<open>RepullDialog\<close> of \<open>pages/ProjectDetail.tsx\<close>\<close>

text \<open>
  A deployment runs over a socket of its own. The hook keeps the last socket it opened, but the
  handlers of an earlier one stay in place; sockets are numbered in the order they are opened, and
  each event says which socket it comes from. \<open>JSON.parse\<close> is a parameter; the result of a parse is
  a \<open>js\<close> value whose properties are read as the code does.
\<close>

datatype deploy_action = Deploy | RepullCurrent | PullNew

fun deploy_action_str :: "deploy_action \<Rightarrow> string" where
  "deploy_action_str Deploy = ''deploy''"
| "deploy_action_str RepullCurrent = ''repull_current''"
| "deploy_action_str PullNew = ''pull_new''"

record deploy_state =
  dp_deploying :: bool
  dp_logs :: "js list"
  dp_action :: "deploy_action option"
  dp_ws :: "nat option"
  dp_opened :: nat

datatype deploy_event =
    StartDeploy string deploy_action bool
  | CancelDeploy
  | ResetDeploy
  | DeployMessage nat string
  | DeployError nat
  | DeployClosed nat

datatype deploy_out = OpenDeploy string | CloseDeploy nat | DeploySucceeded

definition deploy_init :: deploy_state where
  "deploy_init = \<lparr>dp_deploying = False, dp_logs = [], dp_action = None, dp_ws = None, dp_opened = 0\<rparr>"

definition deploy_path :: "string \<Rightarrow> deploy_action \<Rightarrow> bool \<Rightarrow> string" where
  "deploy_path projectName act withRollback =
     ''/api/ws/projects/'' @ projectName @ ''/deploy?action='' @ deploy_action_str act @
     (if act = PullNew \<and> withRollback then ''&rollback=true'' else [])"

definition start_deploy :: "string \<Rightarrow> deploy_action \<Rightarrow> bool \<Rightarrow> deploy_state \<Rightarrow> deploy_state \<times> deploy_out list" where
  "start_deploy projectName act withRollback s =
     (s\<lparr>dp_deploying := True, dp_action := Some act, dp_logs := [], dp_ws := Some (dp_opened s),
        dp_opened := Suc (dp_opened s)\<rparr>,
      [OpenDeploy (deploy_path projectName act withRollback)])"

definition log_line :: "js \<Rightarrow> deploy_state \<Rightarrow> deploy_state" where
  "log_line l s = s\<lparr>dp_logs := dp_logs s @ [l]\<rparr>"

definition check_mark :: string where
  "check_mark = [CHR 0xE2, CHR 0x9C, CHR 0x93]"

definition cross_mark :: string where
  "cross_mark = [CHR 0xE2, CHR 0x9C, CHR 0x97]"

text \<open>\<open>a ?? b\<close> on values.\<close>

definition coalesce :: "js \<Rightarrow> js \<Rightarrow> js" where
  "coalesce a b = (if nullish a then b else a)"

definition status_line :: "js \<Rightarrow> js \<Rightarrow> string" where
  "status_line msg evt =
     ''['' @ js_string (coalesce (js_prop msg ''type'') (js_prop evt ''type'')) @ ''] '' @
     js_string (js_prop evt ''status'') @
     (if js_truthy (js_prop evt ''error'') then '': '' @ js_string (js_prop evt ''error'') else [])"

definition deploy_done :: "js \<Rightarrow> deploy_state \<Rightarrow> deploy_state \<times> deploy_out list" where
  "deploy_done evt s =
     (let s' = s\<lparr>dp_deploying := False\<rparr> in
      if js_truthy (js_prop evt ''success'') then
        (log_line (JStr (check_mark @ '' Completed successfully'')) s', [DeploySucceeded])
      else if js_truthy (js_prop evt ''error'') then
        (log_line (JStr (cross_mark @ '' '' @ js_string (js_prop evt ''error''))) s', [])
      else (s', []))"

definition deploy_message :: "js \<Rightarrow> deploy_state \<Rightarrow> deploy_state \<times> deploy_out list" where
  "deploy_message msg s =
     (if nullish msg then (s, [])
      else
        (let evt = coalesce (js_prop msg ''data'') msg;
             s1 = (if js_truthy (js_prop evt ''line'') then log_line (js_prop evt ''line'') s else s);
             s2 = (if js_truthy (js_prop evt ''status'') then log_line (JStr (status_line msg evt)) s1 else s1)
         in if js_prop msg ''type'' = JStr ''done'' then deploy_done evt s2 else (s2, [])))"

fun deploy_step ::
  "(string \<Rightarrow> js option) \<Rightarrow> deploy_event \<Rightarrow> deploy_state \<Rightarrow> deploy_state \<times> deploy_out list" where
  "deploy_step json_parse (StartDeploy p a r) s = start_deploy p a r s"
| "deploy_step json_parse CancelDeploy s =
     (s\<lparr>dp_deploying := False, dp_logs := []\<rparr>, (case dp_ws s of None \<Rightarrow> [] | Some n \<Rightarrow> [CloseDeploy n]))"
| "deploy_step json_parse ResetDeploy s = (s\<lparr>dp_logs := [], dp_deploying := False, dp_action := None\<rparr>, [])"
| "deploy_step json_parse (DeployMessage n txt) s =
     (case json_parse txt of None \<Rightarrow> (s, []) | Some msg \<Rightarrow> deploy_message msg s)"
| "deploy_step json_parse (DeployError n) s = (log_line (JStr ''WebSocket error'') (s\<lparr>dp_deploying := False\<rparr>), [])"
| "deploy_step json_parse (DeployClosed n) s = (s\<lparr>dp_deploying := False\<rparr>, [])"

fun deploy_run ::
  "(string \<Rightarrow> js option) \<Rightarrow> deploy_event list \<Rightarrow> deploy_state \<Rightarrow> deploy_state \<times> deploy_out list" where
  "deploy_run json_parse [] s = (s, [])"
| "deploy_run json_parse (e # es) s =
     (let (s', os) = deploy_step json_parse e s; (s'', os') = deploy_run json_parse es s' in (s'', os @ os'))"

subsection \<open>The dialog\<close>

record repull_state =
  rp_action :: deploy_action
  rp_withRollback :: bool

definition repull_init :: repull_state where
  "repull_init = \<lparr>rp_action = PullNew, rp_withRollback = False\<rparr>"

datatype repull_event =
    ChooseAction deploy_action
  | ChooseRollback bool
  | StartUpdate
  | CancelUpdate
  | CloseRepull
  | ResetAndClose

definition show_logs :: "deploy_state \<Rightarrow> bool" where
  "show_logs d = (dp_deploying d \<or> dp_logs d \<noteq> [])"

definition update_actions :: "(deploy_action \<times> string) list" where
  "update_actions =
     [(RepullCurrent, ''Recreate with current images''), (PullNew, ''Pull & update to latest versions'')]"

text \<open>What an event asks of the hook, and whether the dialog closes.\<close>

fun repull_step ::
  "string \<Rightarrow> repull_event \<Rightarrow> repull_state \<Rightarrow> repull_state \<times> deploy_event list \<times> bool" where
  "repull_step projectName (ChooseAction a) s = (s\<lparr>rp_action := a\<rparr>, [], False)"
| "repull_step projectName (ChooseRollback b) s = (s\<lparr>rp_withRollback := b\<rparr>, [], False)"
| "repull_step projectName StartUpdate s = (s, [StartDeploy projectName (rp_action s) (rp_withRollback s)], False)"
| "repull_step projectName CancelUpdate s = (s, [CancelDeploy], True)"
| "repull_step projectName CloseRepull s = (s, [], True)"
| "repull_step projectName ResetAndClose s = (s, [ResetDeploy], True)"

definition RepullDialog :: "deploy_state \<Rightarrow> repull_state \<Rightarrow> repull_event widget list" where
  "RepullDialog d s =
     (let title = Label (if dp_action d = Some Deploy then ''Starting project'' else ''Update images'') in
      if \<not> show_logs d then
        (if dp_action d = Some Deploy then
           [title, Label ''This will start the project using docker compose up. Images will be pulled if needed.'',
            Button ''Cancel'' False CloseRepull]
         else
           [title, Label ''Choose how to update this project's containers.''] @
           map (\<lambda>(a, l). Button l False (ChooseAction a)) update_actions @
           (if rp_action s = PullNew then
              [Checkbox ''Enable automatic rollback if deploy fails'' (rp_withRollback s) ChooseRollback] else []) @
           [Button ''Cancel'' False CloseRepull, Button ''Start update'' False StartUpdate])
      else
        [title] @ map (\<lambda>l. Label (js_string l)) (dp_logs d) @
        (if dp_deploying d then
           [Label (''Running'' @ ellipsis), Button ''Dismiss'' False CloseRepull, Button ''Cancel update'' False CancelUpdate]
         else [Button ''Close'' False ResetAndClose]))"

end
