(* ===== verification/Project_Detail.thy ===== *)
theory Project_Detail
  imports Detail_Parts Deploy_State
begin

section \<open>The page of one project: \<open>pages/ProjectDetail.tsx\<close>\<close>

text \<open>
  The page: live status, the editor that is shown in place of the information while editing, the
  project's actions and their dialogs, the deployment, and the parts of theory \<open>Detail_Parts\<close>. The save
  is a chain of requests as in theory \<open>Project_Editor\<close> and uses the same file operations. \<open>name\<close> is
  the name in the address. The cache of container statistics that outlives the page is the argument
  of \<open>detail_init\<close>.
\<close>

subsection \<open>The images a Compose text refers to\<close>

text \<open>
  \<open>yaml.matchAll(/^\s+image:\s*(.+)$/gm)\<close>: at the start of a line at least one white space (which may
  go over empty lines), \<open>image:\<close>, white space (which may go to the next line) and the rest of the
  line. A match with nothing but white space after the colon gives the empty text, which is not
  kept, so such a match and no match at all come to the same.
\<close>

definition js_terminators :: "string list" where
  "js_terminators =
     [[CHR 0x0A], [CHR 0x0D], [CHR 0xE2, CHR 0x80, CHR 0xA8], [CHR 0xE2, CHR 0x80, CHR 0xA9]]"

text \<open>The rest of the line, and what follows it (beginning with the line's end).\<close>

fun line_rest :: "string \<Rightarrow> string \<times> string" where
  "line_rest [] = ([], [])"
| "line_rest (c # s) =
     (case strip_any js_terminators (c # s) of
        Some _ \<Rightarrow> ([], c # s)
      | None \<Rightarrow> (case line_rest s of (l, r) \<Rightarrow> (c # l, r)))"

text \<open>A match at the start of a line.\<close>

definition image_match :: "string \<Rightarrow> (string \<times> string) option" where
  "image_match s =
     (let t = js_trim_start s in
      if t = s then None
      else case strip_prefix ''image:'' t of
        None \<Rightarrow> None
      | Some r \<Rightarrow> Some (line_rest (js_trim_start r)))"

lemma length_line_rest: "length (snd (line_rest s)) \<le> length s"
  by (induction s) (auto split: option.split prod.split)

lemma strip_tokens_length: "length (strip_tokens ts s) \<le> length s"
proof -
  obtain p where "s = p @ strip_tokens ts s" using strip_tokens_suffix by blast
  then have "length s = length p + length (strip_tokens ts s)" by (metis length_append)
  then show ?thesis by simp
qed

lemma length_image_match:
  assumes "image_match s = Some (l, r)"
  shows "length r < length s"
proof -
  obtain u where u: "strip_prefix ''image:'' (js_trim_start s) = Some u" "line_rest (js_trim_start u) = (l, r)"
    using assms by (auto simp: image_match_def Let_def split: if_splits option.splits)
  have "length r \<le> length (js_trim_start u)" using u(2) length_line_rest [of "js_trim_start u"] by simp
  also have "\<dots> \<le> length u" by (simp add: js_trim_start_def strip_tokens_length)
  also have "\<dots> < length (js_trim_start s)" using strip_prefix_Some [OF u(1)] by simp
  also have "\<dots> \<le> length s" by (simp add: js_trim_start_def strip_tokens_length)
  finally show ?thesis .
qed

lemma strip_any_shorter:
  "strip_any js_terminators s = Some r \<Longrightarrow> length r < length s"
  using strip_any_Some [of js_terminators s r] by (auto simp: js_terminators_def)

text \<open>\<open>start\<close>: the text begins a line.\<close>

function scan_images :: "bool \<Rightarrow> string \<Rightarrow> string list" where
  "scan_images start s =
     (case (if start then image_match s else None) of
        Some (l, r) \<Rightarrow> l # scan_images False r
      | None \<Rightarrow>
          (case strip_any js_terminators s of
             Some r \<Rightarrow> scan_images True r
           | None \<Rightarrow> (case s of [] \<Rightarrow> [] | c # t \<Rightarrow> scan_images False t)))"
  by pat_completeness auto
termination
  by (relation "measure (\<lambda>(b, s). length s)")
     (auto simp: length_image_match strip_any_shorter split: if_splits)

declare scan_images.simps [simp del]

text \<open>\<open>s.replace(/^['"]|['"]$/g, "")\<close>.\<close>

definition is_quote :: "char \<Rightarrow> bool" where
  "is_quote c = (c = CHR 0x27 \<or> c = CHR 0x22)"

definition unquote :: "string \<Rightarrow> string" where
  "unquote s =
     (let t = (case s of [] \<Rightarrow> [] | c # r \<Rightarrow> if is_quote c then r else s)
      in if t \<noteq> [] \<and> is_quote (last t) then butlast t else t)"

definition extractImages :: "string \<Rightarrow> string list" where
  "extractImages yaml =
     remdups (filter (\<lambda>i. i \<noteq> []) (map (\<lambda>m. unquote (js_trim m)) (scan_images True yaml)))"

definition images_changed :: "string \<Rightarrow> string \<Rightarrow> bool" where
  "images_changed before after =
     (let b = extractImages before; a = extractImages after
      in length a \<noteq> length b \<or> (\<exists>i \<in> set a. i \<notin> set b))"

subsection \<open>State\<close>

datatype page_confirm = StopProject | RestartProject | DeleteProject

record detail_state =
  dt_editing :: bool
  dt_confirm :: "page_confirm option"
  dt_repullOpen :: bool
  dt_showUpdates :: bool
  dt_showRedeploy :: bool
  dt_deploy :: deploy_state
  dt_repull :: repull_state
  dt_description :: string
  dt_compose :: string
  dt_mode :: compose_mode
  dt_model :: compose_file
  dt_builder :: "builder_state option"
  dt_env :: "env_entry list"
  dt_files :: "file_entry list"
  dt_original :: "project_file list"
  dt_tab :: active_tab
  dt_saving :: bool
  dt_chain :: "api_call list"
  dt_offer :: bool
  dt_projects :: "project list query"
  dt_updates :: "update_status option"
  dt_detail :: "project_detail option"
  dt_stats :: "container_stat obj"
  dt_rows :: "(string \<times> row_state) list"
  dt_secrets :: secrets_state
  dt_hooks :: hooks_state
  dt_cards :: cards_state
  dt_typed :: string
  dt_stopPending :: bool
  dt_restartPending :: bool
  dt_delPending :: bool

definition detail_init :: "container_stat obj \<Rightarrow> detail_state" where
  "detail_init cached =
     \<lparr>dt_editing = False, dt_confirm = None, dt_repullOpen = False, dt_showUpdates = False,
      dt_showRedeploy = False, dt_deploy = deploy_init, dt_repull = repull_init, dt_description = [],
      dt_compose = [], dt_mode = YamlMode, dt_model = empty_compose_model, dt_builder = None, dt_env = [],
      dt_files = [], dt_original = [], dt_tab = ComposeTab, dt_saving = False, dt_chain = [],
      dt_offer = False, dt_projects = Pending, dt_updates = None, dt_detail = None, dt_stats = cached,
      dt_rows = [], dt_secrets = secrets_init, dt_hooks = hooks_init, dt_cards = cards_init,
      dt_typed = [], dt_stopPending = False, dt_restartPending = False, dt_delPending = False\<rparr>"

definition detail_mount :: "string \<Rightarrow> client_out list" where
  "detail_mount name =
     [Send listProjects, Send (getProject name), Send (listProjectSecrets name)] @ cards_mount name"

definition liveProject :: "string \<Rightarrow> detail_state \<Rightarrow> project option" where
  "liveProject name s = List.find (\<lambda>p. prj_name p = name) (data_or [] (dt_projects s))"

definition live_status :: "string \<Rightarrow> detail_state \<Rightarrow> string" where
  "live_status name s = (case liveProject name s of Some p \<Rightarrow> prj_status p | None \<Rightarrow> ''unknown'')"

definition live_containers :: "string \<Rightarrow> detail_state \<Rightarrow> container list" where
  "live_containers name s = (case liveProject name s of Some p \<Rightarrow> prj_containers p | None \<Rightarrow> [])"

definition live_running :: "string \<Rightarrow> detail_state \<Rightarrow> bool" where
  "live_running name s = (map_option prj_status (liveProject name s) = Some ''running'')"

datatype detail_event =
    ProjectsArrived "project list"
  | UpdatesArrived update_status
  | DetailArrived project_detail
  | StatsArrived "container_stat list"
  | BackToProjects
  | OpenUpdates
  | UpdatesEv updates_event
  | StartProjectClicked
  | AskPage page_confirm
  | PageConfirmed page_confirm
  | PageCancelled
  | PageActionDone page_confirm
  | PageActionFailed page_confirm string
  | OpenRepull
  | RepullEv repull_event
  | DeployEv deploy_event
  | OpenLogs
  | EditDetail
  | CancelEdit
  | SaveDetail
  | DetailCallDone
  | DetailCallFailed
  | ToggleStale bool
  | StaleDone
  | StaleFailed string
  | TypeDescription string
  | EditEv editor_event
  | RowEv string row_event
  | SecretsEv secrets_event
  | HooksEv hooks_event
  | FollowCard string
  | CardNetworks "network_summary list"
  | CardVolumes "volume_summary list"
  | CardImages "image_summary list"
  | DeleteEv delete_event
  | RedeployConfirmed
  | RedeployCancelled

subsection \<open>The editor\<close>

definition fill_editor :: "project_detail \<Rightarrow> detail_state \<Rightarrow> detail_state" where
  "fill_editor d s =
     s\<lparr>dt_description := pd_description d, dt_compose := pd_compose d,
       dt_env := map (\<lambda>(k, v). \<lparr>en_key = k, en_value = v\<rparr>) (pd_envVars d),
       dt_files := map (\<lambda>f. \<lparr>fe_filename = file_filename f, fe_content = file_content f, fe_toDelete = False\<rparr>)
                     (pd_files d),
       dt_original := pd_files d\<rparr>"

definition cancelEdit :: "detail_state \<Rightarrow> detail_state" where
  "cancelEdit s =
     (let s' = (case dt_detail s of Some d \<Rightarrow> fill_editor d s | None \<Rightarrow> s)
      in s'\<lparr>dt_tab := ComposeTab, dt_mode := YamlMode, dt_model := empty_compose_model, dt_editing := False\<rparr>)"

definition detail_calls :: "string \<Rightarrow> detail_state \<Rightarrow> api_call list" where
  "detail_calls name s =
     updateProject name
       \<lparr>pf_name = name, pf_description = Some (dt_description s), pf_composeContent = dt_compose s,
        pf_env = Some (env_object (dt_env s))\<rparr> #
     map (file_call name) (file_ops (dt_original s) (dt_files s))"

text \<open>What is known when \<open>Save\<close> is pressed decides whether a new deployment is offered at the end.\<close>

definition detail_handleSave :: "string \<Rightarrow> detail_state \<Rightarrow> detail_state \<times> client_out list" where
  "detail_handleSave name s =
     (if js_trim (dt_compose s) = [] then (s, [ToastErr ''Compose content is required''])
      else
        (s\<lparr>dt_saving := True, dt_chain := tl (detail_calls name s),
           dt_offer := (images_changed (case dt_detail s of Some d \<Rightarrow> pd_compose d | None \<Rightarrow> []) (dt_compose s)
                        \<and> live_running name s)\<rparr>,
         [Send (hd (detail_calls name s))]))"

definition detail_saved :: "string \<Rightarrow> detail_state \<Rightarrow> detail_state \<times> client_out list" where
  "detail_saved name s =
     (s\<lparr>dt_saving := False, dt_editing := False, dt_showRedeploy := dt_showRedeploy s \<or> dt_offer s\<rparr>,
      [Invalidate [''projects''], Invalidate [''project'', name], ToastOk ''Project updated''])"

definition detail_model_changed ::
  "(js \<Rightarrow> string) \<Rightarrow> compose_file \<Rightarrow> detail_state \<Rightarrow> detail_state \<times> client_out list" where
  "detail_model_changed dump cf s =
     (case serializeCompose dump cf of
        Inl err \<Rightarrow> (s\<lparr>dt_model := cf\<rparr>, [Uncaught err])
      | Inr yaml \<Rightarrow> (s\<lparr>dt_model := cf, dt_compose := yaml\<rparr>, []))"

fun detail_builder_out ::
  "(js \<Rightarrow> string) \<Rightarrow> builder_out \<Rightarrow> detail_state \<times> client_out list \<Rightarrow> detail_state \<times> client_out list" where
  "detail_builder_out dump (FileChange cf) (s, os) = (let (s', os') = detail_model_changed dump cf s in (s', os @ os'))"
| "detail_builder_out dump (BuilderFetch c) (s, os) = (s, os @ [Send c])"

fun detail_edit ::
  "(string \<Rightarrow> js option) \<Rightarrow> (js \<Rightarrow> string) \<Rightarrow> editor_event \<Rightarrow> detail_state \<Rightarrow> detail_state \<times> client_out list" where
  "detail_edit load dump (ShowTab t) s = (s\<lparr>dt_tab := t\<rparr>, [])"
| "detail_edit load dump GoVisual s =
     (if dt_mode s = YamlMode then (s\<lparr>dt_model := parseCompose load (dt_compose s), dt_mode := VisualMode\<rparr>, []) else (s, []))"
| "detail_edit load dump GoYaml s =
     (if dt_mode s = VisualMode then
        (case serializeCompose dump (dt_model s) of
           Inl err \<Rightarrow> (s, [Uncaught err])
         | Inr yaml \<Rightarrow> (s\<lparr>dt_compose := yaml, dt_mode := YamlMode\<rparr>, []))
      else (s, []))"
| "detail_edit load dump (BuilderEv e) s =
     (case dt_builder s of
        None \<Rightarrow> (s, [])
      | Some b \<Rightarrow>
          case builder_step (dt_model s) e b of
            Inl err \<Rightarrow> (s, [Uncaught err])
          | Inr (b', os) \<Rightarrow> fold (detail_builder_out dump) os (s\<lparr>dt_builder := Some b'\<rparr>, []))"
| "detail_edit load dump (TypeYaml v) s = (s\<lparr>dt_compose := v\<rparr>, [])"
| "detail_edit load dump (TypeFilename i v) s = (s\<lparr>dt_files := map_at i (\<lambda>f. f\<lparr>fe_filename := v\<rparr>) (dt_files s)\<rparr>, [])"
| "detail_edit load dump (TypeContent i v) s = (s\<lparr>dt_files := map_at i (\<lambda>f. f\<lparr>fe_content := v\<rparr>) (dt_files s)\<rparr>, [])"
| "detail_edit load dump AddEnv s = (s\<lparr>dt_env := dt_env s @ [\<lparr>en_key = [], en_value = []\<rparr>]\<rparr>, [])"
| "detail_edit load dump (RemoveEnv i) s = (s\<lparr>dt_env := remove_at i (dt_env s)\<rparr>, [])"
| "detail_edit load dump (TypeEnvKey i v) s = (s\<lparr>dt_env := map_at i (\<lambda>e. e\<lparr>en_key := v\<rparr>) (dt_env s)\<rparr>, [])"
| "detail_edit load dump (TypeEnvValue i v) s = (s\<lparr>dt_env := map_at i (\<lambda>e. e\<lparr>en_value := v\<rparr>) (dt_env s)\<rparr>, [])"
| "detail_edit load dump AddFile s =
     (s\<lparr>dt_files := dt_files s @ [\<lparr>fe_filename = [], fe_content = [], fe_toDelete = False\<rparr>],
        dt_tab := FileTab (length (dt_files s))\<rparr>, [])"
| "detail_edit load dump (RemoveFile i) s =
     (s\<lparr>dt_files := map_at i (\<lambda>f. f\<lparr>fe_toDelete := True\<rparr>) (dt_files s),
        dt_tab := (if dt_tab s = FileTab i then ComposeTab else dt_tab s)\<rparr>, [])"
| "detail_edit load dump e s = (s, [])"

subsection \<open>Handlers\<close>

fun deploy_outs :: "string \<Rightarrow> deploy_out \<Rightarrow> client_out list" where
  "deploy_outs name (OpenDeploy path) = [OpenSocket path]"
| "deploy_outs name (CloseDeploy n) = [CloseSocket n]"
| "deploy_outs name DeploySucceeded = [Invalidate [''projects''], Invalidate [''project-updates'', name]]"

definition deploy_events ::
  "(string \<Rightarrow> js option) \<Rightarrow> string \<Rightarrow> deploy_event list \<Rightarrow> detail_state \<Rightarrow> detail_state \<times> client_out list" where
  "deploy_events json_parse name es s =
     (let (d, os) = deploy_run json_parse es (dt_deploy s)
      in (s\<lparr>dt_deploy := d\<rparr>, concat (map (deploy_outs name) os)))"

definition confirm_delete :: "string \<Rightarrow> detail_state \<Rightarrow> detail_state \<times> client_out list" where
  "confirm_delete name s = (s\<lparr>dt_delPending := True, dt_confirm := None\<rparr>, [Send (deleteProject name)])"

fun page_action :: "string \<Rightarrow> page_confirm \<Rightarrow> detail_state \<Rightarrow> detail_state \<times> client_out list" where
  "page_action name StopProject s = (s\<lparr>dt_stopPending := True, dt_confirm := None\<rparr>, [Send (stopProject name)])"
| "page_action name RestartProject s =
     (s\<lparr>dt_restartPending := True, dt_confirm := None\<rparr>, [Send (restartProject name)])"
| "page_action name DeleteProject s = confirm_delete name s"

fun page_action_done :: "page_confirm \<Rightarrow> detail_state \<Rightarrow> detail_state \<times> client_out list" where
  "page_action_done StopProject s = (s\<lparr>dt_stopPending := False\<rparr>, [ToastOk ''Stopped'', Invalidate [''projects'']])"
| "page_action_done RestartProject s =
     (s\<lparr>dt_restartPending := False\<rparr>, [ToastOk ''Restarted'', Invalidate [''projects'']])"
| "page_action_done DeleteProject s =
     (s\<lparr>dt_delPending := False\<rparr>, [ToastOk ''Deleted'', Invalidate [''projects''], GoTo ''/projects''])"

fun page_action_failed :: "page_confirm \<Rightarrow> string \<Rightarrow> detail_state \<Rightarrow> detail_state \<times> client_out list" where
  "page_action_failed StopProject msg s =
     (s\<lparr>dt_stopPending := False\<rparr>, [ToastErr (if msg \<noteq> [] then msg else ''Failed to stop'')])"
| "page_action_failed RestartProject msg s =
     (s\<lparr>dt_restartPending := False\<rparr>, [ToastErr (if msg \<noteq> [] then msg else ''Failed to restart'')])"
| "page_action_failed DeleteProject msg s =
     (s\<lparr>dt_delPending := False\<rparr>, [ToastErr (if msg \<noteq> [] then msg else ''Failed to delete'')])"

definition row_of :: "string \<Rightarrow> detail_state \<Rightarrow> row_state" where
  "row_of i s = (case map_of (dt_rows s) i of Some r \<Rightarrow> r | None \<Rightarrow> row_init)"

definition container_of :: "string \<Rightarrow> string \<Rightarrow> detail_state \<Rightarrow> container option" where
  "container_of name i s = List.find (\<lambda>c. con_id c = i) (live_containers name s)"

text \<open>The rows of containers that are gone are unmounted with their state.\<close>

definition prune_rows :: "string \<Rightarrow> detail_state \<Rightarrow> detail_state" where
  "prune_rows name s =
     s\<lparr>dt_rows := filter (\<lambda>(i, r). i \<in> con_id ` set (live_containers name s)) (dt_rows s)\<rparr>"

fun detail_handle ::
  "(string \<Rightarrow> js option) \<Rightarrow> (js \<Rightarrow> string) \<Rightarrow> (string \<Rightarrow> js option) \<Rightarrow> string \<Rightarrow> string \<Rightarrow> detail_event \<Rightarrow> detail_state \<Rightarrow>
     detail_state \<times> client_out list" where
  "detail_handle load dump json origin name (ProjectsArrived ps) s =
     (let s' = prune_rows name (s\<lparr>dt_projects := Loaded ps\<rparr>)
      in (s', if live_running name s' \<and> \<not> live_running name s then [Send (checkProjectUpdates name)] else []))"
| "detail_handle load dump json origin name (UpdatesArrived st) s = (s\<lparr>dt_updates := Some st\<rparr>, [])"
| "detail_handle load dump json origin name (DetailArrived d) s =
     (if dt_detail s = Some d then (s, []) else (fill_editor d (s\<lparr>dt_detail := Some d\<rparr>), []))"
| "detail_handle load dump json origin name (StatsArrived sts) s =
     (s\<lparr>dt_stats := obj_assign_all (map (\<lambda>x. (st_name x, x)) sts) []\<rparr>, [])"
| "detail_handle load dump json origin name BackToProjects s = (s, [GoTo ''/projects''])"
| "detail_handle load dump json origin name OpenUpdates s = (s\<lparr>dt_showUpdates := True\<rparr>, [])"
| "detail_handle load dump json origin name (UpdatesEv CloseUpdates) s = (s\<lparr>dt_showUpdates := False\<rparr>, [])"
| "detail_handle load dump json origin name (UpdatesEv DeployUpdates) s =
     (s\<lparr>dt_showUpdates := False, dt_repullOpen := True\<rparr>, [])"
| "detail_handle load dump json origin name StartProjectClicked s =
     (let (s', os) = deploy_events json name [StartDeploy name Deploy False] s in (s'\<lparr>dt_repullOpen := True\<rparr>, os))"
| "detail_handle load dump json origin name (AskPage k) s =
     (s\<lparr>dt_confirm := Some k, dt_typed := (if k = DeleteProject then [] else dt_typed s)\<rparr>, [])"
| "detail_handle load dump json origin name (PageConfirmed k) s = page_action name k s"
| "detail_handle load dump json origin name PageCancelled s = (s\<lparr>dt_confirm := None\<rparr>, [])"
| "detail_handle load dump json origin name (PageActionDone k) s = page_action_done k s"
| "detail_handle load dump json origin name (PageActionFailed k msg) s = page_action_failed k msg s"
| "detail_handle load dump json origin name OpenRepull s = (s\<lparr>dt_repullOpen := True\<rparr>, [])"
| "detail_handle load dump json origin name (RepullEv e) s =
     (case repull_step name e (dt_repull s) of
        (r, es, closes) \<Rightarrow>
          (let (s', os) = deploy_events json name es (s\<lparr>dt_repull := r\<rparr>)
           in (if closes then s'\<lparr>dt_repullOpen := False\<rparr> else s', os)))"
| "detail_handle load dump json origin name (DeployEv e) s = deploy_events json name [e] s"
| "detail_handle load dump json origin name OpenLogs s = (s, [GoTo (''/projects/'' @ name @ ''/logs'')])"
| "detail_handle load dump json origin name EditDetail s = (s\<lparr>dt_editing := True\<rparr>, [])"
| "detail_handle load dump json origin name CancelEdit s = (cancelEdit s, [])"
| "detail_handle load dump json origin name SaveDetail s =
     (if dt_saving s then (s, []) else detail_handleSave name s)"
| "detail_handle load dump json origin name DetailCallDone s =
     (if \<not> dt_saving s then (s, [])
      else case dt_chain s of [] \<Rightarrow> detail_saved name s | c # cs \<Rightarrow> (s\<lparr>dt_chain := cs\<rparr>, [Send c]))"
| "detail_handle load dump json origin name DetailCallFailed s =
     (if dt_saving s then (s\<lparr>dt_saving := False, dt_chain := []\<rparr>, [ToastErr ''Failed to save project'']) else (s, []))"
| "detail_handle load dump json origin name (ToggleStale b) s =
     (s, [Send (patchProjectConfig name (JObj [(''removeStaleImages'', JBool b)]))])"
| "detail_handle load dump json origin name StaleDone s = (s, [Invalidate [''project'', name]])"
| "detail_handle load dump json origin name (StaleFailed msg) s =
     (s, [ToastErr (if msg \<noteq> [] then msg else ''Failed to update'')])"
| "detail_handle load dump json origin name (TypeDescription v) s = (s\<lparr>dt_description := v\<rparr>, [])"
| "detail_handle load dump json origin name (EditEv e) s = detail_edit load dump e s"
| "detail_handle load dump json origin name (RowEv i e) s =
     (case container_of name i s of
        None \<Rightarrow> (s, [])
      | Some c \<Rightarrow> (let (r, os) = row_step name c e (row_of i s) in (s\<lparr>dt_rows := AList.update i r (dt_rows s)\<rparr>, os)))"
| "detail_handle load dump json origin name (SecretsEv e) s =
     (let (x, os) = secrets_step name e (dt_secrets s) in (s\<lparr>dt_secrets := x\<rparr>, os))"
| "detail_handle load dump json origin name (HooksEv e) s =
     (let (x, os) = hooks_step origin name e (dt_hooks s) in (s\<lparr>dt_hooks := x\<rparr>, os))"
| "detail_handle load dump json origin name (FollowCard route) s = (s, [GoTo route])"
| "detail_handle load dump json origin name (CardNetworks xs) s =
     (s\<lparr>dt_cards := (dt_cards s)\<lparr>rc_networks := Loaded xs\<rparr>\<rparr>, [])"
| "detail_handle load dump json origin name (CardVolumes xs) s =
     (s\<lparr>dt_cards := (dt_cards s)\<lparr>rc_volumes := Loaded xs\<rparr>\<rparr>, [])"
| "detail_handle load dump json origin name (CardImages xs) s =
     (s\<lparr>dt_cards := (dt_cards s)\<lparr>rc_images := Loaded xs\<rparr>\<rparr>, [])"
| "detail_handle load dump json origin name (DeleteEv e) s =
     (case delete_step name e (dt_typed s) of
        (v, None) \<Rightarrow> (s\<lparr>dt_typed := v\<rparr>, [])
      | (v, Some True) \<Rightarrow> confirm_delete name (s\<lparr>dt_typed := v\<rparr>)
      | (v, Some False) \<Rightarrow> (s\<lparr>dt_typed := v, dt_confirm := None\<rparr>, []))"
| "detail_handle load dump json origin name RedeployConfirmed s =
     (s\<lparr>dt_showRedeploy := False, dt_repullOpen := True\<rparr>, [])"
| "detail_handle load dump json origin name RedeployCancelled s = (s\<lparr>dt_showRedeploy := False\<rparr>, [])"

text \<open>The builder is mounted while the editor shows it.\<close>

definition detail_mount_builder :: "detail_state \<Rightarrow> detail_state \<times> client_out list" where
  "detail_mount_builder s =
     (if \<not> (dt_editing s \<and> dt_tab s = ComposeTab \<and> dt_mode s = VisualMode) then (s\<lparr>dt_builder := None\<rparr>, [])
      else case dt_builder s of
        Some b \<Rightarrow> (s\<lparr>dt_builder := Some (builder_render (dt_model s) b)\<rparr>, [])
      | None \<Rightarrow> (case builder_init (dt_model s) of (b, call) \<Rightarrow> (s\<lparr>dt_builder := Some b\<rparr>, [Send call])))"

definition detail_step ::
  "(string \<Rightarrow> js option) \<Rightarrow> (js \<Rightarrow> string) \<Rightarrow> (string \<Rightarrow> js option) \<Rightarrow> string \<Rightarrow> string \<Rightarrow> detail_event \<Rightarrow> detail_state \<Rightarrow>
     detail_state \<times> client_out list" where
  "detail_step load dump json origin name e s =
     (let (s', os) = detail_handle load dump json origin name e s; (s'', os') = detail_mount_builder s'
      in (s'', os @ os'))"

subsection \<open>The view\<close>

definition statusLabel :: "(string \<times> string) list" where
  "statusLabel =
     [(''running'', ''Running''), (''stopped'', ''Stopped''), (''partial'', ''Partial''), (''unknown'', ''Unknown'')]"

definition detail_header :: "string \<Rightarrow> detail_state \<Rightarrow> detail_event widget list" where
  "detail_header name s =
     (let st = live_status name s; busy = dp_deploying (dt_deploy s) in
      [Button [] False BackToProjects, Label name] @
      (case dt_updates s of
         Some u \<Rightarrow> if us_hasUpdates u then [Button ''Updates available'' False OpenUpdates] else []
       | None \<Rightarrow> []) @
      [Label (case map_of statusLabel st of Some l \<Rightarrow> l | None \<Rightarrow> st)] @
      (case dt_detail s of
         Some d \<Rightarrow> if pd_description d \<noteq> [] \<and> \<not> dt_editing s then [Label (pd_description d)] else []
       | None \<Rightarrow> []) @
      [Button ''Start'' (st = ''running'' \<or> busy) StartProjectClicked,
       Button ''Restart'' (dt_restartPending s \<or> st = ''stopped'' \<or> busy) (AskPage RestartProject),
       Button ''Stop'' (dt_stopPending s \<or> st = ''stopped'' \<or> busy) (AskPage StopProject),
       Button (if busy then ''Updating'' @ ellipsis else ''Update images'') False OpenRepull,
       Button ''Logs'' False OpenLogs] @
      (if dt_editing s then [Button ''Cancel'' False CancelEdit, Button ''Save'' (dt_saving s) SaveDetail]
       else [Button ''Edit'' False EditDetail]) @
      [Button ''Delete project'' (dt_delPending s) (AskPage DeleteProject)])"

definition detail_info :: "formats \<Rightarrow> string \<Rightarrow> detail_state \<Rightarrow> detail_event widget list" where
  "detail_info fm name s =
     (let d = dt_detail s in
      [Label ''Created by'', Label (or_dash (case d of Some x \<Rightarrow> pd_createdBy x | None \<Rightarrow> [])),
       Label ''Directory'', Label (case liveProject name s of Some p \<Rightarrow> prj_dir p | None \<Rightarrow> em_dash),
       Label ''Created'', Label (case d of Some x \<Rightarrow> fm_date fm (pd_createdAt x) | None \<Rightarrow> em_dash),
       Label ''Updated'', Label (case d of Some x \<Rightarrow> fm_date fm (pd_updatedAt x) | None \<Rightarrow> em_dash),
       Checkbox ''Remove stale images after updates''
         (case d of Some x \<Rightarrow> pd_removeStaleImages x | None \<Rightarrow> False) ToggleStale,
       Label ''Prunes old images no longer used by this project after each successful update''])"

definition detail_visibleFiles :: "detail_state \<Rightarrow> (nat \<times> file_entry) list" where
  "detail_visibleFiles s = filter (\<lambda>(i, f). \<not> fe_toDelete f) (indexed (dt_files s))"

definition detail_main :: "detail_state \<Rightarrow> editor_event widget list result" where
  "detail_main s =
     (case dt_tab s of
        ComposeTab \<Rightarrow>
          (case (dt_mode s, dt_builder s) of
             (VisualMode, Some b) \<Rightarrow>
               bind_result (ComposeBuilder (dt_model s) (map_option pd_envVars (dt_detail s)) b)
                 (\<lambda>ws. Inr (lift_view BuilderEv ws))
           | (VisualMode, None) \<Rightarrow> Inr []
           | (YamlMode, _) \<Rightarrow> Inr [Input [] (dt_compose s) TypeYaml])
      | FileTab i \<Rightarrow>
          Inr (if i < length (dt_files s) then
                 [Label ''Filename:'', Input ''e.g. config.yaml'' (fe_filename (dt_files s ! i)) (TypeFilename i),
                  Input [] (fe_content (dt_files s ! i)) (TypeContent i)]
               else []))"

definition detail_side :: "detail_state \<Rightarrow> editor_event widget list" where
  "detail_side s =
     [Label ''Env variables'', Button ''Add'' False AddEnv] @
     (if dt_env s = [] then [Label ''No variables'']
      else concat (map (\<lambda>(i, e).
        [Input ''KEY'' (en_key e) (TypeEnvKey i), Input ''value'' (en_value e) (TypeEnvValue i),
         Button [] False (RemoveEnv i)]) (indexed (dt_env s)))) @
     [Label ''Extra files'', Button ''Add'' False AddFile] @
     (if detail_visibleFiles s = [] then [Label ''No extra files'']
      else concat (map (\<lambda>(i, f).
        [Button (file_title (fe_filename f)) False (ShowTab (FileTab i)), Button [] False (RemoveFile i)])
        (detail_visibleFiles s)))"

definition detail_editor :: "detail_state \<Rightarrow> detail_event widget list result" where
  "detail_editor s =
     bind_result (detail_main s) (\<lambda>main.
       Inr ([Label ''Description'', Input ''Short project description (optional)'' (dt_description s) TypeDescription] @
            lift_view EditEv
              (Button ''docker-compose.yml'' False (ShowTab ComposeTab) #
               map (\<lambda>(i, f). Button (file_title (fe_filename f)) False (ShowTab (FileTab i))) (detail_visibleFiles s) @
               (if dt_tab s = ComposeTab then [Button ''Visual'' False GoVisual, Button ''YAML'' False GoYaml] else []) @
               main @ detail_side s)))"

definition detail_containers :: "formats \<Rightarrow> string \<Rightarrow> detail_state \<Rightarrow> detail_event widget list" where
  "detail_containers fm name s =
     (let cs = live_containers name s in
      if cs = [] then []
      else
        [Label ''Containers'', Label (nat_str (length cs) @ '' container'' @ (if length cs \<noteq> 1 then ''s'' else []))] @
        map Label [''Name'', ''Image'', ''Ports'', ''State'', ''Running since'', ''Health'', ''CPU'', ''Memory''] @
        concat (map (\<lambda>c. lift_view (RowEv (con_id c))
          (ContainerRow fm name c (obj_get (dt_stats s) (con_name c)) (row_of (con_id c) s))) cs))"

definition detail_body :: "formats \<Rightarrow> string \<Rightarrow> string \<Rightarrow> detail_state \<Rightarrow> detail_event widget list result" where
  "detail_body fm origin name s =
     bind_result (if dt_editing s then detail_editor s else Inr (detail_info fm name s)) (\<lambda>middle.
       Inr (detail_header name s @ middle @ detail_containers fm name s @
            lift_view SecretsEv (SecretsSection (dt_secrets s)) @
            lift_view HooksEv (WebhooksSection fm origin name (live_containers name s) (dt_hooks s)) @
            lift_view FollowCard (ProjectResourceCards (dt_cards s))))"

text \<open>The dialog that is open, if any; the page behind a dialog is inert. When several are open the
  last one opened is on top; the order here is that of the page.\<close>

definition open_row_dialogs :: "string \<Rightarrow> detail_state \<Rightarrow> detail_event widget list" where
  "open_row_dialogs name s =
     concat (map (\<lambda>c. case row_confirm (row_of (con_id c) s) of
        None \<Rightarrow> []
      | Some k \<Rightarrow> lift_view (RowEv (con_id c)) (row_dialog name c k)) (live_containers name s))"

definition page_dialog :: "string \<Rightarrow> detail_state \<Rightarrow> detail_event widget list" where
  "page_dialog name s =
     (case dt_confirm s of
        None \<Rightarrow> []
      | Some StopProject \<Rightarrow>
          ConfirmDialog (''Stop '' @ name @ ''?'') (Some ''All containers in this project will be stopped.'')
            (Some ''Stop'') (PageConfirmed StopProject) PageCancelled
      | Some RestartProject \<Rightarrow>
          ConfirmDialog (''Restart '' @ name @ ''?'')
            (Some ''All containers will be restarted causing a brief interruption.'')
            (Some ''Restart'') (PageConfirmed RestartProject) PageCancelled
      | Some DeleteProject \<Rightarrow> lift_view DeleteEv (DeleteConfirmDialog name (dt_typed s)))"

definition detail_dialogs :: "string \<Rightarrow> detail_state \<Rightarrow> detail_event widget list" where
  "detail_dialogs name s =
     open_row_dialogs name s @
     (if dt_repullOpen s then lift_view RepullEv (RepullDialog (dt_deploy s) (dt_repull s)) else []) @
     page_dialog name s @
     (case dt_updates s of
        Some u \<Rightarrow> if dt_showUpdates s then lift_view UpdatesEv (UpdatesDialog name u) else []
      | None \<Rightarrow> []) @
     (if dt_showRedeploy s then
        ConfirmDialog ''Redeploy with new images?''
          (Some ''The compose file was saved with changed image references. Do you want to pull the new images and redeploy now?'')
          (Some ''Pull & redeploy'') RedeployConfirmed RedeployCancelled
      else [])"

definition ProjectDetail :: "formats \<Rightarrow> string \<Rightarrow> string \<Rightarrow> detail_state \<Rightarrow> detail_event widget list result" where
  "ProjectDetail fm origin name s =
     (if detail_dialogs name s \<noteq> [] then Inr (detail_dialogs name s) else detail_body fm origin name s)"

end
