(* ===== verification/Detail_Properties.thy ===== *)
theory Detail_Properties
  imports Project_Detail
begin

section \<open>What the project page guarantees, and where it goes wrong\<close>

subsection \<open>Deleting a project\<close>

text \<open>Only the delete dialog sets the pending deletion.\<close>

lemma builder_out_del: "dt_delPending (fst (detail_builder_out dump b p)) = dt_delPending (fst p)"
  by (cases b; cases p) (auto simp: detail_model_changed_def Let_def split: sum.split)

lemma builder_outs_del: "dt_delPending (fst (fold (detail_builder_out dump) os p)) = dt_delPending (fst p)"
  by (induction os arbitrary: p) (simp_all add: builder_out_del)

lemma edit_del: "dt_delPending (fst (detail_edit load dump e s)) = dt_delPending s"
proof (cases e)
  case (BuilderEv be)
  then show ?thesis
    by (auto simp: builder_outs_del split: option.split sum.split)
qed (auto split: sum.split)

lemma deploy_events_del: "dt_delPending (fst (deploy_events json name es s)) = dt_delPending s"
  by (simp add: deploy_events_def case_prod_beta)

lemma cancelEdit_frame:
  "dt_delPending (cancelEdit s) = dt_delPending s" "dt_confirm (cancelEdit s) = dt_confirm s"
  by (simp_all add: cancelEdit_def fill_editor_def Let_def split: option.split)

lemma mount_builder_frame:
  "dt_delPending (fst (detail_mount_builder s)) = dt_delPending s"
  "dt_editing (fst (detail_mount_builder s)) = dt_editing s"
  "dt_showRedeploy (fst (detail_mount_builder s)) = dt_showRedeploy s"
  by (auto simp: detail_mount_builder_def split: option.split prod.split)

lemma handle_del:
  assumes "dt_delPending (fst (detail_handle load dump json origin name e s))" and "\<not> dt_delPending s"
  shows "e = PageConfirmed DeleteProject \<or> e = DeleteEv DeleteConfirmed \<or>
         (\<exists>key. e = DeleteEv (ConfirmKey key) \<and> key = ''Enter'' \<and> dt_typed s = name)"
proof (cases e)
  case (DeleteEv de)
  then show ?thesis using assms by (cases de) (auto simp: confirm_delete_def split: if_splits)
next
  case (PageConfirmed k)
  then show ?thesis using assms by (cases k) auto
next
  case (PageActionDone k)
  then show ?thesis using assms by (cases k) auto
next
  case (PageActionFailed k msg)
  then show ?thesis using assms by (cases k) auto
next
  case (UpdatesEv u)
  then show ?thesis using assms by (cases u) auto
next
  case (EditEv ee)
  then show ?thesis using assms by (simp add: edit_del)
next
  case (ProjectsArrived ps)
  then show ?thesis using assms by (simp add: prune_rows_def Let_def)
next
  case (DetailArrived d)
  then show ?thesis using assms by (simp add: fill_editor_def split: if_splits)
next
  case (RepullEv re)
  then show ?thesis using assms
    by (auto simp: deploy_events_def case_prod_beta split: prod.splits if_splits)
qed (use assms in \<open>auto simp: deploy_events_def case_prod_beta cancelEdit_frame detail_handleSave_def detail_saved_def Let_def
       split: if_splits list.splits option.splits\<close>)

text \<open>Which of the page's dialogs raise the events of the delete dialog.\<close>

lemma delete_events:
  "view_events (DeleteConfirmDialog name val) =
     range TypeConfirm \<union> range ConfirmKey \<union> {DeleteCancelled} \<union> (if val = name then {DeleteConfirmed} else {})"
  by (auto simp: DeleteConfirmDialog_def)

lemma dialog_delete_events:
  assumes "e \<in> view_events (detail_dialogs name s)" and "e = PageConfirmed DeleteProject \<or> e = DeleteEv d"
  shows "e = DeleteEv d \<and> dt_confirm s = Some DeleteProject \<and> d \<in> view_events (DeleteConfirmDialog name (dt_typed s))"
  using assms
  by (auto simp: detail_dialogs_def open_row_dialogs_def page_dialog_def
      split: option.splits page_confirm.splits if_splits)

lemma body_delete_events:
  assumes "detail_body fm origin name s = Inr ws"
  shows "DeleteEv d \<notin> view_events ws" and "PageConfirmed k \<notin> view_events ws"
proof -
  obtain middle where m: "(if dt_editing s then detail_editor s else Inr (detail_info fm name s)) = Inr middle"
      "ws = detail_header name s @ middle @ detail_containers fm name s @
            lift_view SecretsEv (SecretsSection (dt_secrets s)) @
            lift_view HooksEv (WebhooksSection fm origin name (live_containers name s) (dt_hooks s)) @
            lift_view FollowCard (ProjectResourceCards (dt_cards s))"
    using assms by (auto simp: detail_body_def bind_result_eq_Inr)
  have "DeleteEv d \<notin> view_events middle \<and> PageConfirmed k \<notin> view_events middle"
    using m(1) by (auto simp: detail_editor_def detail_info_def Let_def bind_result_eq_Inr split: if_splits)
  moreover have "DeleteEv d \<notin> view_events (detail_header name s) \<and> PageConfirmed k \<notin> view_events (detail_header name s)"
    by (auto simp: detail_header_def Let_def split: option.split)
  moreover have "DeleteEv d \<notin> view_events (detail_containers fm name s) \<and> PageConfirmed k \<notin> view_events (detail_containers fm name s)"
    by (auto simp: detail_containers_def Let_def)
  ultimately show "DeleteEv d \<notin> view_events ws" "PageConfirmed k \<notin> view_events ws"
    unfolding m(2) by auto
qed

lemma detail_step_parts:
  "fst (detail_step load dump json origin name e s) = fst (detail_mount_builder (fst (detail_handle load dump json origin name e s)))"
  "snd (detail_step load dump json origin name e s) =
     snd (detail_handle load dump json origin name e s) @
     snd (detail_mount_builder (fst (detail_handle load dump json origin name e s)))"
  by (simp_all only: detail_step_def Let_def case_prod_beta fst_conv snd_conv)


definition sample_page_state :: detail_state where
  "sample_page_state = (detail_init [])\<lparr>dt_confirm := Some DeleteProject, dt_typed := ''shop''\<rparr>"


subsection \<open>Deployments\<close>

text \<open>A deployment that is started and cancelled, and started again, is lost from sight when the
  closing of the first socket is reported: the page says that nothing is being deployed (and offers to
  start once more) while the second deployment runs on its open socket.\<close>

theorem cancelled_socket_hides_deployment:
  assumes "dp_opened s = n"
  shows "\<not> dp_deploying (fst (deploy_run json [StartDeploy p a r, CancelDeploy, StartDeploy p b q, DeployClosed n] s))
       \<and> snd (deploy_run json [StartDeploy p a r, CancelDeploy, StartDeploy p b q, DeployClosed n] s) =
           [OpenDeploy (deploy_path p a r), CloseDeploy n, OpenDeploy (deploy_path p b q)]
       \<and> dp_ws (fst (deploy_run json [StartDeploy p a r, CancelDeploy, StartDeploy p b q, DeployClosed n] s)) = Some (Suc n)"
  using assms by (simp add: start_deploy_def)

theorem cancelled_socket_hides_deployment_witness:
  "\<not> dp_deploying (fst (deploy_run (\<lambda>_. None)
     [StartDeploy ''shop'' PullNew True, CancelDeploy, StartDeploy ''shop'' PullNew True, DeployClosed 0] deploy_init))"
  by (rule cancelled_socket_hides_deployment [THEN conjunct1]) (simp add: deploy_init_def)

text \<open>Cancelling the start of a project leaves the update dialog without a way out: from then on it
  only says that the project is being started and offers to close, until the project is started again or
  the page is left.\<close>

theorem cancelled_start_blocks_updates:
  "view_events (RepullDialog (fst (deploy_run json [StartDeploy p Deploy r, CancelDeploy] s)) x) = {CloseRepull}
   \<and> repull_step p CloseRepull x = (x, [], True)"
  by (auto simp: RepullDialog_def start_deploy_def show_logs_def Let_def)

subsection \<open>The offer to deploy new images\<close>

lemma extractImages_distinct: "distinct (extractImages y)"
  by (simp add: extractImages_def)

lemma images_changed_iff: "images_changed y z \<longleftrightarrow> set (extractImages y) \<noteq> set (extractImages z)"
proof
  assume "images_changed y z"
  then consider "length (extractImages z) \<noteq> length (extractImages y)"
    | "\<exists>i \<in> set (extractImages z). i \<notin> set (extractImages y)"
    by (auto simp: images_changed_def Let_def)
  then show "set (extractImages y) \<noteq> set (extractImages z)"
  proof cases
    case 1
    then show ?thesis
      using distinct_card [OF extractImages_distinct [of y]] distinct_card [OF extractImages_distinct [of z]] by auto
  qed auto
next
  assume diff: "set (extractImages y) \<noteq> set (extractImages z)"
  show "images_changed y z"
  proof (rule ccontr)
    assume "\<not> images_changed y z"
    then have "length (extractImages z) = length (extractImages y)" and sub: "set (extractImages z) \<subseteq> set (extractImages y)"
      by (auto simp: images_changed_def Let_def)
    then have "card (set (extractImages z)) = card (set (extractImages y))"
      by (simp add: distinct_card extractImages_distinct)
    then show False using card_subset_eq [OF _ sub] diff by simp
  qed
qed

text \<open>The part of the state the save works on, and the runs of the page.\<close>

abbreviation detail_next where
  "detail_next load dump json origin name e s \<equiv> fst (detail_step load dump json origin name e s)"

definition save_part :: "detail_state \<Rightarrow> bool \<times> api_call list \<times> bool \<times> bool" where
  "save_part s = (dt_saving s, dt_chain s, dt_offer s, dt_showRedeploy s)"

lemma save_part_mount: "save_part (fst (detail_mount_builder s)) = save_part s"
  by (auto simp: save_part_def detail_mount_builder_def split: option.split prod.split)

lemma answers_save_part:
  assumes "save_part s = (True, cs, b, r)"
  shows "save_part (fold (detail_next load dump json origin name) (replicate (Suc (length cs)) DetailCallDone) s) =
           (False, [], b, r \<or> b)"
  using assms
proof (induction cs arbitrary: s)
  case Nil
  then have "dt_saving s" "dt_chain s = []" "dt_offer s = b" "dt_showRedeploy s = r" by (simp_all add: save_part_def)
  then show ?case
    by (simp add: detail_step_parts save_part_mount) (simp add: detail_saved_def save_part_def)
next
  case (Cons c cs)
  then have "dt_saving s" "dt_chain s = c # cs" "dt_offer s = b" "dt_showRedeploy s = r" by (simp_all add: save_part_def)
  then have "save_part (detail_next load dump json origin name DetailCallDone s) = (True, cs, b, r)"
    by (simp add: detail_step_parts save_part_mount) (simp add: save_part_def)
  from Cons.IH [OF this] show ?case by simp
qed

text \<open>C21: When a save of the Compose file has gone through, deploying anew is offered exactly when the
  set of images the saved text refers to differs from that of the text loaded from the server and the
  project was running when \<open>Save\<close> was pressed; the comparison by number and one inclusion decides it.\<close>

theorem redeploy_offered_iff:
  assumes "\<not> dt_saving s" and "\<not> dt_showRedeploy s" and "js_trim (dt_compose s) \<noteq> []" and "dt_detail s = Some d"
  shows "dt_showRedeploy (fold (detail_next load dump json origin name)
            (SaveDetail # replicate (length (detail_calls name s)) DetailCallDone) s)
         \<longleftrightarrow> set (extractImages (pd_compose d)) \<noteq> set (extractImages (dt_compose s)) \<and> live_running name s"
proof -
  define t where "t = detail_next load dump json origin name SaveDetail s"
  define b where "b = (images_changed (pd_compose d) (dt_compose s) \<and> live_running name s)"
  have "save_part t = (True, tl (detail_calls name s), b, False)"
    unfolding t_def b_def
    using assms by (simp add: detail_step_parts save_part_mount) (simp add: detail_handleSave_def save_part_def)
  from answers_save_part [OF this, of load dump json origin name]
  have "save_part (fold (detail_next load dump json origin name)
      (replicate (length (detail_calls name s)) DetailCallDone) t) = (False, [], b, False \<or> b)"
    by (simp add: detail_calls_def)
  then show ?thesis by (simp add: save_part_def images_changed_iff t_def b_def)
qed

text \<open>Two texts whose images differ, and a running project.\<close>

lemma scan_images_steps:
  "image_match s = Some (l, r) \<Longrightarrow> scan_images True s = l # scan_images False r"
  "scan_images b [] = []"
  by (subst scan_images.simps, simp) (subst scan_images.simps, simp add: image_match_def js_trim_start_def js_terminators_def)

lemma sample_images: "extractImages ''  image: a'' = [''a'']" "extractImages ''x'' = []"
proof -
  have "image_match ''  image: a'' = Some (''a'', [])"
    by (simp add: image_match_def js_trim_start_blank js_trim_start_visible visible_def js_terminators_def)
  then have "scan_images True ''  image: a'' = [''a'']" by (simp add: scan_images_steps)
  then show "extractImages ''  image: a'' = [''a'']"
    by (simp add: extractImages_def js_trim_visible visible_def unquote_def is_quote_def)
  have "image_match ''x'' = None"
    by (simp add: image_match_def js_trim_start_visible visible_def)
  then have "scan_images True ''x'' = []"
    by (subst scan_images.simps) (simp add: js_terminators_def scan_images_steps)
  then show "extractImages ''x'' = []" by (simp add: extractImages_def)
qed

definition sample_detail :: project_detail where
  "sample_detail =
     \<lparr>pd_id = 1, pd_name = ''shop'', pd_description = [], pd_compose = ''  image: a'', pd_envVars = [],
      pd_createdBy = ''root'', pd_createdAt = [], pd_updatedAt = [], pd_files = [], pd_removeStaleImages = False\<rparr>"

definition sample_project :: project where
  "sample_project =
     \<lparr>prj_name = ''shop'', prj_dir = ''/srv/shop'', prj_status = ''running'', prj_containers = [],
      prj_description = [], prj_createdBy = ''root'', prj_createdAt = [], prj_updatedAt = []\<rparr>"

theorem redeploy_offered_iff_witness:
  "dt_showRedeploy (fold (detail_next (\<lambda>_. None) (\<lambda>_. []) (\<lambda>_. None) ''http://h'' ''shop'')
     [SaveDetail, DetailCallDone]
     ((detail_init [])\<lparr>dt_detail := Some sample_detail, dt_compose := ''x'', dt_projects := Loaded [sample_project]\<rparr>))"
proof -
  let ?s = "(detail_init [])\<lparr>dt_detail := Some sample_detail, dt_compose := ''x'', dt_projects := Loaded [sample_project]\<rparr>"
  have "detail_calls ''shop'' ?s = [hd (detail_calls ''shop'' ?s)]"
    by (simp add: detail_calls_def detail_init_def file_ops_def delete_ops_def changed_ops_def new_ops_def kept_files_def)
  then have "length (detail_calls ''shop'' ?s) = 1" by (metis length_Cons list.size(3) One_nat_def)
  moreover have "live_running ''shop'' ?s"
    by (simp add: live_running_def liveProject_def detail_init_def sample_project_def)
  moreover have "set (extractImages (pd_compose sample_detail)) \<noteq> set (extractImages (dt_compose ?s))"
    by (simp add: sample_detail_def sample_images)
  ultimately show ?thesis
    using redeploy_offered_iff [of ?s sample_detail "\<lambda>_. None" "\<lambda>_. []" "\<lambda>_. None" "''http://h''" "''shop''"]
    by (simp add: detail_init_def js_trim_visible visible_def del: fold_simps)
qed

subsection \<open>The secrets of a project\<close>



text \<open>Removing two secrets one after the other, before the list has been fetched again, brings the
  first one back: the second request is built from the same old list.\<close>

theorem removed_secret_returns:
  assumes "ss_secrets s = Loaded xs" and "a \<in> set xs" and "ps_secretId a = i" and "i \<noteq> j"
  shows "snd (secrets_step p (RemoveSecret i) s) =
           [Send (setProjectSecrets p (map secret_pair (filter (\<lambda>b. ps_secretId b \<noteq> i) xs)))]
       \<and> snd (secrets_step p (RemoveSecret j) (fst (secrets_step p (RemoveSecret i) s))) =
           [Send (setProjectSecrets p (map secret_pair (filter (\<lambda>b. ps_secretId b \<noteq> j) xs)))]
       \<and> secret_pair a \<in> set (map secret_pair (filter (\<lambda>b. ps_secretId b \<noteq> j) xs))"
  using assms by (auto simp: handleRemove_def assigned_def)

definition two_secrets :: "project_secret list" where
  "two_secrets =
     [\<lparr>ps_secretId = 1, ps_secretName = ''a'', ps_envVarName = ''A''\<rparr>,
      \<lparr>ps_secretId = 2, ps_secretName = ''b'', ps_envVarName = ''B''\<rparr>]"

theorem removed_secret_returns_witness:
  "snd (secrets_step ''shop'' (RemoveSecret 2) (fst (secrets_step ''shop'' (RemoveSecret 1)
     (secrets_init\<lparr>ss_secrets := Loaded two_secrets\<rparr>)))) = [Send (setProjectSecrets ''shop'' [(1, ''A'')])]"
  using removed_secret_returns [of "secrets_init\<lparr>ss_secrets := Loaded two_secrets\<rparr>" two_secrets "hd two_secrets" 1 2 "''shop''"]
  by (simp add: secrets_init_def secret_pair_def two_secrets_def)

end
