(* ===== verification/App_Shell.thy ===== *)
theory App_Shell
  imports Auth_Store Page_Common
begin

section \<open>The frame of the client: \<open>App.tsx\<close>, \<open>Login.tsx\<close>, \<open>Setup.tsx\<close>, \<open>AppLayout.tsx\<close>\<close>

text \<open>
  The routes and the two guards around them, the form that signs in, and the frame with the menu. Which
  route a path belongs to is decided by the library react-router; here it is the argument \<open>pick\<close>, of
  which the code relies on one documented thing: a path that is itself a pattern without parameters is
  that pattern's route.
\<close>

subsection \<open>Routes\<close>

datatype app_page =
    DashboardPage | ProjectsPage | ProjectEditorPage | ProjectDetailPage | ProjectLogsPage | SystemPage | LogsPage | FilesPage
  | AuditLogsPage | UsersPage | RolesPage | ContainerFilesPage | ContainerShellPage | ContainerDetailPage | NetworksPage | NetworkDetailPage
  | VolumesPage | VolumeDetailPage | ImagesPage | RegistriesPage | SecretsPage | ContainersPage | EventsPage | NotificationsPage | BackupPage
  | CronJobsPage | SettingsPage

text \<open>The elements of the route table: two pages outside the frame, the pages inside it, the index and the
  route for everything else.\<close>

datatype app_route = SetupRoute | LoginRoute | IndexRoute | PageRoute app_page | AnyRoute

definition page_routes :: "(string \<times> app_page) list" where
  "page_routes =
     [(''dashboard'', DashboardPage), (''projects'', ProjectsPage), (''projects/new'', ProjectEditorPage),
      (''projects/:name'', ProjectDetailPage), (''projects/:name/logs'', ProjectLogsPage), (''system'', SystemPage),
      (''logs'', LogsPage), (''files'', FilesPage), (''audit'', AuditLogsPage), (''users'', UsersPage), (''roles'', RolesPage),
      (''projects/:name/containers/:id/files'', ContainerFilesPage),
      (''projects/:name/containers/:id/shell'', ContainerShellPage),
      (''projects/:name/containers/:id'', ContainerDetailPage), (''networks'', NetworksPage),
      (''networks/:networkID'', NetworkDetailPage), (''volumes'', VolumesPage), (''volumes/:vol'', VolumeDetailPage),
      (''images'', ImagesPage), (''registries'', RegistriesPage), (''secrets'', SecretsPage), (''containers'', ContainersPage),
      (''events'', EventsPage), (''notifications'', NotificationsPage), (''backup'', BackupPage), (''cron'', CronJobsPage),
      (''settings'', SettingsPage)]"

definition app_routes :: "(string \<times> app_route) list" where
  "app_routes =
     (''/setup'', SetupRoute) # (''/login'', LoginRoute) # (''/'', IndexRoute) #
     map (\<lambda>(p, page). (CHR ''/'' # p, PageRoute page)) page_routes @ [(''*'', AnyRoute)]"

text \<open>What is on the screen; \<open>Navigate\<close> replaces the path.\<close>

datatype screen = Connecting_Screen | Empty_Screen | Navigate string | Setup_Screen | Login_Screen | Page_Screen app_page

definition AuthGuard :: "auth_view \<Rightarrow> screen \<Rightarrow> screen" where
  "AuthGuard v children =
     (if av_isLoading v then Connecting_Screen
      else if \<not> av_isAuthenticated v then Navigate ''/login'' else children)"

definition LoginGuard :: "auth_view \<Rightarrow> screen \<Rightarrow> screen" where
  "LoginGuard v children =
     (if av_isLoading v then Empty_Screen
      else if av_isAuthenticated v then Navigate ''/dashboard'' else children)"

fun App :: "auth_view \<Rightarrow> app_route \<Rightarrow> screen" where
  "App v SetupRoute = Setup_Screen"
| "App v LoginRoute = LoginGuard v Login_Screen"
| "App v IndexRoute = AuthGuard v (Navigate ''/dashboard'')"
| "App v (PageRoute page) = AuthGuard v (Page_Screen page)"
| "App v AnyRoute = Navigate ''/dashboard''"

text \<open>The screens in the order they come, until one does not redirect.\<close>

fun visit :: "(string \<Rightarrow> app_route) \<Rightarrow> auth_view \<Rightarrow> nat \<Rightarrow> string \<Rightarrow> screen" where
  "visit pick v 0 path = App v (pick path)"
| "visit pick v (Suc n) path =
     (case App v (pick path) of Navigate target \<Rightarrow> visit pick v n target | scr \<Rightarrow> scr)"

definition static_pattern :: "string \<Rightarrow> bool" where
  "static_pattern p = (CHR '':'' \<notin> set p \<and> CHR ''*'' \<notin> set p)"

definition picks_static :: "(string \<Rightarrow> app_route) \<Rightarrow> bool" where
  "picks_static pick = list_all (\<lambda>(p, r). static_pattern p \<longrightarrow> pick p = r) app_routes"

lemma picks_staticD:
  "picks_static pick \<Longrightarrow> (p, r) \<in> set app_routes \<Longrightarrow> static_pattern p \<Longrightarrow> pick p = r"
  by (auto simp: picks_static_def list_all_iff)

text \<open>A router that knows the fixed paths only.\<close>

definition exact_router :: "string \<Rightarrow> app_route" where
  "exact_router path = (case map_of app_routes path of Some r \<Rightarrow> r | None \<Rightarrow> AnyRoute)"

lemma exact_router_static: "picks_static exact_router"
proof -
  have "distinct (map fst app_routes)" by (simp add: app_routes_def page_routes_def)
  then show ?thesis by (auto simp: picks_static_def list_all_iff exact_router_def)
qed

subsection \<open>\<open>retry\<close> of the queries\<close>

text \<open>How often a failed query is tried again: once, and never on a 401.\<close>

definition query_retry :: "nat \<Rightarrow> int option \<Rightarrow> bool" where
  "query_retry count status = (if status = Some 401 then False else count < 1)"

subsection \<open>\<open>Login\<close>\<close>

text \<open>
  The form is kept by react-hook-form: it checks the schema (both fields at least one character long) when
  the form is submitted, and after that at each change of a field; \<open>onSubmit\<close> runs when nothing is wrong.
\<close>

record login_state =
  lg_username :: string
  lg_password :: string
  lg_errors :: "string option \<times> string option"
  lg_submitted :: bool
  lg_isSubmitting :: bool

definition login_init :: login_state where
  "login_init = \<lparr>lg_username = [], lg_password = [], lg_errors = (None, None), lg_submitted = False, lg_isSubmitting = False\<rparr>"

datatype login_event = TypeUsername string | TypePassword string | SubmitLogin | LoginAnswered bool | MeRefetched

definition required :: "string \<Rightarrow> string option" where
  "required s = (if length s < 1 then Some ''Required'' else None)"

fun login_step :: "login_event \<Rightarrow> login_state \<Rightarrow> login_state \<times> client_out list" where
  "login_step (TypeUsername u) s =
     (s\<lparr>lg_username := u,
        lg_errors := (if lg_submitted s then required u else fst (lg_errors s), snd (lg_errors s))\<rparr>, [])"
| "login_step (TypePassword p) s =
     (s\<lparr>lg_password := p,
        lg_errors := (fst (lg_errors s), if lg_submitted s then required p else snd (lg_errors s))\<rparr>, [])"
| "login_step SubmitLogin s =
     (let errs = (required (lg_username s), required (lg_password s)) in
      if errs = (None, None)
      then (s\<lparr>lg_errors := errs, lg_submitted := True, lg_isSubmitting := True\<rparr>,
            [Send (login (lg_username s) (lg_password s))])
      else (s\<lparr>lg_errors := errs, lg_submitted := True\<rparr>, []))"
| "login_step (LoginAnswered ok) s =
     (if ok then (s, [Refetch [''me'']])
      else (s\<lparr>lg_isSubmitting := False\<rparr>, [ToastErr ''Invalid credentials'']))"
| "login_step MeRefetched s = (s\<lparr>lg_isSubmitting := False\<rparr>, [])"

definition error_line :: "string option \<Rightarrow> 'e widget list" where
  "error_line e = (case e of Some m \<Rightarrow> [Label m] | None \<Rightarrow> [])"

definition Login :: "login_state \<Rightarrow> login_event widget list" where
  "Login s =
     [Label ''VPS Pilot'', Label ''Sign in to your server'', Input ''admin'' (lg_username s) TypeUsername] @
     error_line (fst (lg_errors s)) @
     [Input ''password'' (lg_password s) TypePassword] @
     error_line (snd (lg_errors s)) @
     [Button ''Sign in'' (lg_isSubmitting s) SubmitLogin]"

definition Setup :: "'e widget list" where
  "Setup =
     [Label ''VPS Pilot'', Label ''Server not configured'',
      Label ''No admin account exists yet. Run the setup wizard on the server to create one:'',
      Label ''sudo vps-pilot install'', Label ''or, on an existing install:'', Label ''vps-pilot adduser <username>'',
      Label ''After creating the admin account, refresh this page.'']"

subsection \<open>\<open>AppLayout\<close>\<close>

record nav_item =
  nav_to :: string
  nav_label :: string
  nav_permission :: "string option"
  nav_adminOnly :: bool
  nav_children :: "(string \<times> string) list option"

definition nav :: "string \<Rightarrow> string \<Rightarrow> string option \<Rightarrow> nav_item" where
  "nav to label perm =
     \<lparr>nav_to = to, nav_label = label, nav_permission = perm, nav_adminOnly = False, nav_children = None\<rparr>"

definition admin_nav :: "string \<Rightarrow> string \<Rightarrow> nav_item" where
  "admin_nav to label = (nav to label None)\<lparr>nav_adminOnly := True\<rparr>"

definition navItems :: "nav_item list" where
  "navItems =
     [nav ''/dashboard'' ''Dashboard'' (Some ''view_dashboard''),
      (nav ''/projects'' ''Projects'' None)
        \<lparr>nav_children := Some [(''/volumes'', ''Volumes''), (''/networks'', ''Networks''), (''/images'', ''Images'')]\<rparr>,
      nav ''/system'' ''System'' (Some ''view_system''),
      nav ''/logs'' ''Logs'' (Some ''view_logs''),
      nav ''/files'' ''Files'' (Some ''view_files''),
      nav ''/audit'' ''Audit Logs'' (Some ''view_audit''),
      admin_nav ''/containers'' ''Containers'',
      nav ''/events'' ''Events'' (Some ''view_events''),
      nav ''/cron'' ''Cron Jobs'' (Some ''view_cron''),
      nav ''/notifications'' ''Notifications'' (Some ''view_notifications''),
      nav ''/secrets'' ''Secrets'' (Some ''view_secrets''),
      nav ''/registries'' ''Registries'' (Some ''view_registries''),
      nav ''/backup'' ''Backup'' (Some ''manage_backups''),
      admin_nav ''/users'' ''Users'',
      admin_nav ''/roles'' ''Roles'',
      admin_nav ''/settings'' ''Settings'']"

definition nav_visible :: "auth_store \<Rightarrow> nav_item \<Rightarrow> bool" where
  "nav_visible s item =
     (if nav_adminOnly item then au_isAdmin s
      else case nonempty (nav_permission item) of Some p \<Rightarrow> hasPermission s p | None \<Rightarrow> True)"

definition visibleItems :: "auth_store \<Rightarrow> nav_item list" where
  "visibleItems s = filter (nav_visible s) navItems"

datatype layout_event =
    FollowNav string
  | FollowRelease
  | LogoutClicked
  | LogoutAnswered bool
  | UpdateArrived "update_info option"

fun layout_step :: "layout_event \<Rightarrow> auth_store \<Rightarrow> auth_store \<times> client_out list" where
  "layout_step (FollowNav to) s = (s, [GoTo to])"
| "layout_step FollowRelease s = (s, [OpenUrl (au_releaseURL s)])"
| "layout_step LogoutClicked s = (s, [Send logout])"
| "layout_step (LogoutAnswered ok) s =
     (s, if ok then [ClearQueries, GoTo ''/login''] else [ToastErr ''Logout failed''])"
| "layout_step (UpdateArrived info) s = (setUpdateInfo info s, [])"

text \<open>A heading stands before an entry for administrators that does not follow another one.\<close>

definition nav_entry :: "bool \<Rightarrow> nav_item \<Rightarrow> layout_event widget list" where
  "nav_entry prevAdminOnly item =
     (if nav_adminOnly item \<and> \<not> prevAdminOnly then [Label ''Administration''] else []) @
     Button (nav_label item) False (FollowNav (nav_to item)) #
     (case nav_children item of
        Some cs \<Rightarrow> map (\<lambda>(to, label). Button label False (FollowNav to)) cs
      | None \<Rightarrow> [])"

fun nav_list :: "bool \<Rightarrow> nav_item list \<Rightarrow> layout_event widget list" where
  "nav_list prev [] = []"
| "nav_list prev (item # items) = nav_entry prev item @ nav_list (nav_adminOnly item) items"

definition AppLayout :: "auth_store \<Rightarrow> layout_event widget list" where
  "AppLayout s =
     Label ''VPS Pilot'' # nav_list False (visibleItems s) @
     (if au_hasUpdate s then [Button (''Update available: '' @ au_latestVersion s) False FollowRelease] else []) @
     [Label (case nonempty (au_username s) of Some u \<Rightarrow> [hd u] | None \<Rightarrow> ''?''),
      Label (case au_username s of Some u \<Rightarrow> u | None \<Rightarrow> []),
      Button ''Sign out'' False LogoutClicked]"

definition nav_targets :: "nav_item \<Rightarrow> string set" where
  "nav_targets item = insert (nav_to item) (fst ` set (list_of_opt (nav_children item)))"

lemma nav_entry_events: "view_events (nav_entry prev item) = FollowNav ` nav_targets item"
  by (force simp: nav_entry_def nav_targets_def list_of_opt_def view_events_map split: option.split)

lemma nav_list_events: "view_events (nav_list prev items) = FollowNav ` (\<Union>i \<in> set items. nav_targets i)"
  by (induction items arbitrary: prev) (simp_all add: nav_entry_events image_Un)

lemma layout_links: "FollowNav to \<in> view_events (AppLayout s) \<longleftrightarrow> (\<exists>i \<in> set (visibleItems s). to \<in> nav_targets i)"
  by (auto simp: AppLayout_def nav_list_events split: option.split)

subsection \<open>What the pages ask for when they open\<close>

text \<open>The requests of the queries each page of the menu has at its mount.\<close>

definition audit_page_call :: "nat \<Rightarrow> api_call" where
  "audit_page_call offset = api_get (''/api/audit?limit=50&offset='' @ nat_str offset)"

fun entry_calls :: "app_page \<Rightarrow> api_call list" where
  "entry_calls DashboardPage = [api_get ''/api/system/info'']"
| "entry_calls ProjectsPage = [listProjects]"
| "entry_calls SystemPage =
     [api_get ''/api/metrics'', api_get ''/api/system/info'', api_get ''/api/metrics/history?range=1h'']"
| "entry_calls FilesPage = [listFiles ''/'']"
| "entry_calls AuditLogsPage = [audit_page_call 0]"
| "entry_calls ContainersPage = [listContainers True]"
| "entry_calls CronJobsPage = [listCronUsers]"
| "entry_calls NotificationsPage = [listChannels]"
| "entry_calls SecretsPage = [listSecrets]"
| "entry_calls RegistriesPage = [listRegistries]"
| "entry_calls UsersPage = [getUsers]"
| "entry_calls RolesPage = [getRoles]"
| "entry_calls SettingsPage = [getVersion, getUpdateStatus, getConfig]"
| "entry_calls NetworksPage = [listAllNetworks]"
| "entry_calls VolumesPage = [listAllVolumes]"
| "entry_calls ImagesPage = [listAllImages]"
| "entry_calls _ = []"

end
