(* ===== verification/App_Properties.thy ===== *)
theory App_Properties
  imports App_Shell Server_Routes
begin

section \<open>What the frame of the client guarantees\<close>

subsection \<open>Redirections\<close>

text \<open>C24: Once it is known whether somebody is signed in, every path leads to a screen that is no
  redirection within two steps: without a session that is the form that signs in or the page on the
  setup, with a session never the form, and a page of the frame is shown only with a session.\<close>

theorem navigation_settles:
  assumes "picks_static pick" and "\<not> av_isLoading v"
  shows "\<exists>n \<le> 2. case visit pick v n path of
           Setup_Screen \<Rightarrow> pick path = SetupRoute
         | Login_Screen \<Rightarrow> \<not> av_isAuthenticated v
         | Page_Screen page \<Rightarrow> av_isAuthenticated v \<and> (pick path = PageRoute page \<or> page = DashboardPage)
         | _ \<Rightarrow> False"
proof -
  have fixed: "pick ''/login'' = LoginRoute" "pick ''/dashboard'' = PageRoute DashboardPage"
    by (rule picks_staticD [OF assms(1)]; simp add: app_routes_def page_routes_def static_pattern_def)+
  have "visit pick v 2 path =
      (case pick path of
         SetupRoute \<Rightarrow> Setup_Screen
       | PageRoute page \<Rightarrow> if av_isAuthenticated v then Page_Screen page else Login_Screen
       | _ \<Rightarrow> if av_isAuthenticated v then Page_Screen DashboardPage else Login_Screen)"
    using assms(2) fixed by (auto simp: numeral_2_eq_2 AuthGuard_def LoginGuard_def split: app_route.split)
  then show ?thesis by (intro exI [of _ 2]) (auto split: app_route.split)
qed

theorem navigation_settles_witness:
  "\<exists>n \<le> 2. case visit exact_router \<lparr>av_username = None, av_isLoading = False, av_isAuthenticated = False\<rparr> n ''/files'' of
       Login_Screen \<Rightarrow> True | _ \<Rightarrow> False"
proof -
  let ?v = "\<lparr>av_username = None, av_isLoading = False, av_isAuthenticated = False\<rparr>"
  have pick: "exact_router ''/files'' = PageRoute FilesPage"
    by (rule picks_staticD [OF exact_router_static]) (simp_all add: app_routes_def page_routes_def static_pattern_def)
  show ?thesis
    using navigation_settles [OF exact_router_static, of ?v "''/files''"] pick
    by (auto split: screen.splits)
qed

subsection \<open>The menu and the rights on the server\<close>

text \<open>What a route asks of the caller, as far as it does not depend on a project.\<close>

fun grants :: "auth_store \<Rightarrow> access \<Rightarrow> bool" where
  "grants s (Global right) = hasPermission s right"
| "grants s Admin = au_isAdmin s"
| "grants s (OnProject right) = au_isAdmin s"
| "grants s _ = True"

text \<open>The places of the table a call meets; it is allowed when there is one and all of them let the caller
  through (where a fixed path also meets a pattern with a parameter, both ask for the same).\<close>

definition accesses :: "api_call \<Rightarrow> access list" where
  "accesses c = map route_access (filter (served_by c) api_routes)"

definition allowed :: "auth_store \<Rightarrow> api_call \<Rightarrow> bool" where
  "allowed s c = (accesses c \<noteq> [] \<and> list_all (grants s) (accesses c))"

text \<open>For evaluation: the table is run through once for all calls, each path split once.\<close>

fun table_accesses :: "(string \<times> string list) list \<Rightarrow> route list \<Rightarrow> access list list" where
  "table_accesses qs [] = map (\<lambda>_. []) qs"
| "table_accesses qs (r # rs) =
     map2 (\<lambda>(m, ps) as. if route_method r = m \<and> matches_pattern (route_pattern r) ps then route_access r # as else as)
       qs (table_accesses qs rs)"

lemma map2_map_self: "map2 f (map g xs) (map h xs) = map (\<lambda>x. f (g x) (h x)) xs"
  by (induction xs) simp_all

lemma accesses_table:
  "map accesses cs = table_accesses (map (\<lambda>c. (call_method c, path_segments (call_path c))) cs) api_routes"
proof -
  have "map (\<lambda>c. map route_access (filter (served_by c) rs)) cs =
      table_accesses (map (\<lambda>c. (call_method c, path_segments (call_path c))) cs) rs" for rs
  proof (induction rs)
    case (Cons r rs)
    show ?case
      unfolding table_accesses.simps Cons.IH [symmetric] map2_map_self by (rule map_cong) (simp_all add: served_by_def [of _ r])
  qed simp
  then show ?thesis unfolding accesses_def [abs_def] .
qed

definition menu_pages :: "app_page list" where
  "menu_pages =
     [DashboardPage, ProjectsPage, SystemPage, FilesPage, AuditLogsPage, ContainersPage, CronJobsPage, NotificationsPage,
      SecretsPage, RegistriesPage, UsersPage, RolesPage, SettingsPage, NetworksPage, VolumesPage, ImagesPage]"

lemma menu_page_accesses:
  "table_accesses (map (\<lambda>c. (call_method c, path_segments (call_path c))) (concat (map entry_calls menu_pages))) api_routes =
    [[Global ''view_dashboard''], [SignedIn], [Global ''view_dashboard''], [Global ''view_dashboard''], [Global ''view_dashboard''],
     [Global ''view_files''], [Global ''view_audit''], [Admin], [Global ''view_cron'', Global ''view_cron''],
     [Global ''view_notifications''], [Global ''view_secrets''], [Global ''view_registries''], [Admin], [Admin],
     [SignedIn], [SignedIn], [Admin], [Admin], [Admin], [Admin]]"
  by code_simp

lemma page_accesses:
  "map accesses (entry_calls DashboardPage) = [[Global ''view_dashboard'']]"
  "map accesses (entry_calls ProjectsPage) = [[SignedIn]]"
  "map accesses (entry_calls SystemPage) = [[Global ''view_dashboard''], [Global ''view_dashboard''], [Global ''view_dashboard'']]"
  "map accesses (entry_calls FilesPage) = [[Global ''view_files'']]"
  "map accesses (entry_calls AuditLogsPage) = [[Global ''view_audit'']]"
  "map accesses (entry_calls ContainersPage) = [[Admin]]"
  "map accesses (entry_calls CronJobsPage) = [[Global ''view_cron'', Global ''view_cron'']]"
  "map accesses (entry_calls NotificationsPage) = [[Global ''view_notifications'']]"
  "map accesses (entry_calls SecretsPage) = [[Global ''view_secrets'']]"
  "map accesses (entry_calls RegistriesPage) = [[Global ''view_registries'']]"
  "map accesses (entry_calls UsersPage) = [[Admin]]"
  "map accesses (entry_calls RolesPage) = [[Admin]]"
  "map accesses (entry_calls SettingsPage) = [[SignedIn], [SignedIn], [Admin]]"
  "map accesses (entry_calls NetworksPage) = [[Admin]]"
  "map accesses (entry_calls VolumesPage) = [[Admin]]"
  "map accesses (entry_calls ImagesPage) = [[Admin]]"
  "map accesses (entry_calls LogsPage) = []" "map accesses (entry_calls EventsPage) = []"
  "map accesses (entry_calls BackupPage) = []"
  using menu_page_accesses [folded accesses_table] by (simp_all add: menu_pages_def)

lemma calls_allowed:
  assumes "map accesses cs = as"
  shows "list_all (allowed s) cs = list_all (\<lambda>a. a \<noteq> [] \<and> list_all (grants s) a) as"
    and "list_all (\<lambda>c. \<not> allowed s c) cs = list_all (\<lambda>a. \<not> (a \<noteq> [] \<and> list_all (grants s) a)) as"
  unfolding assms [symmetric] by (simp_all add: list_all_iff allowed_def)

lemmas page_allowed = page_accesses [THEN calls_allowed(1)]
lemmas page_refused = page_accesses [THEN calls_allowed(2)]

text \<open>The pages the menu leads to.\<close>

lemma menu_routes:
  "(''/dashboard'', PageRoute DashboardPage) \<in> set app_routes" "(''/projects'', PageRoute ProjectsPage) \<in> set app_routes"
  "(''/volumes'', PageRoute VolumesPage) \<in> set app_routes" "(''/networks'', PageRoute NetworksPage) \<in> set app_routes"
  "(''/images'', PageRoute ImagesPage) \<in> set app_routes" "(''/system'', PageRoute SystemPage) \<in> set app_routes"
  "(''/logs'', PageRoute LogsPage) \<in> set app_routes" "(''/files'', PageRoute FilesPage) \<in> set app_routes"
  "(''/audit'', PageRoute AuditLogsPage) \<in> set app_routes" "(''/containers'', PageRoute ContainersPage) \<in> set app_routes"
  "(''/events'', PageRoute EventsPage) \<in> set app_routes" "(''/cron'', PageRoute CronJobsPage) \<in> set app_routes"
  "(''/notifications'', PageRoute NotificationsPage) \<in> set app_routes" "(''/secrets'', PageRoute SecretsPage) \<in> set app_routes"
  "(''/registries'', PageRoute RegistriesPage) \<in> set app_routes" "(''/backup'', PageRoute BackupPage) \<in> set app_routes"
  "(''/users'', PageRoute UsersPage) \<in> set app_routes" "(''/roles'', PageRoute RolesPage) \<in> set app_routes"
  "(''/settings'', PageRoute SettingsPage) \<in> set app_routes"
  by (simp_all add: app_routes_def page_routes_def)

text \<open>The entries of the menu, each with its condition.\<close>

text \<open>The check of one link: it is the path of a page, and the entry's own condition implies what the
  server asks for the page's requests. It is a computation on the two tables.\<close>

definition implied :: "nav_item \<Rightarrow> access \<Rightarrow> bool" where
  "implied item a =
     (nav_adminOnly item \<or>
      (case a of Global right \<Rightarrow> nav_permission item = Some right \<and> right \<noteq> [] | Admin \<Rightarrow> False | OnProject _ \<Rightarrow> False | _ \<Rightarrow> True))"

lemma implied_grants: "implied item a \<Longrightarrow> nav_visible s item \<Longrightarrow> grants s a"
  by (cases a) (auto simp: implied_def nav_visible_def hasPermission_def split: if_splits)

definition unfit_pages :: "app_page list" where
  "unfit_pages = [SystemPage, VolumesPage, NetworksPage, ImagesPage]"

fun route_fits :: "nav_item \<Rightarrow> app_route \<Rightarrow> bool" where
  "route_fits item (PageRoute page) =
     (page \<in> set unfit_pages \<or> list_all (\<lambda>as. as \<noteq> [] \<and> list_all (implied item) as) (map accesses (entry_calls page)))"
| "route_fits item _ = False"

definition link_fits :: "nav_item \<Rightarrow> string \<Rightarrow> bool" where
  "link_fits item to = list_ex (\<lambda>(p, r). p = to \<and> route_fits item r) app_routes"

lemma link_fitsI: "(to, PageRoute page) \<in> set app_routes \<Longrightarrow> route_fits item (PageRoute page) \<Longrightarrow> link_fits item to"
  by (auto simp: link_fits_def list_ex_iff simp del: route_fits.simps intro!: bexI [of _ "(to, PageRoute page)"])

lemma menu_fits:
  "list_all (\<lambda>item. list_all (link_fits item) (nav_to item # map fst (list_of_opt (nav_children item)))) navItems"
  unfolding navItems_def nav_def admin_nav_def list_of_opt_def
  by (simp; intro conjI; rule menu_routes [THEN link_fitsI];
      simp add: page_accesses implied_def unfit_pages_def del: entry_calls.simps)

lemma offered: "item \<in> set navItems \<Longrightarrow> nav_visible s item \<Longrightarrow> to \<in> nav_targets item \<Longrightarrow> FollowNav to \<in> view_events (AppLayout s)"
  by (auto simp: layout_links visibleItems_def)



text \<open>Those four are offered to users whose requests are refused: volumes, networks and images to
  everybody, while the server answers administrators only; the system page by \<open>view_system\<close>, a right no
  route of the server asks for, while its requests need \<open>view_dashboard\<close>.\<close>

theorem menu_offers_refused:
  assumes "\<not> au_isAdmin s" and "''view_system'' \<in> set (au_permissions s)" and "''view_dashboard'' \<notin> set (au_permissions s)"
  shows "\<forall>(to, page) \<in> {(''/volumes'', VolumesPage), (''/networks'', NetworksPage), (''/images'', ImagesPage), (''/system'', SystemPage)}.
           FollowNav to \<in> view_events (AppLayout s) \<and> (to, PageRoute page) \<in> set app_routes
           \<and> list_all (\<lambda>c. \<not> allowed s c) (entry_calls page)"
proof -
  have items: "navItems ! 1 \<in> set navItems" "navItems ! 2 \<in> set navItems"
    by (rule nth_mem, simp add: navItems_def)+
  have shown: "nav_visible s (navItems ! 1)" "nav_visible s (navItems ! 2)"
    using assms(2) by (simp_all add: navItems_def nav_def nav_visible_def hasPermission_def)
  have "nav_targets (navItems ! 1) = {''/projects'', ''/volumes'', ''/networks'', ''/images''}"
    "nav_targets (navItems ! 2) = {''/system''}"
    by (auto simp: navItems_def nav_def nav_targets_def list_of_opt_def)
  with offered [OF items(1) shown(1)] offered [OF items(2) shown(2)] show ?thesis
    using assms(1,3) by (simp add: menu_routes page_refused hasPermission_def del: entry_calls.simps)
qed

theorem menu_offers_refused_witness:
  "FollowNav ''/system'' \<in> view_events (AppLayout (auth_init\<lparr>au_permissions := [''view_system'']\<rparr>))"
  using menu_offers_refused [of "auth_init\<lparr>au_permissions := [''view_system'']\<rparr>"] by (simp add: auth_init_def)

end
