(* ===== verification/Access_Form.thy ===== *)
theory Access_Form
  imports Docker_Types
begin

section \<open>Choosing roles and rights: the forms of \<open>pages/Users.tsx\<close> and \<open>pages/Roles.tsx\<close>\<close>

text \<open>
  A draft of a permission is a project (or \<open>*\<close> for all) with a list of actions. \<open>PermissionBuilder\<close> edits a
  list of drafts; each draft's project is chosen in a \<open>ProjectSelect\<close>, which keeps the text typed so far
  and whether its list is open. The page of roles has the same editor inside \<open>RoleEditor\<close>.
\<close>

subsection \<open>Data\<close>

record permission =
  perm_id :: nat
  perm_roleId :: nat
  perm_projectName :: string
  perm_actions :: "string list"

record role =
  role_id :: nat
  role_name :: string
  role_description :: string
  role_isSystem :: bool
  role_createdAt :: string
  role_permissions :: "permission list"

definition PROJECT_ACTIONS :: "string list" where
  "PROJECT_ACTIONS = [''view'', ''start'', ''stop'', ''restart'', ''deploy'', ''logs'', ''files'', ''manage'']"

definition GLOBAL_ACTIONS :: "string list" where
  "GLOBAL_ACTIONS =
     [''view_dashboard'', ''view_system'', ''view_logs'', ''view_files'', ''edit_files'', ''view_audit'', ''view_cron'',
      ''manage_cron'', ''view_notifications'', ''manage_notifications'', ''view_secrets'', ''manage_secrets'',
      ''view_registries'', ''manage_registries'', ''manage_backups'', ''manage_updates'', ''view_events'']"

record draft =
  dr_project :: string
  dr_actions :: "string list"

definition permission_draft :: "permission \<Rightarrow> draft" where
  "permission_draft p = \<lparr>dr_project = perm_projectName p, dr_actions = perm_actions p\<rparr>"

definition draft_js :: "draft \<Rightarrow> js" where
  "draft_js d = JObj [(''projectName'', JStr (dr_project d)), (''actions'', JArr (map JStr (dr_actions d)))]"

text \<open>\<open>xs.includes(x) ? xs.filter((y) => y !== x) : [...xs, x]\<close>, for an action and for the id of a role.\<close>

definition toggle_in :: "'a \<Rightarrow> 'a list \<Rightarrow> 'a list" where
  "toggle_in x xs = (if x \<in> set xs then filter (\<lambda>y. y \<noteq> x) xs else xs @ [x])"

definition perm_add :: "draft list \<Rightarrow> draft list" where
  "perm_add ds = ds @ [\<lparr>dr_project = ''*'', dr_actions = []\<rparr>]"

definition perm_remove :: "nat \<Rightarrow> draft list \<Rightarrow> draft list" where
  "perm_remove idx ds = remove_at idx ds"

definition perm_updateProject :: "nat \<Rightarrow> string \<Rightarrow> draft list \<Rightarrow> draft list" where
  "perm_updateProject idx p ds = map_at idx (\<lambda>d. d\<lparr>dr_project := p\<rparr>) ds"

definition perm_toggleAction :: "nat \<Rightarrow> string \<Rightarrow> draft list \<Rightarrow> draft list" where
  "perm_toggleAction idx action ds = map_at idx (\<lambda>d. d\<lparr>dr_actions := toggle_in action (dr_actions d)\<rparr>) ds"

subsection \<open>\<open>ProjectSelect\<close>\<close>

record select_state =
  sel_query :: string
  sel_open :: bool

definition select_mount :: "draft \<Rightarrow> select_state" where
  "select_mount d = \<lparr>sel_query = dr_project d, sel_open = False\<rparr>"

text \<open>
  The fields are told apart by their index. After the drafts have changed, the field at an index that was
  there before keeps its state, unless its value is another one (the effect on \<open>value\<close>); a new index gets
  a new field, and the last ones go with a removed draft.
\<close>

fun sync_selects :: "draft list \<Rightarrow> draft list \<Rightarrow> select_state list \<Rightarrow> select_state list" where
  "sync_selects (old # olds) (new # news) (s # ss) =
     (if dr_project new \<noteq> dr_project old then s\<lparr>sel_query := dr_project new\<rparr> else s) # sync_selects olds news ss"
| "sync_selects olds news ss = map select_mount news"

definition select_options :: "string list \<Rightarrow> string \<Rightarrow> string list" where
  "select_options projects query =
     filter (\<lambda>p. p = ''*'' \<or> str_contains (ascii_lower p) (ascii_lower query)) (''*'' # projects)"

subsection \<open>The builder\<close>

record builder_form =
  bf_drafts :: "draft list"
  bf_selects :: "select_state list"

definition builder_mount :: "draft list \<Rightarrow> builder_form" where
  "builder_mount ds = \<lparr>bf_drafts = ds, bf_selects = map select_mount ds\<rparr>"

definition change_drafts :: "draft list \<Rightarrow> builder_form \<Rightarrow> builder_form" where
  "change_drafts ds f = \<lparr>bf_drafts = ds, bf_selects = sync_selects (bf_drafts f) ds (bf_selects f)\<rparr>"

definition edit_select :: "nat \<Rightarrow> (select_state \<Rightarrow> select_state) \<Rightarrow> builder_form \<Rightarrow> builder_form" where
  "edit_select idx g f = f\<lparr>bf_selects := map_at idx g (bf_selects f)\<rparr>"

datatype perm_event =
    AddDraft
  | RemoveDraft nat
  | ToggleAction nat string
  | TypeProject nat string
  | FocusProject nat
  | PickProject nat string
  | PressMouse "nat option"

text \<open>A press of the mouse closes the list of every field it is not inside of.\<close>

fun perm_step :: "perm_event \<Rightarrow> builder_form \<Rightarrow> builder_form" where
  "perm_step AddDraft f = change_drafts (perm_add (bf_drafts f)) f"
| "perm_step (RemoveDraft idx) f = change_drafts (perm_remove idx (bf_drafts f)) f"
| "perm_step (ToggleAction idx a) f = change_drafts (perm_toggleAction idx a (bf_drafts f)) f"
| "perm_step (TypeProject idx q) f = edit_select idx (\<lambda>s. s\<lparr>sel_query := q, sel_open := True\<rparr>) f"
| "perm_step (FocusProject idx) f = edit_select idx (\<lambda>s. s\<lparr>sel_open := True\<rparr>) f"
| "perm_step (PickProject idx v) f =
     edit_select idx (\<lambda>s. s\<lparr>sel_query := v, sel_open := False\<rparr>)
       (change_drafts (perm_updateProject idx v (bf_drafts f)) f)"
| "perm_step (PressMouse place) f =
     f\<lparr>bf_selects := map (\<lambda>(i, s). if place = Some i then s else s\<lparr>sel_open := False\<rparr>) (indexed (bf_selects f))\<rparr>"

text \<open>The two pages word the builder differently.\<close>

record builder_texts =
  bt_title :: string
  bt_none :: string
  bt_section :: string
  bt_placeholder :: string

definition users_texts :: builder_texts where
  "users_texts =
     \<lparr>bt_title = ''Custom Permissions'', bt_none = ''No custom permissions. User will rely on assigned roles only.'',
      bt_section = ''Section access'', bt_placeholder = ''* or project name'' @ ellipsis\<rparr>"

definition roles_texts :: builder_texts where
  "roles_texts =
     \<lparr>bt_title = ''Permissions'', bt_none = ''No permissions. This role will have no access.'',
      bt_section = ''Global section access'', bt_placeholder = ''* or search project'' @ ellipsis\<rparr>"

text \<open>The field's focus opens its list; it is the second event of the input.\<close>

definition ProjectSelect :: "builder_texts \<Rightarrow> string list \<Rightarrow> nat \<Rightarrow> select_state \<Rightarrow> perm_event widget list" where
  "ProjectSelect t projects idx s =
     [KeyInput (bt_placeholder t) (sel_query s) (TypeProject idx) (\<lambda>_. FocusProject idx) None] @
     (if sel_open s then
        map (\<lambda>p. Button (if p = ''*'' then ''* all projects'' else p) False (PickProject idx p))
          (select_options projects (sel_query s))
      else [])"

definition action_toggles :: "nat \<Rightarrow> draft \<Rightarrow> string list \<Rightarrow> perm_event widget list" where
  "action_toggles idx d actions =
     map (\<lambda>a. Checkbox a (a \<in> set (dr_actions d)) (\<lambda>_. ToggleAction idx a)) actions"

definition draft_row :: "builder_texts \<Rightarrow> string list \<Rightarrow> nat \<Rightarrow> draft \<Rightarrow> select_state \<Rightarrow> perm_event widget list" where
  "draft_row t projects idx d s =
     ProjectSelect t projects idx s @
     [Button ''Remove'' False (RemoveDraft idx), Label ''Project actions''] @
     action_toggles idx d PROJECT_ACTIONS @
     (if dr_project d = ''*'' then Label (bt_section t) # action_toggles idx d GLOBAL_ACTIONS else [])"

definition PermissionBuilder :: "builder_texts \<Rightarrow> string list \<Rightarrow> builder_form \<Rightarrow> perm_event widget list" where
  "PermissionBuilder t projects f =
     [Label (bt_title t), Button ''Add'' False AddDraft] @
     (if bf_drafts f = [] then [Label (bt_none t)] else []) @
     concat (map (\<lambda>(i, d, s). draft_row t projects i d s) (indexed (zip (bf_drafts f) (bf_selects f))))"

text \<open>What a user can do to the builder: the controls it shows, and pressing the mouse anywhere.\<close>

definition perm_offered :: "builder_texts \<Rightarrow> string list \<Rightarrow> builder_form \<Rightarrow> perm_event set" where
  "perm_offered t projects f = view_events (PermissionBuilder t projects f) \<union> range PressMouse"

subsection \<open>\<open>RoleSelector\<close>\<close>

definition RoleSelector :: "role list \<Rightarrow> nat list \<Rightarrow> nat widget list" where
  "RoleSelector roles selected =
     Label ''Roles'' #
     concat (map (\<lambda>r. Checkbox (role_name r) (role_id r \<in> set selected) (\<lambda>_. role_id r) #
       (if role_isSystem r then [Label ''system''] else []) @
       (if role_description r \<noteq> [] then [Label (role_description r)] else [])) roles) @
     (if roles = [] then [Label ''No roles defined yet.''] else [])"

subsection \<open>Role or custom permissions\<close>

datatype access_mode = ByRole | Custom

text \<open>The builder is mounted while the mode is \<open>Custom\<close>; switching to it starts its fields anew.\<close>

record access_form =
  af_mode :: access_mode
  af_roles :: "nat list"
  af_builder :: builder_form

datatype access_event = SetMode access_mode | ToggleRole nat | Perm perm_event

fun access_step :: "access_event \<Rightarrow> access_form \<Rightarrow> access_form" where
  "access_step (SetMode m) f =
     f\<lparr>af_mode := m,
       af_builder := (if m = Custom \<and> af_mode f \<noteq> Custom then builder_mount (bf_drafts (af_builder f)) else af_builder f)\<rparr>"
| "access_step (ToggleRole i) f = f\<lparr>af_roles := toggle_in i (af_roles f)\<rparr>"
| "access_step (Perm e) f = f\<lparr>af_builder := perm_step e (af_builder f)\<rparr>"

definition access_view :: "role list \<Rightarrow> string list \<Rightarrow> access_form \<Rightarrow> access_event widget list" where
  "access_view roles projects f =
     [Button ''Assign role'' False (SetMode ByRole), Button ''Custom permissions'' False (SetMode Custom)] @
     (if af_mode f = ByRole then lift_view ToggleRole (RoleSelector roles (af_roles f))
      else lift_view Perm (PermissionBuilder users_texts projects (af_builder f)))"

text \<open>The two fields a request takes from the form: only the chosen mode counts.\<close>

definition sent_roles :: "access_form \<Rightarrow> nat list" where
  "sent_roles f = (if af_mode f = ByRole then af_roles f else [])"

definition sent_drafts :: "access_form \<Rightarrow> draft list" where
  "sent_drafts f = (if af_mode f = Custom then bf_drafts (af_builder f) else [])"

definition roles_js :: "nat list \<Rightarrow> js" where
  "roles_js ids = JArr (map (\<lambda>i. JNum (js_int (int i))) ids)"

end
