(* ===== verification/Users_Page.thy ===== *)
theory Users_Page
  imports Access_Form
begin

section \<open>The page of users: \<open>pages/Users.tsx\<close>\<close>

record user_view =
  uv_id :: nat
  uv_username :: string
  uv_authType :: string
  uv_disabled :: bool
  uv_roles :: "role list"
  uv_customPermissions :: "permission list"
  uv_lastLogin :: "string option"

record edit_dialog =
  ed_user :: user_view
  ed_form :: access_form
  ed_pending :: bool

record users_state =
  us_me :: "string option"
  us_users :: "user_view list query"
  us_roles :: "role list query"
  us_projects :: "project list query"
  us_createOpen :: bool
  us_username :: string
  us_password :: string
  us_form :: access_form
  us_creating :: bool
  us_edit :: "edit_dialog option"
  us_deleteTarget :: "user_view option"

definition empty_form :: access_form where
  "empty_form = \<lparr>af_mode = ByRole, af_roles = [], af_builder = builder_mount []\<rparr>"

definition users_init :: "string option \<Rightarrow> users_state" where
  "users_init me =
     \<lparr>us_me = me, us_users = Pending, us_roles = Pending, us_projects = Pending, us_createOpen = False,
      us_username = [], us_password = [], us_form = empty_form, us_creating = False, us_edit = None,
      us_deleteTarget = None\<rparr>"

definition users_mount :: "client_out list" where
  "users_mount = [Send getUsers, Send getRoles]"

text \<open>\<open>EditAccessDialog\<close> starts from the user it is opened for.\<close>

definition edit_form :: "user_view \<Rightarrow> access_form" where
  "edit_form u =
     \<lparr>af_mode = (if uv_customPermissions u \<noteq> [] then Custom else ByRole), af_roles = map role_id (uv_roles u),
      af_builder = builder_mount (map permission_draft (uv_customPermissions u))\<rparr>"

definition create_body :: "users_state \<Rightarrow> js" where
  "create_body s =
     JObj [(''username'', JStr (us_username s)), (''password'', JStr (us_password s)),
           (''roleIds'', roles_js (sent_roles (us_form s))),
           (''permissions'', JArr (map draft_js (sent_drafts (us_form s))))]"

definition access_body :: "access_form \<Rightarrow> js" where
  "access_body f =
     JObj [(''roleIds'', roles_js (sent_roles f)), (''permissions'', JArr (map draft_js (sent_drafts f))),
           (''clearPermissions'', JBool (af_mode f = ByRole))]"

datatype users_event =
    OpenCreate
  | CloseCreate
  | TypeNewUsername string
  | TypeNewPassword string
  | NewAccess access_event
  | CreateClicked
  | UserCreated
  | CreateFailed string
  | EditUser user_view
  | CloseEdit
  | EditAccess access_event
  | SaveAccess
  | AccessSaved
  | SaveFailed bool string
  | ToggleDisabled user_view
  | UserToggled
  | ToggleFailed string
  | AskRemoveUser user_view
  | RemoveUserConfirmed user_view
  | RemoveUserCancelled
  | UserRemoved
  | RemoveFailed string
  | UsersArrived "user_view list query"
  | RolesArrived "role list query"
  | ProjectsListed "project list query"
  | MeArrived "string option"

text \<open>Opening the dialog for a new user empties its form; so does a success, after closing it.\<close>

fun users_step :: "users_event \<Rightarrow> users_state \<Rightarrow> users_state \<times> client_out list" where
  "users_step OpenCreate s =
     (s\<lparr>us_createOpen := True, us_username := [], us_password := [], us_form := empty_form\<rparr>, [])"
| "users_step CloseCreate s = (s\<lparr>us_createOpen := False\<rparr>, [])"
| "users_step (TypeNewUsername v) s = (s\<lparr>us_username := v\<rparr>, [])"
| "users_step (TypeNewPassword v) s = (s\<lparr>us_password := v\<rparr>, [])"
| "users_step (NewAccess e) s = (s\<lparr>us_form := access_step e (us_form s)\<rparr>, [])"
| "users_step CreateClicked s = (s\<lparr>us_creating := True\<rparr>, [Send (createUser (create_body s))])"
| "users_step UserCreated s =
     (s\<lparr>us_creating := False, us_createOpen := False, us_username := [], us_password := [],
        us_form := (us_form s)\<lparr>af_builder := builder_mount []\<rparr>\<rparr>,
      [ToastOk ''User created'', Invalidate [''users'']])"
| "users_step (CreateFailed msg) s = (s\<lparr>us_creating := False\<rparr>, [ToastErr msg])"
| "users_step (EditUser u) s = (s\<lparr>us_edit := Some \<lparr>ed_user = u, ed_form = edit_form u, ed_pending = False\<rparr>\<rparr>, [])"
| "users_step CloseEdit s = (s\<lparr>us_edit := None\<rparr>, [])"
| "users_step (EditAccess e) s =
     (s\<lparr>us_edit := map_option (\<lambda>d. d\<lparr>ed_form := access_step e (ed_form d)\<rparr>) (us_edit s)\<rparr>, [])"
| "users_step SaveAccess s =
     (case us_edit s of
        None \<Rightarrow> (s, [])
      | Some d \<Rightarrow> (s\<lparr>us_edit := Some (d\<lparr>ed_pending := True\<rparr>)\<rparr>,
                   [Send (updateUser (uv_id (ed_user d)) (access_body (ed_form d)))]))"
| "users_step AccessSaved s = (s\<lparr>us_edit := None\<rparr>, [ToastOk ''Access updated'', Invalidate [''users'']])"
| "users_step (SaveFailed here msg) s =
     (if here then s\<lparr>us_edit := map_option (\<lambda>d. d\<lparr>ed_pending := False\<rparr>) (us_edit s)\<rparr> else s, [ToastErr msg])"
| "users_step (ToggleDisabled u) s =
     (s, [Send (updateUser (uv_id u) (JObj [(''disabled'', JBool (\<not> uv_disabled u))]))])"
| "users_step UserToggled s = (s, [Invalidate [''users'']])"
| "users_step (ToggleFailed msg) s = (s, [ToastErr msg])"
| "users_step (AskRemoveUser u) s = (s\<lparr>us_deleteTarget := Some u\<rparr>, [])"
| "users_step (RemoveUserConfirmed u) s = (s\<lparr>us_deleteTarget := None\<rparr>, [Send (deleteUser (uv_id u))])"
| "users_step RemoveUserCancelled s = (s\<lparr>us_deleteTarget := None\<rparr>, [])"
| "users_step UserRemoved s = (s, [ToastOk ''User removed'', Invalidate [''users'']])"
| "users_step (RemoveFailed msg) s = (s, [ToastErr msg])"
| "users_step (UsersArrived q) s = (s\<lparr>us_users := q\<rparr>, [])"
| "users_step (RolesArrived q) s = (s\<lparr>us_roles := q\<rparr>, [])"
| "users_step (ProjectsListed q) s = (s\<lparr>us_projects := q\<rparr>, [])"
| "users_step (MeArrived m) s = (s\<lparr>us_me := m\<rparr>, [])"

subsection \<open>The view\<close>

definition plural :: "nat \<Rightarrow> string \<Rightarrow> string" where
  "plural n word = nat_str n @ '' '' @ word @ (if n \<noteq> 1 then ''s'' else [])"

definition UserAccessSummary :: "user_view \<Rightarrow> 'e widget list" where
  "UserAccessSummary u =
     (if uv_roles u = [] \<and> uv_customPermissions u = [] then [Label ''No access'']
      else map (\<lambda>r. Label (role_name r)) (uv_roles u) @
        (if uv_customPermissions u \<noteq> [] then [Label (plural (length (uv_customPermissions u)) ''custom permission'')] else []))"

definition is_me :: "users_state \<Rightarrow> user_view \<Rightarrow> bool" where
  "is_me s u = (us_me s = Some (uv_username u))"

definition user_row :: "formats \<Rightarrow> users_state \<Rightarrow> user_view \<Rightarrow> users_event widget list" where
  "user_row fm s u =
     [Label (uv_username u)] @ (if is_me s u then [Label ''(you)''] else []) @ [Label (uv_authType u)] @
     UserAccessSummary u @
     [Button (if uv_disabled u then ''Disabled'' else ''Active'') (is_me s u) (ToggleDisabled u),
      Label (case nonempty (uv_lastLogin u) of Some d \<Rightarrow> fm_day fm d | None \<Rightarrow> ''Never''),
      Button ''Edit access'' False (EditUser u)] @
     (if is_me s u then [] else [Button ''Remove'' False (AskRemoveUser u)])"

definition project_names :: "project list query \<Rightarrow> string list" where
  "project_names q = map prj_name (data_or [] q)"

definition form_view :: "users_state \<Rightarrow> access_form \<Rightarrow> access_event widget list" where
  "form_view s f = access_view (data_or [] (us_roles s)) (project_names (us_projects s)) f"

definition CreateUserDialog :: "users_state \<Rightarrow> users_event widget list" where
  "CreateUserDialog s =
     [Label ''New User'', Input ''username'' (us_username s) TypeNewUsername,
      Input ''password'' (us_password s) TypeNewPassword] @
     lift_view NewAccess (form_view s (us_form s)) @
     [Button ''Cancel'' False CloseCreate,
      Button ''Create'' (us_username s = [] \<or> us_password s = [] \<or> us_creating s) CreateClicked]"

definition EditAccessDialog :: "users_state \<Rightarrow> edit_dialog \<Rightarrow> users_event widget list" where
  "EditAccessDialog s d =
     [Label (''Edit Access '' @ em_dash @ '' '' @ uv_username (ed_user d))] @
     lift_view EditAccess (form_view s (ed_form d)) @
     [Button ''Cancel'' False CloseEdit, Button ''Save'' (ed_pending d) SaveAccess]"

text \<open>An open dialog covers the page.\<close>

definition users_table :: "formats \<Rightarrow> users_state \<Rightarrow> users_event widget list" where
  "users_table fm s =
     [Label ''Users'', Label ''Manage user access and roles'', Button ''New User'' False OpenCreate] @
     (if us_users s = Pending then [Label (''Loading'' @ ellipsis)]
      else concat (map (user_row fm s) (data_or [] (us_users s))))"

definition Users :: "formats \<Rightarrow> users_state \<Rightarrow> users_event widget list" where
  "Users fm s =
     (case us_deleteTarget s of
        Some u \<Rightarrow>
          ConfirmDialog (''Remove '' @ uv_username u @ ''?'')
            (Some ''The user will be removed and will no longer be able to log in.'') (Some ''Remove'')
            (RemoveUserConfirmed u) RemoveUserCancelled
      | None \<Rightarrow>
        (case us_edit s of
           Some d \<Rightarrow> EditAccessDialog s d
         | None \<Rightarrow> if us_createOpen s then CreateUserDialog s else users_table fm s))"

text \<open>What a user can do: the controls shown, and pressing the mouse beside the lists of an open form.\<close>

definition users_offered :: "formats \<Rightarrow> users_state \<Rightarrow> users_event set" where
  "users_offered fm s =
     view_events (Users fm s) \<union> range (\<lambda>place. NewAccess (Perm (PressMouse place))) \<union>
     range (\<lambda>place. EditAccess (Perm (PressMouse place)))"

end
