(* ===== verification/Roles_Page.thy ===== *)
theory Roles_Page
  imports Access_Form Users_Page
begin

section \<open>The page of roles: \<open>pages/Roles.tsx\<close>\<close>

record role_editor =
  re_role :: "role option"
  re_name :: string
  re_description :: string
  re_builder :: builder_form
  re_pending :: bool

record roles_state =
  rs_roles :: "role list query"
  rs_projects :: "project list query"
  rs_expanded :: "nat set"
  rs_editor :: "role_editor option"
  rs_deleteTarget :: "role option"

definition roles_init :: roles_state where
  "roles_init = \<lparr>rs_roles = Pending, rs_projects = Pending, rs_expanded = {}, rs_editor = None, rs_deleteTarget = None\<rparr>"

definition open_editor :: "role option \<Rightarrow> role_editor" where
  "open_editor r =
     \<lparr>re_role = r, re_name = (case r of Some x \<Rightarrow> role_name x | None \<Rightarrow> []),
      re_description = (case r of Some x \<Rightarrow> role_description x | None \<Rightarrow> []),
      re_builder = builder_mount (case r of Some x \<Rightarrow> map permission_draft (role_permissions x) | None \<Rightarrow> []),
      re_pending = False\<rparr>"

definition role_body :: "role_editor \<Rightarrow> js" where
  "role_body e =
     JObj [(''name'', JStr (re_name e)), (''description'', JStr (re_description e)),
           (''permissions'', JArr (map draft_js (bf_drafts (re_builder e))))]"

definition role_save :: "role_editor \<Rightarrow> api_call" where
  "role_save e =
     (case re_role e of Some r \<Rightarrow> updateRole (role_id r) (role_body e) | None \<Rightarrow> createRole (role_body e))"

datatype roles_event =
    NewRole
  | EditRole role
  | CloseRoleEditor
  | TypeRoleName string
  | TypeRoleDescription string
  | RolePerm perm_event
  | SaveRole
  | RoleSaved "role option"
  | RoleSaveFailed bool string
  | ToggleExpanded nat
  | AskDeleteRole role
  | DeleteRoleConfirmed role
  | DeleteRoleCancelled
  | RoleDeleted
  | RoleDeleteFailed string
  | RolesLoaded "role list query"
  | RoleProjects "project list query"

definition with_editor :: "(role_editor \<Rightarrow> role_editor) \<Rightarrow> roles_state \<Rightarrow> roles_state" where
  "with_editor g s = s\<lparr>rs_editor := map_option g (rs_editor s)\<rparr>"

fun roles_step :: "roles_event \<Rightarrow> roles_state \<Rightarrow> roles_state \<times> client_out list" where
  "roles_step NewRole s = (s\<lparr>rs_editor := Some (open_editor None)\<rparr>, [])"
| "roles_step (EditRole r) s = (s\<lparr>rs_editor := Some (open_editor (Some r))\<rparr>, [])"
| "roles_step CloseRoleEditor s = (s\<lparr>rs_editor := None\<rparr>, [])"
| "roles_step (TypeRoleName v) s = (with_editor (\<lambda>e. e\<lparr>re_name := v\<rparr>) s, [])"
| "roles_step (TypeRoleDescription v) s = (with_editor (\<lambda>e. e\<lparr>re_description := v\<rparr>) s, [])"
| "roles_step (RolePerm p) s = (with_editor (\<lambda>e. e\<lparr>re_builder := perm_step p (re_builder e)\<rparr>) s, [])"
| "roles_step SaveRole s =
     (case rs_editor s of
        None \<Rightarrow> (s, [])
      | Some e \<Rightarrow> (with_editor (\<lambda>e. e\<lparr>re_pending := True\<rparr>) s, [Send (role_save e)]))"
| "roles_step (RoleSaved r) s =
     (s\<lparr>rs_editor := None\<rparr>, [ToastOk (if r \<noteq> None then ''Role updated'' else ''Role created''), Invalidate [''roles'']])"
| "roles_step (RoleSaveFailed here msg) s =
     (if here then with_editor (\<lambda>e. e\<lparr>re_pending := False\<rparr>) s else s, [ToastErr msg])"
| "roles_step (ToggleExpanded i) s =
     (s\<lparr>rs_expanded := (if i \<in> rs_expanded s then rs_expanded s - {i} else insert i (rs_expanded s))\<rparr>, [])"
| "roles_step (AskDeleteRole r) s = (s\<lparr>rs_deleteTarget := Some r\<rparr>, [])"
| "roles_step (DeleteRoleConfirmed r) s = (s\<lparr>rs_deleteTarget := None\<rparr>, [Send (deleteRole (role_id r))])"
| "roles_step DeleteRoleCancelled s = (s\<lparr>rs_deleteTarget := None\<rparr>, [])"
| "roles_step RoleDeleted s = (s, [ToastOk ''Role deleted'', Invalidate [''roles'']])"
| "roles_step (RoleDeleteFailed msg) s = (s, [ToastErr msg])"
| "roles_step (RolesLoaded q) s = (s\<lparr>rs_roles := q\<rparr>, [])"
| "roles_step (RoleProjects q) s = (s\<lparr>rs_projects := q\<rparr>, [])"

definition role_permissions_view :: "role \<Rightarrow> 'e widget list" where
  "role_permissions_view r =
     (if role_permissions r = [] then [Label ''No permissions defined.'']
      else concat (map (\<lambda>p. Label (if perm_projectName p = ''*'' then ''all projects'' else perm_projectName p) #
                            map Label (perm_actions p)) (role_permissions r)))"

definition RoleCard :: "bool \<Rightarrow> role \<Rightarrow> roles_event widget list" where
  "RoleCard expanded r =
     [Button (if expanded then ''collapse'' else ''expand'') False (ToggleExpanded (role_id r)), Label (role_name r)] @
     (if role_isSystem r then [Label ''system''] else []) @
     (if role_description r \<noteq> [] then [Label (role_description r)] else []) @
     [Label (plural (length (role_permissions r)) ''permission'')] @
     (if role_isSystem r then [] else [Button ''Edit'' False (EditRole r), Button ''Delete'' False (AskDeleteRole r)]) @
     (if expanded then role_permissions_view r else [])"

definition RoleEditor :: "string list \<Rightarrow> role_editor \<Rightarrow> roles_event widget list" where
  "RoleEditor projects e =
     [Label (case re_role e of Some r \<Rightarrow> ''Edit Role '' @ em_dash @ '' '' @ role_name r | None \<Rightarrow> ''New Role''),
      Input ''developer'' (re_name e) TypeRoleName,
      Input ''Optional description'' (re_description e) TypeRoleDescription] @
     lift_view RolePerm (PermissionBuilder roles_texts projects (re_builder e)) @
     [Button ''Cancel'' False CloseRoleEditor,
      Button (if re_role e \<noteq> None then ''Save'' else ''Create'') (re_name e = [] \<or> re_pending e) SaveRole]"

definition roles_list :: "roles_state \<Rightarrow> roles_event widget list" where
  "roles_list s =
     [Label ''Roles'', Label ''Define permissions for users'', Button ''New Role'' False NewRole] @
     (if rs_roles s = Pending then [Label (''Loading'' @ ellipsis)]
      else concat (map (\<lambda>r. RoleCard (role_id r \<in> rs_expanded s) r) (data_or [] (rs_roles s))) @
        (if data_or [] (rs_roles s) = []
         then [Label ''No roles defined. Create one to start assigning permissions.''] else []))"

definition Roles :: "roles_state \<Rightarrow> roles_event widget list" where
  "Roles s =
     (case rs_deleteTarget s of
        Some r \<Rightarrow>
          ConfirmDialog (''Delete role \"'' @ role_name r @ ''\"?'')
            (Some ''This will remove the role and revoke its permissions from all assigned users.'') (Some ''Delete'')
            (DeleteRoleConfirmed r) DeleteRoleCancelled
      | None \<Rightarrow>
        (case rs_editor s of
           Some e \<Rightarrow> RoleEditor (project_names (rs_projects s)) e
         | None \<Rightarrow> roles_list s))"

end
