(* ===== verification/Simulation.thy ===== *)
theory Simulation
  imports Main
begin

section \<open>Simulation\<close>

text \<open>A component that does step by step what an abstract one does, as long as its invariant holds and the
  events are admissible.\<close>

locale simulation =
  fixes step :: "'e \<Rightarrow> 's \<Rightarrow> 's" and astep :: "'e \<Rightarrow> 'a \<Rightarrow> 'a"
    and abs :: "'s \<Rightarrow> 'a" and inv :: "'s \<Rightarrow> bool" and admissible :: "'e \<Rightarrow> bool"
  assumes step_sim: "inv s \<Longrightarrow> admissible e \<Longrightarrow> abs (step e s) = astep e (abs s)"
    and step_keeps: "inv s \<Longrightarrow> admissible e \<Longrightarrow> inv (step e s)"
begin

lemma run_keeps: "inv s \<Longrightarrow> list_all admissible es \<Longrightarrow> inv (fold step es s)"
  by (induction es arbitrary: s) (auto intro: step_keeps)

lemma run_sim: "inv s \<Longrightarrow> list_all admissible es \<Longrightarrow> abs (fold step es s) = fold astep es (abs s)"
  by (induction es arbitrary: s) (auto simp: step_sim step_keeps)

end

end
