(* ===== verification/Access_Properties.thy ===== *)
theory Access_Properties
  imports Users_Page Roles_Page Simulation
begin

section \<open>What the forms for roles and rights guarantee\<close>

subsection \<open>Chosen roles and actions as sets\<close>

definition flip :: "'a \<Rightarrow> 'a set \<Rightarrow> 'a set" where
  "flip x A = (if x \<in> A then A - {x} else insert x A)"

lemma toggle_in_set [simp]: "set (toggle_in x xs) = flip x (set xs)"
  by (auto simp: toggle_in_def flip_def)

lemma toggle_in_distinct [simp]: "distinct xs \<Longrightarrow> distinct (toggle_in x xs)"
  by (simp add: toggle_in_def)

text \<open>The abstract editor: a list of rights, each a project with a set of actions, and a set of roles. The
  fields' texts and open lists are no part of it.\<close>

type_synonym right = "string \<times> string set"

definition rights_of :: "draft list \<Rightarrow> right list" where
  "rights_of ds = map (\<lambda>d. (dr_project d, set (dr_actions d))) ds"

fun right_step :: "perm_event \<Rightarrow> right list \<Rightarrow> right list" where
  "right_step AddDraft rs = rs @ [(''*'', {})]"
| "right_step (RemoveDraft i) rs = take i rs @ drop (Suc i) rs"
| "right_step (ToggleAction i a) rs = (if i < length rs then rs[i := (fst (rs ! i), flip a (snd (rs ! i)))] else rs)"
| "right_step (PickProject i p) rs = (if i < length rs then rs[i := (p, snd (rs ! i))] else rs)"
| "right_step _ rs = rs"

definition builder_ok :: "builder_form \<Rightarrow> bool" where
  "builder_ok f = (length (bf_selects f) = length (bf_drafts f) \<and> list_all (\<lambda>d. distinct (dr_actions d)) (bf_drafts f))"

lemma change_drafts_simps [simp]: "bf_drafts (change_drafts ds f) = ds" "bf_drafts (edit_select i g f) = bf_drafts f"
  by (simp_all add: change_drafts_def edit_select_def)

lemma length_sync [simp]: "length (sync_selects olds news ss) = length news"
  by (induction olds news ss rule: sync_selects.induct) simp_all

lemma list_all_map_at: "(\<And>x. P x \<Longrightarrow> P (f x)) \<Longrightarrow> list_all P xs \<Longrightarrow> list_all P (map_at i f xs)"
  by (auto simp: map_at_update list_all_length nth_list_update)

lemma list_all_remove_at: "list_all P xs \<Longrightarrow> list_all P (remove_at i xs)"
  by (auto simp: remove_at_take_drop list_all_iff dest: in_set_takeD in_set_dropD)

lemma builder_sim: "rights_of (bf_drafts (perm_step e f)) = right_step e (rights_of (bf_drafts f))"
  by (cases e)
     (simp_all add: rights_of_def perm_add_def perm_remove_def perm_updateProject_def perm_toggleAction_def
        map_at_update remove_at_take_drop map_update take_map drop_map)

lemma builder_keeps: "builder_ok f \<Longrightarrow> builder_ok (perm_step e f)"
  by (cases e)
     (auto simp: builder_ok_def change_drafts_def edit_select_def perm_add_def perm_remove_def perm_updateProject_def
        perm_toggleAction_def intro!: list_all_map_at list_all_remove_at)

interpretation rights: simulation perm_step right_step "\<lambda>f. rights_of (bf_drafts f)" builder_ok "\<lambda>_. True"
  by unfold_locales (simp_all add: builder_sim builder_keeps)

type_synonym access_spec = "access_mode \<times> nat set \<times> right list"

definition access_spec_of :: "access_form \<Rightarrow> access_spec" where
  "access_spec_of f = (af_mode f, set (af_roles f), rights_of (bf_drafts (af_builder f)))"

fun spec_step :: "access_event \<Rightarrow> access_spec \<Rightarrow> access_spec" where
  "spec_step (SetMode m) (_, ids, rs) = (m, ids, rs)"
| "spec_step (ToggleRole i) (m, ids, rs) = (m, flip i ids, rs)"
| "spec_step (Perm e) (m, ids, rs) = (m, ids, right_step e rs)"

definition access_ok :: "access_form \<Rightarrow> bool" where
  "access_ok f = (distinct (af_roles f) \<and> builder_ok (af_builder f))"

lemma mounted_drafts [simp]: "bf_drafts (builder_mount ds) = ds"
  by (simp add: builder_mount_def)

lemma mounted_ok: "builder_ok f \<Longrightarrow> builder_ok (builder_mount (bf_drafts f))"
  by (simp add: builder_ok_def builder_mount_def)

interpretation access: simulation access_step spec_step access_spec_of access_ok "\<lambda>_. True"
proof
  fix e f assume ok: "access_ok f"
  show "access_spec_of (access_step e f) = spec_step e (access_spec_of f)"
    by (cases e) (simp_all add: access_spec_of_def builder_sim)
  show "access_ok (access_step e f)"
    using ok by (cases e) (simp_all add: access_ok_def builder_keeps mounted_ok)
qed

lemma flip_parity: "x \<in> fold flip xs A \<longleftrightarrow> (x \<in> A) \<noteq> odd (count_list xs x)"
  by (induction xs arbitrary: A) (auto simp: flip_def)

text \<open>C26: The form for roles and rights implements the abstract editor: after any sequence of clicks and
  keystrokes, what it sends is the set of roles and the list of rights (projects with sets of actions) the
  abstract editor has reached, of the chosen mode only, and no role and no action is sent twice.\<close>

theorem access_form_refines:
  assumes "access_ok f" and "fold spec_step es (access_spec_of f) = (m, ids, rs)"
  shows "set (sent_roles (fold access_step es f)) = (if m = ByRole then ids else {})
       \<and> rights_of (sent_drafts (fold access_step es f)) = (if m = Custom then rs else [])
       \<and> distinct (sent_roles (fold access_step es f))
       \<and> list_all (\<lambda>d. distinct (dr_actions d)) (sent_drafts (fold access_step es f))"
proof -
  have "access_spec_of (fold access_step es f) = (m, ids, rs)"
    using access.run_sim [OF assms(1), of es] assms(2) by (simp add: list_all_iff)
  moreover have "access_ok (fold access_step es f)" by (rule access.run_keeps [OF assms(1)]) (simp add: list_all_iff)
  ultimately show ?thesis
    by (cases m) (auto simp: access_spec_of_def access_ok_def builder_ok_def sent_roles_def sent_drafts_def rights_of_def)
qed

theorem access_form_refines_witness:
  "set (sent_roles (fold access_step [ToggleRole 3, ToggleRole 4, ToggleRole 3] empty_form)) = {4}"
  using access_form_refines [of empty_form "[ToggleRole 3, ToggleRole 4, ToggleRole 3]" ByRole "{4}" "[]"]
  by (simp add: empty_form_def access_ok_def builder_ok_def builder_mount_def access_spec_of_def rights_of_def flip_def
      insert_Diff_if)

subsection \<open>Only known projects and actions\<close>

text \<open>The forms that can be reached by using the controls shown.\<close>

inductive builder_uses :: "builder_texts \<Rightarrow> string list \<Rightarrow> builder_form \<Rightarrow> builder_form \<Rightarrow> bool" for t projects where
  uses_start: "builder_uses t projects f f"
| uses_step: "builder_uses t projects f g \<Longrightarrow> e \<in> perm_offered t projects g \<Longrightarrow> builder_uses t projects f (perm_step e g)"

definition draft_typed :: "string list \<Rightarrow> draft \<Rightarrow> bool" where
  "draft_typed projects d =
     (dr_project d \<in> set (''*'' # projects) \<and> distinct (dr_actions d)
      \<and> set (dr_actions d) \<subseteq> set (PROJECT_ACTIONS @ GLOBAL_ACTIONS))"

definition builder_typed :: "string list \<Rightarrow> builder_form \<Rightarrow> bool" where
  "builder_typed projects f =
     (length (bf_selects f) = length (bf_drafts f) \<and> list_all (draft_typed projects) (bf_drafts f))"

lemma offered_cases:
  assumes "e \<in> perm_offered t projects f"
  shows "(\<forall>i a. e = ToggleAction i a \<longrightarrow> a \<in> set (PROJECT_ACTIONS @ GLOBAL_ACTIONS))
       \<and> (\<forall>i p. e = PickProject i p \<longrightarrow> p \<in> set (''*'' # projects))"
  using assms
  by (auto simp: perm_offered_def PermissionBuilder_def draft_row_def ProjectSelect_def action_toggles_def
      view_events_map select_options_def split: if_splits)

lemma typed_step:
  assumes "builder_typed projects f" and "e \<in> perm_offered t projects f"
  shows "builder_typed projects (perm_step e f)"
  using assms(1) offered_cases [OF assms(2)]
  by (cases e)
     (auto simp: builder_typed_def change_drafts_def edit_select_def perm_add_def perm_remove_def perm_updateProject_def
        perm_toggleAction_def draft_typed_def flip_def intro!: list_all_map_at list_all_remove_at split: if_splits)

text \<open>C27: However the builder of rights is used, from drafts whose projects are known or all projects and
  whose actions are known and different, every draft stays of that kind, and every draft has its field for
  the project: nothing typed into a field becomes a project's name.\<close>

theorem drafts_stay_typed:
  assumes "builder_uses t projects f g" and "builder_typed projects f"
  shows "builder_typed projects g"
  using assms by (induction rule: builder_uses.induct) (auto intro: typed_step)

theorem drafts_stay_typed_witness:
  "builder_typed [''shop''] (perm_step (TypeProject 0 ''sho'') (perm_step AddDraft (builder_mount [])))"
proof (rule drafts_stay_typed [where t = users_texts and f = "builder_mount []"])
  show "builder_typed [''shop''] (builder_mount [])" by (simp add: builder_typed_def builder_mount_def)
  have "AddDraft \<in> perm_offered users_texts [''shop''] (builder_mount [])"
    by (simp add: perm_offered_def PermissionBuilder_def)
  moreover have "TypeProject 0 ''sho'' \<in> perm_offered users_texts [''shop''] (perm_step AddDraft (builder_mount []))"
    by (simp add: perm_offered_def PermissionBuilder_def builder_mount_def change_drafts_def perm_add_def indexed_def
        draft_row_def ProjectSelect_def)
  ultimately show "builder_uses users_texts [''shop''] (builder_mount [])
      (perm_step (TypeProject 0 ''sho'') (perm_step AddDraft (builder_mount [])))"
    by (intro uses_step uses_start)
qed

subsection \<open>A project's name that is typed but not picked\<close>

lemma sync_same:
  "length ss = length ds \<Longrightarrow> list_all2 (\<lambda>d e. dr_project d = dr_project e) ds es \<Longrightarrow> sync_selects ds es ss = ss"
  by (induction ds es ss rule: sync_selects.induct) auto

lemma sync_append: "length ss = length ds \<Longrightarrow> sync_selects ds (ds @ es) ss = ss @ map select_mount es"
  by (induction ds arbitrary: ss) (auto simp: length_Suc_conv)

lemma toggle_keeps_project:
  "list_all2 (\<lambda>d e. dr_project d = dr_project e) ds (perm_toggleAction i a ds)"
  by (simp add: list_all2_conv_all_nth perm_toggleAction_def nth_map_at)

abbreviation users_next where
  "users_next e s \<equiv> fst (users_step e s)"

definition typed_project_use :: "string \<Rightarrow> string \<Rightarrow> string \<Rightarrow> string \<Rightarrow> users_event list" where
  "typed_project_use u p q a =
     [OpenCreate, TypeNewUsername u, TypeNewPassword p, NewAccess (SetMode Custom), NewAccess (Perm AddDraft),
      NewAccess (Perm (TypeProject 0 q)), NewAccess (Perm (PressMouse None)), NewAccess (Perm (ToggleAction 0 a))]"

text \<open>A new user is given an action on one project by typing the project's name into the field: unless
  the name is also picked from the list, the field goes on showing it, \<open>Create\<close> can be pressed, and the
  request grants the action on all projects.\<close>

theorem typed_project_grants_all:
  fixes u p q a s
  defines "t \<equiv> fold users_next (typed_project_use u p q a) s"
  assumes "u \<noteq> []" and "p \<noteq> []" and "\<not> us_creating s" and "us_deleteTarget s = None" and "us_edit s = None"
  shows "CreateClicked \<in> view_events (Users fm t)
       \<and> map sel_query (bf_selects (af_builder (us_form t))) = [q]
       \<and> snd (users_step CreateClicked t) =
           [Send (createUser (JObj [(''username'', JStr u), (''password'', JStr p), (''roleIds'', JArr []),
              (''permissions'', JArr [draft_js \<lparr>dr_project = ''*'', dr_actions = [a]\<rparr>])]))]"
proof -
  have form: "us_form t = \<lparr>af_mode = Custom, af_roles = [],
      af_builder = \<lparr>bf_drafts = [\<lparr>dr_project = ''*'', dr_actions = [a]\<rparr>], bf_selects = [\<lparr>sel_query = q, sel_open = False\<rparr>]\<rparr>\<rparr>"
    by (simp add: t_def typed_project_use_def empty_form_def builder_mount_def change_drafts_def edit_select_def perm_add_def
        perm_toggleAction_def select_mount_def map_at_def indexed_def toggle_in_def)
  have rest: "us_username t = u" "us_password t = p" "us_createOpen t" "us_creating t = us_creating s"
      "us_deleteTarget t = us_deleteTarget s" "us_edit t = us_edit s"
    by (simp_all add: t_def typed_project_use_def)
  show ?thesis
    using assms(2-) by (simp add: form rest Users_def CreateUserDialog_def create_body_def sent_roles_def sent_drafts_def roles_js_def)
qed

theorem typed_project_grants_all_witness:
  "CreateClicked \<in> view_events (Users plain_formats
     (fold users_next (typed_project_use ''eve'' ''pw'' ''shop'' ''manage'') (users_init (Some ''root''))))"
  by (rule typed_project_grants_all [THEN conjunct1]) (simp_all add: users_init_def)

subsection \<open>The own account and the system's roles\<close>

text \<open>The states of the page of users: it is used by its controls and hears the server's answers.\<close>

definition users_answers :: "users_event set" where
  "users_answers =
     {UserCreated, AccessSaved, UserToggled, UserRemoved} \<union> range CreateFailed \<union> range ToggleFailed \<union> range RemoveFailed \<union>
     range UsersArrived \<union> range RolesArrived \<union> range ProjectsListed \<union> (\<Union>b. range (SaveFailed b))"

inductive users_run :: "formats \<Rightarrow> string option \<Rightarrow> users_state \<Rightarrow> bool" for fm me where
  users_start: "users_run fm me (users_init me)"
| users_next: "users_run fm me s \<Longrightarrow> e \<in> users_offered fm s \<union> users_answers \<Longrightarrow> users_run fm me (fst (users_step e s))"

lemma offered_on_others:
  assumes "e \<in> users_offered fm s"
  shows "e = AskRemoveUser u \<or> e = ToggleDisabled u \<Longrightarrow> \<not> is_me s u"
    and "e = RemoveUserConfirmed u \<Longrightarrow> us_deleteTarget s = Some u"
    and "e \<noteq> MeArrived m"
  using assms
  by (auto simp: users_offered_def Users_def users_table_def user_row_def UserAccessSummary_def CreateUserDialog_def
      EditAccessDialog_def view_events_map split: option.splits if_splits)

lemma users_run_inv:
  "users_run fm me s \<Longrightarrow> us_me s = me \<and> (\<forall>u. us_deleteTarget s = Some u \<longrightarrow> me \<noteq> Some (uv_username u))"
proof (induction rule: users_run.induct)
  case users_start
  then show ?case by (simp add: users_init_def)
next
  case (users_next s e)
  show ?case
  proof (cases "e \<in> users_offered fm s")
    case True
    then show ?thesis
      using users_next.IH offered_on_others [OF True]
      by (cases e) (auto simp: is_me_def split: option.split)
  next
    case False
    then have "e \<in> users_answers" using users_next.hyps by blast
    then show ?thesis using users_next.IH by (auto simp: users_answers_def split: if_splits)
  qed
qed

text \<open>C28: Whatever is done on the page of users, the requests that remove or disable an account never concern
  the account of the one who is signed in.\<close>

theorem own_account_safe:
  assumes "users_run fm me s" and "e \<in> users_offered fm s \<union> users_answers" and "Send c \<in> set (snd (users_step e s))"
    and "c = deleteUser i \<or> c = updateUser i (JObj [(''disabled'', JBool b)])"
  shows "\<exists>u. uv_id u = i \<and> me \<noteq> Some (uv_username u) \<and> (e = RemoveUserConfirmed u \<or> e = ToggleDisabled u)"
proof -
  have inj: "id_seg j = id_seg k \<longleftrightarrow> j = k" for j k by (simp add: id_seg_def seg_def)
  have calls: "deleteUser j \<noteq> updateUser k d" "createUser d \<noteq> deleteUser j" "createUser d \<noteq> updateUser j d'"
      "deleteUser j = deleteUser k \<longleftrightarrow> j = k" "updateUser j d = updateUser k d' \<longleftrightarrow> j = k \<and> d = d'" for j k d d'
    by (auto simp: deleteUser_def updateUser_def createUser_def api_delete_def api_patch_def api_post_def inj)
  have "\<exists>u. uv_id u = i \<and> (e = RemoveUserConfirmed u \<or> e = ToggleDisabled u)"
    using assms(3,4) by (cases e) (auto simp: calls calls(1) [symmetric] access_body_def split: option.splits if_splits)
  then obtain u where u: "uv_id u = i" "e = RemoveUserConfirmed u \<or> e = ToggleDisabled u" by blast
  then have offered: "e \<in> users_offered fm s" using assms(2) by (auto simp: users_answers_def)
  have "me \<noteq> Some (uv_username u)"
    using u(2) offered_on_others [OF offered] users_run_inv [OF assms(1)] by (auto simp: is_me_def)
  with u show ?thesis by blast
qed

text \<open>The states of the page of roles.\<close>

definition roles_answers :: "roles_event set" where
  "roles_answers =
     {RoleDeleted} \<union> range RoleSaved \<union> range RoleDeleteFailed \<union> range RolesLoaded \<union> range RoleProjects \<union>
     (\<Union>b. range (RoleSaveFailed b)) \<union> range (\<lambda>place. RolePerm (PressMouse place))"

inductive roles_run :: "roles_state \<Rightarrow> bool" where
  roles_start: "roles_run roles_init"
| roles_next: "roles_run s \<Longrightarrow> e \<in> view_events (Roles s) \<union> roles_answers \<Longrightarrow> roles_run (fst (roles_step e s))"

definition custom_only :: "roles_state \<Rightarrow> bool" where
  "custom_only s =
     ((\<forall>e r. rs_editor s = Some e \<longrightarrow> re_role e = Some r \<longrightarrow> \<not> role_isSystem r)
      \<and> (\<forall>r. rs_deleteTarget s = Some r \<longrightarrow> \<not> role_isSystem r))"

lemma permissions_view_events: "view_events (role_permissions_view r) = {}"
  by (auto simp: role_permissions_view_def view_events_map)

lemma card_events:
  "view_events (RoleCard x r) =
     insert (ToggleExpanded (role_id r)) (if role_isSystem r then {} else {EditRole r, AskDeleteRole r})"
  by (simp add: RoleCard_def permissions_view_events insert_commute)

lemma editor_events:
  "view_events (RoleEditor ps e) \<subseteq> range TypeRoleName \<union> range TypeRoleDescription \<union> range RolePerm \<union> {CloseRoleEditor, SaveRole}"
  by (auto simp: RoleEditor_def)

lemma list_events:
  "view_events (roles_list s) \<subseteq> insert NewRole (\<Union>r \<in> set (data_or [] (rs_roles s)). \<Union>b. view_events (RoleCard b r))"
  by (auto simp: roles_list_def)

lemma roles_offered:
  assumes "e \<in> view_events (Roles s)"
  shows "e = EditRole r \<or> e = AskDeleteRole r \<Longrightarrow> \<not> role_isSystem r"
    and "e = DeleteRoleConfirmed r \<Longrightarrow> rs_deleteTarget s = Some r"
proof -
  consider (delete) t where "rs_deleteTarget s = Some t" "e \<in> {DeleteRoleConfirmed t, DeleteRoleCancelled}"
    | (editor) ps ed where "e \<in> view_events (RoleEditor ps ed)"
    | (table) "e \<in> view_events (roles_list s)"
    using assms by (auto simp: Roles_def split: option.splits)
  then have "(e = EditRole r \<or> e = AskDeleteRole r \<longrightarrow> \<not> role_isSystem r) \<and> (e = DeleteRoleConfirmed r \<longrightarrow> rs_deleteTarget s = Some r)"
  proof cases
    case editor
    then show ?thesis using editor_events by blast
  next
    case table
    then have "e \<in> insert NewRole (\<Union>r \<in> set (data_or [] (rs_roles s)). \<Union>b. view_events (RoleCard b r))"
      using list_events by blast
    then show ?thesis by (auto simp: card_events split: if_splits)
  qed auto
  then show "e = EditRole r \<or> e = AskDeleteRole r \<Longrightarrow> \<not> role_isSystem r"
    "e = DeleteRoleConfirmed r \<Longrightarrow> rs_deleteTarget s = Some r" by blast+
qed

lemma custom_only_step:
  assumes "custom_only s" and "e \<in> view_events (Roles s) \<union> roles_answers"
  shows "custom_only (fst (roles_step e s))"
proof (cases "e \<in> view_events (Roles s)")
  case True
  have own: "\<forall>r. e = EditRole r \<or> e = AskDeleteRole r \<longrightarrow> \<not> role_isSystem r" using roles_offered(1) [OF True] by blast
  show ?thesis
    using assms(1) own
    by (cases e) (auto simp: custom_only_def open_editor_def with_editor_def split: option.splits if_splits)
next
  case False
  then have "e \<in> roles_answers" using assms(2) by blast
  then show ?thesis
    using assms(1) by (auto simp: roles_answers_def custom_only_def with_editor_def split: if_splits)
qed

lemma roles_run_custom: "roles_run s \<Longrightarrow> custom_only s"
proof (induction rule: roles_run.induct)
  case roles_start
  then show ?case by (simp add: custom_only_def roles_init_def)
next
  case (roles_next s e)
  then show ?case by (intro custom_only_step)
qed

text \<open>The page of roles never asks the server to change or delete a role of the system.\<close>

theorem system_roles_safe:
  assumes "roles_run s" and "e \<in> view_events (Roles s) \<union> roles_answers" and "Send c \<in> set (snd (roles_step e s))"
    and "c = deleteRole i \<or> c = updateRole i d"
  shows "\<exists>r :: role. role_id r = i \<and> \<not> role_isSystem r"
proof -
  have inj: "id_seg j = id_seg k \<longleftrightarrow> j = k" for j k by (simp add: id_seg_def seg_def)
  have calls: "deleteRole j \<noteq> updateRole k d" "updateRole k d \<noteq> deleteRole j" "createRole d \<noteq> deleteRole j"
      "createRole d \<noteq> updateRole j d'" "deleteRole j = deleteRole k \<longleftrightarrow> j = k"
      "updateRole j d = updateRole k d' \<longleftrightarrow> j = k \<and> d = d'" for j k d d'
    by (auto simp: deleteRole_def updateRole_def createRole_def api_delete_def api_put_def api_post_def inj)
  consider r where "e = DeleteRoleConfirmed r" "role_id r = i"
    | ed r where "e = SaveRole" "rs_editor s = Some ed" "re_role ed = Some r" "role_id r = i"
    using assms(3,4) by (cases e) (auto simp: calls role_save_def split: option.splits if_splits)
  then show ?thesis
  proof cases
    case 1
    then have "e \<in> view_events (Roles s)" using assms(2) by (auto simp: roles_answers_def)
    then have "rs_deleteTarget s = Some r" using 1(1) roles_offered(2) by simp
    then show ?thesis using 1(2) roles_run_custom [OF assms(1)] by (auto simp: custom_only_def intro!: exI [of _ r])
  next
    case 2
    then show ?thesis using roles_run_custom [OF assms(1)] by (auto simp: custom_only_def intro!: exI [of _ r])
  qed
qed

text \<open>Witnesses: removing another account, and deleting a role that is not the system's.\<close>

definition eve :: user_view where
  "eve = \<lparr>uv_id = 2, uv_username = ''eve'', uv_authType = ''local'', uv_disabled = False, uv_roles = [],
           uv_customPermissions = [], uv_lastLogin = None\<rparr>"

theorem own_account_safe_witness:
  "\<exists>u. uv_id u = 2 \<and> Some ''root'' \<noteq> Some (uv_username u) \<and> (ToggleDisabled eve = RemoveUserConfirmed u \<or> ToggleDisabled eve = ToggleDisabled u)"
proof (rule own_account_safe [where fm = plain_formats and b = True and c = "updateUser 2 (JObj [(''disabled'', JBool True)])"])
  let ?s = "fst (users_step (UsersArrived (Loaded [eve])) (users_init (Some ''root'')))"
  show "users_run plain_formats (Some ''root'') ?s"
    by (intro users_next users_start) (simp add: users_answers_def)
  show "ToggleDisabled eve \<in> users_offered plain_formats ?s \<union> users_answers"
    by (simp add: users_offered_def Users_def users_init_def users_table_def user_row_def is_me_def eve_def)
  show "Send (updateUser 2 (JObj [(''disabled'', JBool True)])) \<in> set (snd (users_step (ToggleDisabled eve) ?s))"
    by (simp add: eve_def)
qed simp

definition developer :: role where
  "developer = \<lparr>role_id = 5, role_name = ''developer'', role_description = [], role_isSystem = False, role_createdAt = [],
     role_permissions = []\<rparr>"

theorem system_roles_safe_witness: "\<exists>r :: role. role_id r = 5 \<and> \<not> role_isSystem r"
proof (rule system_roles_safe [where c = "deleteRole 5" and e = "DeleteRoleConfirmed developer"])
  let ?s1 = "fst (roles_step (RolesLoaded (Loaded [developer])) roles_init)"
  let ?s2 = "fst (roles_step (AskDeleteRole developer) ?s1)"
  have "roles_run ?s1" by (intro roles_next roles_start) (simp add: roles_answers_def)
  then show "roles_run ?s2"
    by (rule roles_next) (simp add: Roles_def roles_init_def roles_list_def RoleCard_def developer_def)
  show "DeleteRoleConfirmed developer \<in> view_events (Roles ?s2) \<union> roles_answers"
    by (simp add: Roles_def)
  show "Send (deleteRole 5) \<in> set (snd (roles_step (DeleteRoleConfirmed developer) ?s2))"
    by (simp add: developer_def)
qed simp

end
