(* ===== verification/File_Pages.thy ===== *)
theory File_Pages
  imports Docker_Types
begin

section \<open>Files of the server and of a container: \<open>pages/Files.tsx\<close>, \<open>pages/ContainerFiles.tsx\<close>\<close>

subsection \<open>Paths\<close>

text \<open>\<open>path.split("/").filter(Boolean)\<close> and the path of the first crumbs.\<close>

definition crumbs :: "string \<Rightarrow> string list" where
  "crumbs path = filter (\<lambda>s. s \<noteq> []) (js_split (CHR ''/'') path)"

definition crumb_path :: "string \<Rightarrow> nat \<Rightarrow> string" where
  "crumb_path path i = CHR ''/'' # js_join ''/'' (take (Suc i) (crumbs path))"

text \<open>\<open>bytes\<close>: a size with one decimal, nothing for zero.\<close>

definition bytes_str :: "nat \<Rightarrow> string" where
  "bytes_str n =
     (if n = 0 then em_dash
      else let i = size_exponent n in
        tenths_str (round_div (10 * n) (1024 ^ i)) @ '' '' @
        (if i < 4 then [''B'', ''KB'', ''MB'', ''GB''] ! i else ''undefined''))"

subsection \<open>\<open>Files\<close>\<close>

record file_info =
  fi_name :: string
  fi_path :: string
  fi_isDir :: bool
  fi_size :: nat
  fi_modTime :: string

record open_file =
  of_path :: string
  of_name :: string
  of_original :: string
  of_content :: string

record delete_target =
  dl_path :: string
  dl_name :: string
  dl_isDir :: bool

record files_state =
  fs_path :: string
  fs_cache :: "string \<Rightarrow> file_info list query"
  fs_editor :: "open_file option"
  fs_saving :: bool
  fs_loadingEdit :: "string option"
  fs_deleting :: "string option"
  fs_deleteConfirm :: "delete_target option"

definition files_init :: files_state where
  "files_init =
     \<lparr>fs_path = ''/'', fs_cache = (\<lambda>_. Pending), fs_editor = None, fs_saving = False, fs_loadingEdit = None,
      fs_deleting = None, fs_deleteConfirm = None\<rparr>"

definition files_mount :: "client_out list" where
  "files_mount = [Send (listFiles ''/'')]"

text \<open>
  Going to a directory asks for its listing (react-query saves the request while it has a fresh answer).
  An answer comes with what its handler's closure holds: the file asked for; the target of a deletion with
  the directory and the open file of the moment \<open>Delete\<close> was pressed.
\<close>

datatype files_event =
    SetPath string
  | Listed string "file_info list query"
  | OpenEditor string string
  | ContentArrived string string string
  | ContentFailed string
  | TypeContent string
  | SaveFile
  | FileSaved
  | FileSaveFailed string
  | CloseEditor
  | AskDeleteFile delete_target
  | CancelDeleteFile
  | DeleteFileClicked
  | FileDeleted delete_target string "string option"
  | FileDeleteFailed delete_target string
  | DownloadFile string

fun files_step :: "files_event \<Rightarrow> files_state \<Rightarrow> files_state \<times> client_out list" where
  "files_step (SetPath p) s = (s\<lparr>fs_path := p\<rparr>, if p = fs_path s then [] else [Send (listFiles p)])"
| "files_step (Listed p q) s = (s\<lparr>fs_cache := (fs_cache s)(p := q)\<rparr>, [])"
| "files_step (OpenEditor p n) s = (s\<lparr>fs_loadingEdit := Some p\<rparr>, [Send (getFileContent p)])"
| "files_step (ContentArrived p n c) s =
     (s\<lparr>fs_editor := Some \<lparr>of_path = p, of_name = n, of_original = c, of_content = c\<rparr>, fs_loadingEdit := None\<rparr>, [])"
| "files_step (ContentFailed msg) s =
     (s\<lparr>fs_loadingEdit := None\<rparr>, [ToastErr (if msg \<noteq> [] then msg else ''Could not read file'')])"
| "files_step (TypeContent v) s = (s\<lparr>fs_editor := map_option (\<lambda>e. e\<lparr>of_content := v\<rparr>) (fs_editor s)\<rparr>, [])"
| "files_step SaveFile s =
     (case fs_editor s of
        None \<Rightarrow> (s, [])
      | Some e \<Rightarrow> (s\<lparr>fs_saving := True\<rparr>, [Send (updateFile (of_path e) (of_content e))]))"
| "files_step FileSaved s =
     (s\<lparr>fs_editor := map_option (\<lambda>e. e\<lparr>of_original := of_content e\<rparr>) (fs_editor s), fs_saving := False\<rparr>,
      [ToastOk ''File saved''])"
| "files_step (FileSaveFailed msg) s =
     (s\<lparr>fs_saving := False\<rparr>, [ToastErr (if msg \<noteq> [] then msg else ''Failed to save file'')])"
| "files_step CloseEditor s = (s\<lparr>fs_editor := None\<rparr>, [])"
| "files_step (AskDeleteFile t) s = (s\<lparr>fs_deleteConfirm := Some t\<rparr>, [])"
| "files_step CancelDeleteFile s = (s\<lparr>fs_deleteConfirm := None\<rparr>, [])"
| "files_step DeleteFileClicked s =
     (case fs_deleteConfirm s of
        None \<Rightarrow> (s, [])
      | Some t \<Rightarrow> (s\<lparr>fs_deleting := Some (dl_path t), fs_deleteConfirm := None\<rparr>, [Send (deleteFile (dl_path t))]))"
| "files_step (FileDeleted t dir opened) s =
     (s\<lparr>fs_deleting := None, fs_editor := (if opened = Some (dl_path t) then None else fs_editor s)\<rparr>,
      [ToastOk (''Deleted '' @ dl_name t), Invalidate [''files'', dir]])"
| "files_step (FileDeleteFailed t msg) s =
     (s\<lparr>fs_deleting := None\<rparr>,
      [ToastErr (if msg \<noteq> [] then msg else ''Failed to delete \"'' @ dl_name t @ ''\"'')])"
| "files_step (DownloadFile p) s = (s, [OpenUrl (''/files/download?path='' @ encodeURIComponent p)])"

definition isDirty :: "files_state \<Rightarrow> bool" where
  "isDirty s = (case fs_editor s of Some e \<Rightarrow> of_content e \<noteq> of_original e | None \<Rightarrow> False)"

definition file_row :: "files_state \<Rightarrow> file_info \<Rightarrow> files_event widget list" where
  "file_row s f =
     [if fi_isDir f then Button (fi_name f) False (SetPath (fi_path f)) else Label (fi_name f),
      Label (bytes_str (fi_size f))] @
     (if fi_isDir f then []
      else [Button ''Download'' False (DownloadFile (fi_path f)),
            Button ''Edit'' (fs_loadingEdit s = Some (fi_path f)) (OpenEditor (fi_path f) (fi_name f))]) @
     [Button ''Delete'' (fs_deleting s = Some (fi_path f))
        (AskDeleteFile \<lparr>dl_path = fi_path f, dl_name = fi_name f, dl_isDir = fi_isDir f\<rparr>)]"

definition crumb_bar :: "(string \<Rightarrow> 'e) \<Rightarrow> string \<Rightarrow> 'e widget list" where
  "crumb_bar f path =
     Button ''Home'' False (f ''/'') #
     map (\<lambda>(i, part). Button part False (f (crumb_path path i))) (indexed (crumbs path))"

definition editor_panel :: "files_state \<Rightarrow> open_file \<Rightarrow> files_event widget list" where
  "editor_panel s e =
     [Label (of_path e)] @ (if isDirty s then [Label ''Unsaved''] else []) @
     [Button ''Save'' (fs_saving s \<or> \<not> isDirty s) SaveFile, Button ''Close'' False CloseEditor,
      Input [] (of_content e) TypeContent]"

definition file_listing :: "files_state \<Rightarrow> files_event widget list" where
  "file_listing s =
     Label (fs_path s) #
     (case fs_cache s (fs_path s) of
        Pending \<Rightarrow> []
      | q \<Rightarrow> if data_or [] q = [] then [Label ''Empty directory''] else concat (map (file_row s) (data_or [] q)))"

definition delete_box :: "delete_target \<Rightarrow> files_event widget list" where
  "delete_box t =
     [Label (''Delete '' @ (if dl_isDir t then ''directory'' else ''file'') @ ''?''),
      Label (dl_name t @ (if dl_isDir t then '' and all its contents'' else []) @ '' will be permanently deleted.''),
      Button ''Cancel'' False CancelDeleteFile, Button ''Delete'' False DeleteFileClicked]"

text \<open>The box of a deletion covers the page.\<close>

definition Files :: "files_state \<Rightarrow> files_event widget list" where
  "Files s =
     (case fs_deleteConfirm s of
        Some t \<Rightarrow> delete_box t
      | None \<Rightarrow>
        [Label ''Files'', Label ''Browse, edit, and manage server files''] @ crumb_bar SetPath (fs_path s) @
        file_listing s @ (case fs_editor s of Some e \<Rightarrow> editor_panel s e | None \<Rightarrow> []))"

subsection \<open>\<open>ContainerFiles\<close>\<close>

record dir_entry =
  de_name :: string
  de_isDir :: bool
  de_size :: nat
  de_mode :: string
  de_modTime :: string

record cfiles_state =
  cf_path :: string
  cf_cache :: "string \<Rightarrow> dir_entry list query"

definition cfiles_init :: cfiles_state where
  "cfiles_init = \<lparr>cf_path = ''/'', cf_cache = (\<lambda>_. Pending)\<rparr>"

definition container_base :: "string \<Rightarrow> string \<Rightarrow> string" where
  "container_base name cid = ''/api/projects/'' @ name @ ''/containers/'' @ cid @ ''/files''"

definition listDir :: "string \<Rightarrow> string \<Rightarrow> string \<Rightarrow> api_call" where
  "listDir name cid path = api_get (container_base name cid @ ''?path='' @ encodeURIComponent path)"

text \<open>\<open>path.endsWith("/") ? path + entry.name : path + "/" + entry.name\<close>.\<close>

definition join_path :: "string \<Rightarrow> string \<Rightarrow> string" where
  "join_path path n = (if path \<noteq> [] \<and> last path = CHR ''/'' then path @ n else path @ ''/'' @ n)"

definition downloadUrl :: "string \<Rightarrow> string \<Rightarrow> string \<Rightarrow> dir_entry \<Rightarrow> string" where
  "downloadUrl name cid path e =
     container_base name cid @ ''/download?path='' @ encodeURIComponent (join_path path (de_name e))"

datatype cfiles_event =
    EnterDir dir_entry
  | GoToCrumb "nat option"
  | DownloadEntry dir_entry
  | DirListed string "dir_entry list query"
  | BackToProjects
  | ToShell

definition set_cpath :: "string \<Rightarrow> string \<Rightarrow> string \<Rightarrow> cfiles_state \<Rightarrow> cfiles_state \<times> client_out list" where
  "set_cpath name cid p s = (s\<lparr>cf_path := p\<rparr>, if p = cf_path s then [] else [Send (listDir name cid p)])"

fun cfiles_step :: "string \<Rightarrow> string \<Rightarrow> cfiles_event \<Rightarrow> cfiles_state \<Rightarrow> cfiles_state \<times> client_out list" where
  "cfiles_step name cid (EnterDir e) s =
     (if de_isDir e then set_cpath name cid (join_path (cf_path s) (de_name e)) s else (s, []))"
| "cfiles_step name cid (GoToCrumb i) s =
     set_cpath name cid (case i of None \<Rightarrow> ''/'' | Some i \<Rightarrow> crumb_path (cf_path s) i) s"
| "cfiles_step name cid (DownloadEntry e) s = (s, [OpenUrl (downloadUrl name cid (cf_path s) e)])"
| "cfiles_step name cid (DirListed p q) s = (s\<lparr>cf_cache := (cf_cache s)(p := q)\<rparr>, [])"
| "cfiles_step name cid BackToProjects s = (s, [GoTo ''/projects''])"
| "cfiles_step name cid ToShell s = (s, [GoTo (''/projects/'' @ name @ ''/containers/'' @ cid @ ''/shell'')])"

definition dir_row :: "dir_entry \<Rightarrow> cfiles_event widget list" where
  "dir_row e =
     [if de_isDir e then Button (de_name e) False (EnterDir e) else Label (de_name e),
      Label (de_mode e), Label (bytes_str (de_size e))] @
     (if de_isDir e then [] else [Button ''Download'' False (DownloadEntry e)])"

definition dir_listing :: "cfiles_state \<Rightarrow> cfiles_event widget list" where
  "dir_listing s =
     Label (cf_path s) #
     (case cf_cache s (cf_path s) of
        Pending \<Rightarrow> []
      | QueryFailed msg \<Rightarrow> [Label msg]
      | Loaded es \<Rightarrow> if es = [] then [Label ''Empty directory''] else concat (map dir_row es))"

definition ContainerFiles :: "string \<Rightarrow> cfiles_state \<Rightarrow> cfiles_event widget list" where
  "ContainerFiles cid s =
     [Button ''Back'' False BackToProjects, Label ''Container Files'', Label cid, Button ''Shell'' False ToShell,
      Button ''Home'' False (GoToCrumb None)] @
     map (\<lambda>(i, part). Button part False (GoToCrumb (Some i))) (indexed (crumbs (cf_path s))) @
     dir_listing s"

end
