(* ===== verification/File_Properties.thy ===== *)
theory File_Properties
  imports File_Pages Server_Routes Simulation
begin

section \<open>What the pages of files guarantee\<close>

subsection \<open>Paths\<close>

text \<open>A path is in normal form when it is the root or a slash before each of its parts.\<close>

definition path_of :: "string list \<Rightarrow> string" where
  "path_of ps = CHR ''/'' # js_join ''/'' ps"

definition part_ok :: "string \<Rightarrow> bool" where
  "part_ok s = (s \<noteq> [] \<and> CHR ''/'' \<notin> set s)"

lemma crumbs_path_of:
  assumes "list_all part_ok ps"
  shows "crumbs (path_of ps) = ps"
proof (cases "ps = []")
  case True
  then show ?thesis by (simp add: crumbs_def path_of_def)
next
  case False
  have "js_split (CHR ''/'') (path_of ps) = [] # js_split (CHR ''/'') (js_join ''/'' ps)"
    by (simp add: path_of_def)
  also have "js_split (CHR ''/'') (js_join ''/'' ps) = ps"
    using assms False by (intro js_split_join) (auto simp: list_all_iff part_ok_def)
  finally have "crumbs (path_of ps) = filter (\<lambda>s. s \<noteq> []) ps" by (simp add: crumbs_def)
  also have "\<dots> = ps" using assms by (intro filter_True) (auto simp: list_all_iff part_ok_def)
  finally show ?thesis .
qed

lemma js_join_last: "ps \<noteq> [] \<Longrightarrow> last ps \<noteq> [] \<Longrightarrow> js_join sep ps \<noteq> [] \<and> last (js_join sep ps) = last (last ps)"
proof (induction ps)
  case (Cons p ps)
  then show ?case by (cases ps) auto
qed simp

lemma js_join_snoc: "ps \<noteq> [] \<Longrightarrow> js_join sep (ps @ [p]) = js_join sep ps @ sep @ p"
proof (induction ps)
  case (Cons q ps)
  then show ?case by (cases ps) auto
qed simp

lemma join_path_of:
  assumes "list_all part_ok ps"
  shows "join_path (path_of ps) n = path_of (ps @ [n])"
proof (cases "ps = []")
  case True
  then show ?thesis by (simp add: join_path_def path_of_def)
next
  case False
  then have "part_ok (last ps)" using assms by (simp add: list_all_iff)
  then have "last ps \<noteq> []" "last (last ps) \<noteq> CHR ''/''"
    using last_in_set [of "last ps"] by (metis part_ok_def)+
  then have "last (path_of ps) \<noteq> CHR ''/''"
    using js_join_last [OF False, of "''/''"] by (simp add: path_of_def)
  then show ?thesis using False by (simp add: join_path_def path_of_def js_join_snoc)
qed

subsection \<open>Walking through the directories of a container\<close>

text \<open>The abstract walk: the list of the parts of the path.\<close>

fun walk_step :: "cfiles_event \<Rightarrow> string list \<Rightarrow> string list" where
  "walk_step (EnterDir e) ps = (if de_isDir e then ps @ [de_name e] else ps)"
| "walk_step (GoToCrumb i) ps = (case i of None \<Rightarrow> [] | Some i \<Rightarrow> take (Suc i) ps)"
| "walk_step _ ps = ps"

definition path_normal :: "cfiles_state \<Rightarrow> bool" where
  "path_normal s = (list_all part_ok (crumbs (cf_path s)) \<and> cf_path s = path_of (crumbs (cf_path s)))"

text \<open>A directory lists entries by their names.\<close>

fun named_entry :: "cfiles_event \<Rightarrow> bool" where
  "named_entry (EnterDir e) = part_ok (de_name e)"
| "named_entry _ = True"

abbreviation cfiles_next where
  "cfiles_next name cid e s \<equiv> fst (cfiles_step name cid e s)"

lemma crumb_path_of: "crumb_path p i = path_of (take (Suc i) (crumbs p))" "''/'' = path_of []"
  by (simp_all add: crumb_path_def path_of_def)

lemma walk_path:
  assumes "path_normal s" and "named_entry e"
  shows "cf_path (cfiles_next name cid e s) = path_of (walk_step e (crumbs (cf_path s)))"
    and "list_all part_ok (walk_step e (crumbs (cf_path s)))"
proof -
  define ps where "ps = crumbs (cf_path s)"
  have s: "list_all part_ok ps" "cf_path s = path_of ps" "crumbs (path_of ps) = ps"
    using assms(1) by (simp_all add: path_normal_def ps_def crumbs_path_of)
  show "cf_path (cfiles_next name cid e s) = path_of (walk_step e (crumbs (cf_path s)))"
    using s by (cases e) (simp_all add: set_cpath_def join_path_of crumb_path_of split: option.split)
  show "list_all part_ok (walk_step e (crumbs (cf_path s)))"
    using s assms(2) by (cases e) (auto simp: list_all_iff dest: in_set_takeD split: option.split)
qed

interpretation walk: simulation "cfiles_next name cid" walk_step "\<lambda>s. crumbs (cf_path s)" path_normal named_entry
  by unfold_locales (simp_all add: walk_path crumbs_path_of path_normal_def)


definition dir_entry_of :: "string \<Rightarrow> dir_entry" where
  "dir_entry_of n = \<lparr>de_name = n, de_isDir = True, de_size = 0, de_mode = [], de_modTime = []\<rparr>"


subsection \<open>Saving a file\<close>

text \<open>Text typed while a save is under way is taken for saved when the server answers: the request held
  the text before, yet the file no longer counts as changed, \<open>Save\<close> is not offered, and closing the
  editor loses the text without a word.\<close>

theorem typed_during_save_lost:
  assumes "fs_editor s = Some e" and "fs_deleteConfirm s = None" and "of_content e \<noteq> of_original e" and "v \<noteq> of_content e"
  defines "run \<equiv> \<lambda>evs. fold (\<lambda>ev t. fst (files_step ev t)) evs s"
  shows "snd (files_step SaveFile s) = [Send (updateFile (of_path e) (of_content e))]
       \<and> (\<exists>f. fs_editor (run [SaveFile, TypeContent v, FileSaved]) = Some f \<and> of_content f = v)
       \<and> \<not> isDirty (run [SaveFile, TypeContent v, FileSaved])
       \<and> SaveFile \<notin> view_events (Files (run [SaveFile, TypeContent v, FileSaved]))"
proof -
  have row: "SaveFile \<notin> view_events (file_row t f)" for t f by (simp add: file_row_def)
  have listing: "SaveFile \<notin> view_events (file_listing t)" for t
    using row by (auto simp: file_listing_def split: query.split)
  have crumb: "SaveFile \<notin> view_events (crumb_bar SetPath p)" for p
    by (auto simp: crumb_bar_def view_events_map)
  show ?thesis
    using assms(1,2) unfolding run_def
    by (simp add: isDirty_def Files_def editor_panel_def listing crumb image_iff)
qed

theorem typed_during_save_lost_witness:
  "\<not> isDirty (fold (\<lambda>ev t. fst (files_step ev t)) [SaveFile, TypeContent ''b'', FileSaved]
     (files_init\<lparr>fs_editor := Some \<lparr>of_path = ''/x'', of_name = ''x'', of_original = [], of_content = ''a''\<rparr>\<rparr>))"
  using typed_during_save_lost [of "files_init\<lparr>fs_editor := Some \<lparr>of_path = ''/x'', of_name = ''x'', of_original = [],
      of_content = ''a''\<rparr>\<rparr>" "\<lparr>of_path = ''/x'', of_name = ''x'', of_original = [], of_content = ''a''\<rparr>" "''b''"]
  by (simp add: files_init_def del: fold_simps files_step.simps)

end
