(* ===== verification/Log_Pages.thy ===== *)
theory Log_Pages
  imports Docker_Types Web_Socket "HOL-Library.List_Lexorder" "HOL-Library.Char_ord"
begin

section \<open>Streams and lists of records: \<open>Logs.tsx\<close>, \<open>ProjectLogs.tsx\<close>, \<open>Events.tsx\<close>, \<open>AuditLogs.tsx\<close>\<close>

text \<open>
  Three pages show what arrives on a socket (\<open>useWebSocket\<close>, which dials anew when the path changes) and
  keep a bounded number of lines; the fourth pages through the audit log. Whether the view is scrolled to
  its end is measured by the browser and comes as an event. The texts of times are the parameters of
  \<open>formats\<close>; a search compares lower-case letters (ASCII).
\<close>

definition matches :: "string \<Rightarrow> string \<Rightarrow> bool" where
  "matches text search = (search = [] \<or> str_contains (ascii_lower text) (ascii_lower search))"

text \<open>\<open>xs.slice(-n)\<close>.\<close>

definition last_n :: "nat \<Rightarrow> 'a list \<Rightarrow> 'a list" where
  "last_n n xs = drop (length xs - n) xs"

text \<open>\<open>"?" + params\<close>, nothing without parameters.\<close>

definition query_string :: "(string \<times> string) list \<Rightarrow> string" where
  "query_string ps = (if ps = [] then [] else CHR ''?'' # search_params ps)"

definition param :: "string \<Rightarrow> string \<Rightarrow> (string \<times> string) list" where
  "param k v = (if v = [] then [] else [(k, v)])"

subsection \<open>\<open>Logs\<close>\<close>

definition push_line :: "string \<Rightarrow> string list \<Rightarrow> string list" where
  "push_line l p = last_n 2000 p @ [l]"

record stream_state =
  st_lines :: "string list"
  st_paused :: bool
  st_search :: string
  st_level :: string
  st_unit :: string
  st_priority :: string

definition server_init :: stream_state where
  "server_init = \<lparr>st_lines = [], st_paused = False, st_search = [], st_level = ''all'', st_unit = [], st_priority = []\<rparr>"

definition journal_init :: stream_state where
  "journal_init = server_init"

definition ALL_LEVELS :: "string list" where
  "ALL_LEVELS = [''error'', ''warn'', ''info'', ''debug'']"

definition JOURNAL_PRIORITIES :: "(string \<times> string) list" where
  "JOURNAL_PRIORITIES =
     [(''All'', []), (''ERROR'', ''3''), (''WARNING'', ''4''), (''NOTICE'', ''5''), (''INFO'', ''6''), (''DEBUG'', ''7'')]"

datatype stream_event =
    LineArrived string string
  | TypeSearch string
  | PickLevel string
  | TypeUnit string
  | PickPriority string
  | TogglePause
  | ClearLines

fun stream_step :: "stream_event \<Rightarrow> stream_state \<Rightarrow> stream_state" where
  "stream_step (LineArrived type text) s =
     (if type = ''log'' \<and> \<not> st_paused s then s\<lparr>st_lines := push_line text (st_lines s)\<rparr> else s)"
| "stream_step (TypeSearch q) s = s\<lparr>st_search := q\<rparr>"
| "stream_step (PickLevel l) s = s\<lparr>st_level := l\<rparr>"
| "stream_step (TypeUnit u) s = s\<lparr>st_unit := u\<rparr>"
| "stream_step (PickPriority p) s = s\<lparr>st_priority := p\<rparr>"
| "stream_step TogglePause s = s\<lparr>st_paused := \<not> st_paused s\<rparr>"
| "stream_step ClearLines s = s\<lparr>st_lines := []\<rparr>"

definition server_path :: string where
  "server_path = ''/api/ws/logs''"

definition journal_path :: "stream_state \<Rightarrow> string" where
  "journal_path s = ''/api/ws/logs/journalctl'' @ query_string (param ''unit'' (st_unit s) @ param ''priority'' (st_priority s))"

definition server_filtered :: "stream_state \<Rightarrow> string list" where
  "server_filtered s =
     filter (\<lambda>l. matches l (st_search s) \<and>
                (st_level s = ''all'' \<or> str_contains (ascii_lower l) (''level='' @ st_level s))) (st_lines s)"

definition journal_filtered :: "stream_state \<Rightarrow> string list" where
  "journal_filtered s = filter (\<lambda>l. matches l (st_search s)) (st_lines s)"

definition stream_tail :: "stream_state \<Rightarrow> string list \<Rightarrow> stream_event widget list" where
  "stream_tail s shown =
     [Button (if st_paused s then ''Resume'' else ''Pause'') False TogglePause, Button ''Clear'' False ClearLines,
      Label (nat_str (length shown) @ '' lines'')] @
     (if shown = [] then
        [Label (if st_paused s then ''Stream paused '' @ em_dash @ '' resume to see new events.''
                else ''Waiting for events'' @ ellipsis)]
      else map Label shown)"

definition ServerLogs :: "stream_state \<Rightarrow> stream_event widget list" where
  "ServerLogs s =
     [Input (''Filter'' @ ellipsis) (st_search s) TypeSearch,
      Select (st_level s) ((''all'', ''All levels'') # map (\<lambda>l. (l, ascii_upper l)) ALL_LEVELS) PickLevel] @
     stream_tail s (server_filtered s)"

definition JournalLogs :: "stream_state \<Rightarrow> stream_event widget list" where
  "JournalLogs s =
     [Input (''Filter'' @ ellipsis) (st_search s) TypeSearch, Input ''Unit (e.g. nginx)'' (st_unit s) TypeUnit,
      Select (st_priority s) (map (\<lambda>(l, v). (v, l)) JOURNAL_PRIORITIES) PickPriority] @
     stream_tail s (journal_filtered s)"

datatype logs_tab = ServerTab | JournalTab

text \<open>The tab that is not shown is unmounted, so choosing one starts it anew.\<close>

record logs_state =
  lo_tab :: logs_tab
  lo_stream :: stream_state

definition logs_init :: logs_state where
  "logs_init = \<lparr>lo_tab = ServerTab, lo_stream = server_init\<rparr>"

datatype logs_event = PickTab logs_tab | Stream stream_event

fun logs_step :: "logs_event \<Rightarrow> logs_state \<Rightarrow> logs_state" where
  "logs_step (PickTab t) s =
     (if t = lo_tab s then s
      else \<lparr>lo_tab = t, lo_stream = (case t of ServerTab \<Rightarrow> server_init | JournalTab \<Rightarrow> journal_init)\<rparr>)"
| "logs_step (Stream e) s = s\<lparr>lo_stream := stream_step e (lo_stream s)\<rparr>"

definition logs_socket :: "logs_state \<Rightarrow> string" where
  "logs_socket s = (case lo_tab s of ServerTab \<Rightarrow> server_path | JournalTab \<Rightarrow> journal_path (lo_stream s))"

definition Logs :: "logs_state \<Rightarrow> logs_event widget list" where
  "Logs s =
     [Label ''Logs'', Label ''Server activity'', Button ''Server'' False (PickTab ServerTab),
      Button ''Journalctl'' False (PickTab JournalTab)] @
     lift_view Stream (case lo_tab s of ServerTab \<Rightarrow> ServerLogs (lo_stream s) | JournalTab \<Rightarrow> JournalLogs (lo_stream s))"

subsection \<open>\<open>ProjectLogs\<close>\<close>

text \<open>
  A line of the stream is the JSON of a record with three texts; what is not such a record is shown as it
  came, with the present time. (The server sends the three as texts; another type of a field counts as no
  text here.)
\<close>

record project_line =
  ll_container :: string
  ll_log :: string
  ll_time :: string

definition line_field :: "js \<Rightarrow> string \<Rightarrow> string" where
  "line_field v k = (case js_prop v k of JStr s \<Rightarrow> s | _ \<Rightarrow> [])"

definition parseLogLine :: "(string \<Rightarrow> js option) \<Rightarrow> string \<Rightarrow> string \<Rightarrow> project_line" where
  "parseLogLine json now raw =
     (case json raw of
        Some v \<Rightarrow>
          if js_truthy v \<and> js_prop v ''log'' \<noteq> JUndef
          then \<lparr>ll_container = line_field v ''container'', ll_log = line_field v ''log'', ll_time = line_field v ''time''\<rparr>
          else \<lparr>ll_container = [], ll_log = raw, ll_time = now\<rparr>
      | None \<Rightarrow> \<lparr>ll_container = [], ll_log = raw, ll_time = now\<rparr>)"

definition push_log :: "project_line \<Rightarrow> project_line list \<Rightarrow> project_line list" where
  "push_log l p = last_n 5000 p @ [l]"

definition TAIL_OPTIONS :: "string list" where
  "TAIL_OPTIONS = [''50'', ''100'', ''200'', ''500'', ''1000'', ''all'']"

record plogs_state =
  pg_tail :: string
  pg_follow :: bool
  pg_since :: string
  pg_until :: string
  pg_lines :: "project_line list"
  pg_services :: "string list"
  pg_selected :: string
  pg_search :: string
  pg_atBottom :: bool

definition plogs_init :: plogs_state where
  "plogs_init =
     \<lparr>pg_tail = ''200'', pg_follow = True, pg_since = [], pg_until = [], pg_lines = [], pg_services = [],
      pg_selected = ''all'', pg_search = [], pg_atBottom = True\<rparr>"

datatype plogs_event =
    ServicesArrived "string list"
  | LogArrived string string
  | SearchLogs string
  | PickService string
  | PickTail string
  | ToggleFollow
  | PickSince string
  | PickUntil string
  | ClearLogs
  | Scrolled bool
  | ScrollToBottom
  | LeaveLogs

definition clearLogs :: "plogs_state \<Rightarrow> plogs_state" where
  "clearLogs s =
     (if pg_selected s = ''all'' then s\<lparr>pg_lines := []\<rparr>
      else s\<lparr>pg_lines := filter (\<lambda>l. ll_container l \<noteq> pg_selected s) (pg_lines s)\<rparr>)"

fun plogs_step :: "(string \<Rightarrow> js option) \<Rightarrow> plogs_event \<Rightarrow> plogs_state \<Rightarrow> plogs_state \<times> client_out list" where
  "plogs_step json (ServicesArrived xs) s = (s\<lparr>pg_services := xs\<rparr>, [])"
| "plogs_step json (LogArrived now raw) s = (s\<lparr>pg_lines := push_log (parseLogLine json now raw) (pg_lines s)\<rparr>, [])"
| "plogs_step json (SearchLogs q) s = (s\<lparr>pg_search := q\<rparr>, [])"
| "plogs_step json (PickService c) s = (s\<lparr>pg_selected := c\<rparr>, [])"
| "plogs_step json (PickTail t) s = (s\<lparr>pg_tail := t, pg_lines := []\<rparr>, [])"
| "plogs_step json ToggleFollow s = (s\<lparr>pg_follow := \<not> pg_follow s\<rparr>, [])"
| "plogs_step json (PickSince d) s = (s\<lparr>pg_since := d, pg_lines := []\<rparr>, [])"
| "plogs_step json (PickUntil d) s = (s\<lparr>pg_until := d, pg_lines := []\<rparr>, [])"
| "plogs_step json ClearLogs s = (clearLogs s, [])"
| "plogs_step json (Scrolled b) s = (s\<lparr>pg_atBottom := b\<rparr>, [])"
| "plogs_step json ScrollToBottom s = (s\<lparr>pg_atBottom := True\<rparr>, [])"
| "plogs_step json LeaveLogs s = (s, [GoTo ''/projects''])"

text \<open>\<open>new Date(d).toISOString()\<close> is the parameter \<open>isoDate\<close>.\<close>

definition plogs_path :: "(string \<Rightarrow> string) \<Rightarrow> string \<Rightarrow> plogs_state \<Rightarrow> string" where
  "plogs_path isoDate name s =
     ''/api/ws/projects/'' @ name @ ''/logs?'' @ search_params
       ([(''tail'', pg_tail s), (''follow'', if pg_follow s then ''true'' else ''false'')] @
        (if pg_since s = [] then [] else [(''since'', isoDate (pg_since s))]) @
        (if pg_until s = [] then [] else [(''until'', isoDate (pg_until s))]))"

definition plogs_filtered :: "plogs_state \<Rightarrow> project_line list" where
  "plogs_filtered s =
     filter (\<lambda>l. matches (ll_log l) (pg_search s))
       (if pg_selected s = ''all'' then pg_lines s else filter (\<lambda>l. ll_container l = pg_selected s) (pg_lines s))"

definition log_row :: "formats \<Rightarrow> string \<Rightarrow> plogs_state \<Rightarrow> project_line \<Rightarrow> plogs_event widget list" where
  "log_row fm name s l =
     [Label (fm_date fm (ll_time l))] @
     (if length (pg_services s) > 1 \<and> pg_selected s = ''all'' \<and> ll_container l \<noteq> []
      then [Label (''['' @ remove_first (name @ ''-'') (ll_container l) @ '']'')] else []) @
     [Label (ll_log l)]"

definition ProjectLogs :: "formats \<Rightarrow> string \<Rightarrow> ws_status \<Rightarrow> plogs_state \<Rightarrow> plogs_event widget list" where
  "ProjectLogs fm name status s =
     [Button ''Back'' False LeaveLogs, Label name, Label ''Logs'',
      Label (case status of Connecting \<Rightarrow> ''connecting'' | WsOpen \<Rightarrow> ''open'' | WsClosed \<Rightarrow> ''closed''),
      Input (''Search logs'' @ ellipsis) (pg_search s) SearchLogs] @
     (if pg_services s \<noteq> [] then
        [Select (pg_selected s) ((''all'', ''All services'') # map (\<lambda>x. (x, x)) (pg_services s)) PickService] else []) @
     [Label ''Tail'', Select (pg_tail s) (map (\<lambda>t. (t, if t = ''all'' then ''All'' else t)) TAIL_OPTIONS) PickTail,
      Button ''Follow'' False ToggleFollow, Label ''Since'', Input [] (pg_since s) PickSince,
      Label ''Until'', Input [] (pg_until s) PickUntil, Button ''Clear'' False ClearLogs] @
     (if plogs_filtered s = [] then
        [Label (if status = Connecting then ''Connecting'' @ ellipsis else ''Waiting for logs'' @ ellipsis)]
      else concat (map (log_row fm name s) (plogs_filtered s))) @
     (if pg_atBottom s then [] else [Button ''Bottom'' False ScrollToBottom]) @
     [Label (nat_str (length (plogs_filtered s)) @ '' line'' @ (if length (plogs_filtered s) \<noteq> 1 then ''s'' else []) @
             (if pg_search s \<noteq> [] then '' (filtered)'' else []))]"

subsection \<open>\<open>Events\<close>\<close>

record docker_event =
  ev_type :: string
  ev_action :: string
  ev_id :: "string option"
  ev_attributes :: "string obj option"
  ev_time :: nat

record events_state =
  es_events :: "(nat \<times> docker_event) list"
  es_seq :: nat
  es_paused :: bool
  es_type :: string
  es_action :: string
  es_autoScroll :: bool

definition events_init :: events_state where
  "events_init = \<lparr>es_events = [], es_seq = 0, es_paused = False, es_type = [], es_action = [], es_autoScroll = True\<rparr>"

definition push_event :: "nat \<times> docker_event \<Rightarrow> (nat \<times> docker_event) list \<Rightarrow> (nat \<times> docker_event) list" where
  "push_event e prev = (let next = prev @ [e] in if length next > 500 then last_n 500 next else next)"

datatype events_event =
    EventArrived docker_event
  | PauseEvents
  | ClearEvents
  | FilterType string
  | FilterAction string
  | AutoScroll bool

fun events_step :: "events_event \<Rightarrow> events_state \<Rightarrow> events_state" where
  "events_step (EventArrived e) s =
     (if es_paused s then s
      else s\<lparr>es_events := push_event (es_seq s, e) (es_events s), es_seq := Suc (es_seq s)\<rparr>)"
| "events_step PauseEvents s = s\<lparr>es_paused := \<not> es_paused s\<rparr>"
| "events_step ClearEvents s = s\<lparr>es_events := []\<rparr>"
| "events_step (FilterType t) s = s\<lparr>es_type := t\<rparr>"
| "events_step (FilterAction a) s = s\<lparr>es_action := a\<rparr>"
| "events_step (AutoScroll b) s = s\<lparr>es_autoScroll := b\<rparr>"

definition events_path :: "events_state \<Rightarrow> string" where
  "events_path s = ''/api/ws/events'' @ query_string (param ''type'' (es_type s) @ param ''action'' (es_action s))"

definition visibleEvents :: "events_state \<Rightarrow> (nat \<times> docker_event) list" where
  "visibleEvents s =
     filter (\<lambda>(n, e). (es_type s = [] \<or> ev_type e = es_type s) \<and> (es_action s = [] \<or> ev_action e = es_action s)) (es_events s)"

text \<open>\<open>[...new Set(xs)].sort()\<close>.\<close>

definition unique_sorted :: "string list \<Rightarrow> string list" where
  "unique_sorted xs = sorted_list_of_set (set xs)"

definition obj_name :: "docker_event \<Rightarrow> string" where
  "obj_name e =
     (case Option.bind (ev_attributes e) (\<lambda>a. obj_get a ''name'') of
        Some n \<Rightarrow> n
      | None \<Rightarrow> (case ev_id e of Some i \<Rightarrow> take 12 i | None \<Rightarrow> em_dash))"

definition attrs_text :: "docker_event \<Rightarrow> string" where
  "attrs_text e =
     js_join '', '' (map (\<lambda>(k, v). k @ ''='' @ v)
       (take 4 (filter (\<lambda>(k, v). k \<noteq> ''name'' \<and> strip_prefix ''com.docker.'' k = None) (list_of_opt (ev_attributes e)))))"

definition event_row :: "(nat \<Rightarrow> string) \<Rightarrow> docker_event \<Rightarrow> events_event widget list" where
  "event_row ts e =
     [Label (ts (ev_time e)), Label (ev_type e), Label (ev_action e), Label (obj_name e), Label (or_dash (attrs_text e))]"

definition Events :: "(nat \<Rightarrow> string) \<Rightarrow> ws_status \<Rightarrow> events_state \<Rightarrow> events_event widget list" where
  "Events ts status s =
     [Label ''Events'', Label ''Real-time Docker daemon events'',
      Label (case status of Connecting \<Rightarrow> ''connecting'' | WsOpen \<Rightarrow> ''Connected'' | WsClosed \<Rightarrow> ''closed''),
      Button (if es_paused s then ''Resume'' else ''Pause'') False PauseEvents, Button ''Clear'' False ClearEvents,
      Select (es_type s) (([], ''All types'') # map (\<lambda>t. (t, t)) (unique_sorted (map (\<lambda>(n, e). ev_type e) (es_events s)))) FilterType,
      Select (es_action s) (([], ''All actions'') # map (\<lambda>t. (t, t)) (unique_sorted (map (\<lambda>(n, e). ev_action e) (es_events s)))) FilterAction,
      Label (nat_str (length (visibleEvents s)) @ '' event'' @ (if length (visibleEvents s) \<noteq> 1 then ''s'' else [])),
      Checkbox ''Auto-scroll'' (es_autoScroll s) AutoScroll] @
     (if visibleEvents s = [] then
        [Label (if status = WsOpen
                then if es_paused s then ''Stream paused '' @ em_dash @ '' resume to see new events''
                     else ''Waiting for events'' @ ellipsis
                else ''Connecting to Docker daemon'' @ ellipsis)]
      else concat (map (\<lambda>(n, e). event_row ts e) (visibleEvents s)))"

subsection \<open>\<open>AuditLogs\<close>\<close>

record audit_log =
  al_id :: nat
  al_createdAt :: string
  al_username :: string
  al_action :: string
  al_resource :: string
  al_ip :: string

record audit_response =
  ar_logs :: "audit_log list"
  ar_total :: nat

definition PAGE_SIZE :: nat where
  "PAGE_SIZE = 50"

record audit_state =
  ap_offset :: nat
  ap_cache :: "nat \<Rightarrow> audit_response query"

definition audit_init :: audit_state where
  "audit_init = \<lparr>ap_offset = 0, ap_cache = (\<lambda>_. Pending)\<rparr>"

definition audit_call :: "nat \<Rightarrow> api_call" where
  "audit_call offset = api_get (''/api/audit?limit='' @ nat_str PAGE_SIZE @ ''&offset='' @ nat_str offset)"

definition audit_total :: "audit_state \<Rightarrow> nat" where
  "audit_total s = (case query_data (ap_cache s (ap_offset s)) of Some r \<Rightarrow> ar_total r | None \<Rightarrow> 0)"

definition ceil_div :: "nat \<Rightarrow> nat \<Rightarrow> nat" where
  "ceil_div a b = (a + b - 1) div b"

definition audit_pages :: "audit_state \<Rightarrow> nat" where
  "audit_pages s = ceil_div (audit_total s) PAGE_SIZE"

definition currentPage :: "audit_state \<Rightarrow> nat" where
  "currentPage s = ap_offset s div PAGE_SIZE + 1"

datatype audit_event = PrevPage | NextPage | AuditArrived nat "audit_response query"

definition set_offset :: "nat \<Rightarrow> audit_state \<Rightarrow> audit_state \<times> client_out list" where
  "set_offset o' s = (s\<lparr>ap_offset := o'\<rparr>, if o' = ap_offset s then [] else [Send (audit_call o')])"

fun audit_step :: "audit_event \<Rightarrow> audit_state \<Rightarrow> audit_state \<times> client_out list" where
  "audit_step PrevPage s = set_offset (ap_offset s - PAGE_SIZE) s"
| "audit_step NextPage s = set_offset (ap_offset s + PAGE_SIZE) s"
| "audit_step (AuditArrived off q) s = (s\<lparr>ap_cache := (ap_cache s)(off := q)\<rparr>, [])"

definition audit_row :: "formats \<Rightarrow> audit_log \<Rightarrow> 'e widget list" where
  "audit_row fm l =
     [Label (fm_date fm (al_createdAt l)), Label (al_username l), Label (al_action l),
      Label (or_dash (al_resource l)), Label (or_dash (al_ip l))]"

definition AuditLogs :: "formats \<Rightarrow> audit_state \<Rightarrow> audit_event widget list" where
  "AuditLogs fm s =
     [Label ''Audit Logs'', Label (nat_str (audit_total s) @ '' total entries'')] @
     (case ap_cache s (ap_offset s) of
        Pending \<Rightarrow> []
      | QueryFailed _ \<Rightarrow> [Label ''No audit logs yet'']
      | Loaded r \<Rightarrow> if ar_logs r = [] then [Label ''No audit logs yet''] else concat (map (audit_row fm) (ar_logs r))) @
     (if audit_pages s > 1 then
        [Label (''Page '' @ nat_str (currentPage s) @ '' of '' @ nat_str (audit_pages s)),
         Button ''Previous'' (ap_offset s = 0) PrevPage,
         Button ''Next'' (ap_offset s + PAGE_SIZE \<ge> audit_total s) NextPage]
      else [])"

end
