(* ===== verification/Log_Properties.thy ===== *)
theory Log_Properties
  imports Log_Pages
begin

section \<open>What the pages of logs guarantee\<close>

subsection \<open>Bounded buffers\<close>

lemma last_n_append: "last_n k (last_n k xs @ ys) = last_n k (xs @ ys)"
proof (cases "length xs \<le> k")
  case False
  then have "last_n k (last_n k xs @ ys) = drop (length ys) (drop (length xs - k) (xs @ ys))"
    by (simp add: last_n_def)
  also have "\<dots> = last_n k (xs @ ys)" using False by (simp add: last_n_def add.commute)
  finally show ?thesis .
qed (simp add: last_n_def)

lemma length_last_n [simp]: "length (last_n k xs) = min k (length xs)"
  by (auto simp: last_n_def)

lemma last_n_map: "last_n k (map f xs) = map f (last_n k xs)"
  by (simp add: last_n_def drop_map)

text \<open>What a buffer promises that keeps the last things pushed into it.\<close>

locale bounded_buffer =
  fixes push :: "'a \<Rightarrow> 'a list \<Rightarrow> 'a list" and limit :: nat
  assumes push_last: "length xs \<le> limit \<Longrightarrow> push x xs = last_n limit (xs @ [x])"
begin

lemma push_bound: "length xs \<le> limit \<Longrightarrow> length (push x xs) \<le> limit"
  by (simp add: push_last)

lemma push_many: "length xs \<le> limit \<Longrightarrow> fold push ys xs = last_n limit (xs @ ys)"
proof (induction ys arbitrary: xs)
  case Nil
  then show ?case by (simp add: last_n_def)
next
  case (Cons y ys)
  have "fold push (y # ys) xs = last_n limit (push y xs @ ys)"
    using Cons.IH [OF push_bound [OF Cons.prems]] by simp
  then show ?case using Cons.prems by (simp add: push_last last_n_append)
qed

lemma from_empty: "fold push ys [] = last_n limit ys"
  by (simp add: push_many)

end

interpretation lines: bounded_buffer push_line 2001
  by unfold_locales (auto simp: push_line_def last_n_def)

interpretation logs: bounded_buffer push_log 5001
  by unfold_locales (auto simp: push_log_def last_n_def)

interpretation docker: bounded_buffer push_event 500
  by unfold_locales (auto simp: push_event_def last_n_def Let_def)

lemma stream_arrivals:
  "\<not> st_paused s \<Longrightarrow> st_lines (fold stream_step (map (LineArrived ''log'') ls) s) = fold push_line ls (st_lines s)"
  by (induction ls arbitrary: s) simp_all

lemma plogs_arrivals:
  "pg_lines (fold (\<lambda>e s. fst (plogs_step json e s)) (map (LogArrived now) rs) s) =
     fold push_log (map (parseLogLine json now) rs) (pg_lines s)"
  by (induction rs arbitrary: s) simp_all

lemma event_arrivals:
  "\<not> es_paused s \<Longrightarrow> es_events (fold events_step (map EventArrived es) s) =
     fold push_event (zip [es_seq s..<es_seq s + length es] es) (es_events s)"
proof (induction es arbitrary: s)
  case (Cons e es)
  have "[es_seq s..<es_seq s + length (e # es)] = es_seq s # [Suc (es_seq s)..<Suc (es_seq s) + length es]"
    using upt_conv_Cons [of "es_seq s" "es_seq s + length (e # es)"] by simp
  then show ?case using Cons by simp
qed simp

lemma stream_bounded: "length (st_lines s) \<le> 2001 \<Longrightarrow> length (st_lines (fold stream_step es s)) \<le> 2001"
proof (induction es arbitrary: s)
  case (Cons e es)
  have "length (st_lines (stream_step e s)) \<le> 2001" using Cons.prems by (cases e) (auto simp: lines.push_bound)
  then show ?case using Cons.IH by simp
qed simp

lemma plogs_bounded:
  "length (pg_lines s) \<le> 5001 \<Longrightarrow> length (pg_lines (fold (\<lambda>e s. fst (plogs_step json e s)) es s)) \<le> 5001"
proof (induction es arbitrary: s)
  case (Cons e es)
  have "length (pg_lines (fst (plogs_step json e s))) \<le> 5001"
    using Cons.prems by (cases e) (auto simp: logs.push_bound clearLogs_def intro: le_trans [OF length_filter_le])
  then show ?case using Cons.IH by simp
qed simp

definition events_ok :: "events_state \<Rightarrow> bool" where
  "events_ok s =
     (length (es_events s) \<le> 500 \<and> distinct (map fst (es_events s)) \<and> (\<forall>n \<in> fst ` set (es_events s). n < es_seq s))"

lemma distinct_last_n: "distinct xs \<Longrightarrow> distinct (last_n k xs)" and set_last_n: "set (last_n k xs) \<subseteq> set xs"
  by (simp_all add: last_n_def set_drop_subset)

lemma events_step_ok: "events_ok s \<Longrightarrow> events_ok (events_step e s)"
proof (cases e)
  case (EventArrived d)
  assume ok: "events_ok s"
  let ?xs = "es_events s @ [(es_seq s, d)]"
  have push: "push_event (es_seq s, d) (es_events s) = last_n 500 ?xs"
    using ok by (intro docker.push_last) (simp add: events_ok_def)
  have "distinct (map fst ?xs)" "\<forall>n \<in> fst ` set ?xs. n < Suc (es_seq s)"
    using ok by (auto simp: events_ok_def less_Suc_eq)
  then have "distinct (map fst (last_n 500 ?xs))" "\<forall>n \<in> fst ` set (last_n 500 ?xs). n < Suc (es_seq s)"
    using distinct_last_n [of "map fst ?xs" 500] set_last_n [of 500 ?xs] by (simp_all only: last_n_map) blast
  then show ?thesis using ok EventArrived by (simp add: events_ok_def push)
qed (simp_all add: events_ok_def)

lemma events_run_ok: "events_ok s \<Longrightarrow> events_ok (fold events_step es s)"
  by (induction es arbitrary: s) (simp_all add: events_step_ok)

text \<open>C30: The three streams keep a bounded number of lines, whatever happens: at most 2001 lines of the
  server's logs, 5001 of a project's, 500 events, whose keys are all different; and of what arrives while
  nothing else is done they keep exactly the latest, in order.\<close>

theorem streams_keep_latest:
  "length (st_lines (fold stream_step es server_init)) \<le> 2001
   \<and> length (pg_lines (fold (\<lambda>e s. fst (plogs_step json e s)) ps plogs_init)) \<le> 5001
   \<and> length (es_events (fold events_step ds events_init)) \<le> 500
   \<and> distinct (map fst (es_events (fold events_step ds events_init)))
   \<and> st_lines (fold stream_step (map (LineArrived ''log'') ls) server_init) = last_n 2001 ls
   \<and> pg_lines (fold (\<lambda>e s. fst (plogs_step json e s)) (map (LogArrived now) rs) plogs_init) =
       last_n 5001 (map (parseLogLine json now) rs)
   \<and> es_events (fold events_step (map EventArrived vs) events_init) = last_n 500 (zip [0..<length vs] vs)"
proof -
  have "events_ok (fold events_step ds events_init)"
    by (rule events_run_ok) (simp add: events_ok_def events_init_def)
  then show ?thesis
    using stream_bounded [of server_init es] plogs_bounded [of plogs_init json ps]
      event_arrivals [of events_init vs]
    by (simp add: events_ok_def stream_arrivals plogs_arrivals lines.from_empty logs.from_empty docker.from_empty
        server_init_def plogs_init_def events_init_def)
qed

text \<open>The lines of one unit of the journal stay when another unit (or priority) is asked for: the new
  lines come after those of the old unit, under the new unit's name. The log of a project repeats itself in
  the same way when \<open>Follow\<close> is switched, which dials again and makes the server send the tail anew, while
  another choice of the tail or of a time empties the list first.\<close>

theorem stale_lines_stay:
  assumes "\<not> st_paused s" and "length (st_lines s) + length ls \<le> 2001" and "st_unit s \<noteq> u"
    and "length (pg_lines p) + length rs \<le> 5001"
  shows "st_lines (fold stream_step (TypeUnit u # map (LineArrived ''log'') ls) s) = st_lines s @ ls
       \<and> pg_lines (fold (\<lambda>e s. fst (plogs_step json e s)) (ToggleFollow # map (LogArrived now) rs) p) =
           pg_lines p @ map (parseLogLine json now) rs
       \<and> plogs_path isoDate name (fst (plogs_step json ToggleFollow p)) \<noteq> plogs_path isoDate name p
       \<and> pg_lines (fst (plogs_step json (PickTail t) p)) = []"
proof -
  have enc: "form_encode ''true'' = ''true''" "form_encode ''false'' = ''false''"
    by (simp_all add: form_encode_def is_alnum_def)
  have "search_params ([(''tail'', pg_tail p), (''follow'', ''true'')] @ rest) \<noteq>
        search_params ([(''tail'', pg_tail p), (''follow'', ''false'')] @ rest)" for rest
    by (cases rest) (simp_all add: search_params_def enc)
  then have "plogs_path isoDate name (fst (plogs_step json ToggleFollow p)) \<noteq> plogs_path isoDate name p"
    by (cases "pg_follow p") (simp_all add: plogs_path_def not_sym)
  then show ?thesis
    using assms by (simp add: stream_arrivals plogs_arrivals lines.push_many logs.push_many last_n_def)
qed

theorem stale_lines_stay_witness:
  "st_lines (fold stream_step [TypeUnit ''nginx'', LineArrived ''log'' ''b''] (journal_init\<lparr>st_lines := [''a'']\<rparr>)) = [''a'', ''b'']"
  using stale_lines_stay [of "journal_init\<lparr>st_lines := [''a'']\<rparr>" "[''b'']" "''nginx''" plogs_init "[]"]
  by (simp add: journal_init_def server_init_def plogs_init_def)

subsection \<open>Pages of the audit log\<close>

text \<open>The states while the log holds \<open>n\<close> entries: the buttons shown are used, answers arrive.\<close>

inductive audit_run :: "formats \<Rightarrow> nat \<Rightarrow> audit_state \<Rightarrow> bool" for fm n where
  audit_start: "audit_run fm n audit_init"
| audit_answer: "audit_run fm n s \<Longrightarrow> ar_total r = n \<Longrightarrow> audit_run fm n (fst (audit_step (AuditArrived off (Loaded r)) s))"
| audit_click: "audit_run fm n s \<Longrightarrow> e \<in> view_events (AuditLogs fm s) \<Longrightarrow> audit_run fm n (fst (audit_step e s))"

lemma audit_events:
  "view_events (AuditLogs fm s) =
     (if audit_pages s > 1 then
        (if ap_offset s = 0 then {} else {PrevPage}) \<union> (if ap_offset s + PAGE_SIZE \<ge> audit_total s then {} else {NextPage})
      else {})"
proof -
  have rows: "view_events (audit_row fm l) = {}" for l by (simp add: audit_row_def)
  show ?thesis by (simp add: AuditLogs_def rows split: query.split)
qed

definition audit_ok :: "nat \<Rightarrow> audit_state \<Rightarrow> bool" where
  "audit_ok n s =
     ((\<exists>k. ap_offset s = PAGE_SIZE * k) \<and> (ap_offset s = 0 \<or> ap_offset s < n)
      \<and> (\<forall>off r. ap_cache s off = Loaded r \<longrightarrow> ar_total r = n) \<and> (\<forall>off m. ap_cache s off \<noteq> QueryFailed m))"

lemma audit_run_ok: "audit_run fm n s \<Longrightarrow> audit_ok n s"
proof (induction rule: audit_run.induct)
  case (audit_click s e)
  obtain k where k: "ap_offset s = PAGE_SIZE * k" using audit_click.IH by (auto simp: audit_ok_def)
  have total: "audit_total s \<le> n"
    using audit_click.IH by (cases "ap_cache s (ap_offset s)") (auto simp: audit_ok_def audit_total_def)
  consider "e = PrevPage" "ap_offset s \<noteq> 0" | "e = NextPage" "ap_offset s + PAGE_SIZE < audit_total s"
    using audit_click.hyps(2) by (auto simp: audit_events not_le split: if_splits)
  then show ?case
  proof cases
    case 1
    have "ap_offset s - PAGE_SIZE = PAGE_SIZE * (k - 1)" using k by (simp add: diff_mult_distrib2)
    then show ?thesis using audit_click.IH 1 by (auto simp: audit_ok_def set_offset_def)
  next
    case 2
    have "ap_offset s + PAGE_SIZE = PAGE_SIZE * Suc k" using k by simp
    then show ?thesis using audit_click.IH 2 total by (auto simp: audit_ok_def set_offset_def intro: exI [of _ "Suc k"])
  qed
qed (auto simp: audit_ok_def audit_init_def)

text \<open>Paging through the audit log stays within it: the page shown is always one of the pages the total
  makes (the first when there are none), its offset is the page's first entry, and, with the answer there,
  \<open>Next\<close> is offered exactly on all pages but the last, \<open>Previous\<close> on all but the first.\<close>

theorem audit_pages_within:
  assumes "audit_run fm n s"
  shows "ap_offset s = PAGE_SIZE * (currentPage s - 1) \<and> 1 \<le> currentPage s \<and> currentPage s \<le> max 1 (ceil_div n PAGE_SIZE)
       \<and> (\<forall>r. ap_cache s (ap_offset s) = Loaded r \<longrightarrow>
            audit_pages s = ceil_div n PAGE_SIZE
            \<and> (NextPage \<in> view_events (AuditLogs fm s) \<longleftrightarrow> currentPage s < audit_pages s)
            \<and> (PrevPage \<in> view_events (AuditLogs fm s) \<longleftrightarrow> 1 < currentPage s))"
proof -
  have ok: "audit_ok n s" by (rule audit_run_ok [OF assms])
  then obtain k where k: "ap_offset s = 50 * k" and inside: "k = 0 \<or> 50 * k < n"
    by (auto simp: audit_ok_def PAGE_SIZE_def)
  have cur: "currentPage s = k + 1" using k by (simp add: currentPage_def PAGE_SIZE_def)
  have pages: "ceil_div n PAGE_SIZE = (n + 49) div 50" by (simp add: ceil_div_def PAGE_SIZE_def)
  have within: "k + 1 \<le> max 1 ((n + 49) div 50)"
    using inside by (auto simp: le_max_iff_disj less_eq_div_iff_mult_less_eq)
  have "audit_pages s = (n + 49) div 50 \<and> (NextPage \<in> view_events (AuditLogs fm s) \<longleftrightarrow> k + 1 < (n + 49) div 50)
      \<and> (PrevPage \<in> view_events (AuditLogs fm s) \<longleftrightarrow> 1 < k + 1)"
    if loaded: "ap_cache s (ap_offset s) = Loaded r" for r
  proof -
    have total: "audit_total s = n" using ok loaded by (simp add: audit_ok_def audit_total_def)
    have "NextPage \<in> view_events (AuditLogs fm s) \<longleftrightarrow> 1 < (n + 49) div 50 \<and> 50 * k + 50 < n"
      by (simp add: audit_events audit_pages_def total ceil_div_def k PAGE_SIZE_def add.commute [of n 49] not_le)
    moreover have "1 < (n + 49) div 50 \<and> 50 * k + 50 < n \<longleftrightarrow> k + 1 < (n + 49) div 50"
      by (auto simp: less_eq_div_iff_mult_less_eq Suc_le_eq [symmetric])
    moreover have "PrevPage \<in> view_events (AuditLogs fm s) \<longleftrightarrow> 1 < (n + 49) div 50 \<and> k \<noteq> 0"
      by (simp add: audit_events audit_pages_def total ceil_div_def k PAGE_SIZE_def add.commute [of n 49])
    moreover have "1 < (n + 49) div 50 \<and> k \<noteq> 0 \<longleftrightarrow> 1 < k + 1"
      using inside by (auto simp: less_eq_div_iff_mult_less_eq Suc_le_eq [symmetric])
    moreover have "audit_pages s = (n + 49) div 50" by (simp add: audit_pages_def total pages)
    ultimately show ?thesis by blast
  qed
  then show ?thesis using k cur pages within by (simp add: PAGE_SIZE_def)
qed

theorem audit_pages_within_witness:
  "currentPage (fst (audit_step NextPage (fst (audit_step (AuditArrived 0 (Loaded \<lparr>ar_logs = [], ar_total = 120\<rparr>)) audit_init))))
     \<le> max 1 (ceil_div 120 PAGE_SIZE)"
proof -
  let ?s = "fst (audit_step (AuditArrived 0 (Loaded \<lparr>ar_logs = [], ar_total = 120\<rparr>)) audit_init)"
  have run: "audit_run plain_formats 120 ?s" by (rule audit_answer [OF audit_start]) simp
  have "NextPage \<in> view_events (AuditLogs plain_formats ?s)"
    by (simp add: audit_events audit_pages_def audit_total_def audit_init_def ceil_div_def PAGE_SIZE_def)
  from audit_click [OF run this] show ?thesis by (rule audit_pages_within [THEN conjunct2, THEN conjunct2, THEN conjunct1])
qed

end
