(* ===== verification/Page_Run.thy ===== *)
theory Page_Run
  imports Page_Common
begin

section \<open>Pages in use, and pages with one form\<close>

text \<open>
  \<open>page_used offered step\<close> relates a page's state to the states it reaches when it is used: each event is one
  the state offers (by its controls, or as an answer of the server).
\<close>

inductive page_used :: "('s \<Rightarrow> 'e set) \<Rightarrow> ('e \<Rightarrow> 's \<Rightarrow> 's) \<Rightarrow> 's \<Rightarrow> 's \<Rightarrow> bool" for offered step s where
  run_start: "page_used offered step s s"
| run_next: "page_used offered step s t \<Longrightarrow> e \<in> offered t \<Longrightarrow> page_used offered step s (step e t)"

lemma page_run_inv:
  assumes "page_used offered step s t" and "P s" and "\<And>e t. P t \<Longrightarrow> e \<in> offered t \<Longrightarrow> P (step e t)"
  shows "P t"
  using assms by (induction rule: page_used.induct) auto

lemma page_run_fold:
  assumes "\<And>i. i < length es \<Longrightarrow> es ! i \<in> offered (fold step (take i es) s)"
  shows "page_used offered step s (fold step es s)"
  using assms
proof (induction es rule: rev_induct)
  case (snoc e es)
  have "es ! i \<in> offered (fold step (take i es) s)" if "i < length es" for i
    using snoc.prems [of i] that by (simp add: nth_append)
  moreover have "e \<in> offered (fold step es s)"
    using snoc.prems [of "length es"] by simp
  ultimately show ?case using snoc.IH by (auto intro: run_next)
qed (simp add: run_start)

text \<open>The text of an error toast: \<open>e.message || "..."\<close>.\<close>

definition msg_or :: "string \<Rightarrow> string \<Rightarrow> string" where
  "msg_or msg d = (if msg \<noteq> [] then msg else d)"

text \<open>The placeholder of a field whose value is kept: eight bullets.\<close>

definition bullets :: string where
  "bullets = concat (replicate 8 [CHR 0xE2, CHR 0x80, CHR 0xA2])"

subsection \<open>A list with one dialog for its items\<close>

text \<open>
  The pages of secrets, registries and notification channels are made alike: one dialog serves for new items
  and for edits (\<open>editTarget\<close>), and it is mounted with the page and only hidden, so its fields live as long as
  the page.
\<close>

record ('i, 'f) form_page =
  fp_items :: "'i list query"
  fp_open :: bool
  fp_edit :: "'i option"
  fp_form :: 'f
  fp_show :: bool
  fp_saving :: bool
  fp_deleting :: "nat option"

text \<open>The contract of the fields that follows: only typing changes them.\<close>

locale kept_form =
  fixes step :: "'e \<Rightarrow> 's \<Rightarrow> 's" and form :: "'s \<Rightarrow> 'f" and typed :: "'e \<Rightarrow> 't option" and put :: "'t \<Rightarrow> 'f \<Rightarrow> 'f"
  assumes step_form: "form (step e s) = (case typed e of Some t \<Rightarrow> put t (form s) | None \<Rightarrow> form s)"
begin

lemma run_form: "form (fold step es s) = fold put (List.map_filter typed es) (form s)"
  by (induction es arbitrary: s) (simp_all add: step_form List.map_filter_simps split: option.split)

lemma run_untyped: "list_all (\<lambda>e. typed e = None) es \<Longrightarrow> form (fold step es s) = form s"
  by (induction es arbitrary: s) (simp_all add: step_form)

end

end
