(* ===== verification/Secrets_Page.thy ===== *)
theory Secrets_Page
  imports Page_Run Project_Editor Docker_Types
begin

section \<open>The page of secrets: \<open>pages/Secrets.tsx\<close>\<close>

subsection \<open>\<open>SecretFormDialog\<close>\<close>

record secret_form =
  sf_name :: string
  sf_description :: string
  sf_value :: string

datatype secret_field = SName | SDescription | SValue

fun set_secret_field :: "secret_field \<times> string \<Rightarrow> secret_form \<Rightarrow> secret_form" where
  "set_secret_field (SName, v) f = f\<lparr>sf_name := v\<rparr>"
| "set_secret_field (SDescription, v) f = f\<lparr>sf_description := v\<rparr>"
| "set_secret_field (SValue, v) f = f\<lparr>sf_value := v\<rparr>"

text \<open>\<open>useState\<close> takes its initial value at the first render only, when no secret is edited.\<close>

definition secret_form_init :: "secret option \<Rightarrow> secret_form" where
  "secret_form_init i =
     \<lparr>sf_name = (case i of Some x \<Rightarrow> sec_name x | None \<Rightarrow> []),
      sf_description = (case i of Some x \<Rightarrow> sec_description x | None \<Rightarrow> []), sf_value = []\<rparr>"

definition secret_body :: "secret_form \<Rightarrow> js" where
  "secret_body f =
     JObj [(''name'', JStr (sf_name f)), (''description'', JStr (sf_description f)), (''value'', JStr (sf_value f))]"

subsection \<open>\<open>RevealDialog\<close>\<close>

text \<open>Each opening of the dialog is an instance of its own; the number tells whose answer arrives.\<close>

record reveal_dialog =
  rv_instance :: nat
  rv_secret :: secret
  rv_value :: "string option"
  rv_loading :: bool
  rv_show :: bool

record secrets_page = "(secret, secret_form) form_page" +
  sp_reveal :: "reveal_dialog option"
  sp_instances :: nat

definition secrets_page_init :: secrets_page where
  "secrets_page_init =
     \<lparr>fp_items = Pending, fp_open = False, fp_edit = None, fp_form = secret_form_init None, fp_show = False,
      fp_saving = False, fp_deleting = None, sp_reveal = None, sp_instances = 0\<rparr>"

definition secrets_mount :: "client_out list" where
  "secrets_mount = [Send listSecrets]"

datatype secrets_page_event =
    NewSecret
  | EditSecret secret
  | CloseSecretForm
  | TypeSecret secret_field string
  | ToggleShowValue
  | SubmitSecret
  | SecretCreated
  | SecretUpdated
  | SecretCreateFailed string
  | SecretUpdateFailed string
  | AskReveal secret
  | RevealClicked
  | Revealed nat string
  | RevealFailed nat string
  | ToggleShowRevealed
  | CloseReveal
  | AskDeleteSecret nat
  | CancelDeleteSecret
  | DeleteSecretClicked
  | SecretDeleted
  | SecretDeleteFailed string
  | SecretsArrived "secret list query"

text \<open>
  An answer to \<open>onSubmit\<close> closes the form (a success) and ends \<open>saving\<close>. The answer to a reveal sets the value
  of its own instance; its failure calls the page's \<open>onClose\<close>, whichever instance is shown.
\<close>

fun secrets_page_step :: "secrets_page_event \<Rightarrow> secrets_page \<Rightarrow> secrets_page \<times> client_out list" where
  "secrets_page_step NewSecret s = (s\<lparr>fp_edit := None, fp_open := True\<rparr>, [])"
| "secrets_page_step (EditSecret x) s = (s\<lparr>fp_edit := Some x, fp_open := True\<rparr>, [])"
| "secrets_page_step CloseSecretForm s = (s\<lparr>fp_open := False\<rparr>, [])"
| "secrets_page_step (TypeSecret f v) s = (s\<lparr>fp_form := set_secret_field (f, v) (fp_form s)\<rparr>, [])"
| "secrets_page_step ToggleShowValue s = (s\<lparr>fp_show := \<not> fp_show s\<rparr>, [])"
| "secrets_page_step SubmitSecret s =
     (if sf_name (fp_form s) = [] then (s, [ToastErr ''Name is required''])
      else if fp_edit s = None \<and> sf_value (fp_form s) = [] then (s, [ToastErr ''Value is required''])
      else (s\<lparr>fp_saving := True\<rparr>,
            [Send (case fp_edit s of Some x \<Rightarrow> updateSecret (sec_id x) (secret_body (fp_form s))
                                  | None \<Rightarrow> createSecret (secret_body (fp_form s)))]))"
| "secrets_page_step SecretCreated s =
     (s\<lparr>fp_open := False, fp_saving := False\<rparr>, [Invalidate [''secrets''], ToastOk ''Secret created''])"
| "secrets_page_step SecretUpdated s =
     (s\<lparr>fp_open := False, fp_saving := False\<rparr>, [Invalidate [''secrets''], ToastOk ''Secret updated''])"
| "secrets_page_step (SecretCreateFailed msg) s =
     (s\<lparr>fp_saving := False\<rparr>, [ToastErr (msg_or msg ''Failed to create secret'')])"
| "secrets_page_step (SecretUpdateFailed msg) s =
     (s\<lparr>fp_saving := False\<rparr>, [ToastErr (msg_or msg ''Failed to update secret'')])"
| "secrets_page_step (AskReveal x) s =
     (s\<lparr>sp_reveal := Some \<lparr>rv_instance = sp_instances s, rv_secret = x, rv_value = None, rv_loading = False, rv_show = False\<rparr>,
        sp_instances := Suc (sp_instances s)\<rparr>, [])"
| "secrets_page_step RevealClicked s =
     (case sp_reveal s of
        None \<Rightarrow> (s, [])
      | Some r \<Rightarrow> (s\<lparr>sp_reveal := Some (r\<lparr>rv_loading := True\<rparr>)\<rparr>, [Send (revealSecret (sec_id (rv_secret r)))]))"
| "secrets_page_step (Revealed k v) s =
     (s\<lparr>sp_reveal := map_option (\<lambda>r. if rv_instance r = k then r\<lparr>rv_value := Some v, rv_loading := False\<rparr> else r) (sp_reveal s)\<rparr>, [])"
| "secrets_page_step (RevealFailed k msg) s =
     (s\<lparr>sp_reveal := None\<rparr>, [ToastErr (msg_or msg ''Failed to reveal secret'')])"
| "secrets_page_step ToggleShowRevealed s =
     (s\<lparr>sp_reveal := map_option (\<lambda>r. r\<lparr>rv_show := \<not> rv_show r\<rparr>) (sp_reveal s)\<rparr>, [])"
| "secrets_page_step CloseReveal s = (s\<lparr>sp_reveal := None\<rparr>, [])"
| "secrets_page_step (AskDeleteSecret n) s = (s\<lparr>fp_deleting := Some n\<rparr>, [])"
| "secrets_page_step CancelDeleteSecret s = (s\<lparr>fp_deleting := None\<rparr>, [])"
| "secrets_page_step DeleteSecretClicked s =
     (s, case fp_deleting s of None \<Rightarrow> [] | Some n \<Rightarrow> [Send (deleteSecret n)])"
| "secrets_page_step SecretDeleted s =
     (s\<lparr>fp_deleting := None\<rparr>, [Invalidate [''secrets''], ToastOk ''Secret deleted''])"
| "secrets_page_step (SecretDeleteFailed msg) s = (s, [ToastErr (msg_or msg ''Failed to delete secret'')])"
| "secrets_page_step (SecretsArrived q) s = (s\<lparr>fp_items := q\<rparr>, [])"

subsection \<open>The view\<close>

definition SecretFormDialog :: "secrets_page \<Rightarrow> secrets_page_event widget list" where
  "SecretFormDialog s =
     [Label (if fp_edit s \<noteq> None then ''Edit Secret'' else ''New Secret''), Label ''Name (used as env var key)''] @
     (if fp_edit s \<noteq> None then [Label (sf_name (fp_form s))]
      else [Input ''DATABASE_URL'' (sf_name (fp_form s)) (TypeSecret SName)]) @
     [Label ''Description'', Input ''Optional description'' (sf_description (fp_form s)) (TypeSecret SDescription),
      Label (if fp_edit s \<noteq> None then ''Value (leave blank to keep existing)'' else ''Value''),
      Input (if fp_edit s \<noteq> None then bullets else ''secret value'') (sf_value (fp_form s)) (TypeSecret SValue),
      Button ''Show'' False ToggleShowValue, Button ''Cancel'' False CloseSecretForm,
      Button (if fp_edit s \<noteq> None then ''Save changes'' else ''Create secret'') (fp_saving s) SubmitSecret]"

definition RevealDialog :: "reveal_dialog \<Rightarrow> secrets_page_event widget list" where
  "RevealDialog r =
     Label (''Reveal Secret: '' @ sec_name (rv_secret r)) #
     (case rv_value r of
        None \<Rightarrow> [Label ''Are you sure you want to reveal this secret value?'', Button ''Cancel'' False CloseReveal,
                 Button ''Reveal value'' (rv_loading r) RevealClicked]
      | Some v \<Rightarrow> [Label v, Button ''Show'' False ToggleShowRevealed, Button ''Close'' False CloseReveal])"

definition secret_row :: "formats \<Rightarrow> secret \<Rightarrow> secrets_page_event widget list" where
  "secret_row fm x =
     [Label (sec_name x), Label (msg_or (sec_description x) ''no description''), Label (msg_or (sec_createdBy x) em_dash),
      Label (fm_day fm (sec_updatedAt x)), Button ''Reveal value'' False (AskReveal x),
      Button ''Edit'' False (EditSecret x), Button ''Delete'' False (AskDeleteSecret (sec_id x))]"

definition secrets_table :: "formats \<Rightarrow> secrets_page \<Rightarrow> secrets_page_event widget list" where
  "secrets_table fm s =
     [Label ''Secrets'', Button ''New secret'' False NewSecret] @
     (if fp_items s = Pending then [Label (''Loading'' @ ellipsis)]
      else if data_or [] (fp_items s) = [] then [Label ''No secrets yet'']
      else concat (map (secret_row fm) (data_or [] (fp_items s))))"

definition delete_secret_box :: "secrets_page_event widget list" where
  "delete_secret_box =
     [Label ''Delete secret?'', Button ''Cancel'' False CancelDeleteSecret, Button ''Delete'' False DeleteSecretClicked]"

text \<open>An open dialog covers the page.\<close>

definition Secrets :: "formats \<Rightarrow> secrets_page \<Rightarrow> secrets_page_event widget list" where
  "Secrets fm s =
     (case sp_reveal s of
        Some r \<Rightarrow> RevealDialog r
      | None \<Rightarrow>
        if fp_deleting s \<noteq> None then delete_secret_box
        else if fp_open s then SecretFormDialog s else secrets_table fm s)"

end
