(* ===== verification/Registries_Page.thy ===== *)
theory Registries_Page
  imports Page_Run Log_Pages
begin

section \<open>The page of image registries: \<open>pages/Registries.tsx\<close>\<close>

subsection \<open>\<open>RegistryFormDialog\<close>\<close>

record registry_form =
  rf_name :: string
  rf_url :: string
  rf_username :: string
  rf_secret :: string

datatype registry_field = RName | RUrl | RUsername | RSecret

fun set_registry_field :: "registry_field \<times> string \<Rightarrow> registry_form \<Rightarrow> registry_form" where
  "set_registry_field (RName, v) f = f\<lparr>rf_name := v\<rparr>"
| "set_registry_field (RUrl, v) f = f\<lparr>rf_url := v\<rparr>"
| "set_registry_field (RUsername, v) f = f\<lparr>rf_username := v\<rparr>"
| "set_registry_field (RSecret, v) f = f\<lparr>rf_secret := v\<rparr>"

definition registry_form_init :: "registry option \<Rightarrow> registry_form" where
  "registry_form_init i =
     \<lparr>rf_name = (case i of Some r \<Rightarrow> reg_name r | None \<Rightarrow> []), rf_url = (case i of Some r \<Rightarrow> reg_url r | None \<Rightarrow> []),
      rf_username = (case i of Some r \<Rightarrow> reg_username r | None \<Rightarrow> []), rf_secret = []\<rparr>"

definition registry_body :: "registry_form \<Rightarrow> js" where
  "registry_body f =
     JObj [(''name'', JStr (rf_name f)), (''url'', JStr (rf_url f)), (''username'', JStr (rf_username f)),
           (''secret'', JStr (rf_secret f))]"

definition registry_incomplete :: "registry option \<Rightarrow> registry_form \<Rightarrow> bool" where
  "registry_incomplete i f =
     (rf_name f = [] \<or> rf_url f = [] \<or> rf_username f = [] \<or> (rf_secret f = [] \<and> i = None))"

subsection \<open>\<open>RepoTagsPanel\<close>\<close>

record tags_panel =
  tp_expanded :: bool
  tp_tags :: "string list query"

definition tags_init :: tags_panel where
  "tags_init = \<lparr>tp_expanded = False, tp_tags = Pending\<rparr>"

text \<open>\<open>registryUrl.replace(/^https?:\/\//, "").replace(/\/$/, "")\<close>.\<close>

definition drop_protocol :: "string \<Rightarrow> string" where
  "drop_protocol s =
     (if take 7 s = ''http://'' then drop 7 s else if take 8 s = ''https://'' then drop 8 s else s)"

definition registry_host :: "string \<Rightarrow> string" where
  "registry_host url =
     (let s = drop_protocol url in if s \<noteq> [] \<and> last s = CHR ''/'' then butlast s else s)"

subsection \<open>\<open>RegistryCard\<close>\<close>

record registry_card =
  rc_expanded :: bool
  rc_testing :: bool
  rc_repos :: "string list query"
  rc_tags :: "string \<Rightarrow> tags_panel"

definition registry_card_init :: registry_card where
  "registry_card_init = \<lparr>rc_expanded = False, rc_testing = False, rc_repos = Pending, rc_tags = (\<lambda>_. tags_init)\<rparr>"

datatype registry_card_event =
    ToggleRepos
  | TestClicked
  | TestOk
  | TestFailed string
  | ReposArrived "string list query"
  | ToggleTags string
  | TagsArrived string "string list query"

text \<open>
  A list is asked for when it is shown and not there yet; a closed card unmounts the panels of its
  repositories. (Answers stay in the cache: the model asks again only for a list that failed or is pending.)
\<close>

definition ask_unless :: "'a query \<Rightarrow> bool \<Rightarrow> api_call \<Rightarrow> client_out list" where
  "ask_unless q shown c = (if shown \<and> query_data q = None then [Send c] else [])"

fun registry_card_step :: "registry \<Rightarrow> registry_card_event \<Rightarrow> registry_card \<Rightarrow> registry_card \<times> client_out list" where
  "registry_card_step r ToggleRepos c =
     (c\<lparr>rc_expanded := \<not> rc_expanded c, rc_tags := (\<lambda>n. (rc_tags c n)\<lparr>tp_expanded := False\<rparr>)\<rparr>,
      ask_unless (rc_repos c) (\<not> rc_expanded c) (listRepositories (reg_id r)))"
| "registry_card_step r TestClicked c = (c\<lparr>rc_testing := True\<rparr>, [Send (testRegistry (reg_id r))])"
| "registry_card_step r TestOk c = (c\<lparr>rc_testing := False\<rparr>, [ToastOk ''Connection successful''])"
| "registry_card_step r (TestFailed msg) c = (c\<lparr>rc_testing := False\<rparr>, [ToastErr (msg_or msg ''Connection failed'')])"
| "registry_card_step r (ReposArrived q) c = (c\<lparr>rc_repos := q\<rparr>, [])"
| "registry_card_step r (ToggleTags n) c =
     (let p = rc_tags c n in
        (c\<lparr>rc_tags := (rc_tags c)(n := p\<lparr>tp_expanded := \<not> tp_expanded p\<rparr>)\<rparr>,
         ask_unless (tp_tags p) (\<not> tp_expanded p) (listRepoTags (reg_id r) n)))"
| "registry_card_step r (TagsArrived n q) c = (c\<lparr>rc_tags := (rc_tags c)(n := (rc_tags c n)\<lparr>tp_tags := q\<rparr>)\<rparr>, [])"

text \<open>The tags are sorted where they are shown; each one's title is the reference to pull.\<close>

definition tags_view :: "registry \<Rightarrow> string \<Rightarrow> tags_panel \<Rightarrow> registry_card_event widget list" where
  "tags_view r n p =
     [Button n False (ToggleTags n)] @
     (if \<not> tp_expanded p then []
      else case tp_tags p of
          Pending \<Rightarrow> [Label (''Loading tags'' @ ellipsis)]
        | QueryFailed _ \<Rightarrow> [Label ''Failed to load tags'']
        | Loaded ts \<Rightarrow>
            if ts = [] then [Label ''No tags found'']
            else concat (map (\<lambda>t. [Label t, Label (registry_host (reg_url r) @ ''/'' @ n @ '':'' @ t)]) (sort ts)))"

definition repos_view :: "registry \<Rightarrow> registry_card \<Rightarrow> registry_card_event widget list" where
  "repos_view r c =
     (case rc_repos c of
        Pending \<Rightarrow> [Label (''Loading repositories'' @ ellipsis)]
      | QueryFailed _ \<Rightarrow> [Label ''Failed to load repositories. The registry may not support the catalog API.'']
      | Loaded ns \<Rightarrow>
          if ns = [] then [Label ''No repositories found (catalog API may be disabled on this registry).'']
          else Label (nat_str (length ns) @ '' repositories '' @ em_dash @ '' click to browse tags'') #
            concat (map (\<lambda>n. tags_view r n (rc_tags c n)) ns))"

subsection \<open>\<open>Registries\<close>\<close>

record registries_page = "(registry, registry_form) form_page" +
  rp_cards :: "nat \<Rightarrow> registry_card"

definition registries_init :: registries_page where
  "registries_init =
     \<lparr>fp_items = Pending, fp_open = False, fp_edit = None, fp_form = registry_form_init None, fp_show = False,
      fp_saving = False, fp_deleting = None, rp_cards = (\<lambda>_. registry_card_init)\<rparr>"

definition registries_mount :: "client_out list" where
  "registries_mount = [Send listRegistries]"

datatype registries_event =
    NewRegistry
  | EditRegistry registry
  | CloseRegistryForm
  | TypeRegistry registry_field string
  | ToggleShowSecret
  | SubmitRegistry
  | RegistryCreated
  | RegistryUpdated
  | RegistryCreateFailed string
  | RegistryUpdateFailed string
  | AskDeleteRegistry nat
  | CancelDeleteRegistry
  | DeleteRegistryClicked
  | RegistryDeleted
  | RegistryDeleteFailed string
  | RegistriesArrived "registry list query"
  | Card registry registry_card_event

fun registries_step :: "registries_event \<Rightarrow> registries_page \<Rightarrow> registries_page \<times> client_out list" where
  "registries_step NewRegistry s = (s\<lparr>fp_edit := None, fp_open := True\<rparr>, [])"
| "registries_step (EditRegistry r) s = (s\<lparr>fp_edit := Some r, fp_open := True\<rparr>, [])"
| "registries_step CloseRegistryForm s = (s\<lparr>fp_open := False\<rparr>, [])"
| "registries_step (TypeRegistry f v) s = (s\<lparr>fp_form := set_registry_field (f, v) (fp_form s)\<rparr>, [])"
| "registries_step ToggleShowSecret s = (s\<lparr>fp_show := \<not> fp_show s\<rparr>, [])"
| "registries_step SubmitRegistry s =
     (if registry_incomplete (fp_edit s) (fp_form s) then (s, [ToastErr ''All fields are required''])
      else (s\<lparr>fp_saving := True\<rparr>,
            [Send (case fp_edit s of Some r \<Rightarrow> updateRegistry (reg_id r) (registry_body (fp_form s))
                                  | None \<Rightarrow> createRegistry (registry_body (fp_form s)))]))"
| "registries_step RegistryCreated s =
     (s\<lparr>fp_open := False, fp_saving := False\<rparr>, [Invalidate [''registries''], ToastOk ''Registry added''])"
| "registries_step RegistryUpdated s =
     (s\<lparr>fp_open := False, fp_saving := False\<rparr>, [Invalidate [''registries''], ToastOk ''Registry updated''])"
| "registries_step (RegistryCreateFailed msg) s =
     (s\<lparr>fp_saving := False\<rparr>, [ToastErr (msg_or msg ''Failed to add registry'')])"
| "registries_step (RegistryUpdateFailed msg) s =
     (s\<lparr>fp_saving := False\<rparr>, [ToastErr (msg_or msg ''Failed to update registry'')])"
| "registries_step (AskDeleteRegistry n) s = (s\<lparr>fp_deleting := Some n\<rparr>, [])"
| "registries_step CancelDeleteRegistry s = (s\<lparr>fp_deleting := None\<rparr>, [])"
| "registries_step DeleteRegistryClicked s =
     (s, case fp_deleting s of None \<Rightarrow> [] | Some n \<Rightarrow> [Send (deleteRegistry n)])"
| "registries_step RegistryDeleted s =
     (s\<lparr>fp_deleting := None\<rparr>, [Invalidate [''registries''], ToastOk ''Registry removed''])"
| "registries_step (RegistryDeleteFailed msg) s = (s, [ToastErr (msg_or msg ''Failed to delete registry'')])"
| "registries_step (RegistriesArrived q) s = (s\<lparr>fp_items := q\<rparr>, [])"
| "registries_step (Card r e) s =
     (case registry_card_step r e (rp_cards s (reg_id r)) of (c, out) \<Rightarrow> (s\<lparr>rp_cards := (rp_cards s)(reg_id r := c)\<rparr>, out))"

definition RegistryFormDialog :: "registries_page \<Rightarrow> registries_event widget list" where
  "RegistryFormDialog s =
     [Label (if fp_edit s \<noteq> None then ''Edit Registry'' else ''Add Registry''),
      Label ''Credentials are stored and used by Docker when pulling images.'',
      Input ''My Registry'' (rf_name (fp_form s)) (TypeRegistry RName),
      Input ''ghcr.io or gcr.io or registry.example.com'' (rf_url (fp_form s)) (TypeRegistry RUrl),
      Input ''username or _json_key'' (rf_username (fp_form s)) (TypeRegistry RUsername),
      Label (if fp_edit s \<noteq> None then ''Password / Token (leave blank to keep existing)'' else ''Password / Token''),
      Input (if fp_edit s \<noteq> None then bullets else ''PAT or service account JSON'') (rf_secret (fp_form s))
        (TypeRegistry RSecret),
      Button ''Show'' False ToggleShowSecret, Button ''Cancel'' False CloseRegistryForm,
      Button (if fp_edit s \<noteq> None then ''Save changes'' else ''Add registry'') (fp_saving s) SubmitRegistry]"

definition RegistryCard :: "formats \<Rightarrow> registry_card \<Rightarrow> registry \<Rightarrow> registries_event widget list" where
  "RegistryCard fm c r =
     [Button (if rc_expanded c then ''Collapse'' else ''Browse repositories'') False (Card r ToggleRepos),
      Label (reg_name r), Label (reg_url r), Label (reg_username r @ '' '' @ [CHR 0xC2, CHR 0xB7] @ '' Added '' @ fm_day fm (reg_createdAt r)),
      Button ''Test connection'' (rc_testing c) (Card r TestClicked), Button ''Edit'' False (EditRegistry r),
      Button ''Delete'' False (AskDeleteRegistry (reg_id r))] @
     (if rc_expanded c then lift_view (Card r) (repos_view r c) else [])"

definition registries_list :: "formats \<Rightarrow> registries_page \<Rightarrow> registries_event widget list" where
  "registries_list fm s =
     [Label ''Image Registries'', Label ''Manage credentials for private Docker registries'',
      Button ''Add registry'' False NewRegistry] @
     (if fp_items s = Pending then [Label (''Loading'' @ ellipsis)]
      else if data_or [] (fp_items s) = [] then [Label ''No registries configured'']
      else concat (map (\<lambda>r. RegistryCard fm (rp_cards s (reg_id r)) r) (data_or [] (fp_items s))))"

definition delete_registry_box :: "registries_event widget list" where
  "delete_registry_box =
     [Label ''Remove registry?'', Button ''Cancel'' False CancelDeleteRegistry, Button ''Remove'' False DeleteRegistryClicked]"

definition Registries :: "formats \<Rightarrow> registries_page \<Rightarrow> registries_event widget list" where
  "Registries fm s =
     (if fp_deleting s \<noteq> None then delete_registry_box
      else if fp_open s then RegistryFormDialog s else registries_list fm s)"

end
