(* ===== verification/Notify_Page.thy ===== *)
theory Notify_Page
  imports Page_Run
begin

section \<open>The page of notifications: \<open>pages/Notifications.tsx\<close>\<close>

record notification_rule =
  nr_id :: nat
  nr_channelId :: nat
  nr_eventType :: string
  nr_projectFilter :: "string option"
  nr_enabled :: bool

record notification_channel =
  nc_id :: nat
  nc_name :: string
  nc_type :: string
  nc_config :: string
  nc_enabled :: bool
  nc_rules :: "notification_rule list"

subsection \<open>\<open>ChannelDialog\<close>\<close>

text \<open>The templates as \<open>JSON.stringify(..., null, 2)\<close> prints them.\<close>

definition config_lines :: "string list \<Rightarrow> string" where
  "config_lines ls = js_join [CHR 0x0A] ([''{''] @ ls @ [''}''])"

definition defaultConfig :: "string \<Rightarrow> string" where
  "defaultConfig type =
     (if type = ''email'' then
        config_lines [''  \"smtpHost\": \"smtp.example.com\",'', ''  \"smtpPort\": 587,'', ''  \"username\": \"\",'',
          ''  \"password\": \"\",'', ''  \"from\": \"alerts@example.com\",'', ''  \"to\": \"admin@example.com\"'']
      else if type = ''slack'' then config_lines [''  \"webhookUrl\": \"https://hooks.slack.com/services/...\"'']
      else if type = ''discord'' then config_lines [''  \"webhookUrl\": \"https://discord.com/api/webhooks/...\"'']
      else config_lines [''  \"url\": \"https://example.com/webhook\",'', ''  \"headers\": {}''])"

record channel_form =
  cf_name :: string
  cf_type :: string
  cf_config :: string
  cf_enabled :: bool

definition channel_form_init :: "notification_channel option \<Rightarrow> channel_form" where
  "channel_form_init i =
     (case i of
        Some c \<Rightarrow> \<lparr>cf_name = nc_name c, cf_type = nc_type c, cf_config = nc_config c, cf_enabled = nc_enabled c\<rparr>
      | None \<Rightarrow> \<lparr>cf_name = [], cf_type = ''webhook'', cf_config = defaultConfig ''webhook'', cf_enabled = True\<rparr>)"

datatype channel_edit = CName string | CType bool string | CConfig string | CEnabled bool

text \<open>\<open>CType edited t\<close>: a new channel's configuration becomes the template of its type.\<close>

fun put_channel :: "channel_edit \<Rightarrow> channel_form \<Rightarrow> channel_form" where
  "put_channel (CName v) f = f\<lparr>cf_name := v\<rparr>"
| "put_channel (CType edited t) f =
     (if edited then f\<lparr>cf_type := t\<rparr> else f\<lparr>cf_type := t, cf_config := defaultConfig t\<rparr>)"
| "put_channel (CConfig v) f = f\<lparr>cf_config := v\<rparr>"
| "put_channel (CEnabled b) f = f\<lparr>cf_enabled := b\<rparr>"

definition channel_body :: "channel_form \<Rightarrow> js" where
  "channel_body f =
     JObj [(''name'', JStr (cf_name f)), (''type'', JStr (cf_type f)), (''config'', JStr (cf_config f)),
           (''enabled'', JBool (cf_enabled f))]"

definition channel_types :: "(string \<times> string) list" where
  "channel_types =
     [(''webhook'', ''Webhook (generic)''), (''slack'', ''Slack''), (''discord'', ''Discord''), (''email'', ''Email (SMTP)'')]"

subsection \<open>\<open>AddRuleDialog\<close> and \<open>ChannelCard\<close>\<close>

record rule_dialog =
  rd_eventType :: string
  rd_projectFilter :: string
  rd_saving :: bool

definition rule_init :: rule_dialog where
  "rule_init = \<lparr>rd_eventType = fst (hd EVENT_TYPES), rd_projectFilter = [], rd_saving = False\<rparr>"

definition rule_body :: "rule_dialog \<Rightarrow> js" where
  "rule_body d =
     JObj [(''eventType'', JStr (rd_eventType d)),
           (''projectFilter'', let p = js_trim (rd_projectFilter d) in if p = [] then JNull else JStr p),
           (''enabled'', JBool True)]"

record channel_card =
  cc_expanded :: bool
  cc_adding :: "rule_dialog option"
  cc_testing :: bool
  cc_delPending :: bool

definition channel_card_init :: channel_card where
  "channel_card_init = \<lparr>cc_expanded = False, cc_adding = None, cc_testing = False, cc_delPending = False\<rparr>"

datatype channel_event =
    ToggleRules
  | TestChannel
  | ChannelTestOk
  | ChannelTestFailed string
  | AddRule
  | CloseRule
  | PickEventType string
  | TypeProjectFilter string
  | AddRuleClicked
  | RuleAdded
  | RuleAddFailed string
  | RuleToggleClicked notification_rule
  | DeleteRule nat
  | RuleDeleted
  | RuleDeleteFailed string

text \<open>
  \<open>saving\<close> of the dialog is set when \<open>Add rule\<close> is pressed; nothing sets it back. The success closes the
  dialog that is open then. The button of a rule's state has no handler.
\<close>

fun channel_step :: "nat \<Rightarrow> channel_event \<Rightarrow> channel_card \<Rightarrow> channel_card \<times> client_out list" where
  "channel_step n ToggleRules c = (c\<lparr>cc_expanded := \<not> cc_expanded c\<rparr>, [])"
| "channel_step n TestChannel c = (c\<lparr>cc_testing := True\<rparr>, [Send (testChannel n)])"
| "channel_step n ChannelTestOk c = (c\<lparr>cc_testing := False\<rparr>, [ToastOk ''Test notification sent!''])"
| "channel_step n (ChannelTestFailed msg) c = (c\<lparr>cc_testing := False\<rparr>, [ToastErr (msg_or msg ''Test failed'')])"
| "channel_step n AddRule c = (c\<lparr>cc_adding := Some (case cc_adding c of Some d \<Rightarrow> d | None \<Rightarrow> rule_init)\<rparr>, [])"
| "channel_step n CloseRule c = (c\<lparr>cc_adding := None\<rparr>, [])"
| "channel_step n (PickEventType t) c = (c\<lparr>cc_adding := map_option (\<lambda>d. d\<lparr>rd_eventType := t\<rparr>) (cc_adding c)\<rparr>, [])"
| "channel_step n (TypeProjectFilter v) c =
     (c\<lparr>cc_adding := map_option (\<lambda>d. d\<lparr>rd_projectFilter := v\<rparr>) (cc_adding c)\<rparr>, [])"
| "channel_step n AddRuleClicked c =
     (case cc_adding c of
        None \<Rightarrow> (c, [])
      | Some d \<Rightarrow> (c\<lparr>cc_adding := Some (d\<lparr>rd_saving := True\<rparr>)\<rparr>, [Send (createRule n (rule_body d))]))"
| "channel_step n RuleAdded c = (c\<lparr>cc_adding := None\<rparr>, [Invalidate [''notifications''], ToastOk ''Rule added''])"
| "channel_step n (RuleAddFailed msg) c = (c, [ToastErr (msg_or msg ''Failed to add rule'')])"
| "channel_step n (RuleToggleClicked r) c = (c, [])"
| "channel_step n (DeleteRule k) c = (c\<lparr>cc_delPending := True\<rparr>, [Send (deleteRule k)])"
| "channel_step n RuleDeleted c = (c\<lparr>cc_delPending := False\<rparr>, [Invalidate [''notifications'']])"
| "channel_step n (RuleDeleteFailed msg) c = (c\<lparr>cc_delPending := False\<rparr>, [ToastErr (msg_or msg ''Failed to delete rule'')])"

definition AddRuleDialog :: "rule_dialog \<Rightarrow> channel_event widget list" where
  "AddRuleDialog d =
     [Label ''Add notification rule'', Label ''Trigger this channel when a specific event occurs.'',
      Select (rd_eventType d) EVENT_TYPES PickEventType,
      Input ''myapp, otherapp'' (rd_projectFilter d) TypeProjectFilter, Button ''Cancel'' False CloseRule,
      Button ''Add rule'' (rd_saving d) AddRuleClicked]"

definition eventLabel :: "string \<Rightarrow> string" where
  "eventLabel type = (case map_of EVENT_TYPES type of Some l \<Rightarrow> l | None \<Rightarrow> type)"

definition right_arrow :: string where
  "right_arrow = [CHR 0xE2, CHR 0x86, CHR 0x92]"

definition rule_row :: "channel_card \<Rightarrow> notification_rule \<Rightarrow> channel_event widget list" where
  "rule_row c r =
     [Button (if nr_enabled r then ''Enabled'' else ''Disabled'') False (RuleToggleClicked r),
      Label (eventLabel (nr_eventType r))] @
     (case nonempty (nr_projectFilter r) of Some p \<Rightarrow> [Label (right_arrow @ '' '' @ p)] | None \<Rightarrow> []) @
     [Button ''Delete'' (cc_delPending c) (DeleteRule (nr_id r))]"

definition rules_view :: "notification_channel \<Rightarrow> channel_card \<Rightarrow> channel_event widget list" where
  "rules_view ch c =
     [Label ''Rules'', Button ''Add rule'' False AddRule] @
     (if nc_rules ch = [] then
        [Label (''No rules '' @ em_dash @ '' this channel won'' @ [CHR 0x27] @ ''t receive any notifications.'')]
      else concat (map (rule_row c) (nc_rules ch)))"

subsection \<open>\<open>Notifications\<close>\<close>

record notify_page = "(notification_channel, channel_form) form_page" +
  np_cards :: "nat \<Rightarrow> channel_card"

definition notify_init :: notify_page where
  "notify_init =
     \<lparr>fp_items = Pending, fp_open = False, fp_edit = None, fp_form = channel_form_init None, fp_show = False,
      fp_saving = False, fp_deleting = None, np_cards = (\<lambda>_. channel_card_init)\<rparr>"

definition notify_mount :: "client_out list" where
  "notify_mount = [Send listChannels]"

datatype notify_event =
    NewChannel
  | FirstChannel
  | EditChannel notification_channel
  | CloseChannelForm
  | TypeChannel channel_edit
  | SubmitChannel
  | ChannelCreated
  | ChannelUpdated
  | ChannelCreateFailed string
  | ChannelUpdateFailed string
  | AskDeleteChannel nat
  | CancelDeleteChannel
  | DeleteChannelClicked
  | ChannelDeleted
  | ChannelDeleteFailed string
  | ChannelsArrived "notification_channel list query"
  | InCard nat channel_event

fun notify_step :: "notify_event \<Rightarrow> notify_page \<Rightarrow> notify_page \<times> client_out list" where
  "notify_step NewChannel s = (s\<lparr>fp_edit := None, fp_open := True\<rparr>, [])"
| "notify_step FirstChannel s = (s\<lparr>fp_open := True\<rparr>, [])"
| "notify_step (EditChannel c) s = (s\<lparr>fp_edit := Some c, fp_open := True\<rparr>, [])"
| "notify_step CloseChannelForm s = (s\<lparr>fp_open := False, fp_edit := None\<rparr>, [])"
| "notify_step (TypeChannel e) s = (s\<lparr>fp_form := put_channel e (fp_form s)\<rparr>, [])"
| "notify_step SubmitChannel s =
     (if cf_name (fp_form s) = [] \<or> cf_type (fp_form s) = [] then (s, [ToastErr ''Name and type are required''])
      else (s\<lparr>fp_saving := True\<rparr>,
            [Send (case fp_edit s of Some c \<Rightarrow> updateChannel (nc_id c) (channel_body (fp_form s))
                                  | None \<Rightarrow> createChannel (channel_body (fp_form s)))]))"
| "notify_step ChannelCreated s =
     (s\<lparr>fp_open := False, fp_edit := None, fp_saving := False\<rparr>, [Invalidate [''notifications''], ToastOk ''Channel created''])"
| "notify_step ChannelUpdated s =
     (s\<lparr>fp_open := False, fp_edit := None, fp_saving := False\<rparr>, [Invalidate [''notifications''], ToastOk ''Channel updated''])"
| "notify_step (ChannelCreateFailed msg) s =
     (s\<lparr>fp_saving := False\<rparr>, [ToastErr (msg_or msg ''Failed to create channel'')])"
| "notify_step (ChannelUpdateFailed msg) s =
     (s\<lparr>fp_saving := False\<rparr>, [ToastErr (msg_or msg ''Failed to update channel'')])"
| "notify_step (AskDeleteChannel n) s = (s\<lparr>fp_deleting := Some n\<rparr>, [])"
| "notify_step CancelDeleteChannel s = (s\<lparr>fp_deleting := None\<rparr>, [])"
| "notify_step DeleteChannelClicked s =
     (s, case fp_deleting s of None \<Rightarrow> [] | Some n \<Rightarrow> [Send (deleteChannel n)])"
| "notify_step ChannelDeleted s =
     (s\<lparr>fp_deleting := None\<rparr>, [Invalidate [''notifications''], ToastOk ''Channel deleted''])"
| "notify_step (ChannelDeleteFailed msg) s = (s, [ToastErr (msg_or msg ''Failed to delete channel'')])"
| "notify_step (ChannelsArrived q) s = (s\<lparr>fp_items := q\<rparr>, [])"
| "notify_step (InCard n e) s =
     (case channel_step n e (np_cards s n) of (c, out) \<Rightarrow> (s\<lparr>np_cards := (np_cards s)(n := c)\<rparr>, out))"

definition ChannelDialog :: "notify_page \<Rightarrow> notify_event widget list" where
  "ChannelDialog s =
     [Label (if fp_edit s \<noteq> None then ''Edit Channel'' else ''Add Channel''),
      Label ''Configure where notifications should be sent.'',
      Input ''My Slack channel'' (cf_name (fp_form s)) (\<lambda>v. TypeChannel (CName v)),
      Select (cf_type (fp_form s)) channel_types (\<lambda>t. TypeChannel (CType (fp_edit s \<noteq> None) t)),
      Input [] (cf_config (fp_form s)) (\<lambda>v. TypeChannel (CConfig v)),
      Checkbox ''Enabled'' (cf_enabled (fp_form s)) (\<lambda>b. TypeChannel (CEnabled b)),
      Button ''Cancel'' False CloseChannelForm,
      Button (if fp_edit s \<noteq> None then ''Save changes'' else ''Add channel'') (fp_saving s) SubmitChannel]"

definition ChannelCard :: "channel_card \<Rightarrow> notification_channel \<Rightarrow> notify_event widget list" where
  "ChannelCard c ch =
     [Button [] False (InCard (nc_id ch) ToggleRules), Label (nc_name ch), Label (nc_type ch)] @
     (if nc_enabled ch then [] else [Label ''Disabled'']) @
     [Label (nat_str (length (nc_rules ch)) @ '' rule'' @ (if length (nc_rules ch) \<noteq> 1 then ''s'' else [])),
      Button ''Send test notification'' (cc_testing c) (InCard (nc_id ch) TestChannel),
      Button ''Edit'' False (EditChannel ch), Button ''Delete'' False (AskDeleteChannel (nc_id ch))] @
     (if cc_expanded c then lift_view (InCard (nc_id ch)) (rules_view ch c) else [])"

definition channels_list :: "notify_page \<Rightarrow> notify_event widget list" where
  "channels_list s =
     [Label ''Notifications'', Label ''Configure channels and rules to receive alerts for container and deploy events'',
      Button ''Add channel'' False NewChannel] @
     (if fp_items s = Pending then [Label (''Loading'' @ ellipsis)]
      else if data_or [] (fp_items s) = [] then
        [Label ''No notification channels configured'', Button ''Add first channel'' False FirstChannel]
      else concat (map (\<lambda>ch. ChannelCard (np_cards s (nc_id ch)) ch) (data_or [] (fp_items s))))"

definition delete_channel_box :: "notify_event widget list" where
  "delete_channel_box =
     [Label ''Delete channel?'', Button ''Cancel'' False CancelDeleteChannel, Button ''Delete'' False DeleteChannelClicked]"

text \<open>The card whose dialog for a rule is open.\<close>

definition rule_dialogs :: "notify_page \<Rightarrow> (nat \<times> rule_dialog) list" where
  "rule_dialogs s =
     List.map_filter (\<lambda>ch. map_option (Pair (nc_id ch)) (cc_adding (np_cards s (nc_id ch)))) (data_or [] (fp_items s))"

definition Notifications :: "notify_page \<Rightarrow> notify_event widget list" where
  "Notifications s =
     (case rule_dialogs s of
        (n, d) # _ \<Rightarrow> lift_view (InCard n) (AddRuleDialog d)
      | [] \<Rightarrow>
        if fp_deleting s \<noteq> None then delete_channel_box
        else if fp_open s then ChannelDialog s else channels_list s)"

end
