(* ===== verification/Form_Properties.thy ===== *)
theory Form_Properties
  imports Secrets_Page Registries_Page Notify_Page
begin

section \<open>What the pages of secrets, registries and channels guarantee\<close>

abbreviation secrets_next :: "secrets_page_event \<Rightarrow> secrets_page \<Rightarrow> secrets_page" where
  "secrets_next e s \<equiv> fst (secrets_page_step e s)"

abbreviation registries_next :: "registries_event \<Rightarrow> registries_page \<Rightarrow> registries_page" where
  "registries_next e s \<equiv> fst (registries_step e s)"

abbreviation notify_next :: "notify_event \<Rightarrow> notify_page \<Rightarrow> notify_page" where
  "notify_next e s \<equiv> fst (notify_step e s)"

subsection \<open>The fields of the dialogs\<close>

fun typed_secret :: "secrets_page_event \<Rightarrow> (secret_field \<times> string) option" where
  "typed_secret (TypeSecret f v) = Some (f, v)"
| "typed_secret _ = None"

fun typed_registry :: "registries_event \<Rightarrow> (registry_field \<times> string) option" where
  "typed_registry (TypeRegistry f v) = Some (f, v)"
| "typed_registry _ = None"

fun typed_channel :: "notify_event \<Rightarrow> channel_edit option" where
  "typed_channel (TypeChannel e) = Some e"
| "typed_channel _ = None"

interpretation secret_fields: kept_form secrets_next fp_form typed_secret set_secret_field
proof
  fix e s
  show "fp_form (secrets_next e s) = (case typed_secret e of Some t \<Rightarrow> set_secret_field t (fp_form s) | None \<Rightarrow> fp_form s)"
    by (cases e) (auto split: option.split)
qed

interpretation registry_fields: kept_form registries_next fp_form typed_registry set_registry_field
proof
  fix e s
  show "fp_form (registries_next e s) =
      (case typed_registry e of Some t \<Rightarrow> set_registry_field t (fp_form s) | None \<Rightarrow> fp_form s)"
    by (cases e) (auto split: prod.split)
qed

interpretation channel_fields: kept_form notify_next fp_form typed_channel put_channel
proof
  fix e s
  show "fp_form (notify_next e s) = (case typed_channel e of Some t \<Rightarrow> put_channel t (fp_form s) | None \<Rightarrow> fp_form s)"
    by (cases e) (auto split: prod.split)
qed

text \<open>The fields as the typing since the page was opened leaves them.\<close>

definition secret_typing :: "secrets_page_event list \<Rightarrow> secret_form" where
  "secret_typing es = fold set_secret_field (List.map_filter typed_secret es) (secret_form_init None)"

definition registry_typing :: "registries_event list \<Rightarrow> registry_form" where
  "registry_typing es = fold set_registry_field (List.map_filter typed_registry es) (registry_form_init None)"

definition channel_typing :: "notify_event list \<Rightarrow> channel_form" where
  "channel_typing es = fold put_channel (List.map_filter typed_channel es) (channel_form_init None)"

text \<open>C31: The dialogs of the three pages never take over the item they are opened for: after any events, what
  \<open>Save\<close> sends for an edit is made of what has been typed since the page was opened (for whichever items),
  and of the edited item it holds nothing but the id.\<close>

theorem forms_forget_item:
  "snd (secrets_page_step SubmitSecret (fold secrets_next (es @ [EditSecret x]) secrets_page_init)) =
      (if sf_name (secret_typing es) = [] then [ToastErr ''Name is required'']
       else [Send (updateSecret (sec_id x) (secret_body (secret_typing es)))])
    \<and> snd (registries_step SubmitRegistry (fold registries_next (rs @ [EditRegistry r]) registries_init)) =
      (if rf_name (registry_typing rs) = [] \<or> rf_url (registry_typing rs) = [] \<or> rf_username (registry_typing rs) = [] then [ToastErr ''All fields are required'']
       else [Send (updateRegistry (reg_id r) (registry_body (registry_typing rs)))])
    \<and> snd (notify_step SubmitChannel (fold notify_next (cs @ [EditChannel c]) notify_init)) =
      (if cf_name (channel_typing cs) = [] \<or> cf_type (channel_typing cs) = [] then [ToastErr ''Name and type are required'']
       else [Send (updateChannel (nc_id c) (channel_body (channel_typing cs)))])"
proof (intro conjI)
  have "fp_form (fold secrets_next es secrets_page_init) = secret_typing es"
    by (simp add: secret_fields.run_form secret_typing_def secrets_page_init_def)
  then show "snd (secrets_page_step SubmitSecret (fold secrets_next (es @ [EditSecret x]) secrets_page_init)) =
      (if sf_name (secret_typing es) = [] then [ToastErr ''Name is required'']
       else [Send (updateSecret (sec_id x) (secret_body (secret_typing es)))])"
    by simp
  have "fp_form (fold registries_next rs registries_init) = registry_typing rs"
    by (simp add: registry_fields.run_form registry_typing_def registries_init_def)
  then show "snd (registries_step SubmitRegistry (fold registries_next (rs @ [EditRegistry r]) registries_init)) =
      (if rf_name (registry_typing rs) = [] \<or> rf_url (registry_typing rs) = [] \<or> rf_username (registry_typing rs) = [] then [ToastErr ''All fields are required'']
       else [Send (updateRegistry (reg_id r) (registry_body (registry_typing rs)))])"
    by (simp add: registry_incomplete_def)
  have "fp_form (fold notify_next cs notify_init) = channel_typing cs"
    by (simp add: channel_fields.run_form channel_typing_def notify_init_def)
  then show "snd (notify_step SubmitChannel (fold notify_next (cs @ [EditChannel c]) notify_init)) =
      (if cf_name (channel_typing cs) = [] \<or> cf_type (channel_typing cs) = [] then [ToastErr ''Name and type are required'']
       else [Send (updateChannel (nc_id c) (channel_body (channel_typing cs)))])"
    by simp
qed

subsection \<open>Secrets\<close>

text \<open>The answers a page of secrets may hear (those to a reveal apart).\<close>

definition secrets_answers :: "secrets_page_event set" where
  "secrets_answers =
     {SecretCreated, SecretUpdated, SecretDeleted} \<union> range SecretCreateFailed \<union> range SecretUpdateFailed \<union>
     range SecretDeleteFailed \<union> range SecretsArrived \<union> (\<Union>k. range (RevealFailed k))"

definition secrets_offered :: "formats \<Rightarrow> secrets_page \<Rightarrow> secrets_page_event set" where
  "secrets_offered fm s = view_events (Secrets fm s) \<union> secrets_answers \<union> (\<Union>k. range (Revealed k))"

lemma secret_table_events:
  "view_events (secrets_table fm s) \<subseteq>
     insert NewSecret (range EditSecret \<union> range AskReveal \<union> range AskDeleteSecret)"
  by (auto simp: secrets_table_def secret_row_def)

lemma secrets_offered_name:
  assumes "TypeSecret SName v \<in> secrets_offered fm s"
  shows "fp_open s \<and> fp_edit s = None"
  using assms secret_table_events [of fm s]
  by (auto simp: secrets_offered_def secrets_answers_def Secrets_def RevealDialog_def delete_secret_box_def
      SecretFormDialog_def split: option.splits if_splits)

text \<open>Until \<open>New secret\<close> is pressed no name is typed, and the dialog is open for edits only.\<close>

definition no_name_yet :: "secrets_page \<Rightarrow> bool" where
  "no_name_yet s = (sf_name (fp_form s) = [] \<and> (fp_open s \<longrightarrow> fp_edit s \<noteq> None))"

lemma set_other_field: "f \<noteq> SName \<Longrightarrow> sf_name (set_secret_field (f, v) x) = sf_name x"
  by (cases f) simp_all

lemma no_name_step:
  assumes "no_name_yet t" and "e \<noteq> NewSecret" and "\<And>v. e \<noteq> TypeSecret SName v"
  shows "no_name_yet (secrets_next e t)"
proof (cases e)
  case (TypeSecret f v)
  then have "f \<noteq> SName" using assms(3) by blast
  then show ?thesis using assms(1) TypeSecret by (simp add: no_name_yet_def set_other_field)
qed (use assms in \<open>simp_all add: no_name_yet_def split: option.split\<close>)

lemma no_name_offers: "no_name_yet s \<Longrightarrow> TypeSecret SName v \<notin> secrets_offered fm s"
  using secrets_offered_name [of v fm s] by (auto simp: no_name_yet_def)

lemma no_name_no_update: "no_name_yet s \<Longrightarrow> Send (updateSecret i d) \<notin> set (snd (secrets_page_step e s))"
  by (cases e) (auto simp: no_name_yet_def updateSecret_def revealSecret_def deleteSecret_def api_put_def api_post_def
      api_delete_def split: option.splits)

text \<open>A secret cannot be edited before a new one has been entered: until \<open>New secret\<close> is pressed, whatever
  else is done, the page sends no request that changes a secret; \<open>Save changes\<close> asks for a name, and the field
  of the name is disabled.\<close>

theorem edits_need_new_secret:
  assumes "page_used (\<lambda>s. secrets_offered fm s - {NewSecret}) secrets_next secrets_page_init s"
  shows "Send (updateSecret i d) \<notin> set (snd (secrets_page_step e s))
    \<and> (\<forall>v. TypeSecret SName v \<notin> secrets_offered fm s)
    \<and> snd (secrets_page_step SubmitSecret s) = [ToastErr ''Name is required'']"
proof -
  have "no_name_yet s"
    using assms
  proof (rule page_run_inv)
    show "no_name_yet secrets_page_init" by (simp add: no_name_yet_def secrets_page_init_def secret_form_init_def)
  next
    fix e t
    assume "no_name_yet t" and "e \<in> secrets_offered fm t - {NewSecret}"
    then show "no_name_yet (secrets_next e t)" using no_name_offers by (intro no_name_step) auto
  qed
  then show ?thesis using no_name_offers no_name_no_update by (auto simp: no_name_yet_def)
qed

definition sample_secret :: "nat \<Rightarrow> string \<Rightarrow> secret" where
  "sample_secret i n =
     \<lparr>sec_id = i, sec_name = n, sec_description = [], sec_createdBy = ''admin'', sec_createdAt = [], sec_updatedAt = []\<rparr>"

theorem edits_need_new_secret_witness:
  "snd (secrets_page_step SubmitSecret (secrets_next (EditSecret (sample_secret 1 ''TOKEN''))
      (secrets_next (SecretsArrived (Loaded [sample_secret 1 ''TOKEN''])) secrets_page_init))) = [ToastErr ''Name is required'']"
proof -
  let ?x = "sample_secret 1 ''TOKEN''" and ?run = "page_used (\<lambda>s. secrets_offered plain_formats s - {NewSecret}) secrets_next secrets_page_init"
  have "?run (secrets_next (SecretsArrived (Loaded [?x])) secrets_page_init)"
    by (rule run_next [OF run_start]) (simp add: secrets_offered_def secrets_answers_def)
  then have "?run (secrets_next (EditSecret ?x) (secrets_next (SecretsArrived (Loaded [?x])) secrets_page_init))"
    by (rule run_next) (simp add: secrets_offered_def Secrets_def secrets_table_def secret_row_def secrets_page_init_def)
  from edits_need_new_secret [OF this] show ?thesis by blast
qed

subsection \<open>Revealing a secret\<close>

text \<open>
  A run of the page with the reveals under way: \<open>asked\<close> lists the instances of the dialog that have sent a
  request, with the secret asked for. The server answers each with the value \<open>val\<close> of that secret, in any
  order, however late.
\<close>

definition asks_of :: "secrets_page_event \<Rightarrow> secrets_page \<Rightarrow> (nat \<times> nat) list" where
  "asks_of e s =
     (case (e, sp_reveal s) of (RevealClicked, Some r) \<Rightarrow> [(rv_instance r, sec_id (rv_secret r))] | _ \<Rightarrow> [])"

inductive reveal_run :: "formats \<Rightarrow> (nat \<Rightarrow> string) \<Rightarrow> secrets_page \<Rightarrow> (nat \<times> nat) list \<Rightarrow> bool" for fm val where
  reveal_start: "reveal_run fm val secrets_page_init []"
| reveal_next: "reveal_run fm val s asked \<Longrightarrow> e \<in> view_events (Secrets fm s) \<union> secrets_answers \<Longrightarrow>
    reveal_run fm val (secrets_next e s) (asks_of e s @ asked)"
| reveal_answer: "reveal_run fm val s asked \<Longrightarrow> (k, i) \<in> set asked \<Longrightarrow>
    reveal_run fm val (secrets_next (Revealed k (val i)) s) asked"

definition reveals_match :: "(nat \<Rightarrow> string) \<Rightarrow> secrets_page \<Rightarrow> (nat \<times> nat) list \<Rightarrow> bool" where
  "reveals_match val s asked =
     ((\<forall>(k, i) \<in> set asked. k < sp_instances s)
      \<and> (\<forall>r. sp_reveal s = Some r \<longrightarrow>
           rv_instance r < sp_instances s
           \<and> (\<forall>(k, i) \<in> set asked. k = rv_instance r \<longrightarrow> i = sec_id (rv_secret r))
           \<and> (rv_value r \<noteq> None \<longrightarrow> rv_value r = Some (val (sec_id (rv_secret r)))
                \<and> (rv_instance r, sec_id (rv_secret r)) \<in> set asked)))"

lemma no_reveal_answer: "e \<in> view_events (Secrets fm s) \<union> secrets_answers \<Longrightarrow> e \<noteq> Revealed k v"
  using secret_table_events [of fm s]
  by (auto simp: secrets_answers_def Secrets_def RevealDialog_def delete_secret_box_def SecretFormDialog_def
      split: option.splits if_splits)

lemma reveals_match_step:
  assumes "reveals_match val s asked" and "\<And>k v. e \<noteq> Revealed k v"
  shows "reveals_match val (secrets_next e s) (asks_of e s @ asked)"
  using assms by (cases e) (auto simp: reveals_match_def asks_of_def split: option.splits)

lemma reveals_match_answer:
  assumes "reveals_match val s asked" and "(k, i) \<in> set asked"
  shows "reveals_match val (secrets_next (Revealed k (val i)) s) asked"
  using assms by (auto simp: reveals_match_def split: if_splits)

lemma reveal_run_match: "reveal_run fm val s asked \<Longrightarrow> reveals_match val s asked"
proof (induction rule: reveal_run.induct)
  case reveal_start
  then show ?case by (simp add: reveals_match_def secrets_page_init_def)
next
  case (reveal_next s asked e)
  show ?case by (rule reveals_match_step [OF reveal_next.IH no_reveal_answer [OF reveal_next.hyps(2)]])
next
  case (reveal_answer s asked k i)
  then show ?case by (intro reveals_match_answer)
qed

text \<open>C32: A revealed value is shown under its own secret's name only, and only after \<open>Reveal value\<close> was pressed
  in the dialog that shows it: dialogs may be closed and opened again for other secrets while answers are
  under way, and these may come in any order.\<close>

theorem revealed_value_right:
  assumes "reveal_run fm val s asked" and "sp_reveal s = Some r" and "rv_value r = Some v"
  shows "v = val (sec_id (rv_secret r)) \<and> (rv_instance r, sec_id (rv_secret r)) \<in> set asked"
  using reveal_run_match [OF assms(1)] assms(2,3) by (simp add: reveals_match_def)

text \<open>The dialog of one secret is closed while its answer is under way, that of another one is opened.\<close>

definition reveal_scene :: "secrets_page" where
  "reveal_scene =
     fold secrets_next [SecretsArrived (Loaded [sample_secret 1 ''A'', sample_secret 2 ''B'']), AskReveal (sample_secret 1 ''A''),
       RevealClicked, CloseReveal, AskReveal (sample_secret 2 ''B''), RevealClicked, Revealed 0 ''a'', Revealed 1 ''b''] secrets_page_init"

definition sample_value :: "nat \<Rightarrow> string" where
  "sample_value i = (if i = 1 then ''a'' else ''b'')"

theorem revealed_value_right_witness:
  "(1, 2) \<in> set [(1 :: nat, 2 :: nat), (0, 1)] \<and> ''b'' = sample_value 2"
proof -
  let ?R = "reveal_run plain_formats sample_value"
  let ?A = "sample_secret 1 ''A''" and ?B = "sample_secret 2 ''B''"
  let ?s1 = "secrets_next (SecretsArrived (Loaded [?A, ?B])) secrets_page_init"
  let ?s2 = "secrets_next (AskReveal ?A) ?s1"
  let ?s3 = "secrets_next RevealClicked ?s2"
  let ?s4 = "secrets_next CloseReveal ?s3"
  let ?s5 = "secrets_next (AskReveal ?B) ?s4"
  let ?s6 = "secrets_next RevealClicked ?s5"
  note defs = secrets_answers_def Secrets_def secrets_table_def secret_row_def secrets_page_init_def RevealDialog_def asks_of_def
  have "?R ?s1 []" using reveal_next [OF reveal_start, of "SecretsArrived (Loaded [?A, ?B])"] by (simp add: defs)
  then have "?R ?s2 []" using reveal_next [of plain_formats sample_value ?s1 "[]" "AskReveal ?A"] by (simp add: defs)
  then have "?R ?s3 [(0, 1)]"
    using reveal_next [of plain_formats sample_value ?s2 "[]" RevealClicked] by (simp add: defs sample_secret_def)
  then have "?R ?s4 [(0, 1)]"
    using reveal_next [of plain_formats sample_value ?s3 "[(0, 1)]" CloseReveal] by (simp add: defs)
  then have "?R ?s5 [(0, 1)]"
    using reveal_next [of plain_formats sample_value ?s4 "[(0, 1)]" "AskReveal ?B"] by (simp add: defs)
  then have "?R ?s6 [(1, 2), (0, 1)]"
    using reveal_next [of plain_formats sample_value ?s5 "[(0, 1)]" RevealClicked] by (simp add: defs sample_secret_def)
  then have "?R (secrets_next (Revealed 0 (sample_value 1)) ?s6) [(1, 2), (0, 1)]"
    by (rule reveal_answer) simp
  then have "?R (secrets_next (Revealed 1 (sample_value 2)) (secrets_next (Revealed 0 (sample_value 1)) ?s6)) [(1, 2), (0, 1)]"
    by (rule reveal_answer) simp
  moreover have "reveal_scene = secrets_next (Revealed 1 (sample_value 2)) (secrets_next (Revealed 0 (sample_value 1)) ?s6)"
    by (simp add: reveal_scene_def sample_value_def)
  ultimately have run: "?R reveal_scene [(1, 2), (0, 1)]" by simp
  have "sp_reveal reveal_scene = Some \<lparr>rv_instance = 1, rv_secret = ?B, rv_value = Some ''b'', rv_loading = False, rv_show = False\<rparr>"
    by (simp add: reveal_scene_def secrets_page_init_def)
  from revealed_value_right [OF run this] show ?thesis by (simp add: sample_secret_def)
qed

subsection \<open>Rules of a channel\<close>

abbreviation channel_next :: "nat \<Rightarrow> channel_event \<Rightarrow> channel_card \<Rightarrow> channel_card" where
  "channel_next n e c \<equiv> fst (channel_step n e c)"

lemma saving_kept:
  assumes "\<exists>d. cc_adding c = Some d \<and> rd_saving d" and "e \<notin> {CloseRule, RuleAdded}"
  shows "\<exists>d. cc_adding (channel_next n e c) = Some d \<and> rd_saving d"
  using assms by (cases e) auto

text \<open>A rule whose creation has failed cannot be sent again from its dialog: \<open>Add rule\<close> stays
  disabled until the dialog is closed, which loses what was typed.\<close>

theorem failed_rule_stuck:
  assumes "cc_adding c = Some d" and "CloseRule \<notin> set es" and "RuleAdded \<notin> set es"
    and "cc_adding (fold (channel_next n) (AddRuleClicked # RuleAddFailed msg # es) c) = Some d'"
  shows "AddRuleClicked \<notin> view_events (AddRuleDialog d')"
proof -
  have *: "\<exists>d. cc_adding (fold (channel_next n) es c) = Some d \<and> rd_saving d"
    if "\<exists>d. cc_adding c = Some d \<and> rd_saving d" "CloseRule \<notin> set es" "RuleAdded \<notin> set es" for c
    using that
  proof (induction es arbitrary: c)
    case (Cons e es)
    have "\<exists>d. cc_adding (channel_next n e c) = Some d \<and> rd_saving d"
      by (rule saving_kept) (use Cons.prems in auto)
    then show ?case using Cons.IH Cons.prems by simp
  qed simp
  have "\<exists>d. cc_adding (fold (channel_next n) es (channel_next n (RuleAddFailed msg) (channel_next n AddRuleClicked c))) = Some d \<and> rd_saving d"
    by (rule *) (use assms in auto)
  then have "rd_saving d'" using assms(4) by auto
  then show ?thesis by (auto simp: AddRuleDialog_def)
qed

end
