(* ===== verification/Settings_Page.thy ===== *)
theory Settings_Page
  imports Page_Run
begin

section \<open>The settings page: \<open>pages/Settings.tsx\<close>\<close>

text \<open>
  \<open>ServerConfig\<close> and \<open>UpdateCheckResult\<close> of \<open>api/system.ts\<close>. The draft \<open>ServerConfigUpdate\<close> is an object with
  some of the configuration's keys.
\<close>

record server_config =
  sc_listenAddr :: string
  sc_authMode :: string
  sc_projectsDir :: string
  sc_filesRoot :: string
  sc_tlsCert :: string
  sc_tlsKey :: string
  sc_logSink :: string
  sc_logLevel :: string
  sc_metricsInterval :: string
  sc_metricsRetention :: string
  sc_dataDir :: string
  sc_configPath :: string

record update_check =
  ui_currentVersion :: string
  ui_latestVersion :: string
  ui_hasUpdate :: bool
  ui_releaseURL :: string

text \<open>The keys of the fields that can be edited, in the order shown.\<close>

definition config_keys :: "string list" where
  "config_keys =
     [''listenAddr'', ''authMode'', ''projectsDir'', ''filesRoot'', ''tlsCert'', ''tlsKey'', ''logSink'', ''logLevel'',
      ''metricsInterval'', ''metricsRetention'']"

definition config_values :: "server_config \<Rightarrow> string list" where
  "config_values c =
     [sc_listenAddr c, sc_authMode c, sc_projectsDir c, sc_filesRoot c, sc_tlsCert c, sc_tlsKey c, sc_logSink c,
      sc_logLevel c, sc_metricsInterval c, sc_metricsRetention c]"

definition config_value :: "server_config \<Rightarrow> string \<Rightarrow> string option" where
  "config_value c = map_of (zip config_keys (config_values c))"

datatype config_query = ConfigPending | ConfigFailed bool | ConfigLoaded server_config

text \<open>\<open>ConfigFailed is404\<close>.\<close>

record settings_page =
  se_version :: "string query"
  se_update :: "update_check query"
  se_fetching :: bool
  se_cfg :: config_query
  se_draft :: "string obj"
  se_restartFields :: "string list"
  se_saving :: bool

definition settings_init :: settings_page where
  "settings_init =
     \<lparr>se_version = Pending, se_update = Pending, se_fetching = True, se_cfg = ConfigPending, se_draft = [],
      se_restartFields = [], se_saving = False\<rparr>"

definition settings_mount :: "client_out list" where
  "settings_mount = [Send getVersion, Send getUpdateStatus, Send getConfig]"

text \<open>\<open>field(key).value\<close>.\<close>

definition shown_value :: "server_config \<Rightarrow> string obj \<Rightarrow> string \<Rightarrow> string" where
  "shown_value cfg draft key =
     (case obj_get draft key of
        Some v \<Rightarrow> v
      | None \<Rightarrow> (case config_value cfg key of Some v \<Rightarrow> v | None \<Rightarrow> []))"

definition hasChanges :: "settings_page \<Rightarrow> bool" where
  "hasChanges s = (se_draft s \<noteq> [])"

definition draft_body :: "string obj \<Rightarrow> js" where
  "draft_body d = JObj (map (\<lambda>(k, v). (k, JStr v)) d)"

datatype settings_event =
    VersionArrived "string query"
  | UpdateArrived "update_check query"
  | CheckForUpdates
  | OpenRelease string
  | ConfigArrived config_query
  | TypeConfig string string
  | SaveConfig
  | ConfigSaved bool "string list"
  | ConfigSaveFailed string

fun settings_step :: "settings_event \<Rightarrow> settings_page \<Rightarrow> settings_page \<times> client_out list" where
  "settings_step (VersionArrived q) s = (s\<lparr>se_version := q\<rparr>, [])"
| "settings_step (UpdateArrived q) s = (s\<lparr>se_update := q, se_fetching := False\<rparr>, [])"
| "settings_step CheckForUpdates s = (s\<lparr>se_fetching := True\<rparr>, [Send getUpdateStatus])"
| "settings_step (OpenRelease url) s = (s, [OpenUrl url])"
| "settings_step (ConfigArrived q) s = (s\<lparr>se_cfg := q\<rparr>, [])"
| "settings_step (TypeConfig key v) s = (s\<lparr>se_draft := obj_set key v (se_draft s)\<rparr>, [])"
| "settings_step SaveConfig s = (s\<lparr>se_saving := True\<rparr>, [Send (updateConfig (draft_body (se_draft s)))])"
| "settings_step (ConfigSaved requiresRestart names) s =
     (let restart = requiresRestart \<and> names \<noteq> [] in
        (s\<lparr>se_restartFields := (if restart then names else []), se_draft := [], se_saving := False\<rparr>,
         [if restart then ToastWarn (''Saved '' @ em_dash @ '' restart required for: '' @ js_join '', '' names)
          else ToastOk ''Configuration applied.'',
          Invalidate [''server-config'']]))"
| "settings_step (ConfigSaveFailed msg) s = (s\<lparr>se_saving := False\<rparr>, [ToastErr msg])"

subsection \<open>The view\<close>

definition UpdateSection :: "settings_page \<Rightarrow> settings_event widget list" where
  "UpdateSection s =
     [Label ''Application Version''] @
     (case se_version s of Loaded v \<Rightarrow> [Label v] | _ \<Rightarrow> []) @
     (case se_update s of
        Loaded u \<Rightarrow>
          if ui_hasUpdate u then
            [Label (''Update available: '' @ ui_latestVersion u @ '' (current: '' @ ui_currentVersion u @ '')'')] @
            (if ui_releaseURL u \<noteq> [] then [Button ''View release notes'' False (OpenRelease (ui_releaseURL u))] else []) @
            [Button ''download the binary manually'' False (OpenRelease (ui_releaseURL u))]
          else [Label (''You'' @ [CHR 0x27] @ ''re running the latest version ('' @ ui_currentVersion u @ '').'')]
      | _ \<Rightarrow> []) @
     [Button (if se_fetching s then ''Checking'' @ ellipsis else ''Check for updates'') (se_fetching s) CheckForUpdates]"

definition ConfigField :: "string \<Rightarrow> bool \<Rightarrow> string \<Rightarrow> (string \<Rightarrow> 'e) \<Rightarrow> 'e widget list" where
  "ConfigField lbl requiresRestart v f =
     [Label lbl] @ (if requiresRestart then [Label ''requires restart''] else []) @ [Input [] v f]"

definition SelectField :: "string \<Rightarrow> string list \<Rightarrow> string \<Rightarrow> (string \<Rightarrow> 'e) \<Rightarrow> 'e widget list" where
  "SelectField lbl opts v f = [Label lbl, Select v (map (\<lambda>x. (x, x)) opts) f]"

definition config_form :: "server_config \<Rightarrow> string obj \<Rightarrow> settings_event widget list" where
  "config_form cfg d =
     (let val = shown_value cfg d in
        ConfigField ''Listen Address'' True (val ''listenAddr'') (TypeConfig ''listenAddr'') @
        SelectField ''Auth Mode'' [''both'', ''local'', ''pam''] (val ''authMode'') (TypeConfig ''authMode'') @
        ConfigField ''Projects Directory'' False (val ''projectsDir'') (TypeConfig ''projectsDir'') @
        ConfigField ''Files Root'' False (val ''filesRoot'') (TypeConfig ''filesRoot'') @
        ConfigField ''TLS Certificate'' True (val ''tlsCert'') (TypeConfig ''tlsCert'') @
        ConfigField ''TLS Key'' True (val ''tlsKey'') (TypeConfig ''tlsKey'') @
        SelectField ''Log Sink'' [''both'', ''stdout'', ''db''] (val ''logSink'') (TypeConfig ''logSink'') @
        SelectField ''Log Level'' [''info'', ''debug'', ''warn'', ''error''] (val ''logLevel'') (TypeConfig ''logLevel'') @
        ConfigField ''Metrics Interval'' False (val ''metricsInterval'') (TypeConfig ''metricsInterval'') @
        ConfigField ''Metrics Retention'' False (val ''metricsRetention'') (TypeConfig ''metricsRetention''))"

definition ConfigSection :: "settings_page \<Rightarrow> settings_event widget list" where
  "ConfigSection s =
     (case se_cfg s of
        ConfigPending \<Rightarrow> [Label (''Loading configuration'' @ ellipsis)]
      | ConfigFailed is404 \<Rightarrow>
          [Label ''Configuration File'',
           Label (if is404 then ''The server was started without a config file (environment variables or defaults). Create a config file to enable editing.''
                  else ''Failed to load configuration.'')]
      | ConfigLoaded cfg \<Rightarrow>
          [Label ''Configuration File''] @
          (if sc_configPath cfg \<noteq> [] then [Label (sc_configPath cfg)] else []) @
          (if se_restartFields s \<noteq> [] then
             [Label (''Restart the server to apply: '' @ js_join '', '' (se_restartFields s))] else []) @
          config_form cfg (se_draft s) @
          [Label (''Data Dir: '' @ sc_dataDir cfg), Label (''Cookie Secret: '' @ bullets @ bullets),
           Button (if se_saving s then ''Saving'' @ ellipsis else ''Save Changes'') (\<not> hasChanges s \<or> se_saving s) SaveConfig])"

definition Settings :: "settings_page \<Rightarrow> settings_event widget list" where
  "Settings s = [Label ''Settings'', Label ''System configuration and updates''] @ UpdateSection s @ ConfigSection s"

end
