(* ===== verification/Backup_Page.thy ===== *)
theory Backup_Page
  imports Page_Run Docker_Types
begin

section \<open>The page of backups: \<open>pages/Backup.tsx\<close>\<close>

record chosen_file =
  cho_name :: string
  cho_size :: nat
  cho_content :: string

record restore_result =
  rr_createdAt :: string
  rr_note :: string

record backup_page =
  bk_selected :: "chosen_file option"
  bk_confirm :: bool
  bk_restoring :: bool
  bk_result :: "restore_result option"
  bk_copied :: bool

definition backup_init :: backup_page where
  "backup_init = \<lparr>bk_selected = None, bk_confirm = False, bk_restoring = False, bk_result = None, bk_copied = False\<rparr>"

text \<open>The restore calls \<open>fetch\<close> itself, the download navigates.\<close>

datatype backup_out = Fetch http_call | Navigate string | Common client_out

definition AUTOMATION_SNIPPET :: string where
  "AUTOMATION_SNIPPET =
     js_join [CHR 0x0A]
       [''#!/bin/bash'', ''# Daily backup script '' @ em_dash @ '' run via cron or systemd timer'',
        ''# Requires: curl, aws-cli (or rclone)'', '''', ''HOST=\"https://your-vps-pilot-host\"'',
        ''COOKIE=\"session=YOUR_SESSION_COOKIE\"'', ''DATE=$(date +%Y%m%d-%H%M%S)'',
        ''FILE=\"/tmp/vps-pilot-backup-$DATE.zip\"'', '''', ''# Download backup'',
        ''curl -sf -b \"$COOKIE\" \"$HOST/api/backup\" -o \"$FILE\"'', '''',
        ''# Option A '' @ em_dash @ '' upload to S3'', ''aws s3 cp \"$FILE\" s3://your-bucket/backups/'', '''',
        ''# Option B '' @ em_dash @ '' upload to Cloudflare R2'', ''# rclone copy \"$FILE\" r2:your-bucket/vps-pilot/'', '''',
        ''# Cleanup local file'', ''rm \"$FILE\"'']"

datatype backup_event =
    DownloadBackup
  | CopySnippet
  | CopiedTimeout
  | ChooseFile "chosen_file option"
  | AskRestore
  | CancelRestore
  | RestoreClicked
  | Restored string string
  | RestoreFailed string

fun backup_step :: "backup_event \<Rightarrow> backup_page \<Rightarrow> backup_page \<times> backup_out list" where
  "backup_step DownloadBackup s = (s, [Navigate downloadBackup])"
| "backup_step CopySnippet s = (s\<lparr>bk_copied := True\<rparr>, [Common (CopyText AUTOMATION_SNIPPET)])"
| "backup_step CopiedTimeout s = (s\<lparr>bk_copied := False\<rparr>, [])"
| "backup_step (ChooseFile f) s = (s\<lparr>bk_selected := f, bk_result := None\<rparr>, [])"
| "backup_step AskRestore s = (s\<lparr>bk_confirm := True\<rparr>, [])"
| "backup_step CancelRestore s = (s\<lparr>bk_confirm := False\<rparr>, [])"
| "backup_step RestoreClicked s =
     (case bk_selected s of
        None \<Rightarrow> (s, [])
      | Some f \<Rightarrow> (s\<lparr>bk_restoring := True, bk_confirm := False\<rparr>, [Fetch (restoreBackup (cho_content f))]))"
| "backup_step (Restored createdAt note) s =
     (s\<lparr>bk_result := Some \<lparr>rr_createdAt = createdAt, rr_note = note\<rparr>, bk_selected := None, bk_restoring := False\<rparr>,
      [Common (ToastOk ''Database restored successfully'')])"
| "backup_step (RestoreFailed msg) s =
     (s\<lparr>bk_restoring := False\<rparr>, [Common (ToastErr (msg_or msg ''Restore failed''))])"

definition restore_box :: "backup_page \<Rightarrow> backup_event widget list" where
  "restore_box s =
     [Label ''Restore database?'',
      Label (''This will replace all current data with the contents of '' @
             (case bk_selected s of Some f \<Rightarrow> cho_name f | None \<Rightarrow> []) @
             ''. This cannot be undone. Make sure you have a fresh backup before proceeding.''),
      Button ''Cancel'' False CancelRestore, Button ''Restore'' False RestoreClicked]"

definition restore_card :: "formats \<Rightarrow> backup_page \<Rightarrow> backup_event widget list" where
  "restore_card fm s =
     [Label ''Restore from backup''] @
     (case bk_selected s of
        Some f \<Rightarrow> [Label (cho_name f), Label (''('' @ tenths_str (round_div (10 * cho_size f) 1024) @ '' KB)'')]
      | None \<Rightarrow> []) @
     [Button ''Restore backup'' (bk_selected s = None \<or> bk_restoring s) AskRestore] @
     (case bk_result s of
        Some r \<Rightarrow> [Label ''Restore successful'', Label (''Backup from '' @ fm_date fm (rr_createdAt r) @ '' applied.''),
                   Label (rr_note r)]
      | None \<Rightarrow> [])"

definition Backup :: "formats \<Rightarrow> backup_page \<Rightarrow> backup_event widget list" where
  "Backup fm s =
     (if bk_confirm s then restore_box s
      else [Label ''Backup & Restore'', Label ''Export backup'', Button ''Download backup'' False DownloadBackup,
            Label ''Automate backups'', Button ''Copy'' False CopySnippet, Label AUTOMATION_SNIPPET] @ restore_card fm s)"

text \<open>What a user can do: the controls shown, and choosing a file on the page.\<close>

definition backup_offered :: "formats \<Rightarrow> backup_page \<Rightarrow> backup_event set" where
  "backup_offered fm s = view_events (Backup fm s) \<union> (if bk_confirm s then {} else range ChooseFile)"

end
