(* ===== verification/Settings_Properties.thy ===== *)
theory Settings_Properties
  imports Settings_Page Backup_Page
begin

section \<open>What the pages of settings and backups guarantee\<close>

abbreviation settings_next :: "settings_event \<Rightarrow> settings_page \<Rightarrow> settings_page" where
  "settings_next e s \<equiv> fst (settings_step e s)"

subsection \<open>The draft of the configuration\<close>

text \<open>The configuration the server has after the request: the fields sent are replaced, the others stay.\<close>

definition apply_draft :: "string obj \<Rightarrow> server_config \<Rightarrow> server_config" where
  "apply_draft d c =
     (let val = shown_value c d in
        c\<lparr>sc_listenAddr := val ''listenAddr'', sc_authMode := val ''authMode'', sc_projectsDir := val ''projectsDir'',
          sc_filesRoot := val ''filesRoot'', sc_tlsCert := val ''tlsCert'', sc_tlsKey := val ''tlsKey'',
          sc_logSink := val ''logSink'', sc_logLevel := val ''logLevel'', sc_metricsInterval := val ''metricsInterval'',
          sc_metricsRetention := val ''metricsRetention''\<rparr>)"

lemma config_value_key:
  assumes "key \<in> set config_keys"
  shows "config_value (apply_draft d c) key = Some (shown_value c d key)"
  using assms by (auto simp: config_keys_def config_value_def config_values_def apply_draft_def Let_def)

lemma apply_draft_shown: "key \<in> set config_keys \<Longrightarrow> shown_value (apply_draft d c) [] key = shown_value c d key"
  by (simp add: config_value_key shown_value_def [of "apply_draft d c" "[]"])

lemma config_form_cong:
  assumes "\<And>key. key \<in> set config_keys \<Longrightarrow> shown_value c d key = shown_value c' d' key"
  shows "config_form c d = config_form c' d'"
  using assms by (simp add: config_form_def config_keys_def Let_def)

text \<open>The draft holds the last value typed for each field typed into since the last save.\<close>

definition settings_answers :: "settings_event set" where
  "settings_answers =
     range VersionArrived \<union> range UpdateArrived \<union> range ConfigArrived \<union> range (\<lambda>(b, ks). ConfigSaved b ks) \<union>
     range ConfigSaveFailed"

definition settings_offered :: "settings_page \<Rightarrow> settings_event set" where
  "settings_offered s = view_events (Settings s) \<union> settings_answers"

lemma update_events: "view_events (UpdateSection s) \<subseteq> insert CheckForUpdates (range OpenRelease)"
  by (auto simp: UpdateSection_def split: query.splits if_splits)

lemma field_events:
  "view_events (ConfigField l b v f) = range f"
  "view_events (SelectField l os v f) = f ` set os"
  by (auto simp: ConfigField_def SelectField_def image_image)

lemma config_form_events: "view_events (config_form c d) \<subseteq> (\<Union>key \<in> set config_keys. range (TypeConfig key))"
  by (simp add: config_form_def Let_def field_events config_keys_def) blast

lemma section_events:
  "view_events (ConfigSection s) \<subseteq>
     (\<Union>key \<in> set config_keys. range (TypeConfig key)) \<union> (if hasChanges s then {SaveConfig} else {})"
proof (cases "se_cfg s")
  case (ConfigLoaded c)
  then show ?thesis
    using config_form_events [of c "se_draft s"] by (auto simp: ConfigSection_def)
qed (simp_all add: ConfigSection_def)

lemma settings_events:
  "view_events (Settings s) \<subseteq>
     insert CheckForUpdates (range OpenRelease) \<union> (\<Union>key \<in> set config_keys. range (TypeConfig key)) \<union>
     (if hasChanges s then {SaveConfig} else {})"
  using update_events [of s] section_events [of s] by (auto simp: Settings_def)

lemma typed_keys: "TypeConfig key v \<in> settings_offered s \<Longrightarrow> key \<in> set config_keys"
  using settings_events [of s] by (auto simp: settings_offered_def settings_answers_def split: if_splits)

lemma draft_keys:
  assumes "page_used settings_offered settings_next settings_init s"
  shows "set (obj_keys (se_draft s)) \<subseteq> set config_keys \<and> wf_obj (se_draft s)"
  using assms
proof (rule page_run_inv)
  show "set (obj_keys (se_draft settings_init)) \<subseteq> set config_keys \<and> wf_obj (se_draft settings_init)"
    by (simp add: settings_init_def)
next
  fix e t
  assume "set (obj_keys (se_draft t)) \<subseteq> set config_keys \<and> wf_obj (se_draft t)" and "e \<in> settings_offered t"
  then show "set (obj_keys (se_draft (settings_next e t))) \<subseteq> set config_keys \<and> wf_obj (se_draft (settings_next e t))"
    using typed_keys [of _ _ t] by (cases e) (simp_all add: Let_def set_obj_keys_set del: set_map)
qed


definition sample_config :: server_config where
  "sample_config =
     \<lparr>sc_listenAddr = ''0.0.0.0:8080'', sc_authMode = ''both'', sc_projectsDir = ''/opt/projects'', sc_filesRoot = ''/'',
      sc_tlsCert = [], sc_tlsKey = [], sc_logSink = ''both'', sc_logLevel = ''info'', sc_metricsInterval = ''30s'',
      sc_metricsRetention = ''168h'', sc_dataDir = ''/var/lib/vps-pilot'', sc_configPath = ''/etc/vps-pilot.toml''\<rparr>"

lemma sample_run:
  "page_used settings_offered settings_next settings_init
     (fold settings_next [ConfigArrived (ConfigLoaded sample_config), TypeConfig ''logLevel'' ''debug''] settings_init)"
proof (rule page_run_fold)
  fix i
  assume "i < length [ConfigArrived (ConfigLoaded sample_config), TypeConfig ''logLevel'' ''debug'']"
  then have "i = 0 \<or> i = 1" by auto
  then show "[ConfigArrived (ConfigLoaded sample_config), TypeConfig ''logLevel'' ''debug''] ! i
      \<in> settings_offered (fold settings_next (take i [ConfigArrived (ConfigLoaded sample_config), TypeConfig ''logLevel'' ''debug'']) settings_init)"
    by (auto simp: settings_offered_def settings_answers_def Settings_def ConfigSection_def config_form_def SelectField_def
        Let_def)
qed


text \<open>What is typed while a save is under way goes with it: the success empties the whole draft, so the
  field returns to the server's value and nothing is left to save.\<close>

theorem typed_during_config_save_lost:
  fixes restart ks
  assumes "se_cfg s = ConfigLoaded c" and "key \<in> set config_keys" and "v \<noteq> shown_value c (se_draft s) key"
  defines "t \<equiv> fold settings_next [SaveConfig, TypeConfig key v, ConfigSaved restart ks,
      ConfigArrived (ConfigLoaded (apply_draft (se_draft s) c))] s"
  shows "shown_value (apply_draft (se_draft s) c) (se_draft t) key \<noteq> v \<and> \<not> hasChanges t"
  using assms by (simp add: Let_def hasChanges_def apply_draft_shown)

text \<open>A restart is reported only when the server names the fields: a configuration that was saved but could
  not be loaded again (\<open>requiresRestart\<close> with an empty list) is announced as applied.\<close>

lemma restart_unreported:
  "snd (settings_step (ConfigSaved True []) s) = [ToastOk ''Configuration applied.'', Invalidate [''server-config'']]"
  by simp

subsection \<open>Restoring a backup\<close>

abbreviation backup_next :: "backup_event \<Rightarrow> backup_page \<Rightarrow> backup_page" where
  "backup_next e s \<equiv> fst (backup_step e s)"

text \<open>An answer to a restore comes while one is under way.\<close>

definition backup_heard :: "formats \<Rightarrow> backup_page \<Rightarrow> backup_event set" where
  "backup_heard fm s =
     backup_offered fm s \<union> {CopiedTimeout} \<union> (if bk_restoring s then range (\<lambda>(d, n). Restored d n) \<union> range RestoreFailed else {})"

lemma backup_page_events:
  "e \<in> backup_heard fm s \<Longrightarrow>
     (e = RestoreClicked \<or> e = CancelRestore \<longrightarrow> bk_confirm s)
     \<and> (e = AskRestore \<longrightarrow> bk_selected s \<noteq> None \<and> \<not> bk_restoring s)
     \<and> ((\<exists>f. e = ChooseFile f) \<longrightarrow> \<not> bk_confirm s)"
  by (auto simp: backup_heard_def backup_offered_def Backup_def restore_box_def restore_card_def split: if_splits option.splits)

lemma backup_run_inv:
  assumes "page_used (backup_heard fm) backup_next backup_init s"
  shows "bk_confirm s \<longrightarrow> bk_selected s \<noteq> None \<and> \<not> bk_restoring s"
  using assms
proof (rule page_run_inv)
  show "bk_confirm backup_init \<longrightarrow> bk_selected backup_init \<noteq> None \<and> \<not> bk_restoring backup_init"
    by (simp add: backup_init_def)
next
  fix e t
  assume t: "bk_confirm t \<longrightarrow> bk_selected t \<noteq> None \<and> \<not> bk_restoring t" and "e \<in> backup_heard fm t"
  note ev = backup_page_events [OF this(2)]
  have restored: "bk_restoring t" if "e = Restored d n \<or> e = RestoreFailed m" for d n m
    using that \<open>e \<in> backup_heard fm t\<close>
    by (auto simp: backup_heard_def backup_offered_def Backup_def restore_box_def restore_card_def split: if_splits option.splits)
  show "bk_confirm (backup_next e t) \<longrightarrow> bk_selected (backup_next e t) \<noteq> None \<and> \<not> bk_restoring (backup_next e t)"
    using t ev restored by (cases e) (auto split: option.split)
qed

text \<open>C34: A database is replaced only after the question that names the file has been answered with
  \<open>Restore\<close>, with just the file named there, and never while another restore is under way.\<close>

theorem restore_confirmed:
  assumes "page_used (backup_heard fm) backup_next backup_init s" and "e \<in> backup_heard fm s"
    and "Fetch c \<in> set (snd (backup_step e s))"
  shows "e = RestoreClicked \<and> \<not> bk_restoring s
    \<and> (\<exists>f. bk_selected s = Some f \<and> c = restoreBackup (cho_content f)
         \<and> Label (''This will replace all current data with the contents of '' @ cho_name f @
             ''. This cannot be undone. Make sure you have a fresh backup before proceeding.'') \<in> set (Backup fm s))"
proof -
  obtain f where f: "e = RestoreClicked" "bk_selected s = Some f" "c = restoreBackup (cho_content f)"
    using assms(3) by (cases e) (auto split: option.splits)
  have "bk_confirm s" using backup_page_events [OF assms(2)] f(1) by blast
  then show ?thesis using backup_run_inv [OF assms(1)] f by (auto simp: Backup_def restore_box_def)
qed

definition sample_backup :: chosen_file where
  "sample_backup = \<lparr>cho_name = ''backup.zip'', cho_size = 2048, cho_content = ''PK''\<rparr>"

theorem restore_confirmed_witness:
  "\<exists>s. bk_selected s = Some sample_backup \<and> RestoreClicked \<in> backup_heard plain_formats s \<and> \<not> bk_restoring s"
proof -
  define s where "s = fold backup_next [ChooseFile (Some sample_backup), AskRestore] backup_init"
  have "page_used (backup_heard plain_formats) backup_next backup_init s"
    unfolding s_def
  proof (rule page_run_fold)
    fix i
    assume "i < length [ChooseFile (Some sample_backup), AskRestore]"
    then have "i = 0 \<or> i = 1" by auto
    then show "[ChooseFile (Some sample_backup), AskRestore] ! i
        \<in> backup_heard plain_formats (fold backup_next (take i [ChooseFile (Some sample_backup), AskRestore]) backup_init)"
      by (auto simp: backup_heard_def backup_offered_def Backup_def restore_card_def backup_init_def)
  qed
  moreover have "RestoreClicked \<in> backup_heard plain_formats s"
    by (simp add: s_def backup_heard_def backup_offered_def Backup_def restore_box_def backup_init_def)
  moreover have "Fetch (restoreBackup ''PK'') \<in> set (snd (backup_step RestoreClicked s))"
    by (simp add: s_def backup_init_def sample_backup_def)
  ultimately have "\<not> bk_restoring s" using restore_confirmed by blast
  moreover have "bk_selected s = Some sample_backup" by (simp add: s_def)
  moreover note \<open>RestoreClicked \<in> backup_heard plain_formats s\<close>
  ultimately show ?thesis by blast
qed

end
