(* ===== verification/Containers_Page.thy ===== *)
theory Containers_Page
  imports Page_Run Docker_Types
begin

section \<open>The page of containers: \<open>pages/Containers.tsx\<close>\<close>

record port_mapping =
  pm_hostIP :: "string option"
  pm_hostPort :: "nat option"
  pm_containerPort :: nat
  pm_protocol :: string

record standalone_container =
  so_id :: string
  so_names :: "string list"
  so_image :: string
  so_state :: string
  so_status :: string
  so_created :: nat
  so_ports :: "port_mapping list option"
  so_labels :: "string obj"
  so_composeProject :: "string option"

definition arrow_right :: string where
  "arrow_right = [CHR 0xE2, CHR 0x86, CHR 0x92]"

definition port_mapping_text :: "port_mapping \<Rightarrow> string" where
  "port_mapping_text p =
     (case pm_hostPort p of
        Some h \<Rightarrow> if h \<noteq> 0 then nat_str h @ arrow_right else []
      | None \<Rightarrow> []) @ nat_str (pm_containerPort p) @ ''/'' @ pm_protocol p"

definition formatPorts :: "port_mapping list option \<Rightarrow> string" where
  "formatPorts ports =
     (case list_of_opt ports of [] \<Rightarrow> em_dash | ps \<Rightarrow> js_join '', '' (map port_mapping_text ps))"

subsection \<open>\<open>CreateContainerDialog\<close>\<close>

record create_form =
  cr_image :: string
  cr_name :: string
  cr_restartPolicy :: string
  cr_envRaw :: string
  cr_portsRaw :: string
  cr_volumesRaw :: string

definition create_form_init :: create_form where
  "create_form_init =
     \<lparr>cr_image = [], cr_name = [], cr_restartPolicy = ''unless-stopped'', cr_envRaw = [], cr_portsRaw = [], cr_volumesRaw = []\<rparr>"

record port_request =
  pq_hostPort :: string
  pq_containerPort :: string
  pq_protocol :: string

definition raw_lines :: "string \<Rightarrow> string list" where
  "raw_lines raw = filter (\<lambda>l. l \<noteq> []) (map js_trim (js_split (CHR 0x0A) raw))"

definition env_lines :: "string \<Rightarrow> string list" where
  "env_lines raw = filter (\<lambda>l. CHR ''='' \<in> set l) (raw_lines raw)"

text \<open>\<open>const [a, b] = l.split(c)\<close> where \<open>c\<close> occurs: what comes after a second \<open>c\<close> is dropped.\<close>

definition first_two :: "char \<Rightarrow> string \<Rightarrow> string \<times> string" where
  "first_two c l = (js_split c l ! 0, js_split c l ! 1)"

definition port_line :: "string \<Rightarrow> port_request" where
  "port_line l =
     (let (host, rest) = (if CHR '':'' \<in> set l then first_two (CHR '':'') l else ([], l));
          (cont, proto) = (if CHR ''/'' \<in> set rest then first_two (CHR ''/'') rest else (rest, ''tcp''))
      in \<lparr>pq_hostPort = host, pq_containerPort = cont, pq_protocol = proto\<rparr>)"

definition port_request_js :: "port_request \<Rightarrow> js" where
  "port_request_js p =
     JObj [(''hostPort'', JStr (pq_hostPort p)), (''containerPort'', JStr (pq_containerPort p)),
           (''protocol'', JStr (pq_protocol p))]"

definition list_entry :: "string \<Rightarrow> js list \<Rightarrow> (string \<times> js) list" where
  "list_entry k vs = (if vs = [] then [] else [(k, JArr vs)])"

definition create_request :: "create_form \<Rightarrow> js" where
  "create_request f =
     JObj ([(''image'', JStr (js_trim (cr_image f)))] @
           (if js_trim (cr_name f) = [] then [] else [(''name'', JStr (js_trim (cr_name f)))]) @
           [(''restartPolicy'', JStr (cr_restartPolicy f))] @
           list_entry ''env'' (map JStr (env_lines (cr_envRaw f))) @
           list_entry ''ports'' (map (\<lambda>l. port_request_js (port_line l)) (raw_lines (cr_portsRaw f))) @
           list_entry ''volumes'' (map JStr (raw_lines (cr_volumesRaw f))))"

datatype create_field = FImage | FName | FRestart | FPorts | FVolumes | FEnv

fun put_create :: "create_field \<Rightarrow> string \<Rightarrow> create_form \<Rightarrow> create_form" where
  "put_create FImage v f = f\<lparr>cr_image := v\<rparr>"
| "put_create FName v f = f\<lparr>cr_name := v\<rparr>"
| "put_create FRestart v f = f\<lparr>cr_restartPolicy := v\<rparr>"
| "put_create FPorts v f = f\<lparr>cr_portsRaw := v\<rparr>"
| "put_create FVolumes v f = f\<lparr>cr_volumesRaw := v\<rparr>"
| "put_create FEnv v f = f\<lparr>cr_envRaw := v\<rparr>"

subsection \<open>\<open>Containers\<close>\<close>

record containers_page =
  cp_form :: create_form
  cp_saving :: bool
  cp_showCreate :: bool
  cp_deletingId :: "string option"
  cp_showAll :: bool
  cp_fetching :: bool
  cp_lists :: "bool \<Rightarrow> standalone_container list query"

definition containers_init :: containers_page where
  "containers_init =
     \<lparr>cp_form = create_form_init, cp_saving = False, cp_showCreate = False, cp_deletingId = None, cp_showAll = True,
      cp_fetching = True, cp_lists = (\<lambda>_. Pending)\<rparr>"

definition containers_mount :: "client_out list" where
  "containers_mount = [Send (listContainers True)]"

datatype containers_event =
    ToggleShowAll
  | RefreshContainers
  | PollContainers
  | ContainersListed bool "standalone_container list query"
  | OpenCreateContainer
  | CloseCreateContainer
  | TypeCreate create_field string
  | SubmitContainer
  | ContainerCreated
  | ContainerCreateFailed string
  | AskRemoveContainer string
  | CancelRemoveContainer
  | RemoveContainerClicked
  | ContainerRemoved
  | ContainerRemoveFailed string

text \<open>The other list is asked for when it is chosen; the one shown again every ten seconds (\<open>PollContainers\<close>).\<close>

fun containers_step :: "containers_event \<Rightarrow> containers_page \<Rightarrow> containers_page \<times> client_out list" where
  "containers_step ToggleShowAll s =
     (s\<lparr>cp_showAll := \<not> cp_showAll s, cp_fetching := True\<rparr>, [Send (listContainers (\<not> cp_showAll s))])"
| "containers_step RefreshContainers s = (s\<lparr>cp_fetching := True\<rparr>, [Send (listContainers (cp_showAll s))])"
| "containers_step PollContainers s = (s\<lparr>cp_fetching := True\<rparr>, [Send (listContainers (cp_showAll s))])"
| "containers_step (ContainersListed b q) s =
     (s\<lparr>cp_lists := (cp_lists s)(b := q), cp_fetching := (if b = cp_showAll s then False else cp_fetching s)\<rparr>, [])"
| "containers_step OpenCreateContainer s = (s\<lparr>cp_showCreate := True\<rparr>, [])"
| "containers_step CloseCreateContainer s = (s\<lparr>cp_showCreate := False\<rparr>, [])"
| "containers_step (TypeCreate f v) s = (s\<lparr>cp_form := put_create f v (cp_form s)\<rparr>, [])"
| "containers_step SubmitContainer s =
     (if js_trim (cr_image (cp_form s)) = [] then (s, [ToastErr ''Image is required''])
      else (s\<lparr>cp_saving := True\<rparr>, [Send (createContainer (create_request (cp_form s)))]))"
| "containers_step ContainerCreated s =
     (s\<lparr>cp_showCreate := False, cp_saving := False\<rparr>, [Invalidate [''containers''], ToastOk ''Container created and started''])"
| "containers_step (ContainerCreateFailed msg) s =
     (s\<lparr>cp_saving := False\<rparr>, [ToastErr (msg_or msg ''Failed to create container'')])"
| "containers_step (AskRemoveContainer i) s = (s\<lparr>cp_deletingId := Some i\<rparr>, [])"
| "containers_step CancelRemoveContainer s = (s\<lparr>cp_deletingId := None\<rparr>, [])"
| "containers_step RemoveContainerClicked s =
     (s, case cp_deletingId s of None \<Rightarrow> [] | Some i \<Rightarrow> [Send (removeContainer i)])"
| "containers_step ContainerRemoved s =
     (s\<lparr>cp_deletingId := None\<rparr>, [Invalidate [''containers''], ToastOk ''Container removed''])"
| "containers_step (ContainerRemoveFailed msg) s = (s, [ToastErr (msg_or msg ''Failed to remove container'')])"

definition shown_containers :: "containers_page \<Rightarrow> standalone_container list" where
  "shown_containers s = data_or [] (cp_lists s (cp_showAll s))"

text \<open>\<open>.replace(/^\//, "")\<close>.\<close>

definition drop_leading_slash :: "string \<Rightarrow> string" where
  "drop_leading_slash s = (case s of c # r \<Rightarrow> if c = CHR ''/'' then r else s | [] \<Rightarrow> [])"

definition displayName :: "standalone_container \<Rightarrow> string" where
  "displayName c = drop_leading_slash (case so_names c of n # _ \<Rightarrow> n | [] \<Rightarrow> so_id c)"

definition delete_name :: "containers_page \<Rightarrow> string \<Rightarrow> string" where
  "delete_name s i =
     (case find (\<lambda>c. so_id c = i) (shown_containers s) of
        Some c \<Rightarrow> drop_leading_slash (case so_names c of n # _ \<Rightarrow> n | [] \<Rightarrow> i)
      | None \<Rightarrow> drop_leading_slash i)"

definition hook_arrow :: string where
  "hook_arrow = [CHR 0xE2, CHR 0x86, CHR 0xB3]"

definition container_row :: "standalone_container \<Rightarrow> containers_event widget list" where
  "container_row c =
     [Label (so_id c), Label (displayName c)] @
     (case nonempty (so_composeProject c) of Some p \<Rightarrow> [Label (hook_arrow @ '' '' @ p)] | None \<Rightarrow> []) @
     [Label (so_image c), Label (so_state c), Label (so_status c), Label (formatPorts (so_ports c)),
      Button ''Stop & remove'' False (AskRemoveContainer (so_id c))]"

definition CreateContainerDialog :: "containers_page \<Rightarrow> containers_event widget list" where
  "CreateContainerDialog s =
     (let f = cp_form s in
        [Label ''New Container'', Label ''Create and start a standalone Docker container.'',
         Input ''nginx:latest'' (cr_image f) (TypeCreate FImage), Input ''my-nginx'' (cr_name f) (TypeCreate FName),
         Select (cr_restartPolicy f)
           [(''no'', ''No''), (''always'', ''Always''), (''unless-stopped'', ''Unless stopped''), (''on-failure'', ''On failure'')]
           (TypeCreate FRestart),
         Input (''8080:80'' @ [CHR 0x0A] @ ''443:443/tcp'') (cr_portsRaw f) (TypeCreate FPorts),
         Input (''/data:/data'' @ [CHR 0x0A] @ ''/etc/nginx:/etc/nginx:ro'') (cr_volumesRaw f) (TypeCreate FVolumes),
         Input (''DATABASE_URL=postgres://...'' @ [CHR 0x0A] @ ''NODE_ENV=production'') (cr_envRaw f) (TypeCreate FEnv),
         Button ''Cancel'' False CloseCreateContainer, Button ''Create & start'' (cp_saving s) SubmitContainer])"

definition containers_table :: "containers_page \<Rightarrow> containers_event widget list" where
  "containers_table s =
     [Label ''Containers'', Button (if cp_showAll s then ''All'' else ''Running'') False ToggleShowAll,
      Button ''Refresh'' (cp_fetching s) RefreshContainers, Button ''New container'' False OpenCreateContainer] @
     (if cp_lists s (cp_showAll s) = Pending then [Label (''Loading'' @ ellipsis)]
      else if shown_containers s = [] then
        [Label ''No containers found'',
         Label (if cp_showAll s then ''Create a container to get started'' else ''No running containers'')]
      else concat (map container_row (shown_containers s)))"

definition remove_container_box :: "containers_page \<Rightarrow> string \<Rightarrow> containers_event widget list" where
  "remove_container_box s i =
     [Label ''Remove container?'',
      Label (''This will stop and permanently remove '' @ delete_name s i @ ''. This action cannot be undone.''),
      Button ''Cancel'' False CancelRemoveContainer, Button ''Remove'' False RemoveContainerClicked]"

definition Containers :: "containers_page \<Rightarrow> containers_event widget list" where
  "Containers s =
     (case cp_deletingId s of
        Some i \<Rightarrow> remove_container_box s i
      | None \<Rightarrow> if cp_showCreate s then CreateContainerDialog s else containers_table s)"

end
