(* ===== verification/Images_Page.thy ===== *)
theory Images_Page
  imports Page_Run Deploy_State
begin

section \<open>The page of images: \<open>pages/Images.tsx\<close>\<close>

subsection \<open>\<open>BuildImageDialog\<close>\<close>

text \<open>A build argument is a key and a value. \<open>bd_sockets\<close> numbers the sockets the dialog has opened.\<close>

record build_dialog =
  bd_dockerfile :: string
  bd_tags :: string
  bd_target :: string
  bd_noCache :: bool
  bd_args :: "(string \<times> string) list"
  bd_showAdvanced :: bool
  bd_pending :: bool
  bd_buildId :: "string option"
  bd_logs :: "string list"
  bd_done :: bool
  bd_error :: "string option"
  bd_sockets :: nat

definition build_init :: build_dialog where
  "build_init =
     \<lparr>bd_dockerfile = ''FROM alpine:latest'' @ [CHR 0x0A] @ ''RUN echo \"Hello, World!\"'' @ [CHR 0x0A],
      bd_tags = ''myimage:latest'', bd_target = [], bd_noCache = False, bd_args = [], bd_showAdvanced = False,
      bd_pending = False, bd_buildId = None, bd_logs = [], bd_done = False, bd_error = None, bd_sockets = 0\<rparr>"

text \<open>The tags are the trimmed parts that are not empty; a later argument of the same key replaces the earlier.\<close>

definition build_tags :: "string \<Rightarrow> string list" where
  "build_tags tags = filter (\<lambda>t. t \<noteq> []) (map js_trim (js_split (CHR '','') tags))"

definition build_args :: "(string \<times> string) list \<Rightarrow> string obj" where
  "build_args args = fold (\<lambda>(k, v) acc. if k \<noteq> [] then obj_assign k v acc else acc) args []"

definition build_spec :: "build_dialog \<Rightarrow> js" where
  "build_spec d =
     JObj ([(''dockerfileContent'', JStr (bd_dockerfile d)), (''tags'', JArr (map JStr (build_tags (bd_tags d))))] @
           (if bd_target d = [] then [] else [(''target'', JStr (bd_target d))]) @
           [(''noCache'', JBool (bd_noCache d)),
            (''buildArgs'', JObj (map (\<lambda>(k, v). (k, JStr v)) (build_args (bd_args d))))])"

definition build_path :: "string \<Rightarrow> string" where
  "build_path i = ''/api/ws/images/build/'' @ i"

datatype build_event =
    TypeDockerfile string
  | TypeTags string
  | ToggleAdvanced
  | TypeTarget string
  | SetNoCache bool
  | AddArg
  | RemoveArg nat
  | TypeArgKey nat string
  | TypeArgValue nat string
  | BuildClicked
  | BuildStarted string
  | BuildStartFailed string
  | BuildMessage string
  | BuildSocketError
  | BuildSocketClosed
  | BuildAgain

text \<open>
  \<open>onmessage\<close>: a message that is no JSON, or whose \<open>data\<close> has no properties, is ignored; \<open>stream\<close>, \<open>error\<close> and
  \<open>done\<close> are each looked at. The end of the socket has no handler.
\<close>

definition truthy_text :: "js \<Rightarrow> string \<Rightarrow> string option" where
  "truthy_text evt k = (case js_read evt k of Inr v \<Rightarrow> if js_truthy v then Some (js_string v) else None | Inl _ \<Rightarrow> None)"

definition message_data :: "(string \<Rightarrow> js option) \<Rightarrow> string \<Rightarrow> js option" where
  "message_data json_parse raw =
     (case json_parse raw of
        None \<Rightarrow> None
      | Some msg \<Rightarrow> (case js_read msg ''data'' of Inl _ \<Rightarrow> None | Inr evt \<Rightarrow> if nullish evt then None else Some evt))"

definition build_message :: "js \<Rightarrow> build_dialog \<Rightarrow> build_dialog \<times> client_out list" where
  "build_message evt d =
     (let d1 = (case truthy_text evt ''stream'' of Some t \<Rightarrow> d\<lparr>bd_logs := bd_logs d @ [t]\<rparr> | None \<Rightarrow> d);
          d2 = (case truthy_text evt ''error'' of Some t \<Rightarrow> d1\<lparr>bd_error := Some t, bd_done := True\<rparr> | None \<Rightarrow> d1)
      in if truthy_text evt ''done'' \<noteq> None then (d2\<lparr>bd_done := True\<rparr>, [Invalidate [''images'']]) else (d2, []))"

fun build_step :: "(string \<Rightarrow> js option) \<Rightarrow> build_event \<Rightarrow> build_dialog \<Rightarrow> build_dialog \<times> client_out list" where
  "build_step json_parse (TypeDockerfile v) d = (d\<lparr>bd_dockerfile := v\<rparr>, [])"
| "build_step json_parse (TypeTags v) d = (d\<lparr>bd_tags := v\<rparr>, [])"
| "build_step json_parse ToggleAdvanced d = (d\<lparr>bd_showAdvanced := \<not> bd_showAdvanced d\<rparr>, [])"
| "build_step json_parse (TypeTarget v) d = (d\<lparr>bd_target := v\<rparr>, [])"
| "build_step json_parse (SetNoCache b) d = (d\<lparr>bd_noCache := b\<rparr>, [])"
| "build_step json_parse AddArg d = (d\<lparr>bd_args := bd_args d @ [([], [])]\<rparr>, [])"
| "build_step json_parse (RemoveArg i) d = (d\<lparr>bd_args := remove_at i (bd_args d)\<rparr>, [])"
| "build_step json_parse (TypeArgKey i v) d = (d\<lparr>bd_args := map_at i (\<lambda>(k, w). (v, w)) (bd_args d)\<rparr>, [])"
| "build_step json_parse (TypeArgValue i v) d = (d\<lparr>bd_args := map_at i (\<lambda>(k, w). (k, v)) (bd_args d)\<rparr>, [])"
| "build_step json_parse BuildClicked d = (d\<lparr>bd_pending := True\<rparr>, [Send (startImageBuild (build_spec d))])"
| "build_step json_parse (BuildStarted i) d =
     (d\<lparr>bd_pending := False, bd_buildId := Some i, bd_logs := [], bd_done := False, bd_error := None,
        bd_sockets := Suc (bd_sockets d)\<rparr>, [OpenSocket (build_path i)])"
| "build_step json_parse (BuildStartFailed msg) d =
     (d\<lparr>bd_pending := False\<rparr>, [ToastErr (msg_or msg ''Failed to start build'')])"
| "build_step json_parse (BuildMessage raw) d =
     (case message_data json_parse raw of None \<Rightarrow> (d, []) | Some evt \<Rightarrow> build_message evt d)"
| "build_step json_parse BuildSocketError d = (d\<lparr>bd_error := Some ''WebSocket error'', bd_done := True\<rparr>, [])"
| "build_step json_parse BuildSocketClosed d = (d, [])"
| "build_step json_parse BuildAgain d =
     (d\<lparr>bd_buildId := None, bd_logs := [], bd_done := False, bd_error := None\<rparr>, [CloseSocket (bd_sockets d)])"

definition isBuilding :: "build_dialog \<Rightarrow> bool" where
  "isBuilding d = (bd_pending d \<or> (bd_buildId d \<noteq> None \<and> \<not> bd_done d))"

definition arg_row :: "nat \<times> string \<times> string \<Rightarrow> build_event widget list" where
  "arg_row = (\<lambda>(i, k, v).
     [Input ''ARG_NAME'' k (TypeArgKey i), Input ''value'' v (TypeArgValue i), Button [] False (RemoveArg i)])"

definition build_form :: "build_dialog \<Rightarrow> build_event widget list" where
  "build_form d =
     [Label ''Dockerfile'', Input (''FROM alpine:latest'' @ [CHR 0x0A] @ ''RUN echo hello'') (bd_dockerfile d) TypeDockerfile,
      Label ''Tags (comma-separated)'', Input ''myapp:latest, myapp:v1.0'' (bd_tags d) TypeTags,
      Button ''Advanced options'' False ToggleAdvanced] @
     (if bd_showAdvanced d then
        [Input ''(optional multi-stage target)'' (bd_target d) TypeTarget, Checkbox ''--no-cache'' (bd_noCache d) SetNoCache,
         Label ''Build args'', Button ''Add'' False AddArg] @ concat (map arg_row (indexed (bd_args d)))
      else [])"

definition build_output :: "build_dialog \<Rightarrow> build_event widget list" where
  "build_output d =
     map Label (bd_logs d) @
     (if \<not> bd_done d then [Label (''Building'' @ ellipsis)]
      else case bd_error d of
          Some e \<Rightarrow> [Label (cross_mark @ '' Build failed: '' @ e)]
        | None \<Rightarrow> [Label (check_mark @ '' Build successful'')])"

text \<open>The dialog, without its two buttons that close it.\<close>

definition BuildImageDialog :: "build_dialog \<Rightarrow> build_event widget list" where
  "BuildImageDialog d =
     Label ''Build Image'' #
     (if bd_buildId d = None then build_form d else build_output d) @
     (if bd_buildId d = None then [Button ''Build'' (isBuilding d \<or> js_trim (bd_dockerfile d) = []) BuildClicked] else []) @
     (if bd_buildId d \<noteq> None \<and> bd_done d \<and> bd_error d = None then [Button ''Build again'' False BuildAgain] else [])"

subsection \<open>\<open>Images\<close>\<close>

text \<open>
  \<open>im_selected\<close> lists a \<open>Set\<close> in the order of insertion. \<open>im_removing\<close> is the loop of the mutation: the images still
  to be deleted, the first of which the server has been asked to delete.
\<close>

record images_page =
  im_images :: "image_summary list query"
  im_search :: string
  im_selected :: "string list"
  im_confirm :: bool
  im_removing :: "string list option"
  im_build :: "build_dialog option"

definition images_init :: images_page where
  "images_init =
     \<lparr>im_images = Pending, im_search = [], im_selected = [], im_confirm = False, im_removing = None, im_build = None\<rparr>"

definition images_mount :: "client_out list" where
  "images_mount = [Send listAllImages]"

definition set_toggle :: "'a \<Rightarrow> 'a list \<Rightarrow> 'a list" where
  "set_toggle x xs = (if x \<in> set xs then filter (\<lambda>y. y \<noteq> x) xs else xs @ [x])"

definition set_add_all :: "'a list \<Rightarrow> 'a list \<Rightarrow> 'a list" where
  "set_add_all ys xs = fold (\<lambda>y acc. if y \<in> set acc then acc else acc @ [y]) ys xs"

definition image_matches :: "string \<Rightarrow> image_summary \<Rightarrow> bool" where
  "image_matches search img =
     (search = [] \<or> str_contains (ascii_lower (js_join '' '' (list_of_opt (img_repoTags img)))) (ascii_lower search)
      \<or> str_contains (img_id img) search)"

definition filtered_images :: "images_page \<Rightarrow> image_summary list" where
  "filtered_images s = filter (image_matches (im_search s)) (data_or [] (im_images s))"

definition deletable_ids :: "images_page \<Rightarrow> string list" where
  "deletable_ids s = map img_id (filter (\<lambda>i. \<not> img_inUse i) (filtered_images s))"

definition deletableSelected :: "images_page \<Rightarrow> string list" where
  "deletableSelected s =
     filter (\<lambda>i. case find (\<lambda>img. img_id img = i) (data_or [] (im_images s)) of Some img \<Rightarrow> \<not> img_inUse img | None \<Rightarrow> False)
       (im_selected s)"

definition images_plural :: "nat \<Rightarrow> string" where
  "images_plural n = nat_str n @ '' image'' @ (if n \<noteq> 1 then ''s'' else [])"

datatype images_event =
    TypeImageSearch string
  | ToggleImage string bool
  | ToggleAllImages
  | AskRemoveImages
  | CancelRemoveImages
  | RemoveImagesConfirmed
  | ImageRemoved
  | ImageRemoveFailed string
  | ImagesListed "image_summary list query"
  | OpenBuild
  | CloseBuild
  | Build build_event

text \<open>The mutation ends with its success, which counts what is selected then.\<close>

definition images_removed :: "images_page \<Rightarrow> images_page \<times> client_out list" where
  "images_removed s =
     (s\<lparr>im_selected := [], im_removing := None\<rparr>,
      [ToastOk (''Removed '' @ images_plural (length (im_selected s))), Invalidate [''images'']])"

definition remove_next :: "string list \<Rightarrow> images_page \<Rightarrow> images_page \<times> client_out list" where
  "remove_next ids s =
     (case ids of [] \<Rightarrow> images_removed s
      | i # _ \<Rightarrow> (s\<lparr>im_removing := Some ids\<rparr>, [Send (deleteImage i False)]))"

fun images_step :: "(string \<Rightarrow> js option) \<Rightarrow> images_event \<Rightarrow> images_page \<Rightarrow> images_page \<times> client_out list" where
  "images_step json_parse (TypeImageSearch v) s = (s\<lparr>im_search := v\<rparr>, [])"
| "images_step json_parse (ToggleImage i inUse) s =
     (if inUse then (s, []) else (s\<lparr>im_selected := set_toggle i (im_selected s)\<rparr>, []))"
| "images_step json_parse ToggleAllImages s =
     (let ids = deletable_ids s in
        (s\<lparr>im_selected :=
             (if list_all (\<lambda>i. i \<in> set (im_selected s)) ids then filter (\<lambda>i. i \<notin> set ids) (im_selected s)
              else set_add_all ids (im_selected s))\<rparr>, []))"
| "images_step json_parse AskRemoveImages s = (s\<lparr>im_confirm := True\<rparr>, [])"
| "images_step json_parse CancelRemoveImages s = (s\<lparr>im_confirm := False\<rparr>, [])"
| "images_step json_parse RemoveImagesConfirmed s = remove_next (deletableSelected s) (s\<lparr>im_confirm := False\<rparr>)"
| "images_step json_parse ImageRemoved s =
     (case im_removing s of None \<Rightarrow> (s, []) | Some ids \<Rightarrow> remove_next (tl ids) s)"
| "images_step json_parse (ImageRemoveFailed msg) s =
     (s\<lparr>im_removing := None\<rparr>, [ToastErr (msg_or msg ''Failed to remove image(s)'')])"
| "images_step json_parse (ImagesListed q) s = (s\<lparr>im_images := q\<rparr>, [])"
| "images_step json_parse OpenBuild s = (s\<lparr>im_build := Some build_init\<rparr>, [])"
| "images_step json_parse CloseBuild s =
     (s\<lparr>im_build := None\<rparr>,
      case im_build s of Some d \<Rightarrow> if bd_buildId d \<noteq> None then [CloseSocket (bd_sockets d)] else [] | None \<Rightarrow> [])"
| "images_step json_parse (Build e) s =
     (case im_build s of
        None \<Rightarrow> (s, [])
      | Some d \<Rightarrow> (case build_step json_parse e d of (d', out) \<Rightarrow> (s\<lparr>im_build := Some d'\<rparr>, out)))"

definition allSelected :: "images_page \<Rightarrow> bool" where
  "allSelected s = (deletable_ids s \<noteq> [] \<and> list_all (\<lambda>i. i \<in> set (im_selected s)) (deletable_ids s))"

text \<open>A row: its checkbox (disabled for an image in use) and the row itself toggle the selection.\<close>

definition image_row :: "(nat \<Rightarrow> string) \<Rightarrow> images_page \<Rightarrow> image_summary \<Rightarrow> images_event widget list" where
  "image_row fmt s img =
     (if img_inUse img then [] else [Checkbox [] (img_id img \<in> set (im_selected s)) (\<lambda>_. ToggleImage (img_id img) False)]) @
     (case filter (\<lambda>t. t \<noteq> ''<none>:<none>'') (list_of_opt (img_repoTags img)) of
        [] \<Rightarrow> [Label ''<none>''] | ts \<Rightarrow> map Label ts) @
     [Button (img_id img) False (ToggleImage (img_id img) (img_inUse img)), Label (formatBytes (img_size img)),
      Label (fmt (img_created img)), Label (if img_inUse img then ''In use'' else ''Unused'')]"

definition images_table :: "(nat \<Rightarrow> string) \<Rightarrow> images_page \<Rightarrow> images_event widget list" where
  "images_table fmt s =
     Checkbox [] (allSelected s) (\<lambda>_. ToggleAllImages) #
     (if im_images s = Pending then [Label (''Loading'' @ ellipsis)]
      else if filtered_images s = [] then
        [Label (if data_or [] (im_images s) \<noteq> [] then ''No images match your search.'' else ''No images found.'')]
      else concat (map (image_row fmt s) (filtered_images s)))"

definition images_head :: "images_page \<Rightarrow> images_event widget list" where
  "images_head s =
     [Label ''Images'', Label (nat_str (length (data_or [] (im_images s))) @ '' images total'')] @
     (if im_selected s \<noteq> [] then
        [Button (''Delete '' @ images_plural (length (deletableSelected s)))
           (deletableSelected s = [] \<or> im_removing s \<noteq> None) AskRemoveImages]
      else []) @
     [Button ''Build image'' False OpenBuild, Input (''Search images'' @ ellipsis) (im_search s) TypeImageSearch]"

definition Images :: "(nat \<Rightarrow> string) \<Rightarrow> images_page \<Rightarrow> images_event widget list" where
  "Images fmt s =
     (case im_build s of
        Some d \<Rightarrow>
          lift_view Build (BuildImageDialog d) @
          [Button [] False CloseBuild, Button (if bd_done d then ''Close'' else ''Cancel'') False CloseBuild]
      | None \<Rightarrow>
          if im_confirm s then
            ConfirmDialog (''Remove '' @ images_plural (length (deletableSelected s)) @ ''?'')
              (Some ''This will permanently remove the selected images from the host. This action cannot be undone.'')
              (Some ''Remove'') RemoveImagesConfirmed CancelRemoveImages
          else images_head s @ images_table fmt s)"

end
