(* ===== verification/Network_Pages.thy ===== *)
theory Network_Pages
  imports Log_Pages Page_Run
begin

section \<open>Networks and volumes: \<open>pages/Networks.tsx\<close>, \<open>NetworkDetail.tsx\<close>, \<open>Volumes.tsx\<close>, \<open>VolumeDetail.tsx\<close>\<close>

definition warning_sign :: string where
  "warning_sign = [CHR 0xE2, CHR 0x9A, CHR 0xA0]"

definition in_use_text :: "bool \<Rightarrow> string" where
  "in_use_text b = (if b then ''In use'' else ''Unused'')"

subsection \<open>\<open>Networks\<close>\<close>

record network_form =
  nf_name :: string
  nf_driver :: string
  nf_internal :: bool

definition network_form_init :: network_form where
  "network_form_init = \<lparr>nf_name = [], nf_driver = ''bridge'', nf_internal = False\<rparr>"

definition network_request :: "network_form \<Rightarrow> js" where
  "network_request f =
     JObj [(''name'', JStr (js_trim (nf_name f))), (''driver'', JStr (nf_driver f)), (''internal'', JBool (nf_internal f))]"

record networks_page =
  nw_list :: "network_summary list query"
  nw_search :: string
  nw_project :: string
  nw_showCreate :: bool
  nw_form :: network_form
  nw_saving :: bool
  nw_deleting :: "string option"

definition networks_init :: networks_page where
  "networks_init =
     \<lparr>nw_list = Pending, nw_search = [], nw_project = [], nw_showCreate = False, nw_form = network_form_init,
      nw_saving = False, nw_deleting = None\<rparr>"

definition networks_mount :: "client_out list" where
  "networks_mount = [Send listAllNetworks]"

datatype networks_page_event =
    TypeNetworkSearch string
  | PickNetworkProject string
  | OpenNetwork string
  | NetworksArrived "network_summary list query"
  | OpenCreateNetwork
  | CloseCreateNetwork
  | TypeNetworkName string
  | PickDriver string
  | SetInternal bool
  | SubmitNetwork
  | NetworkCreated
  | NetworkCreateFailed string
  | AskDeleteNetwork string
  | CancelDeleteNetwork
  | DeleteNetworkClicked
  | NetworkDeleted
  | NetworkDeleteFailed string

text \<open>A success empties the form, with what was typed meanwhile.\<close>

fun networks_page_step :: "networks_page_event \<Rightarrow> networks_page \<Rightarrow> networks_page \<times> client_out list" where
  "networks_page_step (TypeNetworkSearch v) s = (s\<lparr>nw_search := v\<rparr>, [])"
| "networks_page_step (PickNetworkProject v) s = (s\<lparr>nw_project := v\<rparr>, [])"
| "networks_page_step (OpenNetwork i) s = (s, [GoTo (''/networks/'' @ i)])"
| "networks_page_step (NetworksArrived q) s = (s\<lparr>nw_list := q\<rparr>, [])"
| "networks_page_step OpenCreateNetwork s = (s\<lparr>nw_showCreate := True\<rparr>, [])"
| "networks_page_step CloseCreateNetwork s = (s\<lparr>nw_showCreate := False\<rparr>, [])"
| "networks_page_step (TypeNetworkName v) s = (s\<lparr>nw_form := (nw_form s)\<lparr>nf_name := v\<rparr>\<rparr>, [])"
| "networks_page_step (PickDriver v) s = (s\<lparr>nw_form := (nw_form s)\<lparr>nf_driver := v\<rparr>\<rparr>, [])"
| "networks_page_step (SetInternal b) s = (s\<lparr>nw_form := (nw_form s)\<lparr>nf_internal := b\<rparr>\<rparr>, [])"
| "networks_page_step SubmitNetwork s =
     (if js_trim (nf_name (nw_form s)) = [] then (s, [ToastErr ''Name is required''])
      else (s\<lparr>nw_saving := True\<rparr>, [Send (createNetwork (network_request (nw_form s)))]))"
| "networks_page_step NetworkCreated s =
     (s\<lparr>nw_form := network_form_init, nw_showCreate := False, nw_saving := False\<rparr>,
      [Invalidate [''networks''], ToastOk ''Network created''])"
| "networks_page_step (NetworkCreateFailed msg) s =
     (s\<lparr>nw_saving := False\<rparr>, [ToastErr (msg_or msg ''Failed to create network'')])"
| "networks_page_step (AskDeleteNetwork i) s = (s\<lparr>nw_deleting := Some i\<rparr>, [])"
| "networks_page_step CancelDeleteNetwork s = (s\<lparr>nw_deleting := None\<rparr>, [])"
| "networks_page_step DeleteNetworkClicked s =
     (s, case nw_deleting s of None \<Rightarrow> [] | Some i \<Rightarrow> [Send (deleteNetwork i)])"
| "networks_page_step NetworkDeleted s =
     (s\<lparr>nw_deleting := None\<rparr>, [Invalidate [''networks''], ToastOk ''Network deleted''])"
| "networks_page_step (NetworkDeleteFailed msg) s = (s, [ToastErr (msg_or msg ''Failed to delete network'')])"

definition network_projects :: "networks_page \<Rightarrow> string list" where
  "network_projects s = unique_sorted (filter (\<lambda>p. p \<noteq> []) (map net_associatedProject (data_or [] (nw_list s))))"

definition network_shown :: "networks_page \<Rightarrow> network_summary \<Rightarrow> bool" where
  "network_shown s n = (matches (net_name n) (nw_search s) \<and> (nw_project s = [] \<or> net_associatedProject n = nw_project s))"

definition network_list_row :: "network_summary \<Rightarrow> networks_page_event widget list" where
  "network_list_row n =
     [Button (net_name n) False (OpenNetwork (net_id n)), Label (net_driver n), Label (net_scope n),
      Label (msg_or (net_associatedProject n) em_dash), Label (if net_internal n then ''Yes'' else ''No''),
      Label (in_use_text (net_inUse n)), Button ''Delete network'' False (AskDeleteNetwork (net_id n))]"

definition networks_table :: "networks_page \<Rightarrow> networks_page_event widget list" where
  "networks_table s =
     [Label ''Networks'', Label (nat_str (length (data_or [] (nw_list s))) @ '' networks total''),
      Button ''New network'' False OpenCreateNetwork, Input (''Search networks'' @ ellipsis) (nw_search s) TypeNetworkSearch,
      Select (nw_project s) (([], ''All projects'') # map (\<lambda>p. (p, p)) (network_projects s)) PickNetworkProject] @
     (if nw_list s = Pending then [Label (''Loading'' @ ellipsis)]
      else case filter (network_shown s) (data_or [] (nw_list s)) of
          [] \<Rightarrow> [Label (if data_or [] (nw_list s) \<noteq> [] then ''No networks match your filters.'' else ''No networks found.'')]
        | ns \<Rightarrow> concat (map network_list_row ns))"

definition CreateNetworkDialog :: "networks_page \<Rightarrow> networks_page_event widget list" where
  "CreateNetworkDialog s =
     [Label ''Create network'', Label ''Add a new Docker network to the host.'',
      Input ''my-network'' (nf_name (nw_form s)) TypeNetworkName,
      Select (nf_driver (nw_form s)) (map (\<lambda>d. (d, d)) [''bridge'', ''overlay'', ''host'', ''macvlan'', ''none'']) PickDriver,
      Checkbox ''Internal (no external access)'' (nf_internal (nw_form s)) SetInternal,
      Button ''Cancel'' False CloseCreateNetwork, Button ''Create'' (nw_saving s) SubmitNetwork]"

definition delete_network_box :: "networks_page \<Rightarrow> string \<Rightarrow> networks_page_event widget list" where
  "delete_network_box s i =
     (let n = find (\<lambda>n. net_id n = i) (data_or [] (nw_list s)) in
        [Label ''Delete network?'',
         Label (''This will permanently remove the network '' @ (case n of Some x \<Rightarrow> net_name x | None \<Rightarrow> i) @ ''.'')] @
        (case n of
           Some x \<Rightarrow> if net_inUse x then [Label (warning_sign @ '' This network is currently in use.'')] else []
         | None \<Rightarrow> []) @
        [Button ''Cancel'' False CancelDeleteNetwork, Button ''Delete'' False DeleteNetworkClicked])"

definition Networks :: "networks_page \<Rightarrow> networks_page_event widget list" where
  "Networks s =
     (case nw_deleting s of
        Some i \<Rightarrow> delete_network_box s i
      | None \<Rightarrow> if nw_showCreate s then CreateNetworkDialog s else networks_table s)"

subsection \<open>\<open>Volumes\<close>\<close>

record volume_form =
  vf_name :: string
  vf_driver :: string

definition volume_form_init :: volume_form where
  "volume_form_init = \<lparr>vf_name = [], vf_driver = ''local''\<rparr>"

definition volume_request :: "volume_form \<Rightarrow> js" where
  "volume_request f =
     JObj [(''name'', JStr (js_trim (vf_name f))), (''driver'', JStr (msg_or (js_trim (vf_driver f)) ''local''))]"

record volumes_page =
  vl_list :: "volume_summary list query"
  vl_search :: string
  vl_project :: string
  vl_showCreate :: bool
  vl_form :: volume_form
  vl_saving :: bool
  vl_deleting :: "string option"

definition volumes_init :: volumes_page where
  "volumes_init =
     \<lparr>vl_list = Pending, vl_search = [], vl_project = [], vl_showCreate = False, vl_form = volume_form_init,
      vl_saving = False, vl_deleting = None\<rparr>"

definition volumes_mount :: "client_out list" where
  "volumes_mount = [Send listAllVolumes]"

datatype volumes_page_event =
    TypeVolumeSearch string
  | PickVolumeProject string
  | OpenVolume string
  | VolumesArrived "volume_summary list query"
  | OpenCreateVolume
  | CloseCreateVolume
  | TypeVolumeName string
  | TypeVolumeDriver string
  | SubmitVolume
  | VolumeCreated
  | VolumeCreateFailed string
  | AskDeleteVolume string
  | CancelDeleteVolume
  | DeleteVolumeClicked
  | VolumeDeleted
  | VolumeDeleteFailed string

fun volumes_page_step :: "volumes_page_event \<Rightarrow> volumes_page \<Rightarrow> volumes_page \<times> client_out list" where
  "volumes_page_step (TypeVolumeSearch v) s = (s\<lparr>vl_search := v\<rparr>, [])"
| "volumes_page_step (PickVolumeProject v) s = (s\<lparr>vl_project := v\<rparr>, [])"
| "volumes_page_step (OpenVolume n) s = (s, [GoTo (''/volumes/'' @ encodeURIComponent n)])"
| "volumes_page_step (VolumesArrived q) s = (s\<lparr>vl_list := q\<rparr>, [])"
| "volumes_page_step OpenCreateVolume s = (s\<lparr>vl_showCreate := True\<rparr>, [])"
| "volumes_page_step CloseCreateVolume s = (s\<lparr>vl_showCreate := False\<rparr>, [])"
| "volumes_page_step (TypeVolumeName v) s = (s\<lparr>vl_form := (vl_form s)\<lparr>vf_name := v\<rparr>\<rparr>, [])"
| "volumes_page_step (TypeVolumeDriver v) s = (s\<lparr>vl_form := (vl_form s)\<lparr>vf_driver := v\<rparr>\<rparr>, [])"
| "volumes_page_step SubmitVolume s = (s\<lparr>vl_saving := True\<rparr>, [Send (createVolume (volume_request (vl_form s)))])"
| "volumes_page_step VolumeCreated s =
     (s\<lparr>vl_form := volume_form_init, vl_showCreate := False, vl_saving := False\<rparr>,
      [Invalidate [''volumes''], ToastOk ''Volume created''])"
| "volumes_page_step (VolumeCreateFailed msg) s =
     (s\<lparr>vl_saving := False\<rparr>, [ToastErr (msg_or msg ''Failed to create volume'')])"
| "volumes_page_step (AskDeleteVolume n) s = (s\<lparr>vl_deleting := Some n\<rparr>, [])"
| "volumes_page_step CancelDeleteVolume s = (s\<lparr>vl_deleting := None\<rparr>, [])"
| "volumes_page_step DeleteVolumeClicked s =
     (s, case vl_deleting s of None \<Rightarrow> [] | Some n \<Rightarrow> [Send (deleteVolume n False)])"
| "volumes_page_step VolumeDeleted s =
     (s\<lparr>vl_deleting := None\<rparr>, [Invalidate [''volumes''], ToastOk ''Volume deleted''])"
| "volumes_page_step (VolumeDeleteFailed msg) s = (s, [ToastErr (msg_or msg ''Failed to delete volume'')])"

definition volume_projects :: "volumes_page \<Rightarrow> string list" where
  "volume_projects s = unique_sorted (filter (\<lambda>p. p \<noteq> []) (map vs_associatedProject (data_or [] (vl_list s))))"

definition volume_shown :: "volumes_page \<Rightarrow> volume_summary \<Rightarrow> bool" where
  "volume_shown s v = (matches (vs_name v) (vl_search s) \<and> (vl_project s = [] \<or> vs_associatedProject v = vl_project s))"

definition volume_list_row :: "volume_summary \<Rightarrow> volumes_page_event widget list" where
  "volume_list_row v =
     [Button (vs_name v) False (OpenVolume (vs_name v)), Label (vs_driver v), Label (msg_or (vs_associatedProject v) em_dash),
      Label (msg_or (vs_mountpoint v) em_dash), Label (in_use_text (vs_inUse v)),
      Button ''Delete volume'' False (AskDeleteVolume (vs_name v))]"

definition volumes_table :: "volumes_page \<Rightarrow> volumes_page_event widget list" where
  "volumes_table s =
     [Label ''Volumes'', Label (nat_str (length (data_or [] (vl_list s))) @ '' volumes total''),
      Button ''New volume'' False OpenCreateVolume, Input (''Search volumes'' @ ellipsis) (vl_search s) TypeVolumeSearch,
      Select (vl_project s) (([], ''All projects'') # map (\<lambda>p. (p, p)) (volume_projects s)) PickVolumeProject] @
     (if vl_list s = Pending then [Label (''Loading'' @ ellipsis)]
      else case filter (volume_shown s) (data_or [] (vl_list s)) of
          [] \<Rightarrow> [Label (if data_or [] (vl_list s) \<noteq> [] then ''No volumes match your filters.'' else ''No volumes found.'')]
        | vs \<Rightarrow> concat (map volume_list_row vs))"

definition CreateVolumeDialog :: "volumes_page \<Rightarrow> volumes_page_event widget list" where
  "CreateVolumeDialog s =
     [Label ''Create volume'', Label ''Add a new Docker volume to the host.'',
      Input ''my-volume'' (vf_name (vl_form s)) TypeVolumeName, Input ''local'' (vf_driver (vl_form s)) TypeVolumeDriver,
      Button ''Cancel'' False CloseCreateVolume, Button ''Create'' (vl_saving s) SubmitVolume]"

definition delete_volume_box :: "volumes_page \<Rightarrow> string \<Rightarrow> volumes_page_event widget list" where
  "delete_volume_box s n =
     [Label ''Delete volume?'', Label (''This will permanently remove volume '' @ n @ '' and all its data.'')] @
     (case find (\<lambda>v. vs_name v = n) (data_or [] (vl_list s)) of
        Some x \<Rightarrow>
          if vs_inUse x then [Label (warning_sign @ '' This volume is currently in use by running containers.'')] else []
      | None \<Rightarrow> []) @
     [Button ''Cancel'' False CancelDeleteVolume, Button ''Delete'' False DeleteVolumeClicked]"

definition Volumes :: "volumes_page \<Rightarrow> volumes_page_event widget list" where
  "Volumes s =
     (case vl_deleting s of
        Some n \<Rightarrow> delete_volume_box s n
      | None \<Rightarrow> if vl_showCreate s then CreateVolumeDialog s else volumes_table s)"

subsection \<open>\<open>NetworkDetail\<close> and \<open>VolumeDetail\<close>\<close>

record network_endpoint =
  ne_name :: string
  ne_ip :: string
  ne_macAddr :: string

record ipam_config =
  ic_subnet :: string
  ic_gateway :: string

record network_detail = network_summary +
  nd_ipamConfigs :: "ipam_config list option"
  nd_options :: "string obj option"
  nd_containers :: "network_endpoint list option"

record volume_detail = volume_summary +
  vd_options :: "string obj option"
  vd_mountedBy :: "string list option"

text \<open>Both pages: what is loaded, and whether the question before deleting is open.\<close>

record 'd detail_page =
  dp_data :: "'d query"
  dp_confirm :: bool

definition detail_page_init :: "'d detail_page" where
  "detail_page_init = \<lparr>dp_data = Pending, dp_confirm = False\<rparr>"

datatype 'd resource_event =
    DetailArrived "'d query"
  | BackToList
  | AskDelete
  | CancelDelete
  | DeleteClicked
  | Deleted
  | DeleteFailed string

fun network_detail_step ::
  "string \<Rightarrow> network_detail resource_event \<Rightarrow> network_detail detail_page \<Rightarrow> network_detail detail_page \<times> client_out list" where
  "network_detail_step nid (DetailArrived q) s = (s\<lparr>dp_data := q\<rparr>, [])"
| "network_detail_step nid BackToList s = (s, [GoTo ''/networks''])"
| "network_detail_step nid AskDelete s = (s\<lparr>dp_confirm := True\<rparr>, [])"
| "network_detail_step nid CancelDelete s = (s\<lparr>dp_confirm := False\<rparr>, [])"
| "network_detail_step nid DeleteClicked s = (s, [Send (deleteNetwork nid)])"
| "network_detail_step nid Deleted s = (s, [Invalidate [''networks''], ToastOk ''Network deleted'', GoTo ''/networks''])"
| "network_detail_step nid (DeleteFailed msg) s = (s, [ToastErr (msg_or msg ''Failed to delete network'')])"

text \<open>\<open>decodeURIComponent(vol)\<close> throws on text that is no encoding; the mutation then fails without a request.\<close>

fun volume_detail_step ::
  "string \<Rightarrow> volume_detail resource_event \<Rightarrow> volume_detail detail_page \<Rightarrow> volume_detail detail_page \<times> client_out list" where
  "volume_detail_step vol (DetailArrived q) s = (s\<lparr>dp_data := q\<rparr>, [])"
| "volume_detail_step vol BackToList s = (s, [GoTo ''/volumes''])"
| "volume_detail_step vol AskDelete s = (s\<lparr>dp_confirm := True\<rparr>, [])"
| "volume_detail_step vol CancelDelete s = (s\<lparr>dp_confirm := False\<rparr>, [])"
| "volume_detail_step vol DeleteClicked s =
     (s, case decodeURIComponent vol of Inr n \<Rightarrow> [Send (deleteVolume n False)] | Inl _ \<Rightarrow> [ToastErr ''URI malformed''])"
| "volume_detail_step vol Deleted s = (s, [Invalidate [''volumes''], ToastOk ''Volume deleted'', GoTo ''/volumes''])"
| "volume_detail_step vol (DeleteFailed msg) s = (s, [ToastErr (msg_or msg ''Failed to delete volume'')])"

definition KV :: "string \<Rightarrow> string \<Rightarrow> 'e widget list" where
  "KV lbl v = [Label lbl, Label v]"

definition pairs_section :: "string \<Rightarrow> string obj option \<Rightarrow> 'e widget list" where
  "pairs_section title ps =
     (case list_of_opt ps of [] \<Rightarrow> [] | xs \<Rightarrow> Label title # concat (map (\<lambda>(k, v). [Label k, Label v]) xs))"

definition network_detail_view :: "formats \<Rightarrow> network_detail \<Rightarrow> network_detail resource_event widget list" where
  "network_detail_view fm d =
     [Button ''Back'' False BackToList, Label (net_name d), Label (net_id d), Label (in_use_text (net_inUse d)),
      Button ''Delete'' False AskDelete, Label ''Details''] @
     KV ''Driver'' (net_driver d) @ KV ''Scope'' (net_scope d) @ KV ''Internal'' (if net_internal d then ''Yes'' else ''No'') @
     KV ''Project'' (msg_or (net_associatedProject d) em_dash) @
     KV ''Created'' (if net_created d \<noteq> [] then fm_date fm (net_created d) else em_dash) @
     [Label ''IPAM Configuration''] @
     (case list_of_opt (nd_ipamConfigs d) of
        [] \<Rightarrow> [Label ''No IPAM configuration.'']
      | cs \<Rightarrow> concat (map (\<lambda>c. [Label (msg_or (ic_subnet c) em_dash), Label (msg_or (ic_gateway c) em_dash)]) cs)) @
     [Label (''Connected Containers ('' @ nat_str (length (list_of_opt (nd_containers d))) @ '')'')] @
     (case list_of_opt (nd_containers d) of
        [] \<Rightarrow> [Label ''No containers connected to this network.'']
      | cs \<Rightarrow> concat (map (\<lambda>c. [Label (ne_name c), Label (msg_or (ne_ip c) em_dash), Label (msg_or (ne_macAddr c) em_dash)]) cs)) @
     pairs_section ''Options'' (nd_options d) @ pairs_section ''Labels'' (Some (net_labels d))"

definition NetworkDetail :: "formats \<Rightarrow> network_detail detail_page \<Rightarrow> network_detail resource_event widget list" where
  "NetworkDetail fm s =
     (case dp_data s of
        Pending \<Rightarrow> [Label (''Loading'' @ ellipsis)]
      | QueryFailed _ \<Rightarrow> [Label ''Failed to load network details.'']
      | Loaded d \<Rightarrow>
          if dp_confirm s then
            [Label ''Delete network?'', Label (''Permanently remove '' @ net_name d @ ''.'')] @
            (if net_inUse d then [Label (warning_sign @ '' This network is currently in use.'')] else []) @
            [Button ''Cancel'' False CancelDelete, Button ''Delete'' False DeleteClicked]
          else network_detail_view fm d)"

definition volume_detail_view :: "formats \<Rightarrow> volume_detail \<Rightarrow> volume_detail resource_event widget list" where
  "volume_detail_view fm d =
     [Button ''Back'' False BackToList, Label (vs_name d), Label (msg_or (vs_associatedProject d) em_dash),
      Label (in_use_text (vs_inUse d)), Button ''Delete'' False AskDelete, Label ''Details''] @
     KV ''Driver'' (vs_driver d) @ KV ''Scope'' ''local'' @ KV ''Mountpoint'' (vs_mountpoint d) @
     KV ''Created'' (if vs_createdAt d \<noteq> [] then fm_date fm (vs_createdAt d) else em_dash) @
     KV ''Project'' (msg_or (vs_associatedProject d) em_dash) @
     [Label (''Mounted by ('' @ nat_str (length (list_of_opt (vd_mountedBy d))) @ '')'')] @
     (case list_of_opt (vd_mountedBy d) of
        [] \<Rightarrow> [Label ''Not currently mounted by any container.'']
      | cs \<Rightarrow> map Label cs) @
     pairs_section ''Options'' (vd_options d) @ pairs_section ''Labels'' (Some (vs_labels d))"

definition VolumeDetail :: "formats \<Rightarrow> volume_detail detail_page \<Rightarrow> volume_detail resource_event widget list" where
  "VolumeDetail fm s =
     (case dp_data s of
        Pending \<Rightarrow> [Label (''Loading'' @ ellipsis)]
      | QueryFailed _ \<Rightarrow> [Label ''Failed to load volume details.'']
      | Loaded d \<Rightarrow>
          if dp_confirm s then
            [Label ''Delete volume?'', Label (''Permanently remove volume '' @ vs_name d @ '' and all its data.'')] @
            (if vs_inUse d then [Label (warning_sign @ '' This volume is currently mounted by running containers.'')] else []) @
            [Button ''Cancel'' False CancelDelete, Button ''Delete'' False DeleteClicked]
          else volume_detail_view fm d)"

end
