(* ===== verification/Project_Resources.thy ===== *)
theory Project_Resources
  imports Images_Page Network_Pages
begin

section \<open>A project's networks, volumes and images: \<open>ProjectNetworks.tsx\<close>, \<open>ProjectVolumes.tsx\<close>, \<open>ProjectImages.tsx\<close>\<close>

text \<open>
  The three pages list what Docker holds for one project, \<open>name\<close>; \<open>App.tsx\<close> has no route to them. Networks and
  volumes are links to their details, whose state is the query alone; an image can be removed.
\<close>

definition tab_head :: "string \<Rightarrow> string \<Rightarrow> 'e \<Rightarrow> 'e widget list" where
  "tab_head title name back = [Button [] False back, Label title, Label name]"

definition project_link :: "string \<Rightarrow> string" where
  "project_link name = ''/projects/'' @ name"

text \<open>The list under a row of captions, or what stands for it.\<close>

definition tab_rows :: "string list \<Rightarrow> string \<Rightarrow> ('a \<Rightarrow> 'e widget list) \<Rightarrow> 'a list query \<Rightarrow> 'e widget list" where
  "tab_rows captions none row q =
     map Label captions @
     (if q = Pending then [Label (''Loading'' @ ellipsis)]
      else if data_or [] q = [] then [Label none]
      else concat (map row (data_or [] q)))"

lemma tab_events:
  "view_events (tab_head title name back @ tab_rows captions none row q) = insert back (\<Union>x \<in> set (data_or [] q). view_events (row x))"
  by (cases q) (auto simp: tab_head_def tab_rows_def view_events_map)

subsection \<open>\<open>ProjectNetworks\<close>\<close>

datatype 'r tab_event = TabListed "'r list query" | OpenResource string | BackToProject

definition tab_networks_mount :: "string \<Rightarrow> client_out list" where
  "tab_networks_mount name = [Send (listProjectNetworks name)]"

fun tab_networks_step ::
  "string \<Rightarrow> network_summary tab_event \<Rightarrow> network_summary list query \<Rightarrow> network_summary list query \<times> client_out list" where
  "tab_networks_step name (TabListed q) s = (q, [])"
| "tab_networks_step name (OpenResource i) s = (s, [GoTo (project_link name @ ''/networks/'' @ i)])"
| "tab_networks_step name BackToProject s = (s, [GoTo (project_link name)])"

definition tab_network_row :: "network_summary \<Rightarrow> network_summary tab_event widget list" where
  "tab_network_row n =
     [Button (net_name n) False (OpenResource (net_id n)), Label (net_driver n), Label (net_scope n),
      Label (if net_internal n then ''Yes'' else ''No''), Label (in_use_text (net_inUse n))]"

definition ProjectNetworks :: "string \<Rightarrow> network_summary list query \<Rightarrow> network_summary tab_event widget list" where
  "ProjectNetworks name s =
     tab_head ''Networks'' name BackToProject @
     tab_rows [''Name'', ''Driver'', ''Scope'', ''Internal'', ''Status''] ''No networks found for this project.''
       tab_network_row s"

subsection \<open>\<open>ProjectVolumes\<close>\<close>

definition tab_volumes_mount :: "string \<Rightarrow> client_out list" where
  "tab_volumes_mount name = [Send (listProjectVolumes name)]"

fun tab_volumes_step ::
  "string \<Rightarrow> volume_summary tab_event \<Rightarrow> volume_summary list query \<Rightarrow> volume_summary list query \<times> client_out list" where
  "tab_volumes_step name (TabListed q) s = (q, [])"
| "tab_volumes_step name (OpenResource v) s = (s, [GoTo (project_link name @ ''/volumes/'' @ encodeURIComponent v)])"
| "tab_volumes_step name BackToProject s = (s, [GoTo (project_link name)])"

definition tab_volume_row :: "volume_summary \<Rightarrow> volume_summary tab_event widget list" where
  "tab_volume_row v =
     [Button (vs_name v) False (OpenResource (vs_name v)), Label (vs_driver v), Label (msg_or (vs_mountpoint v) em_dash),
      Label (in_use_text (vs_inUse v))]"

definition ProjectVolumes :: "string \<Rightarrow> volume_summary list query \<Rightarrow> volume_summary tab_event widget list" where
  "ProjectVolumes name s =
     tab_head ''Volumes'' name BackToProject @
     tab_rows [''Name'', ''Driver'', ''Mountpoint'', ''Status''] ''No volumes found for this project.'' tab_volume_row s"

subsection \<open>\<open>ProjectImages\<close>\<close>

text \<open>
  \<open>ti_started\<close> counts the removals started, \<open>ti_running\<close> is the id of the last one until its answer: the
  mutation shows the state of its last call, while the handlers run for each.
\<close>

record tab_images =
  ti_images :: "image_summary list query"
  ti_target :: "image_summary option"
  ti_started :: nat
  ti_running :: "string option"

definition tab_images_init :: tab_images where
  "tab_images_init = \<lparr>ti_images = Pending, ti_target = None, ti_started = 0, ti_running = None\<rparr>"

definition tab_images_mount :: "string \<Rightarrow> client_out list" where
  "tab_images_mount name = [Send (listProjectImages name)]"

datatype tab_images_event =
    TabImagesListed "image_summary list query"
  | BackFromImages
  | AskRemoveImage image_summary
  | CancelRemoveImage
  | RemoveImageClicked
  | TabImageRemoved nat
  | TabImageRemoveFailed nat string

definition tab_settled :: "nat \<Rightarrow> tab_images \<Rightarrow> tab_images" where
  "tab_settled k s = (if k = ti_started s then s\<lparr>ti_running := None\<rparr> else s)"

fun tab_images_step :: "string \<Rightarrow> tab_images_event \<Rightarrow> tab_images \<Rightarrow> tab_images \<times> client_out list" where
  "tab_images_step name (TabImagesListed q) s = (s\<lparr>ti_images := q\<rparr>, [])"
| "tab_images_step name BackFromImages s = (s, [GoTo (project_link name)])"
| "tab_images_step name (AskRemoveImage img) s = (s\<lparr>ti_target := Some img\<rparr>, [])"
| "tab_images_step name CancelRemoveImage s = (s\<lparr>ti_target := None\<rparr>, [])"
| "tab_images_step name RemoveImageClicked s =
     (case ti_target s of
        None \<Rightarrow> (s, [])
      | Some img \<Rightarrow>
          (s\<lparr>ti_started := Suc (ti_started s), ti_running := Some (img_id img)\<rparr>, [Send (deleteImage (img_id img) False)]))"
| "tab_images_step name (TabImageRemoved k) s =
     ((tab_settled k s)\<lparr>ti_target := None\<rparr>, [ToastOk ''Image removed'', Invalidate [''project-images'', name]])"
| "tab_images_step name (TabImageRemoveFailed k msg) s = (tab_settled k s, [ToastErr (msg_or msg ''Failed to remove image'')])"

definition tab_image_row :: "(nat \<Rightarrow> string) \<Rightarrow> tab_images \<Rightarrow> image_summary \<Rightarrow> tab_images_event widget list" where
  "tab_image_row fmt s img =
     (case filter (\<lambda>t. t \<noteq> ''<none>:<none>'') (list_of_opt (img_repoTags img)) of
        [] \<Rightarrow> [Label ''<none>''] | ts \<Rightarrow> map Label ts) @
     [Label (img_id img), Label (formatBytes (img_size img)), Label (fmt (img_created img)),
      Button ''Remove image'' (ti_running s \<noteq> None) (AskRemoveImage img)]"

definition image_called :: "image_summary \<Rightarrow> string" where
  "image_called img = (case list_of_opt (img_repoTags img) of [] \<Rightarrow> img_id img | t # _ \<Rightarrow> t)"

definition remove_image_text :: "image_summary \<Rightarrow> string" where
  "remove_image_text img =
     ''This will remove the image \"'' @ image_called img @
     ''\". Containers using this image will continue running, but new containers cannot be started from it.''"

definition ProjectImages :: "(nat \<Rightarrow> string) \<Rightarrow> string \<Rightarrow> tab_images \<Rightarrow> tab_images_event widget list" where
  "ProjectImages fmt name s =
     (case ti_target s of
        Some img \<Rightarrow>
          ConfirmDialog ''Remove image?'' (Some (remove_image_text img)) (Some ''Remove'') RemoveImageClicked CancelRemoveImage
      | None \<Rightarrow>
          tab_head ''Images'' name BackFromImages @
          tab_rows [''Tags'', ''Image ID'', ''Size'', ''Created''] ''No images found for this project.'' (tab_image_row fmt s)
            (ti_images s))"

subsection \<open>What the three pages do\<close>

lemma tab_image_row_events:
  "view_events (tab_image_row fmt s img) = (if ti_running s = None then {AskRemoveImage img} else {})"
  by (auto simp: tab_image_row_def view_events_map split: list.split)

text \<open>Only images of the list are asked about, and none while the last removal runs.\<close>

lemma asked_image_listed:
  assumes "AskRemoveImage img \<in> view_events (ProjectImages fmt name s)"
  shows "img \<in> set (data_or [] (ti_images s))" and "ti_running s = None"
  using assms
  by (auto simp: ProjectImages_def tab_events [unfolded view_events_simps] tab_image_row_events tab_head_def tab_rows_def
      view_events_map split: option.splits if_splits)

lemma tab_list_not_raised: "TabImagesListed q \<notin> view_events (ProjectImages fmt name s)"
  by (auto simp: ProjectImages_def tab_image_row_events tab_head_def tab_rows_def view_events_map split: option.splits if_splits)

lemma tab_images_delete:
  assumes "Send c \<in> set (snd (tab_images_step name e s))"
  shows "\<exists>img. e = RemoveImageClicked \<and> ti_target s = Some img \<and> c = deleteImage (img_id img) False"
  using assms by (cases e) (auto split: option.splits)

lemma remove_image_asked:
  assumes "Send c \<in> set (snd (tab_images_step name e s))"
  shows "\<exists>img. e = RemoveImageClicked \<and> ti_target s = Some img \<and> c = deleteImage (img_id img) False
    \<and> Label (remove_image_text img) \<in> set (ProjectImages fmt name s)"
  using tab_images_delete [OF assms] by (auto simp: ProjectImages_def ConfirmDialog_def remove_image_text_def)

text \<open>
  The table leaves out the tag of an untagged image, the question does not: it is the same for any two of them.
\<close>

lemma untagged_images_asked_alike:
  assumes "img_repoTags a = Some [''<none>:<none>'']" and "img_repoTags b = Some [''<none>:<none>'']"
  shows "ProjectImages fmt name (s\<lparr>ti_target := Some a\<rparr>) = ProjectImages fmt name (s\<lparr>ti_target := Some b\<rparr>)"
  using assms by (simp add: ProjectImages_def remove_image_text_def image_called_def list_of_opt_def)

text \<open>The question stays open until the answer, and its button is never disabled: the request can be sent twice.\<close>

lemma removal_sent_twice:
  assumes "ti_target s = Some img"
  shows "RemoveImageClicked \<in> view_events (ProjectImages fmt name (fst (tab_images_step name RemoveImageClicked s)))"
    and "snd (tab_images_step name RemoveImageClicked (fst (tab_images_step name RemoveImageClicked s)))
      = snd (tab_images_step name RemoveImageClicked s)"
  using assms by (auto simp: ProjectImages_def)

end
