(* ===== verification/Projects_Page.thy ===== *)
theory Projects_Page
  imports Page_Run Detail_Parts
begin

section \<open>The page of projects: \<open>pages/Projects.tsx\<close>\<close>

datatype project_row_confirm = ConfirmStop | ConfirmRestart

text \<open>The state of a row, kept under its project's name.\<close>

record project_row =
  pj_confirm :: "project_row_confirm option"
  pj_showUpdates :: bool
  pj_updates :: "update_status query"
  pj_starting :: bool
  pj_stopping :: bool
  pj_restarting :: bool

definition project_row_init :: project_row where
  "project_row_init =
     \<lparr>pj_confirm = None, pj_showUpdates = False, pj_updates = Pending, pj_starting = False, pj_stopping = False,
      pj_restarting = False\<rparr>"

datatype project_row_event =
    OpenProject
  | OpenLogs
  | ShowUpdates
  | RowUpdates updates_event
  | UpdatesChecked "update_status query"
  | StartClicked
  | Started
  | StartFailed string
  | AskStop
  | AskRestart
  | CancelRow
  | StopConfirmed
  | Stopped
  | StopFailed string
  | RestartConfirmed
  | Restarted
  | RestartFailed string

text \<open>The button of the dialog of updates closes it and restarts the project.\<close>

fun project_row_step :: "string \<Rightarrow> project_row_event \<Rightarrow> project_row \<Rightarrow> project_row \<times> client_out list" where
  "project_row_step name OpenProject r = (r, [GoTo (''/projects/'' @ name)])"
| "project_row_step name OpenLogs r = (r, [GoTo (''/projects/'' @ name @ ''/logs'')])"
| "project_row_step name ShowUpdates r = (r\<lparr>pj_showUpdates := True\<rparr>, [])"
| "project_row_step name (RowUpdates CloseUpdates) r = (r\<lparr>pj_showUpdates := False\<rparr>, [])"
| "project_row_step name (RowUpdates DeployUpdates) r =
     (r\<lparr>pj_showUpdates := False, pj_restarting := True\<rparr>, [Send (restartProject name)])"
| "project_row_step name (UpdatesChecked q) r = (r\<lparr>pj_updates := q\<rparr>, [])"
| "project_row_step name StartClicked r = (r\<lparr>pj_starting := True\<rparr>, [Send (startProject name)])"
| "project_row_step name Started r = (r\<lparr>pj_starting := False\<rparr>, [ToastOk ''Started'', Invalidate [''projects'']])"
| "project_row_step name (StartFailed msg) r = (r\<lparr>pj_starting := False\<rparr>, [ToastErr (msg_or msg ''Failed to start'')])"
| "project_row_step name AskStop r = (r\<lparr>pj_confirm := Some ConfirmStop\<rparr>, [])"
| "project_row_step name AskRestart r = (r\<lparr>pj_confirm := Some ConfirmRestart\<rparr>, [])"
| "project_row_step name CancelRow r = (r\<lparr>pj_confirm := None\<rparr>, [])"
| "project_row_step name StopConfirmed r = (r\<lparr>pj_confirm := None, pj_stopping := True\<rparr>, [Send (stopProject name)])"
| "project_row_step name Stopped r = (r\<lparr>pj_stopping := False\<rparr>, [ToastOk ''Stopped'', Invalidate [''projects'']])"
| "project_row_step name (StopFailed msg) r = (r\<lparr>pj_stopping := False\<rparr>, [ToastErr (msg_or msg ''Failed to stop'')])"
| "project_row_step name RestartConfirmed r = (r\<lparr>pj_confirm := None, pj_restarting := True\<rparr>, [Send (restartProject name)])"
| "project_row_step name Restarted r = (r\<lparr>pj_restarting := False\<rparr>, [ToastOk ''Restarted'', Invalidate [''projects'']])"
| "project_row_step name (RestartFailed msg) r = (r\<lparr>pj_restarting := False\<rparr>, [ToastErr (msg_or msg ''Failed to restart'')])"

record projects_page =
  pp_projects :: "project list query"
  pp_rows :: "string \<Rightarrow> project_row"

definition projects_init :: projects_page where
  "projects_init = \<lparr>pp_projects = Pending, pp_rows = (\<lambda>_. project_row_init)\<rparr>"

definition projects_mount :: "client_out list" where
  "projects_mount = [Send listProjects]"

datatype projects_event =
    NewProject
  | ProjectsArrived "project list query"
  | Row string project_row_event

text \<open>A row that is there for the first time and runs asks for its updates.\<close>

definition ask_updates :: "projects_page \<Rightarrow> project list query \<Rightarrow> client_out list" where
  "ask_updates s q =
     map (\<lambda>p. Send (checkProjectUpdates (prj_name p)))
       (filter (\<lambda>p. prj_status p = ''running'' \<and> pj_updates (pp_rows s (prj_name p)) = Pending) (data_or [] q))"

fun projects_step :: "projects_event \<Rightarrow> projects_page \<Rightarrow> projects_page \<times> client_out list" where
  "projects_step NewProject s = (s, [GoTo ''/projects/new''])"
| "projects_step (ProjectsArrived q) s = (s\<lparr>pp_projects := q\<rparr>, ask_updates s q)"
| "projects_step (Row name e) s =
     (case project_row_step name e (pp_rows s name) of (r, out) \<Rightarrow> (s\<lparr>pp_rows := (pp_rows s)(name := r)\<rparr>, out))"

definition projects_statusLabel :: "string \<Rightarrow> string" where
  "projects_statusLabel st =
     (case map_of [(''running'', ''Running''), (''stopped'', ''Stopped''), (''partial'', ''Partial''), (''unknown'', ''Unknown'')] st of
        Some l \<Rightarrow> l | None \<Rightarrow> st)"

definition date_text :: "formats \<Rightarrow> string \<Rightarrow> string" where
  "date_text fm d = (if d = [] then em_dash else fm_day fm d)"

definition ProjectRow :: "formats \<Rightarrow> project_row \<Rightarrow> project \<Rightarrow> project_row_event widget list" where
  "ProjectRow fm r p =
     [Button (prj_name p) False OpenProject] @
     (case pj_updates r of Loaded u \<Rightarrow> if us_hasUpdates u then [Button ''Updates available'' False ShowUpdates] else [] | _ \<Rightarrow> []) @
     (if prj_description p \<noteq> [] then [Label (prj_description p)] else []) @
     [Label (projects_statusLabel (prj_status p)), Label (nat_str (length (prj_containers p))), Label (msg_or (prj_createdBy p) em_dash),
      Label (date_text fm (prj_createdAt p)), Label (date_text fm (prj_updatedAt p)),
      Button ''Start'' (pj_starting r \<or> prj_status p = ''running'') StartClicked,
      Button ''Restart'' (pj_restarting r \<or> prj_status p = ''stopped'') AskRestart,
      Button ''Stop'' (pj_stopping r \<or> prj_status p = ''stopped'') AskStop,
      Button ''Logs'' False OpenLogs]"

text \<open>The dialog a row has open.\<close>

definition project_row_dialog :: "string \<Rightarrow> project_row \<Rightarrow> project_row_event widget list" where
  "project_row_dialog name r =
     (case pj_confirm r of
        Some ConfirmStop \<Rightarrow>
          ConfirmDialog (''Stop '' @ name @ ''?'') (Some ''All containers in this project will be stopped.'') (Some ''Stop'')
            StopConfirmed CancelRow
      | Some ConfirmRestart \<Rightarrow>
          ConfirmDialog (''Restart '' @ name @ ''?'')
            (Some ''All containers will be restarted causing a brief interruption.'') (Some ''Restart'') RestartConfirmed CancelRow
      | None \<Rightarrow>
          (case pj_updates r of
             Loaded u \<Rightarrow> if pj_showUpdates r then lift_view RowUpdates (UpdatesDialog name u) else []
           | _ \<Rightarrow> []))"

definition projects_list :: "formats \<Rightarrow> projects_page \<Rightarrow> projects_event widget list" where
  "projects_list fm s =
     [Label ''Projects'', Label (nat_str (length (data_or [] (pp_projects s))) @ '' projects''),
      Button ''New project'' False NewProject] @
     (if pp_projects s = Pending then []
      else if data_or [] (pp_projects s) = [] then [Label ''No projects found'', Button ''Create one'' False NewProject]
      else concat (map (\<lambda>p. lift_view (Row (prj_name p)) (ProjectRow fm (pp_rows s (prj_name p)) p)) (data_or [] (pp_projects s))))"

text \<open>An open dialog covers the page.\<close>

definition Projects :: "formats \<Rightarrow> projects_page \<Rightarrow> projects_event widget list" where
  "Projects fm s =
     (let ds = concat (map (\<lambda>p. lift_view (Row (prj_name p)) (project_row_dialog (prj_name p) (pp_rows s (prj_name p)))) (data_or [] (pp_projects s)))
      in if ds \<noteq> [] then ds else projects_list fm s)"

end
