(* ===== verification/Resource_Properties.thy ===== *)
theory Resource_Properties
  imports Containers_Page Project_Resources Projects_Page
begin

section \<open>What the pages of Docker's resources and of projects guarantee\<close>

subsection \<open>Questions before deleting\<close>

definition deletes :: "client_out \<Rightarrow> bool" where
  "deletes out = (case out of Send c \<Rightarrow> call_method c = ''DELETE'' | _ \<Rightarrow> False)"

lemma deletes_simps [simp]:
  "deletes (Send c) \<longleftrightarrow> call_method c = ''DELETE''"
  "\<not> deletes (ToastOk t)" "\<not> deletes (ToastErr t)" "\<not> deletes (Invalidate ks)" "\<not> deletes (GoTo p)"
  "\<not> deletes (OpenSocket p)" "\<not> deletes (CloseSocket n)"
  by (simp_all add: deletes_def)

lemmas call_methods = api_get_def api_post_def api_put_def api_delete_def

lemma delete_network_id: "deleteNetwork i = deleteNetwork j \<longleftrightarrow> i = j"
  by (auto simp: deleteNetwork_def call_methods seg_def)

lemma networks_delete:
  assumes "Send c \<in> set (snd (networks_page_step e s))" and "call_method c = ''DELETE''"
  shows "\<exists>i. e = DeleteNetworkClicked \<and> nw_deleting s = Some i \<and> c = deleteNetwork i"
  using assms by (cases e; cases "nw_deleting s") (auto simp: createNetwork_def call_methods split: if_splits)

lemma volumes_delete:
  assumes "Send c \<in> set (snd (volumes_page_step e s))" and "call_method c = ''DELETE''"
  shows "\<exists>n. e = DeleteVolumeClicked \<and> vl_deleting s = Some n \<and> c = deleteVolume n False"
  using assms by (cases e; cases "vl_deleting s") (auto simp: createVolume_def call_methods split: if_splits)

lemma containers_delete:
  assumes "Send c \<in> set (snd (containers_step e s))" and "call_method c = ''DELETE''"
  shows "\<exists>i. e = RemoveContainerClicked \<and> cp_deletingId s = Some i \<and> c = removeContainer i"
  using assms
  by (cases e; cases "cp_deletingId s") (auto simp: createContainer_def listContainers_def call_methods split: if_splits)


definition asked_networks :: networks_page where
  "asked_networks = networks_init\<lparr>nw_deleting := Some ''n1''\<rparr>"


subsection \<open>Removing several images\<close>

text \<open>The state and the effects of a sequence of events, in order.\<close>

fun images_run :: "(string \<Rightarrow> js option) \<Rightarrow> images_event list \<Rightarrow> images_page \<Rightarrow> images_page \<times> client_out list" where
  "images_run json [] s = (s, [])"
| "images_run json (e # es) s =
     (let (t, out) = images_step json e s; (u, outs) = images_run json es t in (u, out @ outs))"

lemma images_run_append:
  "images_run json es s = (t, outs) \<Longrightarrow>
   images_run json (es @ fs) s = (fst (images_run json fs t), outs @ snd (images_run json fs t))"
  by (induction es arbitrary: s t outs) (auto split: prod.splits)

lemma removal_steps:
  assumes "im_removing s = Some (x # done @ y # rest)"
  shows "images_run json (map (\<lambda>_. ImageRemoved) (x # done)) s =
    (s\<lparr>im_removing := Some (y # rest)\<rparr>, map (\<lambda>i. Send (deleteImage i False)) (done @ [y]))"
  using assms
proof (induction "done" arbitrary: s x)
  case Nil
  then show ?case by (simp add: remove_next_def)
next
  case (Cons z zs)
  let ?t = "s\<lparr>im_removing := Some (z # zs @ y # rest)\<rparr>"
  have step: "images_step json ImageRemoved s = (?t, [Send (deleteImage z False)])"
    using Cons.prems by (simp add: remove_next_def)
  have t: "im_removing ?t = Some (z # zs @ y # rest)" by simp
  from Cons.IH [OF t]
  have "images_run json (map (\<lambda>_. ImageRemoved) (z # zs)) ?t =
      (s\<lparr>im_removing := Some (y # rest)\<rparr>, map (\<lambda>i. Send (deleteImage i False)) (zs @ [y]))" by simp
  with step show ?case by (simp only: list.map images_run.simps) simp
qed

text \<open>Removing several images asks the server for one after the other, in the order of their selection, and
  stops at the first refusal. Then neither the list is loaded again nor the selection changed, so the next
  attempt begins with the image deleted first, which the server no longer has.\<close>

theorem failed_removal_repeats:
  fixes msg :: string
  assumes "deletableSelected s = x # done @ y # rest" and "im_removing s = None"
  defines "es \<equiv> RemoveImagesConfirmed # map (\<lambda>_. ImageRemoved) (x # done) @ [ImageRemoveFailed msg]"
  shows "images_run json es s =
      (s\<lparr>im_confirm := False\<rparr>,
       map (\<lambda>i. Send (deleteImage i False)) (x # done @ [y]) @ [ToastErr (msg_or msg ''Failed to remove image(s)'')])
    \<and> snd (images_step json RemoveImagesConfirmed (s\<lparr>im_confirm := False\<rparr>)) = [Send (deleteImage x False)]"
proof -
  let ?t = "s\<lparr>im_confirm := False, im_removing := Some (x # done @ y # rest)\<rparr>"
  have start: "images_step json RemoveImagesConfirmed s = (?t, [Send (deleteImage x False)])"
    using assms(1) by (simp add: remove_next_def)
  have t: "im_removing ?t = Some (x # done @ y # rest)" by simp
  note run = images_run_append [OF removal_steps [OF t, of json], of "[ImageRemoveFailed msg]"]
  have "images_run json es s =
      (let (u, outs) = images_run json (map (\<lambda>_. ImageRemoved) (x # done) @ [ImageRemoveFailed msg]) ?t
       in (u, Send (deleteImage x False) # outs))"
    unfolding es_def by (simp only: images_run.simps start) (simp split: prod.splits)
  moreover have "deletableSelected (s\<lparr>im_confirm := False\<rparr>) = x # done @ y # rest"
    using assms(1) by (simp add: deletableSelected_def)
  ultimately show ?thesis
    using run assms(2) by (simp add: remove_next_def)
qed

text \<open>Two unused images are selected; the second is refused.\<close>

definition unused_image :: "string \<Rightarrow> image_summary" where
  "unused_image i = \<lparr>img_id = i, img_repoTags = None, img_size = 0, img_created = 0, img_inUse = False\<rparr>"

definition two_selected :: images_page where
  "two_selected =
     images_init\<lparr>im_images := Loaded [unused_image ''a'', unused_image ''b''], im_selected := [''a'', ''b''], im_confirm := True\<rparr>"

theorem failed_removal_repeats_witness:
  "snd (images_run (\<lambda>_. None) [RemoveImagesConfirmed, ImageRemoved, ImageRemoveFailed ''conflict''] two_selected)
     = [Send (deleteImage ''a'' False), Send (deleteImage ''b'' False), ToastErr ''conflict'']"
proof -
  have "deletableSelected two_selected = ''a'' # [] @ ''b'' # []" and "im_removing two_selected = None"
    by (simp_all add: two_selected_def images_init_def deletableSelected_def unused_image_def data_or_simps)
  from failed_removal_repeats [OF this, of "\<lambda>_. None" "''conflict''"]
  show ?thesis by (simp add: msg_or_def)
qed

subsection \<open>The output of a build\<close>

abbreviation texts :: "string \<Rightarrow> js list \<Rightarrow> string list" where
  "texts k evts \<equiv> List.map_filter (\<lambda>e. truthy_text e k) evts"

primrec build_run :: "(string \<Rightarrow> js option) \<Rightarrow> string list \<Rightarrow> build_dialog \<Rightarrow> build_dialog" where
  "build_run json [] d = d"
| "build_run json (r # raws) d = build_run json raws (fst (build_step json (BuildMessage r) d))"

text \<open>The events the messages carry, and the dialog after them.\<close>

definition build_events :: "(string \<Rightarrow> js option) \<Rightarrow> string list \<Rightarrow> js list" where
  "build_events json raws = List.map_filter (message_data json) raws"

definition build_shown :: "(string \<Rightarrow> js option) \<Rightarrow> string \<Rightarrow> string list \<Rightarrow> build_dialog \<Rightarrow> build_dialog" where
  "build_shown json i raws d = build_run json raws (fst (build_step json (BuildStarted i) d))"

lemma build_events_Cons:
  "build_events json (r # raws) = (case message_data json r of None \<Rightarrow> [] | Some e \<Rightarrow> [e]) @ build_events json raws"
  by (simp add: build_events_def List.map_filter_simps split: option.split)

lemma build_run_frame:
  "bd_logs (build_run json raws d) = bd_logs d @ texts ''stream'' (build_events json raws)
    \<and> bd_done (build_run json raws d) = (bd_done d \<or> texts ''error'' (build_events json raws) \<noteq> [] \<or> texts ''done'' (build_events json raws) \<noteq> [])
    \<and> bd_error (build_run json raws d) = (if texts ''error'' (build_events json raws) = [] then bd_error d else Some (last (texts ''error'' (build_events json raws))))
    \<and> bd_buildId (build_run json raws d) = bd_buildId d \<and> bd_pending (build_run json raws d) = bd_pending d"
proof (induction raws arbitrary: d)
  case (Cons r raws)
  show ?case
  proof (cases "message_data json r")
    case None
    then show ?thesis using Cons.IH [of d] by (simp add: build_events_def List.map_filter_simps)
  next
    case (Some evt)
    show ?thesis
      by (cases "truthy_text evt ''stream''"; cases "truthy_text evt ''error''"; cases "truthy_text evt ''done''")
        (simp_all add: Some build_message_def Cons.IH build_events_def [symmetric] build_events_Cons List.map_filter_simps)
  qed
qed (simp add: build_events_def List.map_filter_simps)

text \<open>C36: Whatever messages the socket of a build brings (those that are no JSON or carry no data are skipped), the
  dialog shows the streamed lines, all and in order; the build counts as over exactly when an error or the end
  was reported; the last error is shown and success only without one; "Build again" is offered exactly when the
  end and no error came, so not after a failure.\<close>

theorem build_output_follows_stream:
  "build_output (build_shown json i raws d) =
      map Label (texts ''stream'' (build_events json raws)) @
      (if texts ''error'' (build_events json raws) \<noteq> [] then
         [Label (cross_mark @ '' Build failed: '' @ last (texts ''error'' (build_events json raws)))]
       else if texts ''done'' (build_events json raws) \<noteq> [] then [Label (check_mark @ '' Build successful'')]
       else [Label (''Building'' @ ellipsis)])
   \<and> (BuildAgain \<in> view_events (BuildImageDialog (build_shown json i raws d)) \<longleftrightarrow>
      texts ''done'' (build_events json raws) \<noteq> [] \<and> texts ''error'' (build_events json raws) = [])
   \<and> (isBuilding (build_shown json i raws d) \<longleftrightarrow>
      texts ''done'' (build_events json raws) = [] \<and> texts ''error'' (build_events json raws) = [])"
proof (intro conjI)
  note run = build_run_frame [of json raws "fst (build_step json (BuildStarted i) d)", folded build_shown_def]
  show "build_output (build_shown json i raws d) =
      map Label (texts ''stream'' (build_events json raws)) @
      (if texts ''error'' (build_events json raws) \<noteq> [] then
         [Label (cross_mark @ '' Build failed: '' @ last (texts ''error'' (build_events json raws)))]
       else if texts ''done'' (build_events json raws) \<noteq> [] then [Label (check_mark @ '' Build successful'')]
       else [Label (''Building'' @ ellipsis)])"
    by (simp add: build_output_def run)
  show "isBuilding (build_shown json i raws d) \<longleftrightarrow>
      texts ''done'' (build_events json raws) = [] \<and> texts ''error'' (build_events json raws) = []"
    by (auto simp: isBuilding_def run)
  show "BuildAgain \<in> view_events (BuildImageDialog (build_shown json i raws d)) \<longleftrightarrow>
      texts ''done'' (build_events json raws) \<noteq> [] \<and> texts ''error'' (build_events json raws) = []"
    by (auto simp: BuildImageDialog_def build_output_def view_events_map run split: option.splits)
qed

subsection \<open>The lines of ports\<close>

definition port_line_text :: "port_request \<Rightarrow> string" where
  "port_line_text p = pq_hostPort p @ '':'' @ pq_containerPort p @ ''/'' @ pq_protocol p"

text \<open>What can stand between the separators of a line.\<close>

definition port_part :: "string \<Rightarrow> bool" where
  "port_part t = (t \<noteq> [] \<and> list_all (\<lambda>c. visible c \<and> c \<noteq> CHR '':'' \<and> c \<noteq> CHR ''/'') t)"

definition port_request_ok :: "port_request \<Rightarrow> bool" where
  "port_request_ok p = (port_part (pq_hostPort p) \<and> port_part (pq_containerPort p) \<and> port_part (pq_protocol p))"

lemma port_partD:
  assumes "port_part t"
  shows "t \<noteq> [] \<and> CHR '':'' \<notin> set t \<and> CHR ''/'' \<notin> set t \<and> CHR 0x0A \<notin> set t \<and> visible (hd t) \<and> visible (last t)"
proof -
  have parts: "t \<noteq> []" "\<And>c. c \<in> set t \<Longrightarrow> visible c \<and> c \<noteq> CHR '':'' \<and> c \<noteq> CHR ''/''"
    using assms by (simp_all add: port_part_def list_all_iff)
  moreover have "\<not> visible (CHR 0x0A)" by (simp add: visible_def)
  ultimately show ?thesis using hd_in_set [of t] last_in_set [of t] by blast
qed

lemma port_line_printed:
  assumes "port_request_ok p"
  shows "port_line (port_line_text p) = p"
proof -
  have parts: "port_part (pq_hostPort p)" "port_part (pq_containerPort p)" "port_part (pq_protocol p)"
    using assms by (simp_all add: port_request_ok_def)
  have "first_two (CHR '':'') (port_line_text p) = (pq_hostPort p, pq_containerPort p @ ''/'' @ pq_protocol p)"
    using parts [THEN port_partD] by (simp add: port_line_text_def first_two_def)
  moreover have "first_two (CHR ''/'') (pq_containerPort p @ ''/'' @ pq_protocol p) = (pq_containerPort p, pq_protocol p)"
    using parts [THEN port_partD] by (simp add: first_two_def)
  moreover have "CHR '':'' \<in> set (port_line_text p)" by (simp add: port_line_text_def)
  ultimately show ?thesis by (simp add: port_line_def)
qed

interpretation port_lines: codec port_line_text port_line port_request_ok
  by unfold_locales (rule port_line_printed)

lemma raw_lines_join:
  assumes "ls \<noteq> []" and "\<And>l. l \<in> set ls \<Longrightarrow> l \<noteq> [] \<and> js_trim l = l \<and> CHR 0x0A \<notin> set l"
  shows "raw_lines (js_join [CHR 0x0A] ls) = ls"
proof -
  have "js_split (CHR 0x0A) (js_join [CHR 0x0A] ls) = ls"
    using assms by (intro js_split_join) auto
  moreover have "map js_trim ls = ls"
    using assms(2) by (intro map_idI) auto
  moreover have "filter (\<lambda>l. l \<noteq> []) ls = ls"
    using assms(2) by (auto simp: filter_id_conv)
  ultimately show ?thesis by (simp add: raw_lines_def)
qed

lemma printed_port_line:
  assumes "port_request_ok p"
  shows "port_line_text p \<noteq> []" "js_trim (port_line_text p) = port_line_text p" "CHR 0x0A \<notin> set (port_line_text p)"
proof -
  have parts: "port_part (pq_hostPort p)" "port_part (pq_containerPort p)" "port_part (pq_protocol p)"
    using assms by (simp_all add: port_request_ok_def)
  show ne: "port_line_text p \<noteq> []" by (simp add: port_line_text_def)
  show "CHR 0x0A \<notin> set (port_line_text p)"
    using parts [THEN port_partD] by (simp add: port_line_text_def)
  have "hd (port_line_text p) = hd (pq_hostPort p)" "last (port_line_text p) = last (pq_protocol p)"
    using parts [THEN port_partD] by (simp_all add: port_line_text_def)
  with ne parts [THEN port_partD] show "js_trim (port_line_text p) = port_line_text p"
    by (intro js_trim_visible) simp_all
qed

text \<open>C37: Ports typed one per line as \<open>host:container/protocol\<close> are sent as they were meant, in their order; a line
  that is only a container port is published on no chosen host port, over \<open>tcp\<close>.\<close>

theorem port_lines_roundtrip:
  assumes "ps \<noteq> []" and "list_all port_request_ok ps" and "port_part c"
  shows "map port_line (raw_lines (js_join [CHR 0x0A] (map port_line_text ps))) = ps
    \<and> port_line c = \<lparr>pq_hostPort = [], pq_containerPort = c, pq_protocol = ''tcp''\<rparr>"
proof -
  have "raw_lines (js_join [CHR 0x0A] (map port_line_text ps)) = map port_line_text ps"
    using assms(1,2) by (intro raw_lines_join) (auto simp: list_all_iff printed_port_line)
  moreover have "map port_line (map port_line_text ps) = ps"
    using assms(2) by (intro port_lines.map_dec_enc) (auto simp: list_all_iff)
  ultimately show ?thesis
    using port_partD [OF assms(3)] by (simp add: port_line_def)
qed

definition web_port :: port_request where
  "web_port = \<lparr>pq_hostPort = ''8080'', pq_containerPort = ''80'', pq_protocol = ''tcp''\<rparr>"

theorem port_lines_roundtrip_witness:
  "map port_line (raw_lines (js_join [CHR 0x0A] (map port_line_text [web_port]))) = [web_port]"
proof -
  have "list_all port_request_ok [web_port]" and "port_part ''80''"
    by (simp_all add: web_port_def port_request_ok_def port_part_def visible_def)
  with port_lines_roundtrip [of "[web_port]" "''80''"] show ?thesis by simp
qed

text \<open>An address before the ports is taken for the host port, the host port for the port of the container.\<close>

theorem address_port_misread:
  assumes "port_part addr" and "port_part host" and "port_part cont"
  shows "port_line (addr @ '':'' @ host @ '':'' @ cont) = \<lparr>pq_hostPort = addr, pq_containerPort = host, pq_protocol = ''tcp''\<rparr>"
  using port_partD [OF assms(1)] port_partD [OF assms(2)] port_partD [OF assms(3)]
  by (simp add: port_line_def first_two_def)

subsection \<open>Acting on a project\<close>

lemma updates_dialog_events: "view_events (UpdatesDialog name u) \<subseteq> {CloseUpdates, DeployUpdates}"
  by (auto simp: UpdatesDialog_def updated_rows_def current_rows_def Let_def view_events_def split: if_splits option.splits)

lemma row_dialog_events:
  "view_events (project_row_dialog name r) \<subseteq>
    (case pj_confirm r of Some ConfirmStop \<Rightarrow> {StopConfirmed, CancelRow} | Some ConfirmRestart \<Rightarrow> {RestartConfirmed, CancelRow}
     | None \<Rightarrow> if pj_showUpdates r then {RowUpdates CloseUpdates, RowUpdates DeployUpdates} else {})"
  using updates_dialog_events [of name]
  by (cases "pj_confirm r"; cases "pj_updates r") (auto simp: project_row_dialog_def split: project_row_confirm.splits)

lemma row_dialog_sends:
  assumes "ev \<in> view_events (project_row_dialog name r)" and "Send c \<in> set (snd (project_row_step name ev r))"
  shows "ev = StopConfirmed \<and> c = stopProject name \<and> pj_confirm r = Some ConfirmStop
    \<or> ev = RestartConfirmed \<and> c = restartProject name \<and> pj_confirm r = Some ConfirmRestart
    \<or> ev = RowUpdates DeployUpdates \<and> c = restartProject name \<and> pj_showUpdates r"
proof (cases "pj_confirm r")
  case None
  then have "ev \<in> {RowUpdates CloseUpdates, RowUpdates DeployUpdates} \<and> pj_showUpdates r"
    using row_dialog_events [of name r] assms(1) by (auto split: if_splits)
  with assms(2) show ?thesis by auto
next
  case (Some k)
  then have "ev = CancelRow \<or> (case k of ConfirmStop \<Rightarrow> ev = StopConfirmed | ConfirmRestart \<Rightarrow> ev = RestartConfirmed)"
    using row_dialog_events [of name r] assms(1) by (cases k) auto
  with Some assms(2) show ?thesis by (cases k) auto
qed

lemma project_row_events:
  "view_events (ProjectRow fm r p) \<subseteq>
    {OpenProject, ShowUpdates, AskRestart, AskStop, OpenLogs} \<union> (if pj_starting r \<or> prj_status p = ''running'' then {} else {StartClicked})"
  by (auto simp: ProjectRow_def split: if_splits query.splits)

lemma projects_offered:
  assumes "Row name e \<in> view_events (Projects fm s)"
  obtains (row) p where "p \<in> set (data_or [] (pp_projects s))" "name = prj_name p" "e \<in> view_events (ProjectRow fm (pp_rows s name) p)"
  | (dialog) "e \<in> view_events (project_row_dialog name (pp_rows s name))"
  using assms by (auto simp: Projects_def projects_list_def Let_def split: if_splits)

text \<open>C35: On the page of projects a call that changes a project is one of three: a start of one that does not run, by
  its button; a stop, only by the question "Stop ...?"; a restart, by its question or by the dialog of updates.
  "Deploy updates" sends the same restart and nothing else.\<close>

theorem projects_changed_when_asked:
  assumes "e \<in> view_events (Projects fm s)" and "Send c \<in> set (snd (projects_step e s))"
  shows "\<exists>name. e = Row name StartClicked \<and> c = startProject name
        \<and> (\<exists>p \<in> set (data_or [] (pp_projects s)). prj_name p = name \<and> prj_status p \<noteq> ''running'')
      \<or> e = Row name StopConfirmed \<and> c = stopProject name \<and> pj_confirm (pp_rows s name) = Some ConfirmStop
      \<or> e = Row name RestartConfirmed \<and> c = restartProject name \<and> pj_confirm (pp_rows s name) = Some ConfirmRestart
      \<or> e = Row name (RowUpdates DeployUpdates) \<and> c = restartProject name \<and> pj_showUpdates (pp_rows s name)"
proof -
  from assms obtain name ev where e: "e = Row name ev"
    by (cases e) (auto simp: Projects_def projects_list_def Let_def split: if_splits)
  have sent: "Send c \<in> set (snd (project_row_step name ev (pp_rows s name)))"
    using assms(2) e by (simp split: prod.splits)
  show ?thesis
  proof (cases rule: projects_offered [OF assms(1) [unfolded e]])
    case (1 p)
    with project_row_events [of fm "pp_rows s name" p]
    have "ev \<in> {OpenProject, ShowUpdates, AskRestart, AskStop, OpenLogs} \<or> ev = StartClicked \<and> prj_status p \<noteq> ''running''"
      by (auto split: if_splits)
    then show ?thesis using sent e 1 by auto
  next
    case 2
    from row_dialog_sends [OF this sent] e show ?thesis by blast
  qed
qed

definition one_project :: project where
  "one_project =
     \<lparr>prj_name = ''web'', prj_dir = ''/srv/web'', prj_status = ''running'', prj_containers = [], prj_description = [],
      prj_createdBy = [], prj_createdAt = [], prj_updatedAt = []\<rparr>"

definition web_stopping :: projects_page where
  "web_stopping =
     projects_init\<lparr>pp_projects := Loaded [one_project], pp_rows := (\<lambda>_. project_row_init\<lparr>pj_confirm := Some ConfirmStop\<rparr>)\<rparr>"

theorem projects_changed_when_asked_witness:
  "\<exists>name. Row ''web'' StopConfirmed = Row name StopConfirmed \<and> pj_confirm (pp_rows web_stopping name) = Some ConfirmStop"
proof -
  have offered: "Row ''web'' StopConfirmed \<in> view_events (Projects fm web_stopping)"
    by (simp add: Projects_def Let_def web_stopping_def projects_init_def project_row_init_def project_row_dialog_def
        ConfirmDialog_def lift_view_def one_project_def)
  have "Send (stopProject ''web'') \<in> set (snd (projects_step (Row ''web'' StopConfirmed) web_stopping))" by simp
  from projects_changed_when_asked [OF offered this] show ?thesis by auto
qed

end
