(* ===== verification/Metrics_Pages.thy ===== *)
theory Metrics_Pages
  imports Page_Run Docker_Types Web_Socket
begin

section \<open>The pages of the host: \<open>pages/Dashboard.tsx\<close> and \<open>pages/System.tsx\<close>\<close>

text \<open>
  Numbers the host measures are \<open>jsnum\<close>; the texts and roundings the browser makes of them are parameters:
  \<open>nf_fixed k\<close> is \<open>toFixed(k)\<close>, \<open>nf_local\<close> is \<open>toLocaleString()\<close> of a count, \<open>nf_share a b\<close> the number
  \<open>parseFloat((a / b * 100).toFixed(1))\<close>, \<open>nf_round\<close> the number \<open>parseFloat(x.toFixed(1))\<close>, \<open>nf_time\<close> a time of
  day and \<open>nf_day\<close> a day.
\<close>

record number_formats =
  nf_fixed :: "nat \<Rightarrow> jsnum \<Rightarrow> string"
  nf_local :: "nat \<Rightarrow> string"
  nf_share :: "nat \<Rightarrow> nat \<Rightarrow> jsnum"
  nf_round :: "jsnum \<Rightarrow> jsnum"
  nf_time :: "string \<Rightarrow> string"
  nf_day :: "string \<Rightarrow> string"

record disk_stat =
  ds_path :: string
  ds_used :: nat
  ds_total :: nat
  ds_free :: nat
  ds_usedPercent :: jsnum

record network_stat =
  ns_interface :: string
  ns_bytesSent :: nat
  ns_bytesRecv :: nat
  ns_packetsSent :: nat
  ns_packetsRecv :: nat

record metrics_snapshot =
  ms_timestamp :: string
  ms_usagePercent :: jsnum
  ms_corePercents :: "jsnum list"
  ms_cores :: nat
  ms_memUsed :: nat
  ms_memTotal :: nat
  ms_memAvailable :: nat
  ms_memPercent :: jsnum
  ms_disks :: "disk_stat list"
  ms_network :: "network_stat list"

record engine_info =
  ei_apiVersion :: string
  ei_rootDir :: string
  ei_storageDriver :: string
  ei_loggingDriver :: string
  ei_volumePlugins :: "string list option"
  ei_networkPlugins :: "string list option"
  ei_containersRunning :: nat
  ei_containersStopped :: nat
  ei_imageCount :: nat

record host_info =
  hi_hostname :: string
  hi_os :: string
  hi_platform :: string
  hi_platformVersion :: string
  hi_kernelVersion :: string
  hi_kernelArch :: string
  hi_uptimeSeconds :: nat
  hi_bootTime :: nat
  hi_totalCpu :: nat
  hi_totalMemoryBytes :: nat
  hi_virtualizationSystem :: "string option"
  hi_dockerVersion :: "string option"
  hi_engineInfo :: "engine_info option"

definition getMetrics :: api_call where
  "getMetrics = api_get ''/api/metrics''"

definition getSystemInfo :: api_call where
  "getSystemInfo = api_get ''/api/system/info''"

subsection \<open>Sizes and times\<close>

text \<open>\<open>bytes\<close>: one decimal for every unit (see \<open>size_exponent\<close> for the logarithms).\<close>

definition size_units :: "string list" where
  "size_units = [''B'', ''KB'', ''MB'', ''GB'', ''TB'']"

definition bytes :: "nat \<Rightarrow> string" where
  "bytes n =
     (if n = 0 then ''0 B''
      else let i = size_exponent n in
        tenths_str (round_div (10 * n) (1024 ^ i)) @ '' '' @ (if i < length size_units then size_units ! i else ''undefined''))"

definition formatUptime :: "nat \<Rightarrow> string" where
  "formatUptime seconds =
     (let d = seconds div 86400; h = seconds mod 86400 div 3600; m = seconds mod 3600 div 60 in
      if d > 0 then nat_str d @ ''d '' @ nat_str h @ ''h '' @ nat_str m @ ''m''
      else if h > 0 then nat_str h @ ''h '' @ nat_str m @ ''m''
      else nat_str m @ ''m'')"

text \<open>The page System writes a dash for an uptime of 0, the dashboard \<open>0m\<close>.\<close>

definition uptime_or_dash :: "nat \<Rightarrow> string" where
  "uptime_or_dash n = (if n > 0 then formatUptime n else em_dash)"

definition count_or_dash :: "(nat \<Rightarrow> string) \<Rightarrow> nat \<Rightarrow> string" where
  "count_or_dash f n = (if n > 0 then f n else em_dash)"

definition pair :: "string \<Rightarrow> string \<Rightarrow> 'e widget list" where
  "pair k v = [Label k, Label v]"

text \<open>\<open>xs?.join(", ") || "-"\<close>.\<close>

definition joined_or_dash :: "string list option \<Rightarrow> string" where
  "joined_or_dash xs = msg_or (case xs of Some l \<Rightarrow> js_join '', '' l | None \<Rightarrow> []) em_dash"

definition engine_details :: "string option \<Rightarrow> engine_info \<Rightarrow> 'e widget list" where
  "engine_details version e =
     Label ''Engine Details'' #
     pair ''Version'' ((case version of Some v \<Rightarrow> v | None \<Rightarrow> []) @
        (if ei_apiVersion e \<noteq> [] then '' (API: '' @ ei_apiVersion e @ '')'' else [])) @
     pair ''Root Directory'' (ei_rootDir e) @ pair ''Storage Driver'' (ei_storageDriver e) @
     pair ''Logging Driver'' (ei_loggingDriver e) @ pair ''Volume Plugins'' (joined_or_dash (ei_volumePlugins e)) @
     pair ''Network Plugins'' (joined_or_dash (ei_networkPlugins e)) @
     pair ''Containers'' (nat_str (ei_containersRunning e) @ '' running / '' @ nat_str (ei_containersStopped e) @ '' stopped'') @
     pair ''Images'' (nat_str (ei_imageCount e))"

definition virtualization :: "host_info \<Rightarrow> 'e widget list" where
  "virtualization hi = (case nonempty (hi_virtualizationSystem hi) of Some v \<Rightarrow> pair ''Virtualization'' v | None \<Rightarrow> [])"

definition host_engine :: "host_info \<Rightarrow> 'e widget list" where
  "host_engine hi = (case hi_engineInfo hi of Some e \<Rightarrow> engine_details (hi_dockerVersion hi) e | None \<Rightarrow> [])"

subsection \<open>\<open>Dashboard\<close>\<close>

text \<open>
  The socket is the hook's (\<open>Web_Socket\<close>); its message carries a type and, when it is \<open>metrics\<close>, a snapshot.
  \<open>read_metrics\<close> stands for the two accesses.
\<close>

record dashboard =
  da_socket :: ws_hook
  da_snap :: "metrics_snapshot option"
  da_host :: "host_info query"

definition dashboard_init :: dashboard where
  "dashboard_init = \<lparr>da_socket = ws_init, da_snap = None, da_host = Pending\<rparr>"

definition metrics_path :: string where
  "metrics_path = ''/api/ws/metrics''"

datatype dashboard_event =
    MetricsSocket ws_event
  | HostArrived "host_info query"

definition take_snapshot :: "(js \<Rightarrow> metrics_snapshot option) \<Rightarrow> ws_out \<Rightarrow> metrics_snapshot option \<Rightarrow> metrics_snapshot option" where
  "take_snapshot read_metrics out old =
     (case out of Deliver v \<Rightarrow> (case read_metrics v of Some m \<Rightarrow> Some m | None \<Rightarrow> old) | _ \<Rightarrow> old)"

fun dashboard_step ::
  "(string \<Rightarrow> string) \<Rightarrow> (string \<Rightarrow> js option) \<Rightarrow> (js \<Rightarrow> metrics_snapshot option) \<Rightarrow> dashboard_event \<Rightarrow> dashboard \<Rightarrow> dashboard" where
  "dashboard_step url json read_metrics (MetricsSocket e) s =
     (case ws_step url json e (da_socket s) of
        (h, outs) \<Rightarrow> s\<lparr>da_socket := h, da_snap := fold (take_snapshot read_metrics) outs (da_snap s)\<rparr>)"
| "dashboard_step url json read_metrics (HostArrived q) s = s\<lparr>da_host := q\<rparr>"

definition status_text :: "ws_status \<Rightarrow> string" where
  "status_text st = (case st of Connecting \<Rightarrow> ''connecting'' | WsOpen \<Rightarrow> ''Live'' | WsClosed \<Rightarrow> ''closed'')"

definition MetricCard :: "number_formats \<Rightarrow> string \<Rightarrow> string \<Rightarrow> string \<Rightarrow> jsnum \<Rightarrow> 'e widget list" where
  "MetricCard nf lbl val sub pct = [Label lbl, Label val, Label sub, Label (nf_fixed nf 1 pct @ ''%'')]"

definition arrow_down :: string where
  "arrow_down = [CHR 0xE2, CHR 0x86, CHR 0x93]"

definition arrow_up :: string where
  "arrow_up = [CHR 0xE2, CHR 0x86, CHR 0x91]"

definition host_card :: "host_info \<Rightarrow> 'e widget list" where
  "host_card hi =
     Label ''Host Details'' # pair ''Hostname'' (hi_hostname hi) @ pair ''OS'' (hi_os hi @ '' '' @ hi_kernelArch hi) @
     pair ''OS Information'' (hi_platform hi @ '' '' @ hi_platformVersion hi) @ pair ''Kernel Version'' (hi_kernelVersion hi) @
     pair ''Total CPU'' (count_or_dash nat_str (hi_totalCpu hi)) @
     pair ''Total Memory'' (count_or_dash bytes (hi_totalMemoryBytes hi)) @
     pair ''Uptime'' (formatUptime (hi_uptimeSeconds hi)) @ virtualization hi @ host_engine hi"

definition metric_cards :: "number_formats \<Rightarrow> metrics_snapshot \<Rightarrow> 'e widget list" where
  "metric_cards nf d =
     MetricCard nf ''CPU'' (nf_fixed nf 1 (ms_usagePercent d) @ ''%'') (nat_str (ms_cores d) @ '' cores'') (ms_usagePercent d) @
     MetricCard nf ''Memory'' (bytes (ms_memUsed d)) (''of '' @ bytes (ms_memTotal d)) (ms_memPercent d) @
     concat (map (\<lambda>k. MetricCard nf (''Disk '' @ ds_path k) (bytes (ds_used k)) (''of '' @ bytes (ds_total k)) (ds_usedPercent k))
       (take 2 (ms_disks d))) @
     (if ms_network d \<noteq> [] then
        Label ''Network'' # concat (map (\<lambda>n.
          [Label (ns_interface n), Label (arrow_down @ '' '' @ bytes (ns_bytesRecv n)), Label (arrow_up @ '' '' @ bytes (ns_bytesSent n))])
          (ms_network d))
      else [])"

definition Dashboard :: "number_formats \<Rightarrow> dashboard \<Rightarrow> dashboard_event widget list" where
  "Dashboard nf s =
     [Label ''Dashboard'', Label ''System overview'', Label (status_text (wh_status (da_socket s)))] @
     (case da_host s of Loaded hi \<Rightarrow> host_card hi | _ \<Rightarrow> []) @
     (case da_snap s of None \<Rightarrow> [] | Some d \<Rightarrow> metric_cards nf d)"

subsection \<open>\<open>MetricsCharts\<close>\<close>

datatype history_range = R1h | R6h | R24h | R7d

definition range_text :: "history_range \<Rightarrow> string" where
  "range_text r = (case r of R1h \<Rightarrow> ''1h'' | R6h \<Rightarrow> ''6h'' | R24h \<Rightarrow> ''24h'' | R7d \<Rightarrow> ''7d'')"

record history_point =
  hp_recordedAt :: string
  hp_cpuPercent :: jsnum
  hp_cpuCorePercents :: "jsnum list option"
  hp_memUsed :: nat
  hp_memTotal :: nat
  hp_diskUsed :: nat
  hp_diskTotal :: nat
  hp_netBytesSent :: nat
  hp_netBytesRecv :: nat

definition history_call :: "history_range \<Rightarrow> api_call" where
  "history_call r = api_get (''/api/metrics/history?range='' @ range_text r)"

definition formatTs :: "number_formats \<Rightarrow> string \<Rightarrow> history_range \<Rightarrow> string" where
  "formatTs nf t r = (if r = R7d then nf_day nf t else nf_time nf t)"

definition coreCount :: "history_point list \<Rightarrow> nat" where
  "coreCount points = foldl (\<lambda>m p. max m (length (list_of_opt (hp_cpuCorePercents p)))) 0 points"

text \<open>The keys of the lines: the mean, and one for each core.\<close>

datatype line_key = AvgLine | CoreLine nat

record chart_entry =
  ce_t :: string
  ce_cpu :: jsnum
  ce_memPct :: jsnum
  ce_diskPct :: jsnum
  ce_cores :: "jsnum list"

definition share_or_zero :: "number_formats \<Rightarrow> nat \<Rightarrow> nat \<Rightarrow> jsnum" where
  "share_or_zero nf used whole = (if whole > 0 then nf_share nf used whole else js_int 0)"

definition chart_entry_of :: "number_formats \<Rightarrow> history_range \<Rightarrow> history_point \<Rightarrow> chart_entry" where
  "chart_entry_of nf r p =
     \<lparr>ce_t = formatTs nf (hp_recordedAt p) r, ce_cpu = nf_round nf (hp_cpuPercent p),
      ce_memPct = share_or_zero nf (hp_memUsed p) (hp_memTotal p),
      ce_diskPct = share_or_zero nf (hp_diskUsed p) (hp_diskTotal p),
      ce_cores = map (nf_round nf) (list_of_opt (hp_cpuCorePercents p))\<rparr>"

text \<open>The value of a line at a point; \<open>None\<close> where the point has none.\<close>

definition line_value :: "line_key \<Rightarrow> chart_entry \<Rightarrow> jsnum option" where
  "line_value k e =
     (case k of AvgLine \<Rightarrow> Some (ce_cpu e)
      | CoreLine i \<Rightarrow> if i < length (ce_cores e) then Some (ce_cores e ! i) else None)"

definition toggleCore :: "line_key \<Rightarrow> line_key list \<Rightarrow> line_key list" where
  "toggleCore k hidden = (if k \<in> set hidden then filter (\<lambda>x. x \<noteq> k) hidden else hidden @ [k])"

text \<open>The lines drawn of the chart of the processor, and the buttons above it.\<close>

definition cpu_lines :: "history_point list \<Rightarrow> line_key list \<Rightarrow> line_key list" where
  "cpu_lines points hidden = filter (\<lambda>k. k \<notin> set hidden) (AvgLine # map CoreLine [0..<coreCount points])"

definition tick_count :: "history_range \<Rightarrow> nat" where
  "tick_count r = (case r of R7d \<Rightarrow> 7 | R24h \<Rightarrow> 8 | R6h \<Rightarrow> 6 | R1h \<Rightarrow> 6)"

subsection \<open>\<open>System\<close>\<close>

record system_page =
  sy_initial :: "metrics_snapshot query"
  sy_snap :: "metrics_snapshot option"
  sy_host :: "host_info query"
  sy_range :: history_range
  sy_history :: "history_range \<Rightarrow> history_point list query"
  sy_hidden :: "line_key list"

definition system_init :: system_page where
  "system_init =
     \<lparr>sy_initial = Pending, sy_snap = None, sy_host = Pending, sy_range = R1h, sy_history = (\<lambda>_. Pending), sy_hidden = []\<rparr>"

datatype system_event =
    MetricsArrived "metrics_snapshot query"
  | SnapshotPushed metrics_snapshot
  | SystemHostArrived "host_info query"
  | PickRange history_range
  | HistoryArrived history_range "history_point list query"
  | ToggleCore line_key

text \<open>Another range asks for its points; what is hidden stays so.\<close>

fun system_step :: "system_event \<Rightarrow> system_page \<Rightarrow> system_page \<times> client_out list" where
  "system_step (MetricsArrived q) s = (s\<lparr>sy_initial := q\<rparr>, [])"
| "system_step (SnapshotPushed m) s = (s\<lparr>sy_snap := Some m\<rparr>, [])"
| "system_step (SystemHostArrived q) s = (s\<lparr>sy_host := q\<rparr>, [])"
| "system_step (PickRange r) s = (s\<lparr>sy_range := r\<rparr>, if sy_range s = r then [] else [Send (history_call r)])"
| "system_step (HistoryArrived r q) s = (s\<lparr>sy_history := (sy_history s)(r := q)\<rparr>, [])"
| "system_step (ToggleCore k) s = (s\<lparr>sy_hidden := toggleCore k (sy_hidden s)\<rparr>, [])"

definition shown_metrics :: "system_page \<Rightarrow> metrics_snapshot option" where
  "shown_metrics s = (case sy_snap s of Some m \<Rightarrow> Some m | None \<Rightarrow> query_data (sy_initial s))"

definition MetricsCharts :: "system_page \<Rightarrow> system_event widget list" where
  "MetricsCharts s =
     (let points = data_or [] (sy_history s (sy_range s)) in
      if sy_history s (sy_range s) = Pending then []
      else if points = [] then
        [Label (''No data yet '' @ em_dash @ '' metrics are stored every 30 seconds.'')]
      else
        Label ''CPU %'' #
        (if coreCount points > 0 then
           Button ''avg'' False (ToggleCore AvgLine) #
           map (\<lambda>i. Button (nat_str i) False (ToggleCore (CoreLine i))) [0..<coreCount points]
         else []) @
        [Label ''Memory %'', Label ''Disk %''])"

definition system_information :: "host_info \<Rightarrow> 'e widget list" where
  "system_information hi =
     Label ''System Information'' # pair ''Hostname'' (hi_hostname hi) @
     pair ''OS Information'' (hi_os hi @ '' '' @ hi_kernelArch hi @ '' '' @ hi_platform hi @ '' '' @ hi_platformVersion hi) @
     pair ''Kernel Version'' (hi_kernelVersion hi) @ pair ''Total CPU'' (count_or_dash nat_str (hi_totalCpu hi)) @
     pair ''Total Memory'' (count_or_dash bytes (hi_totalMemoryBytes hi)) @
     pair ''Uptime'' (uptime_or_dash (hi_uptimeSeconds hi)) @ virtualization hi @ host_engine hi"

definition hardware_sections :: "number_formats \<Rightarrow> metrics_snapshot \<Rightarrow> 'e widget list" where
  "hardware_sections nf d =
     [Label ''CPU'', Label (nat_str (ms_cores d) @ '' cores''), Label (nf_fixed nf 2 (ms_usagePercent d) @ ''%''),
      Label ''Memory'', Label (bytes (ms_memUsed d) @ '' / '' @ bytes (ms_memTotal d)),
      Label (nf_fixed nf 2 (ms_memPercent d) @ ''%''), Label (''Available: '' @ bytes (ms_memAvailable d)), Label ''Disks''] @
     concat (map (\<lambda>k. [Label (ds_path k), Label (bytes (ds_used k) @ '' / '' @ bytes (ds_total k))]) (ms_disks d)) @
     (if ms_network d \<noteq> [] then
        Label ''Network'' # concat (map (\<lambda>n.
          Label (ns_interface n) # pair ''Bytes sent'' (bytes (ns_bytesSent n)) @ pair ''Bytes recv'' (bytes (ns_bytesRecv n)) @
          pair ''Pkts sent'' (nf_local nf (ns_packetsSent n)) @ pair ''Pkts recv'' (nf_local nf (ns_packetsRecv n))) (ms_network d))
      else [])"

definition System :: "number_formats \<Rightarrow> system_page \<Rightarrow> system_event widget list" where
  "System nf s =
     (case shown_metrics s of
        None \<Rightarrow> []
      | Some d \<Rightarrow>
          [Label ''System'', Label ''Hardware metrics''] @
          (case sy_host s of Loaded hi \<Rightarrow> system_information hi | _ \<Rightarrow> []) @
          hardware_sections nf d @
          Label ''History'' # map (\<lambda>r. Button (range_text r) False (PickRange r)) [R1h, R6h, R24h, R7d] @
          MetricsCharts s)"

end
