(* ===== verification/Shell_Page.thy ===== *)
theory Shell_Page
  imports Page_Common
begin

section \<open>The shell of a container: \<open>pages/ContainerShell.tsx\<close>, and the server's end of its socket\<close>

text \<open>
  The effect of the page owns a terminal (\<open>xterm\<close>) and a socket. The terminal's text is what was written to
  it; the size the fit addon proposes comes with the events that ask for it (\<open>None\<close>: it proposes none).
\<close>

datatype ready_state = CONNECTING | OPEN | CLOSING | CLOSED

record shell =
  sh_ready :: ready_state
  sh_mounted :: bool
  sh_written :: string

definition escape :: string where
  "escape = [CHR 0x1B]"

definition crlf :: string where
  "crlf = [CHR 0x0D, CHR 0x0A]"

text \<open>\<open>writeln\<close> ends the line.\<close>

definition writeln :: "string \<Rightarrow> shell \<Rightarrow> shell" where
  "writeln t s = s\<lparr>sh_written := sh_written s @ t @ crlf\<rparr>"

definition shell_init :: shell where
  "shell_init = \<lparr>sh_ready = CONNECTING, sh_mounted = True, sh_written = []\<rparr>"

definition exec_path :: "string \<Rightarrow> string \<Rightarrow> string" where
  "exec_path name i = ''/api/ws/projects/'' @ name @ ''/containers/'' @ i @ ''/exec''"

definition quoted :: "string \<Rightarrow> string" where
  "quoted s = [CHR 0x22] @ s @ [CHR 0x22]"

text \<open>\<open>JSON.stringify({ type: "resize", cols, rows })\<close>.\<close>

definition resize_text :: "nat \<Rightarrow> nat \<Rightarrow> string" where
  "resize_text cols rows =
     ''{'' @ quoted ''type'' @ '':'' @ quoted ''resize'' @ '','' @ quoted ''cols'' @ '':'' @ nat_str cols @ '','' @
     quoted ''rows'' @ '':'' @ nat_str rows @ ''}''"

definition resize_frames :: "(nat \<times> nat) option \<Rightarrow> string list" where
  "resize_frames dims = (case dims of Some (cols, rows) \<Rightarrow> [resize_text cols rows] | None \<Rightarrow> [])"

text \<open>A frame of the server is written as it is, as bytes or as text.\<close>

datatype shell_event =
    ShellOpened "(nat \<times> nat) option"
  | FrameArrived string
  | ShellClosed
  | ShellError
  | Typed string
  | BoxResized "(nat \<times> nat) option"
  | LeaveShell

text \<open>
  A step returns the frames sent, all of them text. After the cleanup the terminal is disposed of, the
  observer disconnected, and the socket closes. A failed socket is closed when its error is reported.
\<close>

fun shell_step :: "shell_event \<Rightarrow> shell \<Rightarrow> shell \<times> string list" where
  "shell_step (ShellOpened dims) s =
     (if sh_ready s = CONNECTING \<and> sh_mounted s then
        (writeln (escape @ ''[90mType 'exit' to close the shell.'' @ escape @ ''[0m'' @ crlf)
           (writeln (escape @ ''[32mConnected to container shell.'' @ escape @ ''[0m'') (s\<lparr>sh_ready := OPEN\<rparr>)),
         resize_frames dims)
      else (s, []))"
| "shell_step (FrameArrived t) s =
     (if sh_ready s = OPEN \<and> sh_mounted s then (s\<lparr>sh_written := sh_written s @ t\<rparr>, []) else (s, []))"
| "shell_step ShellClosed s =
     (if sh_mounted s then
        (writeln (crlf @ escape @ ''[31mConnection closed.'' @ escape @ ''[0m'') (s\<lparr>sh_ready := CLOSED\<rparr>), [])
      else (s\<lparr>sh_ready := CLOSED\<rparr>, []))"
| "shell_step ShellError s =
     (if sh_mounted s then
        (writeln (crlf @ escape @ ''[31mWebSocket error.'' @ escape @ ''[0m'') (s\<lparr>sh_ready := CLOSED\<rparr>), [])
      else (s\<lparr>sh_ready := CLOSED\<rparr>, []))"
| "shell_step (Typed data) s = (s, if sh_ready s = OPEN \<and> sh_mounted s then [data] else [])"
| "shell_step (BoxResized dims) s = (s, if sh_ready s = OPEN \<and> sh_mounted s then resize_frames dims else [])"
| "shell_step LeaveShell s =
     (s\<lparr>sh_mounted := False, sh_ready := (if sh_ready s = CLOSED then CLOSED else CLOSING)\<rparr>, [])"

fun shell_run :: "shell_event list \<Rightarrow> shell \<Rightarrow> shell \<times> string list" where
  "shell_run [] s = (s, [])"
| "shell_run (e # es) s = (let (t, out) = shell_step e s; (u, outs) = shell_run es t in (u, out @ outs))"

text \<open>The links of the page.\<close>

definition ContainerShell :: "string \<Rightarrow> string \<Rightarrow> string widget list" where
  "ContainerShell name i =
     [Button [] False ''/projects'', Label ''Container Shell'', Label i,
      Button ''Files'' False (''/projects/'' @ name @ ''/containers/'' @ i @ ''/files'')]"

subsection \<open>\<open>wsContainerExec\<close>: reading the frames\<close>

text \<open>
  The loop that reads the socket. \<open>unmarshal\<close> stands for \<open>json.Unmarshal\<close> into the record of a type and two
  sizes (fields the text lacks are empty or 0); \<open>None\<close> is its error.
\<close>

datatype exec_action = Stdin string | ExecResize nat nat

definition exec_read :: "(string \<Rightarrow> (string \<times> nat \<times> nat) option) \<Rightarrow> string \<Rightarrow> exec_action" where
  "exec_read unmarshal msg =
     (case unmarshal msg of
        Some (type, cols, rows) \<Rightarrow>
          if type = ''resize'' \<and> 0 < cols \<and> 0 < rows then ExecResize cols rows else Stdin msg
      | None \<Rightarrow> Stdin msg)"

end
