(* ===== verification/Shell_Properties.thy ===== *)
theory Shell_Properties
  imports Shell_Page
begin

section \<open>What a shell session guarantees\<close>

text \<open>What the user does while the socket is open, and what it means to the shell.\<close>

fun intent :: "shell_event \<Rightarrow> exec_action list" where
  "intent (Typed data) = [Stdin data]"
| "intent (BoxResized (Some (cols, rows))) = [ExecResize cols rows]"
| "intent (ShellOpened (Some (cols, rows))) = [ExecResize cols rows]"
| "intent _ = []"

fun use_event :: "shell_event \<Rightarrow> bool" where
  "use_event (Typed _) = True"
| "use_event (BoxResized _) = True"
| "use_event _ = False"

fun open_event :: "shell_event \<Rightarrow> bool" where
  "open_event (FrameArrived _) = True"
| "open_event e = use_event e"

text \<open>The texts and sizes of an event are as meant when the server reads them so.\<close>

fun clear_event :: "(string \<Rightarrow> (string \<times> nat \<times> nat) option) \<Rightarrow> shell_event \<Rightarrow> bool" where
  "clear_event unmarshal (Typed data) = (exec_read unmarshal data = Stdin data)"
| "clear_event unmarshal (BoxResized dims) = (case dims of Some (c, r) \<Rightarrow> 0 < c \<and> 0 < r | None \<Rightarrow> True)"
| "clear_event unmarshal (ShellOpened dims) = (case dims of Some (c, r) \<Rightarrow> 0 < c \<and> 0 < r | None \<Rightarrow> True)"
| "clear_event unmarshal _ = True"

lemma shell_run_append:
  "shell_run (es @ fs) s =
    (let (t, out) = shell_run es s; (u, outs) = shell_run fs t in (u, out @ outs))"
  by (induction es arbitrary: s) (auto split: prod.splits)

lemma run_before:
  assumes "list_all use_event es" and "sh_ready s \<noteq> OPEN"
  shows "shell_run es s = (s, [])"
  using assms
proof (induction es)
  case (Cons e es)
  then show ?case by (cases e) auto
qed simp

lemma run_silent:
  assumes "sh_ready s \<in> {CLOSING, CLOSED}"
  shows "snd (shell_run es s) = [] \<and> sh_ready (fst (shell_run es s)) \<in> {CLOSING, CLOSED}"
  using assms
proof (induction es arbitrary: s)
  case (Cons e es)
  have "snd (shell_step e s) = [] \<and> sh_ready (fst (shell_step e s)) \<in> {CLOSING, CLOSED}"
    using Cons.prems by (cases e) (auto simp: writeln_def)
  with Cons.IH [of "fst (shell_step e s)"] show ?case by (auto split: prod.splits)
qed simp

lemma exec_read_resize:
  assumes "\<And>c r. unmarshal (resize_text c r) = Some (''resize'', c, r)"
  shows "0 < c \<Longrightarrow> 0 < r \<Longrightarrow> exec_read unmarshal (resize_text c r) = ExecResize c r"
  by (simp add: exec_read_def assms)

lemma run_open:
  assumes json: "\<And>c r. unmarshal (resize_text c r) = Some (''resize'', c, r)"
    and "list_all open_event es" and "list_all (clear_event unmarshal) es" and "sh_ready s = OPEN" and "sh_mounted s"
  shows "map (exec_read unmarshal) (snd (shell_run es s)) = concat (map intent es)
    \<and> sh_ready (fst (shell_run es s)) = OPEN \<and> sh_mounted (fst (shell_run es s))"
  using assms(2-)
proof (induction es arbitrary: s)
  case (Cons e es)
  have step: "map (exec_read unmarshal) (snd (shell_step e s)) = intent e
      \<and> sh_ready (fst (shell_step e s)) = OPEN \<and> sh_mounted (fst (shell_step e s))"
    using Cons.prems
    by (cases e) (auto simp: resize_frames_def exec_read_resize [OF json] split: option.splits)
  with Cons.IH [of "fst (shell_step e s)"] Cons.prems show ?case by (auto split: prod.splits)
qed simp

text \<open>C39: The server's shell gets exactly what the user did while the socket was open, in that order, the size of
  the terminal first: typed text as input, every size as a resize. What is typed before the socket opens or
  after it closed (or the page was left) is not sent, neither then nor later. This holds as long as no typed
  chunk is itself a resize message.\<close>

theorem shell_gets_what_was_typed:
  assumes "\<And>c r. unmarshal (resize_text c r) = Some (''resize'', c, r)"
    and "list_all use_event before" and "list_all open_event during"
    and "list_all (clear_event unmarshal) (ShellOpened dims # during)"
    and "ending \<in> {ShellClosed, ShellError, LeaveShell}"
  shows "map (exec_read unmarshal)
      (snd (shell_run (before @ ShellOpened dims # during @ ending # after) shell_init)) =
    intent (ShellOpened dims) @ concat (map intent during)"
proof -
  obtain t frames where opened: "shell_step (ShellOpened dims) shell_init = (t, frames)" by force
  then have t: "sh_ready t = OPEN" "sh_mounted t" and frames: "map (exec_read unmarshal) frames = intent (ShellOpened dims)"
    using assms(4) by (auto simp: shell_init_def writeln_def resize_frames_def exec_read_resize [OF assms(1)] split: option.splits)
  obtain u outs where used: "shell_run during t = (u, outs)" by force
  have u: "map (exec_read unmarshal) outs = concat (map intent during)" "sh_ready u = OPEN"
    using run_open [OF assms(1) assms(3) _ t] assms(4) used by simp_all
  obtain v last where ended: "shell_step ending u = (v, last)" by force
  then have "last = []" "sh_ready v \<in> {CLOSING, CLOSED}"
    using assms(5) u(2) by (auto simp: writeln_def split: if_splits)
  with run_silent [of v "after"] have "snd (shell_run (ending # after) u) = []"
    using ended by (simp split: prod.splits)
  moreover have "shell_run before shell_init = (shell_init, [])"
    using assms(2) by (intro run_before) (simp_all add: shell_init_def)
  ultimately show ?thesis
    using opened used frames u(1) by (simp add: shell_run_append split: prod.splits)
qed

text \<open>A reader of the messages the page sends.\<close>

definition read_resize :: "string \<Rightarrow> (string \<times> nat \<times> nat) option" where
  "read_resize msg =
     (case strip_prefix (''{'' @ quoted ''type'' @ '':'' @ quoted ''resize'' @ '','' @ quoted ''cols'' @ '':'') msg of
        None \<Rightarrow> None
      | Some rest \<Rightarrow>
          (let cols = takeWhile is_digit rest; more = dropWhile is_digit rest in
           case strip_prefix ('','' @ quoted ''rows'' @ '':'') more of
             None \<Rightarrow> None
           | Some rest2 \<Rightarrow>
               if dropWhile is_digit rest2 = ''}'' then
                 Some (''resize'', nat (digits_val 0 cols), nat (digits_val 0 (takeWhile is_digit rest2)))
               else None))"

lemma strip_prefix_own [simp]: "strip_prefix p (p @ s) = Some s"
  by (induction p) auto

lemma span_digits:
  assumes "\<not> is_digit c"
  shows "takeWhile is_digit (nat_str n @ c # r) = nat_str n" "dropWhile is_digit (nat_str n @ c # r) = c # r"
  using nat_str_digits [of n] assms
  by (auto simp: list_all_iff takeWhile_append dropWhile_append)

lemma digits_nat_str [simp]: "digits_val 0 (nat_str n) = int n"
  by (simp add: nat_str_def)

lemma read_resize_text: "read_resize (resize_text c r) = Some (''resize'', c, r)"
proof -
  have "\<not> is_digit (CHR '','')" "\<not> is_digit (CHR ''}'')" by (simp_all add: is_digit_def)
  then show ?thesis
    by (simp add: read_resize_def resize_text_def quoted_def span_digits Let_def)
qed

theorem shell_gets_what_was_typed_witness:
  "map (exec_read read_resize)
    (snd (shell_run [Typed ''x'', ShellOpened (Some (80, 24)), Typed ''ls'', FrameArrived ''a'', BoxResized (Some (90, 30)),
       ShellClosed, Typed ''y''] shell_init)) =
   [ExecResize 80 24, Stdin ''ls'', ExecResize 90 30]"
proof -
  have "list_all (clear_event read_resize) [ShellOpened (Some (80, 24)), Typed ''ls'', FrameArrived ''a'', BoxResized (Some (90, 30))]"
    by (simp add: exec_read_def read_resize_def quoted_def)
  from shell_gets_what_was_typed [OF read_resize_text, of "[Typed ''x'']" _ "Some (80, 24)" ShellClosed "[Typed ''y'']", OF _ _ this]
  show ?thesis by simp
qed

text \<open>A pasted text that reads as a resize message never reaches the shell: it resizes the terminal.\<close>

theorem pasted_resize_swallowed:
  assumes "unmarshal text = Some (''resize'', c, r)" and "0 < c" and "0 < r" and "sh_ready s = OPEN" and "sh_mounted s"
  shows "map (exec_read unmarshal) (snd (shell_step (Typed text) s)) = [ExecResize c r]"
  using assms by (simp add: exec_read_def)

end
