(* ===== verification/Metrics_Properties.thy ===== *)
theory Metrics_Properties
  imports Metrics_Pages Shell_Properties
begin

section \<open>What the pages of the host guarantee\<close>

subsection \<open>Uptimes\<close>

lemma nat_str_span:
  assumes "nat_str a @ c # x = nat_str b @ d # y" and "\<not> is_digit c" and "\<not> is_digit d"
  shows "a = b \<and> c = d \<and> x = y"
proof -
  from assms(1) have "takeWhile is_digit (nat_str a @ c # x) = takeWhile is_digit (nat_str b @ d # y)"
    and "dropWhile is_digit (nat_str a @ c # x) = dropWhile is_digit (nat_str b @ d # y)" by simp_all
  then show ?thesis using assms(2,3) by (simp add: span_digits nat_str_inj)
qed

lemma nat_str_no_letter:
  assumes "\<not> is_digit c"
  shows "nat_str a \<noteq> nat_str b @ c # x"
proof
  assume "nat_str a = nat_str b @ c # x"
  then have "c \<in> set (nat_str a)" by simp
  with nat_str_digits [of a] assms show False by (simp add: list_all_iff)
qed

lemma unit_letters: "\<not> is_digit (CHR ''d'')" "\<not> is_digit (CHR ''h'')" "\<not> is_digit (CHR ''m'')"
  by (simp_all add: is_digit_def)

text \<open>The three numbers of an uptime; the text begins with the first that is not 0.\<close>

definition uptime_text :: "nat \<Rightarrow> nat \<Rightarrow> nat \<Rightarrow> string" where
  "uptime_text d h m =
     (if d > 0 then nat_str d @ CHR ''d'' # '' '' @ nat_str h @ CHR ''h'' # '' '' @ nat_str m @ ''m''
      else if h > 0 then nat_str h @ CHR ''h'' # '' '' @ nat_str m @ ''m''
      else nat_str m @ ''m'')"

lemma uptime_text_inj: "uptime_text d h m = uptime_text d' h' m' \<Longrightarrow> d = d' \<and> h = h' \<and> m = m'"
  using unit_letters nat_str_no_letter [symmetric]
  by (auto simp: uptime_text_def nat_str_inj nat_str_no_letter split: if_splits dest!: nat_str_span)

text \<open>The three numbers in terms of the whole minutes \<open>n div 60\<close>.\<close>

lemma parts_of_minutes:
  fixes n :: nat
  shows "n div 86400 = n div 60 div 60 div 24" and "n mod 86400 div 3600 = n div 60 div 60 mod 24"
    and "n mod 3600 div 60 = n div 60 mod 60"
proof -
  show "n div 86400 = n div 60 div 60 div 24" by (simp add: div_mult2_eq [symmetric])
  have "n mod (3600 * 24) = 3600 * (n div 3600 mod 24) + n mod 3600" by (rule mod_mult2_eq)
  then show "n mod 86400 div 3600 = n div 60 div 60 mod 24" by (simp add: div_mult2_eq [symmetric])
  have "n mod (60 * 60) = 60 * (n div 60 mod 60) + n mod 60" by (rule mod_mult2_eq)
  then show "n mod 3600 div 60 = n div 60 mod 60" by simp
qed

lemma minutes_parts:
  fixes n :: nat
  shows "n div 60 = 1440 * (n div 86400) + 60 * (n mod 86400 div 3600) + n mod 3600 div 60"
proof -
  have "n div 60 = 60 * (n div 60 div 60) + n div 60 mod 60" by simp
  moreover have "n div 60 div 60 = 24 * (n div 60 div 60 div 24) + n div 60 div 60 mod 24" by simp
  ultimately show ?thesis unfolding parts_of_minutes by linarith
qed

text \<open>The uptime of a host is shown in days, hours and minutes that add up to its whole minutes (hours below 24,
  minutes below 60), and two uptimes have the same text exactly when they have the same number of minutes.\<close>

theorem uptime_shows_minutes:
  "(\<exists>d h m. formatUptime n = uptime_text d h m \<and> n div 60 = 1440 * d + 60 * h + m \<and> h < 24 \<and> m < 60)
   \<and> (formatUptime n = formatUptime k \<longleftrightarrow> n div 60 = k div 60)"
proof (intro conjI)
  have shape: "formatUptime j = uptime_text (j div 86400) (j mod 86400 div 3600) (j mod 3600 div 60)" for j
    by (simp add: formatUptime_def uptime_text_def Let_def)
  have "n mod 86400 div 3600 < 24" "n mod 3600 div 60 < 60" by (simp_all add: parts_of_minutes)
  then show "\<exists>d h m. formatUptime n = uptime_text d h m \<and> n div 60 = 1440 * d + 60 * h + m \<and> h < 24 \<and> m < 60"
    using shape [of n] minutes_parts [of n] by blast
  show "formatUptime n = formatUptime k \<longleftrightarrow> n div 60 = k div 60"
    using minutes_parts [of n] minutes_parts [of k] by (auto simp: shape parts_of_minutes dest: uptime_text_inj)
qed

subsection \<open>Lines of the chart\<close>

lemma fold_max_lengths:
  "foldl (\<lambda>m p. max m (f p)) a ps = Max (insert a (f ` set ps))" for a :: nat
proof (induction ps arbitrary: a)
  case (Cons p ps)
  have "Max (insert (max a (f p)) (f ` set ps)) = Max (insert a (insert (f p) (f ` set ps)))"
    by (cases "set ps = {}") (simp_all add: max.assoc)
  with Cons show ?case by simp
qed simp

text \<open>Every share a point reports for a core is on a line that is drawn or was hidden by its button, and no line is
  drawn that no point has a value for.\<close>

theorem core_lines_cover:
  assumes "p \<in> set points" and "v \<in> set (list_of_opt (hp_cpuCorePercents p))"
  shows "\<exists>i. line_value (CoreLine i) (chart_entry_of nf r p) = Some (nf_round nf v)
      \<and> (CoreLine i \<in> set (cpu_lines points hidden) \<or> CoreLine i \<in> set hidden)"
proof -
  from assms(2) obtain i where i: "i < length (list_of_opt (hp_cpuCorePercents p))" "list_of_opt (hp_cpuCorePercents p) ! i = v"
    by (auto simp: in_set_conv_nth)
  have "length (list_of_opt (hp_cpuCorePercents p)) \<le> coreCount points"
    unfolding coreCount_def fold_max_lengths using assms(1) by (intro Max_ge) auto
  with i show ?thesis
    by (intro exI [of _ i]) (auto simp: line_value_def chart_entry_of_def cpu_lines_def)
qed

text \<open>The mean is hidden while a range with cores is shown; a range without cores then shows no line at all, and no
  button brings the mean back.\<close>

theorem hidden_mean_stuck:
  assumes "sy_history s (sy_range s) = Loaded points" and "coreCount points = 0" and "AvgLine \<in> set (sy_hidden s)"
  shows "cpu_lines points (sy_hidden s) = [] \<and> ToggleCore k \<notin> view_events (System nf s)"
proof
  show "cpu_lines points (sy_hidden s) = []" using assms(2,3) by (simp add: cpu_lines_def)
  have "ToggleCore k \<notin> view_events (MetricsCharts s)"
    using assms(1,2) by (auto simp: MetricsCharts_def Let_def)
  moreover have "view_events (hardware_sections nf d :: system_event widget list) = {}" for d
    by (auto simp: hardware_sections_def pair_def)
  moreover have "view_events (system_information hi :: system_event widget list) = {}" for hi
    by (auto simp: system_information_def pair_def virtualization_def host_engine_def engine_details_def split: option.splits)
  ultimately show "ToggleCore k \<notin> view_events (System nf s)"
    by (auto simp: System_def view_events_map split: option.splits query.splits)
qed

end
