(* ===== verification/Inspect_Page.thy ===== *)
theory Inspect_Page
  imports Page_Run Docker_Types
begin

section \<open>The details of a container: \<open>pages/ContainerDetail.tsx\<close>\<close>

record health_log =
  hl_start :: string
  hl_end :: string
  hl_exitCode :: int
  hl_output :: string

record container_health =
  ch_status :: string
  ch_failingStreak :: nat
  ch_log :: "health_log list option"

record container_network =
  cn_name :: string
  cn_ip :: string
  cn_gateway :: string
  cn_mac :: string

record container_mount =
  cm_type :: string
  cm_name :: string
  cm_source :: string
  cm_destination :: string
  cm_mode :: string
  cm_rw :: bool

record container_port =
  cpt_ip :: string
  cpt_privatePort :: nat
  cpt_publicPort :: nat
  cpt_type :: string

record container_state =
  cst_status :: string
  cst_running :: bool
  cst_paused :: bool
  cst_restarting :: bool
  cst_exitCode :: int
  cst_startedAt :: string
  cst_finishedAt :: string
  cst_health :: "container_health option"

text \<open>Go writes an empty slice or map as \<open>null\<close>; the lists the page tests for it are optional here.\<close>

record inspect_result =
  ir_id :: string
  ir_name :: string
  ir_image :: string
  ir_state :: container_state
  ir_command :: "string list option"
  ir_entrypoint :: "string list option"
  ir_env :: "string list option"
  ir_labels :: "string obj option"
  ir_networks :: "container_network list option"
  ir_mounts :: "container_mount list option"
  ir_ports :: "container_port list option"
  ir_restartPolicy :: string
  ir_platform :: string
  ir_created :: string

text \<open>\<open>formatDate\<close>: Go's zero time begins with the year 1.\<close>

definition inspect_date :: "formats \<Rightarrow> string \<Rightarrow> string" where
  "inspect_date fm t = (if t = [] \<or> js_starts_with t ''0001'' then em_dash else fm_date fm t)"

text \<open>\<open>const [k, ...rest] = e.split("="); rest.join("=")\<close>.\<close>

definition inspect_env_row :: "string \<Rightarrow> string \<times> string" where
  "inspect_env_row e = (case js_split (CHR ''='') e of k # rest \<Rightarrow> (k, js_join ''='' rest) | [] \<Rightarrow> ([], []))"

definition command_text :: "inspect_result \<Rightarrow> string" where
  "command_text d = js_join '' '' (list_of_opt (ir_entrypoint d) @ list_of_opt (ir_command d))"

definition kv :: "string \<Rightarrow> string \<Rightarrow> 'e widget list" where
  "kv lbl v = [Label lbl, Label v]"

definition overview_section :: "formats \<Rightarrow> inspect_result \<Rightarrow> 'e widget list" where
  "overview_section fm d =
     (let st = ir_state d in
        Label ''Overview'' # kv ''Image'' (ir_image d) @ kv ''Platform'' (ir_platform d) @
        kv ''Created'' (inspect_date fm (ir_created d)) @ kv ''Started at'' (inspect_date fm (cst_startedAt st)) @
        (if cst_running st then [] else kv ''Finished at'' (inspect_date fm (cst_finishedAt st))) @
        (if cst_running st then [] else kv ''Exit code'' (js_num_str (js_int (cst_exitCode st)))) @
        kv ''Restart policy'' (msg_or (ir_restartPolicy d) ''none''))"

definition check_entry :: "formats \<Rightarrow> health_log \<Rightarrow> 'e widget list" where
  "check_entry fm l =
     [Label (''exit '' @ js_num_str (js_int (hl_exitCode l))), Label (inspect_date fm (hl_end l))] @
     (if hl_output l \<noteq> [] then [Label (js_trim (hl_output l))] else [])"

text \<open>The checks shown are the last three.\<close>

definition recent_checks :: "container_health \<Rightarrow> health_log list" where
  "recent_checks h = (let l = list_of_opt (ch_log h) in drop (length l - 3) l)"

definition health_section :: "formats \<Rightarrow> container_health option \<Rightarrow> 'e widget list" where
  "health_section fm health =
     Label ''Health'' #
     (case health of
        None \<Rightarrow> [Label ''No healthcheck configured for this container.'']
      | Some h \<Rightarrow>
          [Label (ch_status h)] @
          (if ch_failingStreak h > 0 then [Label (''('' @ nat_str (ch_failingStreak h) @ '' consecutive failures)'')] else []) @
          (if list_of_opt (ch_log h) \<noteq> [] then Label ''Recent checks'' # concat (map (check_entry fm) (recent_checks h)) else []))"

definition port_row_view :: "container_port \<Rightarrow> 'e widget list" where
  "port_row_view p =
     [Label (nat_str (cpt_privatePort p)), Label (if cpt_publicPort p = 0 then em_dash else nat_str (cpt_publicPort p)),
      Label (cpt_type p), Label (msg_or (cpt_ip p) em_dash)]"

definition network_row_view :: "container_network \<Rightarrow> 'e widget list" where
  "network_row_view n =
     [Label (cn_name n), Label (msg_or (cn_ip n) em_dash), Label (msg_or (cn_gateway n) em_dash), Label (msg_or (cn_mac n) em_dash)]"

definition mount_row_view :: "container_mount \<Rightarrow> 'e widget list" where
  "mount_row_view m =
     [Label (cm_type m), Label (msg_or (cm_name m) (msg_or (cm_source m) em_dash)), Label (cm_destination m),
      Label (if cm_rw m then ''rw'' else ''ro'')]"

text \<open>A section with the number of its rows, and a text when there are none.\<close>

definition counted_section :: "string \<Rightarrow> string \<Rightarrow> ('a \<Rightarrow> 'e widget list) \<Rightarrow> 'a list option \<Rightarrow> 'e widget list" where
  "counted_section title none row xs =
     Label (title @ '' ('' @ nat_str (length (list_of_opt xs)) @ '')'') #
     (if list_of_opt xs = [] then [Label none] else concat (map row (list_of_opt xs)))"

text \<open>The view; its only control is the link to the project (the event is the path).\<close>

definition ContainerDetailView :: "formats \<Rightarrow> string \<Rightarrow> inspect_result \<Rightarrow> string widget list" where
  "ContainerDetailView fm projectName d =
     [Button [] False (''/projects/'' @ projectName), Label (ir_name d), Label (ir_id d), Label (cst_status (ir_state d))] @
     overview_section fm d @ health_section fm (cst_health (ir_state d)) @
     (if command_text d \<noteq> [] then [Label ''Command'', Label (command_text d)] else []) @
     (if list_of_opt (ir_ports d) \<noteq> [] then Label ''Ports'' # concat (map port_row_view (list_of_opt (ir_ports d))) else []) @
     counted_section ''Networks'' ''No networks.'' network_row_view (ir_networks d) @
     counted_section ''Volumes / Mounts'' ''No mounts.'' mount_row_view (ir_mounts d) @
     (if list_of_opt (ir_env d) \<noteq> [] then
        Label (''Environment Variables ('' @ nat_str (length (list_of_opt (ir_env d))) @ '')'') #
        concat (map (\<lambda>e. case inspect_env_row e of (k, v) \<Rightarrow> [Label k, Label v]) (list_of_opt (ir_env d)))
      else []) @
     (if list_of_opt (ir_labels d) \<noteq> [] then
        Label (''Labels ('' @ nat_str (length (list_of_opt (ir_labels d))) @ '')'') #
        concat (map (\<lambda>(k, v). [Label k, Label v]) (list_of_opt (ir_labels d)))
      else [])"

definition ContainerDetail :: "formats \<Rightarrow> string \<Rightarrow> inspect_result query \<Rightarrow> string widget list" where
  "ContainerDetail fm projectName q =
     (case q of
        Pending \<Rightarrow> [Label (''Loading'' @ ellipsis)]
      | QueryFailed _ \<Rightarrow> [Label ''Failed to load container details.'']
      | Loaded d \<Rightarrow> ContainerDetailView fm projectName d)"

text \<open>A variable is shown with all of its value, whatever signs of equality that has.\<close>

lemma inspect_env_row_whole:
  assumes "CHR ''='' \<notin> set k"
  shows "inspect_env_row (k @ ''='' @ v) = (k, v)"
  using assms js_join_split [of "CHR ''=''" v] by (simp add: inspect_env_row_def)

lemma inspect_env_row_join: "CHR ''='' \<in> set e \<Longrightarrow> fst (inspect_env_row e) @ ''='' @ snd (inspect_env_row e) = e"
proof -
  assume "CHR ''='' \<in> set e"
  then obtain k v where "e = k @ CHR ''='' # v" "CHR ''='' \<notin> set k" by (auto dest: split_list_first)
  then show ?thesis using inspect_env_row_whole [of k v] by simp
qed

end
