(* ===== verification/Socket_Routes.thy ===== *)
theory Socket_Routes
  imports Server_Routes Deploy_State Images_Page Log_Pages Metrics_Pages Shell_Page
begin

section \<open>The sockets the pages open: \<open>internal/api/router.go\<close>\<close>

text \<open>
  The routes of web sockets, in the order of \<open>NewRouter\<close>. \<open>dialled\<close> says of the path of a socket that one of them
  answers it; the server's table for calls is \<open>api_routes\<close>.
\<close>

definition ws_routes :: "route list" where
  "ws_routes =
     [route ''GET'' [Lit ''api'', Lit ''ws'', Lit ''metrics''] (Global ''view_dashboard''),
      route ''GET'' [Lit ''api'', Lit ''ws'', Lit ''events''] (Global ''view_events''),
      route ''GET'' [Lit ''api'', Lit ''ws'', Lit ''projects'', Par, Lit ''logs''] (OnProject ''logs''),
      route ''GET'' [Lit ''api'', Lit ''ws'', Lit ''projects'', Par, Lit ''stats''] (OnProject ''view''),
      route ''GET'' [Lit ''api'', Lit ''ws'', Lit ''projects'', Par, Lit ''deploy''] (OnProject ''deploy''),
      route ''GET'' [Lit ''api'', Lit ''ws'', Lit ''projects'', Par, Lit ''stop''] (OnProject ''stop''),
      route ''GET'' [Lit ''api'', Lit ''ws'', Lit ''logs''] (Global ''view_logs''),
      route ''GET'' [Lit ''api'', Lit ''ws'', Lit ''logs'', Lit ''journalctl''] (Global ''view_logs''),
      route ''GET'' [Lit ''api'', Lit ''ws'', Lit ''projects'', Par, Lit ''containers'', Par, Lit ''exec''] (OnProject ''files''),
      route ''GET'' [Lit ''api'', Lit ''ws'', Lit ''images'', Lit ''build'', Par] (Admin)]"

definition dialled :: "string \<Rightarrow> bool" where
  "dialled path = list_ex (\<lambda>r. matches_pattern (route_pattern r) (path_segments path)) ws_routes"

text \<open>The numbers of a project's containers.\<close>

definition stats_path :: "string \<Rightarrow> string" where
  "stats_path name = ''/api/ws/projects/'' @ name @ ''/stats''"

lemmas ws_defs = dialled_def ws_routes_def route_def path_segments_def

lemma page_sockets_dialled:
  "dialled metrics_path" "dialled server_path" "dialled (journal_path l)" "dialled (events_path e)"
  by (simp_all add: ws_defs metrics_path_def server_path_def journal_path_def events_path_def query_string_def)

lemma project_sockets_dialled:
  assumes "segment_ok name"
  shows "dialled (plogs_path isoDate name p)" "dialled (deploy_path name act back)" "dialled (stats_path name)"
    "segment_ok cid \<Longrightarrow> dialled (exec_path name cid)"
  using assms
  by (simp_all add: ws_defs plogs_path_def stats_path_def deploy_path_def exec_path_def segment_ok_simps)

lemma build_socket_dialled: "segment_ok i \<Longrightarrow> dialled (build_path i)"
  by (simp add: ws_defs build_path_def segment_ok_simps)

text \<open>The route of a container's shell asks for the right to read the files of the project named in the path.\<close>

lemma shell_asks_for_files:
  assumes "segment_ok name" and "segment_ok cid"
  shows "list_all (\<lambda>r. matches_pattern (route_pattern r) (path_segments (exec_path name cid)) \<longrightarrow> route_access r = OnProject ''files'')
           ws_routes"
proof -
  have "path_segments (exec_path name cid) = [''api'', ''ws'', ''projects'', name, ''containers'', cid, ''exec'']"
    using assms by (simp add: exec_path_def path_segments_def segment_ok_simps)
  then show ?thesis by (simp add: ws_routes_def route_def)
qed

end
