(* ===== verification/Served_Pages.thy ===== *)
theory Served_Pages
  imports Socket_Routes Api_Properties Log_Properties File_Properties Metrics_Properties Network_Pages
begin

section \<open>Pages against the server's route table\<close>

text \<open>
  The calls the pages make, each as a request the server has a route for (from \<open>api_calls_served\<close>'s lemmas, by
  their groups), and what it means that a page sends only such requests and opens only sockets the server answers.
\<close>

lemma resource_calls_served:
  assumes "segment_ok i"
  shows "served (deleteNetwork i)" "served (removeContainer i)" "served (deleteImage i force)" "served (getNetwork i)"
  using docker_calls_served [of i "''v''" force JNull] assms
  by (simp_all add: docker_calls_def not_dots_def)

lemma volume_calls_served:
  assumes "not_dots v"
  shows "served (deleteVolume v force)" "served (getVolume v)"
  using docker_calls_served [of "''c''" v force JNull] assms
  by (simp_all add: docker_calls_def segment_ok_def not_dots_def)

lemma plain_calls_served:
  "served listAllNetworks" "served (createNetwork d)" "served listAllVolumes" "served (createVolume d)"
  "served listAllImages" "served (startImageBuild d)" "served (listContainers b)" "served (createContainer d)"
  using docker_calls_served [of "''c''" "''v''" b d]
  by (simp_all add: docker_calls_def segment_ok_def not_dots_def)

lemma project_row_calls_served:
  assumes "segment_ok name"
  shows "served (startProject name)" "served (stopProject name)" "served (restartProject name)"
    "served (checkProjectUpdates name)"
  using project_calls_served [OF assms assms, of "''f''" "''v''" 0 undefined JNull] 
  by (simp_all add: project_calls_def not_dots_def)

subsection \<open>The calls the pages make themselves\<close>

lemma fifty: "nat_str PAGE_SIZE = ''50''"
  by (simp add: PAGE_SIZE_def nat_str_def dec_str.simps digit_char_def char_of_def)

lemma own_calls_served:
  "served getMetrics" "served getSystemInfo" "served (history_call r)" "served (audit_call n)"
proof -
  have "segment_ok ''p''" by (simp add: segment_ok_def not_dots_def)
  note own = page_own_calls_served [OF this this]
  show "served getMetrics" "served getSystemInfo" "served (history_call r)" "served (audit_call n)"
    using own(1,3) own(2) [of "range_text r"] own(4) [of n]
    by (simp_all add: getMetrics_def getSystemInfo_def history_call_def audit_call_def fifty)
qed

lemma listDir_served: "segment_ok name \<Longrightarrow> segment_ok cid \<Longrightarrow> served (listDir name cid path)"
  using page_own_calls_served(5) [of name cid path] by (simp add: listDir_def container_base_def)

lemma accounts_served:
  "served (createUser d)" "served (updateUser n d)" "served (deleteUser n)" "served (createRole d)" "served (updateRole n d)"
  "served (deleteRole n)" "served (createSecret d)" "served (updateSecret n d)" "served (deleteSecret n)" "served (revealSecret n)"
  using account_calls_served [of "''root''"] by (simp_all add: account_calls_def not_dots_def)

lemma services_served:
  "served (createRegistry d)" "served (updateRegistry n d)" "served (deleteRegistry n)" "served (testRegistry n)"
  "served (listRepositories n)" "served (createChannel d)" "served (updateChannel n d)" "served (deleteChannel n)"
  "served (testChannel n)" "served (createRule n d)" "served (deleteRule n)"
  using service_calls_served [of "''r''"] by (simp_all add: service_calls_def)

lemma repository_served: "CHR ''?'' \<notin> set r \<Longrightarrow> served (listRepoTags n r)"
  using service_calls_served [of r] by (simp add: service_calls_def)

lemma system_served:
  "served (login u t)" "served logout" "served getUpdateStatus" "served (updateConfig d)" "served (listFiles p)"
  "served (getFileContent p)" "served (updateFile p t)" "served (deleteFile p)"
  using system_calls_served by (simp_all add: system_calls_def)

lemmas plain_served = accounts_served services_served system_served own_calls_served

subsection \<open>Effects that are served\<close>

definition sends_served :: "client_out \<Rightarrow> bool" where
  "sends_served out = (case out of Send c \<Rightarrow> served c | OpenSocket path \<Rightarrow> dialled path | _ \<Rightarrow> True)"

lemma sends_simps [simp]:
  "sends_served (Send c) = served c" "sends_served (OpenSocket p) = dialled p" "sends_served (ToastOk t)"
  "sends_served (ToastErr t)" "sends_served (ToastInfo t)" "sends_served (ToastWarn t)" "sends_served (GoTo p)"
  "sends_served (Invalidate ks)" "sends_served (CopyText t)" "sends_served (CloseSocket n)" "sends_served ClearQueries"
  "sends_served (Refetch ks)" "sends_served (OpenUrl p)" "sends_served (Uncaught err)"
  by (simp_all add: sends_served_def)

text \<open>
  A page under a condition \<open>ok\<close> on its state, which holds at the start and is kept by all it hears, and under which
  it sends only what is served; and a page that needs no condition.
\<close>

locale served_page =
  fixes heard :: "'s \<Rightarrow> 'e set" and step :: "'e \<Rightarrow> 's \<Rightarrow> 's \<times> client_out list" and start :: 's and ok :: "'s \<Rightarrow> bool"
  assumes starts: "ok start"
    and keeps: "ok s \<Longrightarrow> e \<in> heard s \<Longrightarrow> ok (fst (step e s))"
    and sends: "ok s \<Longrightarrow> e \<in> heard s \<Longrightarrow> list_all sends_served (snd (step e s))"
begin

lemma used_ok: "page_used heard (\<lambda>e s. fst (step e s)) start s \<Longrightarrow> ok s"
  by (erule page_run_inv) (auto intro: starts keeps)

lemma used_served:
  assumes "page_used heard (\<lambda>e s. fst (step e s)) start s"
  shows "\<forall>e \<in> heard s. list_all sends_served (snd (step e s))"
  using sends [OF used_ok [OF assms]] by blast

end

definition served_step :: "'e set \<Rightarrow> ('e \<Rightarrow> 's \<Rightarrow> 's \<times> client_out list) \<Rightarrow> bool" where
  "served_step es step \<longleftrightarrow> (\<forall>e \<in> es. \<forall>s. list_all sends_served (snd (step e s)))"

lemma served_stepI: "(\<And>e s. e \<in> es \<Longrightarrow> list_all sends_served (snd (step e s))) \<Longrightarrow> served_step es step"
  by (simp add: served_step_def)

lemma served_stepD:
  assumes "served_step es step" and "e \<in> es" and "step e s = (t, outs)"
  shows "list_all sends_served outs"
  using assms by (metis served_step_def snd_conv)

end
