(* ===== verification/Detail_Calls.thy ===== *)
theory Detail_Calls
  imports Project_Detail Builder_Properties Served_Pages
begin

section \<open>The requests of the project page\<close>

text \<open>
  The page of one project with its editor and the visual builder in it: what it sends is served, for a plain
  name, as long as the ids of containers, the names of stored files and the names of services that webhooks are
  made for are plain too.
\<close>

subsection \<open>The builder asks for tags and registries\<close>

lemma search_path: "path_segments (call_path (searchImageTags i q r)) = path_segments (call_path (searchImageTags j q' r'))"
  by (simp add: searchImageTags_def api_get_def path_segments_def)

lemma tags_served: "served (searchImageTags i q r)" "served listRegistries"
proof -
  have calls: "served listRegistries" "served (searchImageTags [] (Some []) (Some 0))"
    using service_calls_served [of "''r''"] by (simp_all add: service_calls_def)
  show "served listRegistries" by (rule calls(1))
  have "call_method (searchImageTags i q r) = ''GET''" for i q r by (simp add: searchImageTags_def api_get_def)
  then have "served_by (searchImageTags i q r) = served_by (searchImageTags [] (Some []) (Some 0))"
    using search_path [of i q r "[]" "Some []" "Some 0"] by (auto simp: served_by_def)
  then show "served (searchImageTags i q r)" using calls(2) by (simp add: served_def)
qed

lemma image_fetch: "FetchTags c \<in> set (snd (image_step rs v e s)) \<Longrightarrow> served c"
  by (cases "(rs, v, e, s)" rule: image_step.cases)
    (auto simp: handleRestChange_def handleKeyDown_def selectTag_def backspace_def tags_served split: option.splits if_splits)

lemma no_card_fetch [simp]:
  "CardFetch c \<notin> set (change_with f v)" "CardFetch c \<notin> set (ports_outs svc call)"
  "CardFetch c \<notin> set (snd (commit_name name s))"
  by (auto simp: change_with_def ports_outs_def commit_name_def split: option.splits ports_call.splits if_splits)

lemma main_fetch:
  assumes "main_step rs svc e m = Inr (m', outs)" and "CardFetch c \<in> set outs"
  shows "served c"
proof (cases "\<exists>ie. e = ImageEv ie")
  case True
  then obtain ie where e: "e = ImageEv ie" by blast
  obtain i ws where "image_step rs (str_or [] (svc_image svc)) ie (ms_image m) = (i, ws)" by force
  with assms e image_fetch [of c rs "str_or [] (svc_image svc)" ie "ms_image m"] show ?thesis
    by (auto simp: image_outs_def split: image_out.splits)
next
  case False
  with assms show ?thesis
    by (cases "(rs, svc, e, m)" rule: main_step.cases) (auto simp: bind_result_eq_Inr Let_def split: prod.splits)
qed

lemma advanced_fetch: "CardFetch c \<notin> set (snd (advanced_step svc e a))"
  by (cases "(svc, e, a)" rule: advanced_step.cases) (auto simp: Let_def split: prod.splits)

lemma card_fetch:
  assumes "card_step rs name svc e s = Inr (s', outs)" and "CardFetch c \<in> set outs"
  shows "served c"
proof (cases "in_advanced e")
  case True
  then show ?thesis
    using assms advanced_fetch [of c svc e]
    by (cases e) (auto simp: card_step_def in_advanced_def Let_def split: option.splits prod.splits)
next
  case False
  have name: "commit_name name s = (t, ws) \<Longrightarrow> CardFetch c \<notin> set ws" for t ws
    using no_card_fetch(3) [of c name s] by simp
  from False show ?thesis
    using assms
    by (cases e)
      (auto simp: card_step_def bind_result_eq_Inr simp del: main_step.simps dest: main_fetch name split: option.splits if_splits)
qed

lemma builder_fetch:
  assumes "builder_step cf e b = Inr (b', outs)" and "BuilderFetch c \<in> set outs"
  shows "served c"
proof (cases e)
  case (CardEv name ce)
  with assms obtain k svc k' ws calls where
    "card_step (bs_registries b) name svc ce k = Inr (k', ws)" and calls: "map_result (card_outs cf name) ws = Inr calls"
    and "outs = concat calls"
    by (auto simp: bind_result_eq_Inr split: option.splits)
  moreover from this assms(2) obtain ys where ys: "ys \<in> set calls" "BuilderFetch c \<in> set ys" by auto
  moreover obtain w where w: "w \<in> set ws" "card_outs cf name w = Inr ys" using map_result_set [OF calls ys(1)] by blast
  moreover have "w = CardFetch c" using w(2) ys(2) by (cases w) (auto simp: bind_result_eq_Inr split: option.splits)
  ultimately show ?thesis using card_fetch by blast
qed (use assms in \<open>auto simp: panel_outs_def bind_result_eq_Inr split: option.splits\<close>)

subsection \<open>The page's own requests\<close>

definition file_named :: "project_file \<Rightarrow> bool" where
  "file_named f = not_dots (file_filename f)"

definition plain_containers :: "project \<Rightarrow> bool" where
  "plain_containers p = list_all (\<lambda>c. segment_ok (con_id c)) (prj_containers p)"

text \<open>Whatever happens, but answers bring plain ids and names, and webhooks are made for plain services.\<close>

fun detail_heard :: "detail_event \<Rightarrow> bool" where
  "detail_heard (DeployEv (StartDeploy p act back)) = segment_ok p"
| "detail_heard (detail_event.ProjectsArrived ps) = list_all plain_containers ps"
| "detail_heard (detail_event.DetailArrived d) = list_all file_named (pd_files d)"
| "detail_heard (HooksEv (CreateServiceHook svc)) = segment_ok svc"
| "detail_heard _ = True"

definition detail_ok :: "detail_state \<Rightarrow> bool" where
  "detail_ok s \<longleftrightarrow>
     list_all file_named (dt_original s) \<and> list_all served (dt_chain s) \<and> list_all plain_containers (data_or [] (dt_projects s))
     \<and> (\<forall>d. dt_detail s = Some d \<longrightarrow> list_all file_named (pd_files d))"

text \<open>What \<open>detail_ok\<close> looks at, and the steps that leave it alone.\<close>

definition detail_frame :: "detail_state \<Rightarrow> project_file list \<times> api_call list \<times> project list query \<times> project_detail option" where
  "detail_frame s = (dt_original s, dt_chain s, dt_projects s, dt_detail s)"

lemma frame_ok: "detail_frame t = detail_frame s \<Longrightarrow> detail_ok t = detail_ok s"
  by (simp add: detail_frame_def detail_ok_def)

lemma frame_fields [simp]:
  "detail_frame (dt_editing_update g_editing s) = detail_frame s" "detail_frame (dt_confirm_update g_confirm s) = detail_frame s"
  "detail_frame (dt_repullOpen_update g_repullOpen s) = detail_frame s" "detail_frame (dt_showUpdates_update g_showUpdates s) = detail_frame s"
  "detail_frame (dt_showRedeploy_update g_showRedeploy s) = detail_frame s" "detail_frame (dt_deploy_update g_deploy s) = detail_frame s"
  "detail_frame (dt_repull_update g_repull s) = detail_frame s" "detail_frame (dt_description_update g_description s) = detail_frame s"
  "detail_frame (dt_compose_update g_compose s) = detail_frame s" "detail_frame (dt_mode_update g_mode s) = detail_frame s"
  "detail_frame (dt_model_update g_model s) = detail_frame s" "detail_frame (dt_builder_update g_builder s) = detail_frame s"
  "detail_frame (dt_env_update g_env s) = detail_frame s" "detail_frame (dt_files_update g_files s) = detail_frame s"
  "detail_frame (dt_tab_update g_tab s) = detail_frame s" "detail_frame (dt_saving_update g_saving s) = detail_frame s"
  "detail_frame (dt_offer_update g_offer s) = detail_frame s" "detail_frame (dt_updates_update g_updates s) = detail_frame s"
  "detail_frame (dt_stats_update g_stats s) = detail_frame s" "detail_frame (dt_rows_update g_rows s) = detail_frame s"
  "detail_frame (dt_secrets_update g_secrets s) = detail_frame s" "detail_frame (dt_hooks_update g_hooks s) = detail_frame s"
  "detail_frame (dt_cards_update g_cards s) = detail_frame s" "detail_frame (dt_typed_update g_typed s) = detail_frame s"
  "detail_frame (dt_stopPending_update g_stopPending s) = detail_frame s" "detail_frame (dt_restartPending_update g_restartPending s) = detail_frame s"
  "detail_frame (dt_delPending_update g_delPending s) = detail_frame s"
  by (simp_all add: detail_frame_def)

lemma frame_out: "detail_frame (fst (detail_builder_out dump w p)) = detail_frame (fst p)"
  by (cases w; cases p) (auto simp: detail_frame_def detail_model_changed_def Let_def split: sum.split)

lemma frame_outs: "detail_frame (fst (fold (detail_builder_out dump) ws p)) = detail_frame (fst p)"
  by (induction ws arbitrary: p) (simp_all add: frame_out)

lemma frame_edit: "detail_frame (fst (detail_edit load dump e s)) = detail_frame s"
proof (cases e)
  case (BuilderEv be)
  then show ?thesis by (auto simp: frame_outs split: option.split sum.split)
qed (auto simp: detail_frame_def split: sum.split)

lemma frame_mount: "detail_frame (fst (detail_mount_builder s)) = detail_frame s"
  by (auto simp: detail_frame_def detail_mount_builder_def split: option.split prod.split)

lemma frame_deploy: "detail_frame (fst (deploy_events json name es s)) = detail_frame s"
  by (simp add: detail_frame_def deploy_events_def case_prod_beta)

text \<open>The effects of the editor and of a deployment.\<close>

lemma outs_served:
  assumes "\<forall>c. BuilderFetch c \<in> set ws \<longrightarrow> served c" and "list_all sends_served (snd p)"
  shows "list_all sends_served (snd (fold (detail_builder_out dump) ws p))"
  using assms
proof (induction ws arbitrary: p)
  case (Cons w ws)
  have "list_all sends_served (snd (detail_builder_out dump w p))"
    using Cons.prems by (cases w; cases p) (auto simp: detail_model_changed_def Let_def split: sum.split)
  then show ?case using Cons by simp
qed simp

lemma edit_served: "list_all sends_served (snd (detail_edit load dump e s))"
proof (cases e)
  case (BuilderEv be)
  then show ?thesis
    by (auto intro!: outs_served dest: builder_fetch split: option.split sum.split)
qed (auto split: sum.split)

lemma mount_served: "list_all sends_served (snd (detail_mount_builder s))"
  by (auto simp: detail_mount_builder_def builder_init_def tags_served split: option.split)

text \<open>A deployment of a plain project is dialled.\<close>

fun plain_deploy :: "deploy_event \<Rightarrow> bool" where
  "plain_deploy (StartDeploy p act back) = segment_ok p"
| "plain_deploy _ = True"

definition deploy_ok :: "deploy_out \<Rightarrow> bool" where
  "deploy_ok w \<longleftrightarrow> (\<forall>path. w = OpenDeploy path \<longrightarrow> dialled path)"

lemma deploy_step_ok: "plain_deploy e \<Longrightarrow> list_all deploy_ok (snd (deploy_step json e s))"
  by (cases e)
    (auto simp: deploy_ok_def start_deploy_def deploy_message_def deploy_done_def Let_def project_sockets_dialled split: option.split)

lemma deploy_run_ok: "list_all plain_deploy es \<Longrightarrow> list_all deploy_ok (snd (deploy_run json es s))"
  using deploy_step_ok by (induction es arbitrary: s) (simp_all add: Let_def case_prod_beta)

lemma deploy_served:
  assumes "list_all plain_deploy es"
  shows "list_all sends_served (snd (deploy_events json name es s))"
proof -
  have "deploy_ok w \<Longrightarrow> list_all sends_served (deploy_outs name w)" for w by (cases w) (simp_all add: deploy_ok_def)
  then show ?thesis
    using deploy_run_ok [OF assms] by (fastforce simp: deploy_events_def list_all_iff case_prod_beta Let_def)
qed

lemma repull_plain: "segment_ok name \<Longrightarrow> list_all plain_deploy (fst (snd (repull_step name e r)))"
  by (cases e) simp_all

subsection \<open>The handlers\<close>

text \<open>A request's body does not decide whether it is served.\<close>

lemma served_alike:
  assumes "served c" and "call_method d = call_method c" and "call_path d = call_path c"
  shows "served d"
proof -
  have "served_by d = served_by c" using assms(2,3) by (auto simp: served_by_def)
  with assms(1) show ?thesis by (simp add: served_def)
qed

lemma project_page_calls_served:
  assumes "segment_ok name"
  shows "served (deleteProject name)" "served (updateProject name form)" "served (listWebhooks name)"
    "served (createProjectWebhook name)" "served (deleteWebhook name n)" "served (patchProjectConfig name d)"
    "served (setProjectSecrets name xs)" "served (upsertProjectFile name f content)"
    "not_dots f \<Longrightarrow> served (deleteProjectFile name f)"
    "segment_ok cid \<Longrightarrow> served (containerAction name cid act)" "segment_ok cid \<Longrightarrow> served (createServiceWebhook name cid)"
proof -
  have f: "not_dots ''f''" by (simp add: not_dots_def)
  note plain = project_calls_served [OF assms assms f f]
  show "served (deleteProject name)" "served (updateProject name form)" "served (listWebhooks name)"
    "served (createProjectWebhook name)" "served (deleteWebhook name n)" "served (patchProjectConfig name d)"
    using plain [of n form d] by (simp_all add: project_calls_def)
  have calls: "served (setProjectSecrets name [(0, ''f'')])" "served (upsertProjectFile name ''f'' ''f'')"
    using plain by (simp_all add: project_calls_def)
  show "served (setProjectSecrets name xs)"
    by (rule served_alike [OF calls(1)]) (simp_all add: setProjectSecrets_def api_put_def)
  show "served (upsertProjectFile name f content)"
    by (rule served_alike [OF calls(2)]) (simp_all add: upsertProjectFile_def api_put_def)
  show "not_dots f \<Longrightarrow> served (deleteProjectFile name f)"
    using project_calls_served [OF assms assms _ f, of f] by (simp add: project_calls_def)
  show "segment_ok cid \<Longrightarrow> served (containerAction name cid act)" "segment_ok cid \<Longrightarrow> served (createServiceWebhook name cid)"
    using project_calls_served [OF assms _ f f, of cid] by (cases act; simp add: project_calls_def)+
qed

lemma file_ops_served:
  assumes "segment_ok name" and "list_all file_named orig"
  shows "list_all served (map (file_call name) (file_ops orig fs))"
  using assms
  by (auto simp: list_all_iff file_ops_def delete_ops_def changed_ops_def new_ops_def file_named_def project_page_calls_served)

lemma detail_calls_served:
  assumes "segment_ok name" and "detail_ok s"
  shows "list_all served (detail_calls name s)"
  using assms file_ops_served [of name "dt_original s" "dt_files s"]
  by (simp add: detail_calls_def detail_ok_def project_page_calls_served)

lemma row_served:
  assumes "segment_ok name" and "segment_ok (con_id c)"
  shows "list_all sends_served (snd (row_step name c e r))"
  using assms
  by (cases "(name, c, e, r)" rule: row_step.cases)
    (auto simp: run_action_def project_page_calls_served split: prod.splits)

lemma secrets_served:
  assumes "segment_ok name"
  shows "list_all sends_served (snd (secrets_step name e x))"
proof -
  have "served listSecrets" using account_calls_served [of "''root''"] by (simp add: account_calls_def not_dots_def)
  with assms show ?thesis
    by (cases "(name, e, x)" rule: secrets_step.cases)
      (auto simp: handleAdd_def handleRemove_def project_page_calls_served split: option.split)
qed

lemma hooks_served:
  assumes "segment_ok name" and "detail_heard (HooksEv e)"
  shows "list_all sends_served (snd (hooks_step origin name e x))"
  using assms
  by (cases "(origin, name, e, x)" rule: hooks_step.cases) (auto simp: hook_created_def project_page_calls_served)

lemma containers_plain:
  assumes "detail_ok s" and "container_of name i s = Some c"
  shows "segment_ok (con_id c)"
  using assms
  by (auto simp: detail_ok_def container_of_def live_containers_def liveProject_def plain_containers_def find_Some_iff
      list_all_length split: option.splits)

lemma frame_action [simp]:
  "detail_frame (fst (page_action name k s)) = detail_frame s" "detail_frame (fst (page_action_done k s)) = detail_frame s"
  "detail_frame (fst (page_action_failed k msg s)) = detail_frame s" "detail_frame (fst (confirm_delete name s)) = detail_frame s"
  by (cases k; simp add: confirm_delete_def)+

lemma frame_handle:
  assumes "\<And>ps. e \<noteq> detail_event.ProjectsArrived ps" and "\<And>d. e \<noteq> detail_event.DetailArrived d"
    and "e \<notin> {CancelEdit, SaveDetail, DetailCallDone, DetailCallFailed}"
  shows "detail_frame (fst (detail_handle load dump json origin name e s)) = detail_frame s"
  using assms
  by (cases "(load, dump, json, origin, name, e, s)" rule: detail_handle.cases)
    (simp_all add: Let_def case_prod_beta frame_edit frame_deploy split: option.split bool.split)

lemma save_served:
  assumes "segment_ok name" and "detail_ok s"
  shows "detail_ok (fst (detail_handleSave name s))" and "list_all sends_served (snd (detail_handleSave name s))"
proof -
  obtain c cs where calls: "detail_calls name s = c # cs" by (simp add: detail_calls_def)
  then have served: "served c" "list_all served cs" using detail_calls_served [OF assms] by simp_all
  show "detail_ok (fst (detail_handleSave name s))" and "list_all sends_served (snd (detail_handleSave name s))"
    using assms(2) served by (simp_all add: detail_handleSave_def calls detail_ok_def)
qed

lemma detail_handle_ok:
  assumes "segment_ok name" and "detail_ok s" and "detail_heard e"
  shows "detail_ok (fst (detail_handle load dump json origin name e s))"
proof -
  consider ps where "e = detail_event.ProjectsArrived ps" | d where "e = detail_event.DetailArrived d" | "e = CancelEdit"
    | "e = SaveDetail" | "e = DetailCallDone" | "e = DetailCallFailed"
    | "(\<forall>ps. e \<noteq> detail_event.ProjectsArrived ps) \<and> (\<forall>d. e \<noteq> detail_event.DetailArrived d)
        \<and> e \<notin> {CancelEdit, SaveDetail, DetailCallDone, DetailCallFailed}"
    by blast
  then show ?thesis
  proof cases
    case 4
    then show ?thesis using assms save_served by simp
  next
    case 5
    then show ?thesis using assms(2) by (auto simp: detail_ok_def detail_saved_def split: list.split)
  next
    case 7
    then have "detail_frame (fst (detail_handle load dump json origin name e s)) = detail_frame s"
      by (intro frame_handle) auto
    then show ?thesis using frame_ok assms(2) by blast
  qed (use assms in \<open>auto simp: detail_ok_def prune_rows_def fill_editor_def cancelEdit_def Let_def split: option.split\<close>)
qed

lemma action_served:
  assumes "segment_ok name"
  shows "list_all sends_served (snd (page_action name k s))" "list_all sends_served (snd (page_action_done k s))"
    "list_all sends_served (snd (page_action_failed k msg s))" "list_all sends_served (snd (confirm_delete name s))"
  using assms by (cases k; simp add: confirm_delete_def project_row_calls_served project_page_calls_served)+

lemma detail_handle_served:
  assumes "segment_ok name" and "detail_ok s" and "detail_heard e"
  shows "list_all sends_served (snd (detail_handle load dump json origin name e s))"
proof (cases e)
  case (RowEv i r)
  then show ?thesis
    using row_served [OF assms(1) containers_plain [OF assms(2)]] by (auto simp: Let_def case_prod_beta split: option.split)
next
  case (HooksEv h)
  then show ?thesis using hooks_served [OF assms(1)] assms(3) by (simp add: Let_def case_prod_beta)
next
  case SaveDetail
  then show ?thesis using save_served [OF assms(1,2)] by simp
next
  case DetailCallDone
  then show ?thesis using assms(2) by (auto simp: detail_ok_def detail_saved_def split: list.split)
next
  case (UpdatesEv u)
  then show ?thesis by (cases u) simp_all
next
  case (DeployEv d)
  then have "plain_deploy d" using assms(3) by (cases d) simp_all
  then show ?thesis using DeployEv deploy_served [of "[d]"] by simp
qed (use assms(1) in \<open>simp_all add: Let_def case_prod_beta edit_served deploy_served repull_plain secrets_served action_served
    project_row_calls_served project_page_calls_served split: option.split bool.split\<close>)

lemma detail_ok_step:
  assumes "segment_ok name" and "detail_ok s" and "detail_heard e"
  shows "detail_ok (fst (detail_step load dump json origin name e s))"
    and "list_all sends_served (snd (detail_step load dump json origin name e s))"
proof -
  note handled = detail_handle_ok [OF assms, of load dump json origin]
  show "detail_ok (fst (detail_step load dump json origin name e s))"
    using handled frame_ok [OF frame_mount] by (simp add: detail_step_def Let_def case_prod_beta)
  show "list_all sends_served (snd (detail_step load dump json origin name e s))"
    using detail_handle_served [OF assms] mount_served by (simp add: detail_step_def Let_def case_prod_beta)
qed

lemma detail_ok_init: "detail_ok (detail_init cached)"
  by (simp add: detail_ok_def detail_init_def)

text \<open>The page of a project whose name is no plain segment hears nothing here.\<close>

definition detail_events_heard :: "string \<Rightarrow> detail_event set" where
  "detail_events_heard name = {e. segment_ok name \<and> detail_heard e}"

interpretation detail: served_page "\<lambda>_. detail_events_heard name" "detail_step load dump json origin name" "detail_init cached" detail_ok
  for load dump json origin name cached
  by unfold_locales (auto simp: detail_events_heard_def intro: detail_ok_init detail_ok_step)

end
