(* ===== verification/Page_Calls.thy ===== *)
theory Page_Calls
  imports Detail_Calls Resource_Properties Project_Resources
    App_Shell Access_Properties Form_Properties Settings_Properties
begin

section \<open>The pages' calls meet the server's routes\<close>

text \<open>
  The calls of \<open>api/\<close> are served for plain ids (\<open>api_calls_served\<close>). Here the pages that show Docker's resources
  are used by what they render and by answers whose ids are plain, and what they send stays among those
  calls.
\<close>

subsection \<open>Pages in use\<close>

abbreviation plain_lists :: "('a \<Rightarrow> bool) \<Rightarrow> 'a list query \<Rightarrow> bool" where
  "plain_lists ok q \<equiv> list_all ok (data_or [] q)"

text \<open>The answers a page gets; those with a list bring plain ids.\<close>

fun networks_answer :: "networks_page_event \<Rightarrow> bool" where
  "networks_answer (NetworksArrived q) = plain_lists (\<lambda>n. segment_ok (net_id n)) q"
| "networks_answer e = (e = NetworkCreated \<or> e = NetworkDeleted \<or> (\<exists>m. e = NetworkCreateFailed m \<or> e = NetworkDeleteFailed m))"

fun volumes_answer :: "volumes_page_event \<Rightarrow> bool" where
  "volumes_answer (VolumesArrived q) = plain_lists (\<lambda>v. not_dots (vs_name v)) q"
| "volumes_answer e = (e = VolumeCreated \<or> e = VolumeDeleted \<or> (\<exists>m. e = VolumeCreateFailed m \<or> e = VolumeDeleteFailed m))"

fun containers_answer :: "containers_event \<Rightarrow> bool" where
  "containers_answer (ContainersListed b q) = plain_lists (\<lambda>c. segment_ok (so_id c)) q"
| "containers_answer e =
     (e = PollContainers \<or> e = ContainerCreated \<or> e = ContainerRemoved
      \<or> (\<exists>m. e = ContainerCreateFailed m \<or> e = ContainerRemoveFailed m))"

fun projects_answer :: "projects_event \<Rightarrow> bool" where
  "projects_answer (ProjectsArrived q) = plain_lists (\<lambda>p. segment_ok (prj_name p)) q"
| "projects_answer (Row name e) =
     (segment_ok name \<and> e \<in> {Started, Stopped, Restarted} \<union> range StartFailed \<union> range StopFailed \<union> range RestartFailed \<union> range UpdatesChecked)"
| "projects_answer NewProject = False"

definition networks_heard :: "networks_page \<Rightarrow> networks_page_event set" where
  "networks_heard s = view_events (Networks s) \<union> Collect networks_answer"

definition volumes_heard :: "volumes_page \<Rightarrow> volumes_page_event set" where
  "volumes_heard s = view_events (Volumes s) \<union> Collect volumes_answer"

definition containers_heard :: "containers_page \<Rightarrow> containers_event set" where
  "containers_heard s = view_events (Containers s) \<union> Collect containers_answer"

definition projects_heard :: "formats \<Rightarrow> projects_page \<Rightarrow> projects_event set" where
  "projects_heard fm s = view_events (Projects fm s) \<union> Collect projects_answer"

lemma asked_from_list:
  "AskDeleteNetwork i \<in> view_events (Networks s) \<Longrightarrow> i \<in> net_id ` set (data_or [] (nw_list s))"
  "AskDeleteVolume v \<in> view_events (Volumes t) \<Longrightarrow> v \<in> vs_name ` set (data_or [] (vl_list t))"
  "AskRemoveContainer c \<in> view_events (Containers u) \<Longrightarrow> c \<in> so_id ` set (shown_containers u)"
proof -
  show "AskDeleteNetwork i \<in> view_events (Networks s) \<Longrightarrow> i \<in> net_id ` set (data_or [] (nw_list s))"
    by (auto simp: Networks_def networks_table_def CreateNetworkDialog_def delete_network_box_def network_list_row_def Let_def filter_eq_Cons_iff
        split: if_splits option.splits list.splits)
  show "AskDeleteVolume v \<in> view_events (Volumes t) \<Longrightarrow> v \<in> vs_name ` set (data_or [] (vl_list t))"
    by (auto simp: Volumes_def volumes_table_def CreateVolumeDialog_def delete_volume_box_def volume_list_row_def Let_def filter_eq_Cons_iff
        split: if_splits option.splits list.splits)
  show "AskRemoveContainer c \<in> view_events (Containers u) \<Longrightarrow> c \<in> so_id ` set (shown_containers u)"
    by (auto simp: Containers_def containers_table_def CreateContainerDialog_def remove_container_box_def container_row_def Let_def
        split: if_splits option.splits list.splits)
qed

text \<open>No control raises the arrival of a list.\<close>

lemma networks_arrive_only: "NetworksArrived q \<notin> view_events (Networks s)"
  by (auto simp: Networks_def networks_table_def CreateNetworkDialog_def delete_network_box_def network_list_row_def Let_def
      split: if_splits option.splits list.splits)

lemma volumes_arrive_only: "VolumesArrived q \<notin> view_events (Volumes s)"
  by (auto simp: Volumes_def volumes_table_def CreateVolumeDialog_def delete_volume_box_def volume_list_row_def Let_def
      split: if_splits option.splits list.splits)

lemma containers_arrive_only: "ContainersListed b q \<notin> view_events (Containers s)"
  by (auto simp: Containers_def containers_table_def CreateContainerDialog_def remove_container_box_def container_row_def Let_def
      split: if_splits option.splits list.splits)

text \<open>The ids of the lists and of the open question stay plain.\<close>

definition networks_ok :: "networks_page \<Rightarrow> bool" where
  "networks_ok s \<longleftrightarrow>
     list_all (\<lambda>n. segment_ok (net_id n)) (data_or [] (nw_list s)) \<and> (\<forall>i. nw_deleting s = Some i \<longrightarrow> segment_ok i)"

definition volumes_ok :: "volumes_page \<Rightarrow> bool" where
  "volumes_ok s \<longleftrightarrow>
     list_all (\<lambda>v. not_dots (vs_name v)) (data_or [] (vl_list s)) \<and> (\<forall>n. vl_deleting s = Some n \<longrightarrow> not_dots n)"

definition containers_ok :: "containers_page \<Rightarrow> bool" where
  "containers_ok s \<longleftrightarrow>
     (\<forall>b. list_all (\<lambda>c. segment_ok (so_id c)) (data_or [] (cp_lists s b))) \<and> (\<forall>i. cp_deletingId s = Some i \<longrightarrow> segment_ok i)"

lemma networks_ok_step:
  assumes "networks_ok s" and "e \<in> networks_heard s"
  shows "networks_ok (fst (networks_page_step e s))"
    and "list_all sends_served (snd (networks_page_step e s))"
proof -
  have asked: "e = AskDeleteNetwork i \<Longrightarrow> segment_ok i" for i
    using assms asked_from_list(1) [of i s] by (auto simp: networks_heard_def networks_ok_def list_all_iff)
  have arrived: "e = NetworksArrived q \<Longrightarrow> plain_lists (\<lambda>n. segment_ok (net_id n)) q" for q
    using assms(2) networks_arrive_only [of q s] by (auto simp: networks_heard_def)
  show "networks_ok (fst (networks_page_step e s))"
    using assms(1) asked arrived by (cases e) (auto simp: networks_ok_def)
  show "list_all sends_served (snd (networks_page_step e s))"
    using assms(1)
    by (cases e) (auto simp: networks_ok_def plain_calls_served resource_calls_served split: if_splits option.splits)
qed

lemma volumes_ok_step:
  assumes "volumes_ok s" and "e \<in> volumes_heard s"
  shows "volumes_ok (fst (volumes_page_step e s))"
    and "list_all sends_served (snd (volumes_page_step e s))"
proof -
  have asked: "e = AskDeleteVolume i \<Longrightarrow> not_dots i" for i
    using assms asked_from_list(2) [of i s] by (auto simp: volumes_heard_def volumes_ok_def list_all_iff)
  have arrived: "e = VolumesArrived q \<Longrightarrow> plain_lists (\<lambda>v. not_dots (vs_name v)) q" for q
    using assms(2) volumes_arrive_only [of q s] by (auto simp: volumes_heard_def)
  show "volumes_ok (fst (volumes_page_step e s))"
    using assms(1) asked arrived by (cases e) (auto simp: volumes_ok_def)
  show "list_all sends_served (snd (volumes_page_step e s))"
    using assms(1)
    by (cases e) (auto simp: volumes_ok_def plain_calls_served volume_calls_served split: if_splits option.splits)
qed

lemma containers_ok_step:
  assumes "containers_ok s" and "e \<in> containers_heard s"
  shows "containers_ok (fst (containers_step e s))"
    and "list_all sends_served (snd (containers_step e s))"
proof -
  have asked: "e = AskRemoveContainer i \<Longrightarrow> segment_ok i" for i
    using assms asked_from_list(3) [of i s]
    by (auto simp: containers_heard_def containers_ok_def shown_containers_def list_all_iff)
  have arrived: "e = ContainersListed b q \<Longrightarrow> plain_lists (\<lambda>c. segment_ok (so_id c)) q" for b q
    using assms(2) containers_arrive_only [of b q s] by (auto simp: containers_heard_def)
  show "containers_ok (fst (containers_step e s))"
    using assms(1) asked arrived by (cases e) (auto simp: containers_ok_def)
  show "list_all sends_served (snd (containers_step e s))"
    using assms(1)
    by (cases e) (auto simp: containers_ok_def plain_calls_served resource_calls_served split: if_splits option.splits)
qed

text \<open>Projects: a row's events carry the name of a project of the list.\<close>

definition projects_ok :: "projects_page \<Rightarrow> bool" where
  "projects_ok s \<longleftrightarrow> list_all (\<lambda>p. segment_ok (prj_name p)) (data_or [] (pp_projects s))"

lemma row_of_project: "Row name e \<in> view_events (Projects fm s) \<Longrightarrow> name \<in> prj_name ` set (data_or [] (pp_projects s))"
  by (auto simp: Projects_def projects_list_def Let_def split: if_splits)

lemma projects_arrive_only: "ProjectsArrived q \<notin> view_events (Projects fm s)"
  by (auto simp: Projects_def projects_list_def Let_def split: if_splits)

lemma project_row_sends: "segment_ok name \<Longrightarrow> list_all sends_served (snd (project_row_step name e r))"
  by (cases "(name, e, r)" rule: project_row_step.cases) (auto simp: project_row_calls_served)

lemma projects_ok_step:
  assumes "projects_ok s" and "e \<in> projects_heard fm s"
  shows "projects_ok (fst (projects_step e s))"
    and "list_all sends_served (snd (projects_step e s))"
proof -
  have row: "e = Row name ev \<Longrightarrow> segment_ok name" for name ev
    using assms row_of_project [of name ev fm s] by (auto simp: projects_heard_def projects_ok_def list_all_iff)
  have arrived: "e = ProjectsArrived q \<Longrightarrow> plain_lists (\<lambda>p. segment_ok (prj_name p)) q" for q
    using assms(2) projects_arrive_only [of q fm s] by (auto simp: projects_heard_def)
  show "projects_ok (fst (projects_step e s))"
    using assms(1) arrived by (cases e) (auto simp: projects_ok_def split: prod.splits)
  show "list_all sends_served (snd (projects_step e s))"
  proof (cases e)
    case (Row name ev)
    with row project_row_sends [of name ev "pp_rows s name"] show ?thesis by (auto split: prod.splits)
  next
    case (ProjectsArrived q)
    with arrived show ?thesis by (auto simp: ask_updates_def list_all_iff project_row_calls_served)
  qed simp
qed

text \<open>
  Images: whatever happens, as long as the lists that arrive hold plain ids and so has a build that was started;
  only images of the list are removed.
\<close>

definition images_heard :: "images_event set" where
  "images_heard =
     {e. (\<forall>q. e = ImagesListed q \<longrightarrow> plain_lists (\<lambda>i. segment_ok (img_id i)) q)
       \<and> (\<forall>i. e = Build (BuildStarted i) \<longrightarrow> segment_ok i)}"

definition images_ok :: "images_page \<Rightarrow> bool" where
  "images_ok s \<longleftrightarrow>
     list_all (\<lambda>i. segment_ok (img_id i)) (data_or [] (im_images s)) \<and> list_all segment_ok (list_of_opt (im_removing s))"

lemma deletable_plain: "images_ok s \<Longrightarrow> list_all segment_ok (deletableSelected s)"
  by (auto simp: images_ok_def deletableSelected_def list_all_iff find_Some_iff split: option.splits)

lemma build_sends: "(\<And>i. e = BuildStarted i \<Longrightarrow> segment_ok i) \<Longrightarrow> list_all sends_served (snd (build_step json e d))"
  by (cases "(json, e, d)" rule: build_step.cases)
    (auto simp: plain_calls_served build_socket_dialled build_message_def Let_def split: option.split)

lemma remove_next_ok:
  assumes "list_all (\<lambda>i. segment_ok (img_id i)) (data_or [] (im_images s))" and "list_all segment_ok ids"
  shows "images_ok (fst (remove_next ids s))" and "list_all sends_served (snd (remove_next ids s))"
  using assms
  by (auto simp: remove_next_def images_removed_def images_ok_def resource_calls_served list_of_opt_def split: list.splits)

lemma images_ok_step:
  assumes "images_ok s" and "e \<in> images_heard"
  shows "images_ok (fst (images_step json e s))"
    and "list_all sends_served (snd (images_step json e s))"
proof -
  have data: "list_all (\<lambda>i. segment_ok (img_id i)) (data_or [] (im_images s))" and removing: "list_all segment_ok (list_of_opt (im_removing s))"
    using assms(1) by (simp_all add: images_ok_def)
  have confirmed: "list_all (\<lambda>i. segment_ok (img_id i)) (data_or [] (im_images (s\<lparr>im_confirm := False\<rparr>)))" using data by simp
  have "images_ok (fst (images_step json e s)) \<and> list_all sends_served (snd (images_step json e s))"
  proof (cases e)
    case RemoveImagesConfirmed
    then show ?thesis
      using remove_next_ok [OF confirmed deletable_plain [OF assms(1)]] by auto
  next
    case ImageRemoved
    show ?thesis
    proof (cases "im_removing s")
      case None
      with ImageRemoved assms(1) show ?thesis by simp
    next
      case (Some ids)
      then have "list_all segment_ok (tl ids)" using removing by (cases ids) (auto simp: list_of_opt_def)
      with ImageRemoved Some remove_next_ok [OF data this] show ?thesis by auto
    qed
  next
    case (Build ev)
    show ?thesis
    proof (cases "im_build s")
      case (Some d)
      have "\<And>i. ev = BuildStarted i \<Longrightarrow> segment_ok i" using assms(2) Build by (simp add: images_heard_def)
      with Some Build assms(1) build_sends [of ev json d] show ?thesis
        by (cases "build_step json ev d") (auto simp: images_ok_def)
    qed (use Build assms(1) in simp)
  next
    case (ImagesListed q)
    then show ?thesis using assms by (auto simp: images_heard_def images_ok_def)
  qed (use assms in \<open>auto simp: images_ok_def Let_def list_of_opt_def split: option.splits\<close>)
  then show "images_ok (fst (images_step json e s))" and "list_all sends_served (snd (images_step json e s))" by auto
qed

text \<open>A project's images: the question is about an image of the list.\<close>

fun tab_images_answer :: "tab_images_event \<Rightarrow> bool" where
  "tab_images_answer (TabImagesListed q) = plain_lists (\<lambda>i. segment_ok (img_id i)) q"
| "tab_images_answer e = (\<exists>k m. e = TabImageRemoved k \<or> e = TabImageRemoveFailed k m)"

definition tab_images_heard :: "(nat \<Rightarrow> string) \<Rightarrow> string \<Rightarrow> tab_images \<Rightarrow> tab_images_event set" where
  "tab_images_heard fmt name s = view_events (ProjectImages fmt name s) \<union> Collect tab_images_answer"

definition tab_images_ok :: "tab_images \<Rightarrow> bool" where
  "tab_images_ok s \<longleftrightarrow>
     list_all (\<lambda>i. segment_ok (img_id i)) (data_or [] (ti_images s)) \<and> (\<forall>i. ti_target s = Some i \<longrightarrow> segment_ok (img_id i))"

lemma tab_images_ok_step:
  assumes "tab_images_ok s" and "e \<in> tab_images_heard fmt name s"
  shows "tab_images_ok (fst (tab_images_step name e s))"
    and "list_all sends_served (snd (tab_images_step name e s))"
proof -
  have asked: "e = AskRemoveImage i \<Longrightarrow> segment_ok (img_id i)" for i
    using assms asked_image_listed(1) [of i fmt name s] by (auto simp: tab_images_heard_def tab_images_ok_def list_all_iff)
  have arrived: "e = TabImagesListed q \<Longrightarrow> plain_lists (\<lambda>i. segment_ok (img_id i)) q" for q
    using assms(2) tab_list_not_raised [of q fmt name s] by (auto simp: tab_images_heard_def)
  show "tab_images_ok (fst (tab_images_step name e s))"
    using assms(1) asked arrived by (cases e) (auto simp: tab_images_ok_def tab_settled_def split: option.splits)
  show "list_all sends_served (snd (tab_images_step name e s))"
    using assms(1) by (cases e) (auto simp: tab_images_ok_def resource_calls_served split: option.split)
qed

lemma pages_ok_init:
  "networks_ok networks_init" "volumes_ok volumes_init" "containers_ok containers_init" "images_ok images_init"
  "projects_ok projects_init" "tab_images_ok tab_images_init"
  by (simp_all add: networks_ok_def networks_init_def volumes_ok_def volumes_init_def containers_ok_def containers_init_def
      images_ok_def images_init_def list_of_opt_def projects_ok_def projects_init_def tab_images_ok_def tab_images_init_def)

interpretation networks: served_page networks_heard networks_page_step networks_init networks_ok
  by unfold_locales (blast intro: pages_ok_init networks_ok_step)+

interpretation volumes: served_page volumes_heard volumes_page_step volumes_init volumes_ok
  by unfold_locales (blast intro: pages_ok_init volumes_ok_step)+

interpretation containers: served_page containers_heard containers_step containers_init containers_ok
  by unfold_locales (blast intro: pages_ok_init containers_ok_step)+

interpretation images: served_page "\<lambda>_. images_heard" "images_step json" images_init images_ok for json
  by unfold_locales (blast intro: pages_ok_init images_ok_step)+

interpretation projects: served_page "projects_heard fm" projects_step projects_init projects_ok for fm
  by unfold_locales (blast intro: pages_ok_init projects_ok_step)+

interpretation tab_images: served_page "tab_images_heard fmt name" "tab_images_step name" tab_images_init tab_images_ok for fmt name
  by unfold_locales (blast intro: pages_ok_init tab_images_ok_step)+

subsection \<open>Pages whose requests need no condition\<close>

lemma secrets_page_served: "served_step UNIV secrets_page_step"
  by (rule served_stepI, rename_tac e s, case_tac "(e, s)" rule: secrets_page_step.cases) (auto simp: plain_served split: if_splits option.splits)

lemma channel_served: "served_step UNIV (channel_step n)"
  by (rule served_stepI, rename_tac e s, case_tac "(n, e, s)" rule: channel_step.cases) (auto simp: plain_served split: if_splits option.splits)

lemma notify_served: "served_step UNIV notify_step"
  by (rule served_stepI, rename_tac e s, case_tac "(e, s)" rule: notify_step.cases)
    (auto simp: plain_served dest: served_stepD [OF channel_served UNIV_I] split: if_splits option.splits prod.splits)

lemma users_served: "served_step UNIV users_step"
  by (rule served_stepI, rename_tac e s, case_tac "(e, s)" rule: users_step.cases) (auto simp: plain_served split: if_splits option.splits)

lemma roles_served: "served_step UNIV roles_step"
  by (rule served_stepI, rename_tac e s, case_tac "(e, s)" rule: roles_step.cases)
    (auto simp: plain_served role_save_def split: if_splits option.splits)

lemma settings_served: "served_step UNIV settings_step"
  by (rule served_stepI, rename_tac e s, case_tac "(e, s)" rule: settings_step.cases) (auto simp: plain_served Let_def split: if_splits)

lemma files_served: "served_step UNIV files_step"
  by (rule served_stepI, rename_tac e s, case_tac "(e, s)" rule: files_step.cases) (auto simp: plain_served split: if_splits option.splits)

lemma system_page_served: "served_step UNIV system_step"
  by (rule served_stepI, rename_tac e s, case_tac "(e, s)" rule: system_step.cases) (auto simp: plain_served split: if_splits)

lemma audit_served: "served_step UNIV audit_step"
  by (rule served_stepI, rename_tac e s, case_tac "(e, s)" rule: audit_step.cases) (auto simp: plain_served set_offset_def split: if_splits)

lemma login_served: "served_step UNIV login_step"
proof (rule served_stepI)
  show "list_all sends_served (snd (login_step e s))" for e s
    by (cases e) (auto simp: plain_served Let_def split: if_splits)
qed

lemma layout_served: "served_step UNIV layout_step"
  by (rule served_stepI, rename_tac e s, case_tac "(e, s)" rule: layout_step.cases)
    (auto simp: plain_served split: if_splits)

text \<open>A container's files, for a plain project and container; a registry's tags, for repositories without \<open>?\<close>.\<close>

lemma cfiles_served:
  assumes "segment_ok name" and "segment_ok cid"
  shows "served_step UNIV (cfiles_step name cid)"
  by (rule served_stepI, rename_tac e s, case_tac "(name, cid, e, s)" rule: cfiles_step.cases)
    (auto simp: set_cpath_def listDir_served [OF assms] split: if_splits)

definition plain_repositories :: "registries_event set" where
  "plain_repositories = {e. \<forall>r n. e = Card r (ToggleTags n) \<longrightarrow> CHR ''?'' \<notin> set n}"

lemma card_served: "served_step {e. \<forall>n. e = ToggleTags n \<longrightarrow> CHR ''?'' \<notin> set n} (registry_card_step r)"
  by (rule served_stepI, rename_tac e s, case_tac "(r, e, s)" rule: registry_card_step.cases)
    (auto simp: plain_served repository_served ask_unless_def Let_def split: if_splits)

lemma registries_served: "served_step plain_repositories registries_step"
  by (rule served_stepI, rename_tac e s, case_tac "(e, s)" rule: registries_step.cases)
    (auto simp: plain_served plain_repositories_def dest: served_stepD [OF card_served, rotated]
      split: if_splits option.splits prod.splits)

text \<open>What the pages ask for when they open.\<close>

definition opening_sends :: "string \<Rightarrow> client_out list" where
  "opening_sends name =
     networks_mount @ volumes_mount @ containers_mount @ images_mount @ projects_mount @ files_mount @ notify_mount @
     registries_mount @ secrets_mount @ settings_mount @ users_mount @ detail_mount name @ editor_mount (Some name) @
     tab_networks_mount name @ tab_volumes_mount name @ tab_images_mount name"

lemma openings_served:
  assumes "segment_ok name"
  shows "list_all sends_served (opening_sends name)"
proof -
  have "not_dots ''f''" and "not_dots ''root''" by (simp_all add: not_dots_def)
  note project = project_calls_served [OF assms assms this(1) this(1)] and account = account_calls_served [OF this(2)]
  have "served (getProject name)" "served (listProjectSecrets name)" "served (listProjectNetworks name)"
    "served (listProjectVolumes name)" "served (listProjectImages name)" "served listProjects"
    using project by (simp_all add: project_calls_def)
  moreover have "served getUsers" "served getRoles" "served listSecrets" using account by (simp_all add: account_calls_def)
  moreover have "served getVersion" "served getConfig" using system_calls_served by (simp_all add: system_calls_def)
  moreover have "served listRegistries" "served listChannels"
    using service_calls_served [of "''r''"] by (simp_all add: service_calls_def)
  ultimately show ?thesis
    using assms plain_served plain_calls_served
    by (simp add: opening_sends_def networks_mount_def volumes_mount_def containers_mount_def images_mount_def projects_mount_def
        files_mount_def notify_mount_def registries_mount_def secrets_mount_def settings_mount_def users_mount_def
        detail_mount_def editor_mount_def cards_mount_def tab_networks_mount_def tab_volumes_mount_def tab_images_mount_def
        segment_ok_def sends_served_def)
qed

abbreviation used_pages ::
  "(string \<Rightarrow> js option) \<Rightarrow> formats \<Rightarrow> (nat \<Rightarrow> string) \<Rightarrow> string \<Rightarrow> networks_page \<Rightarrow> volumes_page \<Rightarrow> containers_page \<Rightarrow>
   images_page \<Rightarrow> projects_page \<Rightarrow> tab_images \<Rightarrow> bool" where
  "used_pages json fm fmt name nw vl cp im pp ti \<equiv>
     page_used networks_heard (\<lambda>e s. fst (networks_page_step e s)) networks_init nw
     \<and> page_used volumes_heard (\<lambda>e s. fst (volumes_page_step e s)) volumes_init vl
     \<and> page_used containers_heard (\<lambda>e s. fst (containers_step e s)) containers_init cp
     \<and> page_used (\<lambda>_. images_heard) (\<lambda>e s. fst (images_step json e s)) images_init im
     \<and> page_used (projects_heard fm) (\<lambda>e s. fst (projects_step e s)) projects_init pp
     \<and> page_used (tab_images_heard fmt name) (\<lambda>e s. fst (tab_images_step name e s)) tab_images_init ti"


text \<open>A list arrives, and the removal of its first entry is asked for and sent.\<close>

definition one_network :: network_summary where
  "one_network =
     \<lparr>net_id = ''n1'', net_name = ''front'', net_driver = ''bridge'', net_scope = ''local'', net_internal = False,
      net_labels = [], net_associatedProject = [], net_inUse = False, net_created = []\<rparr>"


end
