(* ===== verification/Spec2Isabelle.thy ===== *)
theory Spec2Isabelle
  imports Compose_Properties Api_Properties Builder_Properties Web_Socket Auth_Store Cron_Properties
    Editor_Properties Detail_Properties App_Properties Access_Properties File_Properties Log_Properties Form_Properties
    Settings_Properties Resource_Properties Metrics_Properties Inspect_Page Page_Calls
begin

text \<open>
  The web client of VPS Pilot (\<open>src/web/src\<close>), a panel to run Docker Compose projects on one server.

  \<^bold>\<open>The program.\<close> React pages hold their state in hooks, read the server through queries and change it
  through the functions of \<open>api/\<close>, which all go through \<open>request\<close> of \<open>api/client.ts\<close>. A Compose file is
  edited as text or in the visual editor \<open>ComposeBuilder\<close>: \<open>parseCompose\<close> reads the text into the records
  of \<open>compose/types.ts\<close>, the editor's sections change them, \<open>serializeCompose\<close> writes the text again. Live
  data comes over web sockets (\<open>useWebSocket\<close>, the socket of a deployment).

  \<^bold>\<open>How it is modelled.\<close> A hook's state is a record, what can happen to a component (an event of a control,
  an answer of the server, a timer, a message) is a datatype, and a step function maps event and state to
  the next state and a list of effects (requests, toasts, navigation, socket and timer commands). What is
  rendered is a list of widgets, each with the events it offers, so \<open>view_events\<close> is the set of events a
  user can raise in a state. A throwing function returns a sum with the exception on the left. JavaScript
  objects are association lists in the order of enumeration (integer keys first, \<open>__proto__\<close> apart), untyped
  values are the datatype \<open>js\<close>, numbers the decimals they print as.

  \<^bold>\<open>Theories.\<close>
  \<^item> \<open>Js_Prelude\<close>, \<open>Js_Object\<close>, \<open>Js_Values\<close>, \<open>Keyed_Store\<close>: splitting, trimming and printing of texts, objects
    and untyped values; the locale \<open>keyed_store\<close> states what a store of entries by key promises and is
    interpreted on the objects, on the variables of a section and on the files of a project.
  \<^item> \<open>Compose_Types\<close> (\<open>compose/types.ts\<close>), \<open>Compose_Parse\<close> and \<open>Compose_Serialize\<close> (\<open>compose/serializer.ts\<close>);
    \<open>Compose_Roundtrip\<close> and \<open>Compose_Properties\<close>: reading what was written gives the file back, reading and
    writing once makes a text stable, which notations agree, what is lost, when writing throws.
  \<^item> \<open>Ui_Widgets\<close>: the rendered controls. \<open>Builder_Lists\<close>, \<open>Builder_Networks\<close>, \<open>Image_Field\<close>, \<open>Service_Card\<close>,
    \<open>Card_View\<close>, \<open>Compose_Builder\<close> (\<open>compose/ComposeBuilder.tsx\<close>): the sections, the card of a service, the
    operations on services and the upkeep of the top-level volumes; \<open>Builder_Properties\<close> proves that the
    volumes fit the services after every change, that renaming keeps the dependencies consistent, that every
    rendered control has a handler, and shows where the editor crashes or merges entries.
  \<^item> \<open>Api_Client\<close> (\<open>api/client.ts\<close>), \<open>Api_Routes\<close> (the other files of \<open>api/\<close>, one definition per exported
    function), \<open>Server_Routes\<close> (the table of routes and rights of \<open>internal/api/router.go\<close>);
    \<open>Api_Properties\<close>: every request meets a route, parameters survive the encoding, the token is sent.
  \<^item> \<open>Web_Socket\<close> (\<open>hooks/useWebSocket.ts\<close>): one socket or one timer at a time, the delays, silence after
    the component is gone. \<open>Auth_Store\<close> (\<open>store/auth.ts\<close>, \<open>hooks/useAuth.ts\<close>): the user and his rights.
  \<^item> \<open>Cron_Dialog\<close> (\<open>components/CronEntryDialog.tsx\<close>), \<open>Cron_Page\<close> (\<open>pages/CronJobs.tsx\<close>), \<open>Cron_Properties\<close>:
    edits touch only the edited line, a save needs a loaded crontab, and two ways to overwrite a crontab.
  \<^item> \<open>Page_Common\<close>: effects and queries the pages share, \<open>ConfirmDialog\<close>. \<open>Byte_Format\<close> (\<open>formatBytes\<close> of the
    pages), \<open>Docker_Types\<close> (\<open>types/index.ts\<close>).
  \<^item> \<open>Project_Editor\<close> (\<open>pages/ProjectEditor.tsx\<close>) and \<open>Editor_Properties\<close>: the requests of a save make the
    server's files those of the editor, a save runs to its end, typed text is not left without a question,
    and which edits are not protected.
  \<^item> \<open>Deploy_State\<close>, \<open>Detail_Parts\<close>, \<open>Project_Detail\<close> (\<open>pages/ProjectDetail.tsx\<close>, \<open>components/UpdatesDialog.tsx\<close>)
    and \<open>Detail_Properties\<close>: deleting needs the name, when redeploying is offered, and how secrets and
    deployments get lost.
  \<^item> \<open>App_Shell\<close> (\<open>App.tsx\<close>, \<open>pages/Login.tsx\<close>, \<open>Setup.tsx\<close>, \<open>AppLayout.tsx\<close>) and \<open>App_Properties\<close>: the guards
    settle on one page, the entries of the menu against the rights the server asks for.
  \<^item> \<open>Access_Form\<close>, \<open>Users_Page\<close>, \<open>Roles_Page\<close> (\<open>pages/Users.tsx\<close>, \<open>Roles.tsx\<close>), \<open>Access_Properties\<close>: what the
    forms send refines a choice of roles or a set of grants (\<open>Simulation\<close> holds the simulation), drafts stay
    well-formed, no account removes itself, and when a typed project is ignored.
  \<^item> \<open>File_Pages\<close> (\<open>pages/Files.tsx\<close>, \<open>ContainerFiles.tsx\<close>) and \<open>File_Properties\<close>: walking the folders of a
    container refines paths as lists of names. \<open>Log_Pages\<close> (\<open>Logs.tsx\<close>, \<open>ProjectLogs.tsx\<close>, \<open>Events.tsx\<close>,
    \<open>AuditLogs.tsx\<close>) and \<open>Log_Properties\<close>: which lines the streams keep, and the pages of the audit log.
  \<^item> \<open>Page_Run\<close>: pages in use (\<open>page_used\<close>) and the pages made of a list and one form, with the locale
    \<open>kept_form\<close>; \<open>Secrets_Page\<close>, \<open>Registries_Page\<close>, \<open>Notify_Page\<close> (\<open>Secrets.tsx\<close>, \<open>Registries.tsx\<close>,
    \<open>Notifications.tsx\<close>) provide it, \<open>Form_Properties\<close> interprets it three times: the forms do not take the item
    to be edited, and a revealed value belongs to the secret shown.
  \<^item> \<open>Settings_Page\<close>, \<open>Backup_Page\<close> (\<open>Settings.tsx\<close>, \<open>Backup.tsx\<close>) and \<open>Settings_Properties\<close>: a saved
    configuration is the one shown, and a restore needs a file and a confirmation.
  \<^item> \<open>Images_Page\<close>, \<open>Containers_Page\<close>, \<open>Network_Pages\<close>, \<open>Projects_Page\<close> (\<open>Images.tsx\<close>, \<open>Containers.tsx\<close>,
    \<open>Networks.tsx\<close>, \<open>NetworkDetail.tsx\<close>, \<open>Volumes.tsx\<close>, \<open>VolumeDetail.tsx\<close>, \<open>Projects.tsx\<close>) and
    \<open>Resource_Properties\<close>: what is deleted was named in a question, how a build's output follows its messages,
    what a refused removal leaves, how lines of ports are read, which actions on a project are asked about.
  \<^item> \<open>Shell_Page\<close> (\<open>ContainerShell.tsx\<close>, and the loop of \<open>internal/api/ws.go\<close> that reads its frames) and
    \<open>Shell_Properties\<close>: a container's shell gets what was typed while the socket was open. \<open>Metrics_Pages\<close>
    (\<open>Dashboard.tsx\<close>, \<open>System.tsx\<close>) with \<open>Metrics_Properties\<close>, \<open>Inspect_Page\<close> (\<open>ContainerDetail.tsx\<close>): uptimes,
    the lines of the charts, the variables of a container.
  \<^item> \<open>Project_Resources\<close> (\<open>ProjectNetworks.tsx\<close>, \<open>ProjectVolumes.tsx\<close>, \<open>ProjectImages.tsx\<close>): a project's own lists, to
    which no route leads.
  \<^item> \<open>Socket_Routes\<close> (the web sockets of \<open>router.go\<close>), \<open>Served_Pages\<close>, \<open>Detail_Calls\<close>, \<open>Page_Calls\<close>: pages and
    server together. The locale \<open>served_page\<close> is a page under a condition on its state that all it hears keeps;
    it is interpreted on the pages of Docker's resources (used by what they render and by answers with plain
    ids) and on the page of a project with its editor. With the pages that need no condition, they send only
    requests, and open only sockets, the server has a route for.

  \<^bold>\<open>Parameters.\<close> Code that is not in the repository is an argument: \<open>load\<close> and \<open>dump\<close> are js-yaml (the round
  trip assumes that \<open>load\<close> reads back what \<open>dump\<close> wrote), \<open>json_parse\<close> is \<open>JSON.parse\<close>, \<open>formats\<close> the browser's
  texts for dates and measured numbers. Toasts, queries and sockets are the effects and events above.

  \<^bold>\<open>Loops.\<close> Every loop of the modelled code ends and is a total function; the ones that are not structural
  have measures (the search for a free name counts the names taken, the scan for images the text left).
  What depends on the server's answers is stated over sequences of events; \<open>save_runs_to_end\<close> shows how many
  answers end a save.

  \<^bold>\<open>Not modelled.\<close> The Go server but for its route tables and the reading of a shell's frames; the components of
  \<open>components/ui\<close> and the styling (generated by shadcn); the drawing of text editors, terminal and charts. A search field's
  \<open>toLowerCase\<close> covers the ASCII letters; numbers of more than 15 digits are not rounded to doubles.
\<close>

end
